theory Spec2Isabelle
  imports Main "HOL-Library.Code_Target_Nat"
begin

section \<open>The Steps grammar: symbols\<close>

text \<open>
  The generated parser of the Steps language (\<^verbatim>\<open>tree-sitter-steps/src/parser.c\<close>) consists of
  a symbol enumeration, two lexer automata (\<^verbatim>\<open>ts_lex\<close>, \<^verbatim>\<open>ts_lex_keywords\<close>), the table
  of lexer start states per parse state (\<^verbatim>\<open>ts_lex_modes\<close>), the LR parse table
  (\<^verbatim>\<open>ts_parse_table\<close>, \<^verbatim>\<open>ts_small_parse_table\<close>) and the list of parse actions
  (\<^verbatim>\<open>ts_parse_actions\<close>).  All of them are transcribed below, entry by entry.

  Symbols and parse states are 16-bit numbers in the source; the tables never compute with
  them, so natural numbers are used.  Symbols below \<^verbatim>\<open>TOKEN_COUNT\<close> are tokens, the others
  are non-terminals.
\<close>

type_synonym TSSymbol = nat
type_synonym TSStateId = nat

definition STATE_COUNT :: nat where [simp]: "STATE_COUNT = 151"
definition LARGE_STATE_COUNT :: nat where [simp]: "LARGE_STATE_COUNT = 2"
definition SYMBOL_COUNT :: nat where [simp]: "SYMBOL_COUNT = 144"
definition TOKEN_COUNT :: nat where [simp]: "TOKEN_COUNT = 87"

definition ts_builtin_sym_end :: TSSymbol where [simp]: "ts_builtin_sym_end = 0"
definition sym_identifier :: TSSymbol where [simp]: "sym_identifier = 1"
definition anon_sym_do_COLON :: TSSymbol where [simp]: "anon_sym_do_COLON = 2"
definition anon_sym_declare_COLON :: TSSymbol where [simp]: "anon_sym_declare_COLON = 3"
definition anon_sym_note_COLON :: TSSymbol where [simp]: "anon_sym_note_COLON = 4"
definition sym_comment_content :: TSSymbol where [simp]: "sym_comment_content = 5"
definition anon_sym_noteblock_COLON :: TSSymbol where [simp]: "anon_sym_noteblock_COLON = 6"
definition anon_sym_endnote :: TSSymbol where [simp]: "anon_sym_endnote = 7"
definition aux_sym_block_comment_content_token1 :: TSSymbol where [simp]: "aux_sym_block_comment_content_token1 = 8"
definition aux_sym_block_comment_content_token2 :: TSSymbol where [simp]: "aux_sym_block_comment_content_token2 = 9"
definition aux_sym_block_comment_content_token3 :: TSSymbol where [simp]: "aux_sym_block_comment_content_token3 = 10"
definition aux_sym_block_comment_content_token4 :: TSSymbol where [simp]: "aux_sym_block_comment_content_token4 = 11"
definition aux_sym_block_comment_content_token5 :: TSSymbol where [simp]: "aux_sym_block_comment_content_token5 = 12"
definition aux_sym_block_comment_content_token6 :: TSSymbol where [simp]: "aux_sym_block_comment_content_token6 = 13"
definition aux_sym_block_comment_content_token7 :: TSSymbol where [simp]: "aux_sym_block_comment_content_token7 = 14"
definition aux_sym_block_comment_content_token8 :: TSSymbol where [simp]: "aux_sym_block_comment_content_token8 = 15"
definition anon_sym_building_COLON :: TSSymbol where [simp]: "anon_sym_building_COLON = 16"
definition anon_sym_floor_COLON :: TSSymbol where [simp]: "anon_sym_floor_COLON = 17"
definition anon_sym_step_COLON :: TSSymbol where [simp]: "anon_sym_step_COLON = 18"
definition anon_sym_riser_COLON :: TSSymbol where [simp]: "anon_sym_riser_COLON = 19"
definition anon_sym_belongsto_COLON :: TSSymbol where [simp]: "anon_sym_belongsto_COLON = 20"
definition anon_sym_expects_COLON :: TSSymbol where [simp]: "anon_sym_expects_COLON = 21"
definition anon_sym_returns_COLON :: TSSymbol where [simp]: "anon_sym_returns_COLON = 22"
definition anon_sym_COMMA :: TSSymbol where [simp]: "anon_sym_COMMA = 23"
definition anon_sym_as :: TSSymbol where [simp]: "anon_sym_as = 24"
definition anon_sym_number :: TSSymbol where [simp]: "anon_sym_number = 25"
definition anon_sym_text :: TSSymbol where [simp]: "anon_sym_text = 26"
definition anon_sym_boolean :: TSSymbol where [simp]: "anon_sym_boolean = 27"
definition anon_sym_list :: TSSymbol where [simp]: "anon_sym_list = 28"
definition anon_sym_table :: TSSymbol where [simp]: "anon_sym_table = 29"
definition anon_sym_fixed :: TSSymbol where [simp]: "anon_sym_fixed = 30"
definition anon_sym_EQ :: TSSymbol where [simp]: "anon_sym_EQ = 31"
definition anon_sym_set :: TSSymbol where [simp]: "anon_sym_set = 32"
definition anon_sym_to :: TSSymbol where [simp]: "anon_sym_to = 33"
definition anon_sym_call :: TSSymbol where [simp]: "anon_sym_call = 34"
definition anon_sym_with :: TSSymbol where [simp]: "anon_sym_with = 35"
definition anon_sym_storingresultin :: TSSymbol where [simp]: "anon_sym_storingresultin = 36"
definition anon_sym_display :: TSSymbol where [simp]: "anon_sym_display = 37"
definition anon_sym_input :: TSSymbol where [simp]: "anon_sym_input = 38"
definition anon_sym_return :: TSSymbol where [simp]: "anon_sym_return = 39"
definition sym_exit_statement :: TSSymbol where [simp]: "sym_exit_statement = 40"
definition anon_sym_if :: TSSymbol where [simp]: "anon_sym_if = 41"
definition anon_sym_otherwiseif :: TSSymbol where [simp]: "anon_sym_otherwiseif = 42"
definition anon_sym_otherwise :: TSSymbol where [simp]: "anon_sym_otherwise = 43"
definition anon_sym_repeat :: TSSymbol where [simp]: "anon_sym_repeat = 44"
definition anon_sym_times :: TSSymbol where [simp]: "anon_sym_times = 45"
definition anon_sym_foreach :: TSSymbol where [simp]: "anon_sym_foreach = 46"
definition anon_sym_in :: TSSymbol where [simp]: "anon_sym_in = 47"
definition anon_sym_while :: TSSymbol where [simp]: "anon_sym_while = 48"
definition anon_sym_attempt_COLON :: TSSymbol where [simp]: "anon_sym_attempt_COLON = 49"
definition anon_sym_ifunsuccessful_COLON :: TSSymbol where [simp]: "anon_sym_ifunsuccessful_COLON = 50"
definition anon_sym_thencontinue_COLON :: TSSymbol where [simp]: "anon_sym_thencontinue_COLON = 51"
definition anon_sym_add :: TSSymbol where [simp]: "anon_sym_add = 52"
definition anon_sym_remove :: TSSymbol where [simp]: "anon_sym_remove = 53"
definition anon_sym_from :: TSSymbol where [simp]: "anon_sym_from = 54"
definition sym_number :: TSSymbol where [simp]: "sym_number = 55"
definition anon_sym_DQUOTE :: TSSymbol where [simp]: "anon_sym_DQUOTE = 56"
definition aux_sym_string_content_token1 :: TSSymbol where [simp]: "aux_sym_string_content_token1 = 57"
definition sym_escape_sequence :: TSSymbol where [simp]: "sym_escape_sequence = 58"
definition anon_sym_true :: TSSymbol where [simp]: "anon_sym_true = 59"
definition anon_sym_false :: TSSymbol where [simp]: "anon_sym_false = 60"
definition sym_nothing :: TSSymbol where [simp]: "sym_nothing = 61"
definition anon_sym_LBRACK :: TSSymbol where [simp]: "anon_sym_LBRACK = 62"
definition anon_sym_RBRACK :: TSSymbol where [simp]: "anon_sym_RBRACK = 63"
definition anon_sym_PLUS :: TSSymbol where [simp]: "anon_sym_PLUS = 64"
definition anon_sym_DASH :: TSSymbol where [simp]: "anon_sym_DASH = 65"
definition anon_sym_STAR :: TSSymbol where [simp]: "anon_sym_STAR = 66"
definition anon_sym_SLASH :: TSSymbol where [simp]: "anon_sym_SLASH = 67"
definition anon_sym_isequalto :: TSSymbol where [simp]: "anon_sym_isequalto = 68"
definition anon_sym_equals :: TSSymbol where [simp]: "anon_sym_equals = 69"
definition anon_sym_isnotequalto :: TSSymbol where [simp]: "anon_sym_isnotequalto = 70"
definition anon_sym_islessthan :: TSSymbol where [simp]: "anon_sym_islessthan = 71"
definition anon_sym_isgreaterthan :: TSSymbol where [simp]: "anon_sym_isgreaterthan = 72"
definition anon_sym_islessthanorequalto :: TSSymbol where [simp]: "anon_sym_islessthanorequalto = 73"
definition anon_sym_isgreaterthanorequalto :: TSSymbol where [simp]: "anon_sym_isgreaterthanorequalto = 74"
definition anon_sym_and :: TSSymbol where [simp]: "anon_sym_and = 75"
definition anon_sym_or :: TSSymbol where [simp]: "anon_sym_or = 76"
definition anon_sym_addedto :: TSSymbol where [simp]: "anon_sym_addedto = 77"
definition anon_sym_contains :: TSSymbol where [simp]: "anon_sym_contains = 78"
definition anon_sym_startswith :: TSSymbol where [simp]: "anon_sym_startswith = 79"
definition anon_sym_endswith :: TSSymbol where [simp]: "anon_sym_endswith = 80"
definition anon_sym_isin :: TSSymbol where [simp]: "anon_sym_isin = 81"
definition anon_sym_not :: TSSymbol where [simp]: "anon_sym_not = 82"
definition anon_sym_lengthof :: TSSymbol where [simp]: "anon_sym_lengthof = 83"
definition anon_sym_LPAREN :: TSSymbol where [simp]: "anon_sym_LPAREN = 84"
definition anon_sym_RPAREN :: TSSymbol where [simp]: "anon_sym_RPAREN = 85"
definition sym__newline :: TSSymbol where [simp]: "sym__newline = 86"
definition sym_source_file :: TSSymbol where [simp]: "sym_source_file = 87"
definition sym__statement :: TSSymbol where [simp]: "sym__statement = 88"
definition sym_section_marker :: TSSymbol where [simp]: "sym_section_marker = 89"
definition sym_comment :: TSSymbol where [simp]: "sym_comment = 90"
definition sym_block_comment :: TSSymbol where [simp]: "sym_block_comment = 91"
definition sym_block_comment_content :: TSSymbol where [simp]: "sym_block_comment_content = 92"
definition sym_structure_definition :: TSSymbol where [simp]: "sym_structure_definition = 93"
definition sym_building_def :: TSSymbol where [simp]: "sym_building_def = 94"
definition sym_floor_def :: TSSymbol where [simp]: "sym_floor_def = 95"
definition sym_step_def :: TSSymbol where [simp]: "sym_step_def = 96"
definition sym_riser_def :: TSSymbol where [simp]: "sym_riser_def = 97"
definition sym_step_clauses :: TSSymbol where [simp]: "sym_step_clauses = 98"
definition sym_belongs_clause :: TSSymbol where [simp]: "sym_belongs_clause = 99"
definition sym_expects_clause :: TSSymbol where [simp]: "sym_expects_clause = 100"
definition sym_returns_clause :: TSSymbol where [simp]: "sym_returns_clause = 101"
definition sym_parameter_list :: TSSymbol where [simp]: "sym_parameter_list = 102"
definition sym_parameter :: TSSymbol where [simp]: "sym_parameter = 103"
definition sym_type :: TSSymbol where [simp]: "sym_type = 104"
definition sym_declaration :: TSSymbol where [simp]: "sym_declaration = 105"
definition sym_assignment :: TSSymbol where [simp]: "sym_assignment = 106"
definition sym_call_statement :: TSSymbol where [simp]: "sym_call_statement = 107"
definition sym_with_clause :: TSSymbol where [simp]: "sym_with_clause = 108"
definition sym_storing_clause :: TSSymbol where [simp]: "sym_storing_clause = 109"
definition sym_argument_list :: TSSymbol where [simp]: "sym_argument_list = 110"
definition sym_display_statement :: TSSymbol where [simp]: "sym_display_statement = 111"
definition sym_input_statement :: TSSymbol where [simp]: "sym_input_statement = 112"
definition sym_return_statement :: TSSymbol where [simp]: "sym_return_statement = 113"
definition sym_if_statement :: TSSymbol where [simp]: "sym_if_statement = 114"
definition sym_otherwise_if_clause :: TSSymbol where [simp]: "sym_otherwise_if_clause = 115"
definition sym_otherwise_clause :: TSSymbol where [simp]: "sym_otherwise_clause = 116"
definition sym_repeat_statement :: TSSymbol where [simp]: "sym_repeat_statement = 117"
definition sym_for_each_statement :: TSSymbol where [simp]: "sym_for_each_statement = 118"
definition sym_while_statement :: TSSymbol where [simp]: "sym_while_statement = 119"
definition sym_attempt_statement :: TSSymbol where [simp]: "sym_attempt_statement = 120"
definition sym_if_unsuccessful_clause :: TSSymbol where [simp]: "sym_if_unsuccessful_clause = 121"
definition sym_then_continue_clause :: TSSymbol where [simp]: "sym_then_continue_clause = 122"
definition sym_add_statement :: TSSymbol where [simp]: "sym_add_statement = 123"
definition sym_remove_statement :: TSSymbol where [simp]: "sym_remove_statement = 124"
definition sym__expression :: TSSymbol where [simp]: "sym__expression = 125"
definition sym_string :: TSSymbol where [simp]: "sym_string = 126"
definition sym_string_content :: TSSymbol where [simp]: "sym_string_content = 127"
definition sym_boolean :: TSSymbol where [simp]: "sym_boolean = 128"
definition sym_list_literal :: TSSymbol where [simp]: "sym_list_literal = 129"
definition sym_binary_expression :: TSSymbol where [simp]: "sym_binary_expression = 130"
definition sym_binary_operator :: TSSymbol where [simp]: "sym_binary_operator = 131"
definition sym_unary_expression :: TSSymbol where [simp]: "sym_unary_expression = 132"
definition sym_unary_operator :: TSSymbol where [simp]: "sym_unary_operator = 133"
definition sym_call_expression :: TSSymbol where [simp]: "sym_call_expression = 134"
definition sym_index_expression :: TSSymbol where [simp]: "sym_index_expression = 135"
definition sym_parenthesized_expression :: TSSymbol where [simp]: "sym_parenthesized_expression = 136"
definition aux_sym_source_file_repeat1 :: TSSymbol where [simp]: "aux_sym_source_file_repeat1 = 137"
definition aux_sym_block_comment_content_repeat1 :: TSSymbol where [simp]: "aux_sym_block_comment_content_repeat1 = 138"
definition aux_sym_step_clauses_repeat1 :: TSSymbol where [simp]: "aux_sym_step_clauses_repeat1 = 139"
definition aux_sym_parameter_list_repeat1 :: TSSymbol where [simp]: "aux_sym_parameter_list_repeat1 = 140"
definition aux_sym_argument_list_repeat1 :: TSSymbol where [simp]: "aux_sym_argument_list_repeat1 = 141"
definition aux_sym_if_statement_repeat1 :: TSSymbol where [simp]: "aux_sym_if_statement_repeat1 = 142"
definition aux_sym_string_content_repeat1 :: TSSymbol where [simp]: "aux_sym_string_content_repeat1 = 143"


text \<open>
  The symbols whose entry in \<^verbatim>\<open>ts_symbol_metadata\<close> has \<^verbatim>\<open>.visible = false\<close>: the end
  marker, the newline token, the fragments of block comments and of string content, the
  \<^verbatim>\<open>_statement\<close> and \<^verbatim>\<open>_expression\<close> choices and the auxiliary repetition symbols.  Every
  other symbol is visible.
\<close>

definition hidden_symbols :: "TSSymbol list" where
  "hidden_symbols =
    [ts_builtin_sym_end,
     aux_sym_block_comment_content_token1, aux_sym_block_comment_content_token2,
     aux_sym_block_comment_content_token3, aux_sym_block_comment_content_token4,
     aux_sym_block_comment_content_token5, aux_sym_block_comment_content_token6,
     aux_sym_block_comment_content_token7, aux_sym_block_comment_content_token8,
     aux_sym_string_content_token1, sym__newline, sym__statement, sym__expression,
     aux_sym_source_file_repeat1, aux_sym_block_comment_content_repeat1,
     aux_sym_step_clauses_repeat1, aux_sym_parameter_list_repeat1,
     aux_sym_argument_list_repeat1, aux_sym_if_statement_repeat1,
     aux_sym_string_content_repeat1]"

definition symbol_visible :: "TSSymbol \<Rightarrow> bool" where
  "symbol_visible s = (s \<notin> set hidden_symbols)"

section \<open>The lexer automata\<close>

text \<open>
  A lexer state of the source is one \<^verbatim>\<open>case\<close> of the \<^verbatim>\<open>switch (state)\<close> in \<^verbatim>\<open>ts_lex\<close>:
  an optional \<^verbatim>\<open>ACCEPT_TOKEN(symbol)\<close>, then a sequence of
  \<^verbatim>\<open>if (condition) ADVANCE(n)\<close> or \<^verbatim>\<open>if (condition) SKIP(n)\<close> lines tried in order, then
  \<^verbatim>\<open>END_STATE()\<close>.  The conditions of the source have three forms:
  \<^verbatim>\<open>eof\<close>; a disjunction of \<^verbatim>\<open>lookahead == c\<close> and \<^verbatim>\<open>(lo <= lookahead && lookahead <= hi)\<close>;
  a conjunction of \<^verbatim>\<open>lookahead != c\<close>.  The lookahead is a 32-bit code point, and it is
  \<^verbatim>\<open>0\<close> at the end of the input.
\<close>

type_synonym lookahead = nat

datatype char_test = Ch char | Rng char char

datatype lex_cond = Eof | AnyOf "char_test list" | NoneOf "char list"

datatype lex_move = ADVANCE TSStateId | SKIP TSStateId

type_synonym lex_case = "TSSymbol option \<times> (lex_cond \<times> lex_move) list"

fun char_test_holds :: "lookahead \<Rightarrow> char_test \<Rightarrow> bool" where
  "char_test_holds la (Ch c) = (la = of_char c)"
| "char_test_holds la (Rng lo hi) = (of_char lo \<le> la \<and> la \<le> of_char hi)"

fun cond_holds :: "lex_cond \<Rightarrow> bool \<Rightarrow> lookahead \<Rightarrow> bool" where
  "cond_holds Eof eof la = eof"
| "cond_holds (AnyOf ts) eof la = list_ex (char_test_holds la) ts"
| "cond_holds (NoneOf cs) eof la = list_all (\<lambda>c. la \<noteq> of_char c) cs"

fun first_move :: "(lex_cond \<times> lex_move) list \<Rightarrow> bool \<Rightarrow> lookahead \<Rightarrow> lex_move option" where
  "first_move [] eof la = None"
| "first_move ((c, m) # rest) eof la = (if cond_holds c eof la then Some m else first_move rest eof la)"

subsection \<open>The main lexer \<^verbatim>\<open>ts_lex\<close>\<close>

definition ts_lex_case_0 :: lex_case where
  "ts_lex_case_0 = (None,
    [(Eof, ADVANCE 267),
     (AnyOf [Ch CHR 0x0A], ADVANCE 611),
     (AnyOf [Ch CHR 0x22], ADVANCE 441),
     (AnyOf [Ch CHR ''(''], ADVANCE 462),
     (AnyOf [Ch CHR '')''], ADVANCE 463),
     (AnyOf [Ch CHR ''*''], ADVANCE 449),
     (AnyOf [Ch CHR ''+''], ADVANCE 447),
     (AnyOf [Ch CHR '',''], ADVANCE 389),
     (AnyOf [Ch CHR ''-''], ADVANCE 448),
     (AnyOf [Ch CHR ''/''], ADVANCE 450),
     (AnyOf [Ch CHR ''=''], ADVANCE 390),
     (AnyOf [Ch CHR ''[''], ADVANCE 445),
     (AnyOf [Ch CHR 0x5C], ADVANCE 253),
     (AnyOf [Ch CHR '']''], ADVANCE 446),
     (AnyOf [Ch CHR ''a''], ADVANCE 493),
     (AnyOf [Ch CHR ''b''], ADVANCE 503),
     (AnyOf [Ch CHR ''c''], ADVANCE 485),
     (AnyOf [Ch CHR ''d''], ADVANCE 504),
     (AnyOf [Ch CHR ''e''], ADVANCE 554),
     (AnyOf [Ch CHR ''f''], ADVANCE 545),
     (AnyOf [Ch CHR ''i''], ADVANCE 526),
     (AnyOf [Ch CHR ''l''], ADVANCE 505),
     (AnyOf [Ch CHR ''n''], ADVANCE 565),
     (AnyOf [Ch CHR ''o''], ADVANCE 595),
     (AnyOf [Ch CHR ''r''], ADVANCE 506),
     (AnyOf [Ch CHR ''s''], ADVANCE 518),
     (AnyOf [Ch CHR ''t''], ADVANCE 535),
     (AnyOf [Ch CHR ''w''], ADVANCE 536),
     (AnyOf [Ch CHR 0x09, Ch CHR '' ''], SKIP 0),
     (AnyOf [Rng CHR ''A'' CHR ''Z'', Ch CHR ''_'', Rng CHR ''g'' CHR ''z''], ADVANCE 610)])"

definition ts_lex_case_1 :: lex_case where
  "ts_lex_case_1 = (None,
    [(AnyOf [Ch CHR '' ''], ADVANCE 3),
     (NoneOf [CHR 0x00], ADVANCE 371)])"

definition ts_lex_case_2 :: lex_case where
  "ts_lex_case_2 = (None,
    [(AnyOf [Ch CHR '' ''], ADVANCE 61)])"

definition ts_lex_case_3 :: lex_case where
  "ts_lex_case_3 = (None,
    [(AnyOf [Ch CHR '' ''], ADVANCE 141),
     (AnyOf [Ch CHR ''n''], ADVANCE 167)])"

definition ts_lex_case_4 :: lex_case where
  "ts_lex_case_4 = (None,
    [(AnyOf [Ch CHR '' ''], ADVANCE 47),
     (AnyOf [Ch CHR '':''], ADVANCE 272)])"

definition ts_lex_case_5 :: lex_case where
  "ts_lex_case_5 = (None,
    [(AnyOf [Ch CHR '' ''], ADVANCE 50)])"

definition ts_lex_case_6 :: lex_case where
  "ts_lex_case_6 = (None,
    [(AnyOf [Ch CHR '' ''], ADVANCE 183)])"

definition ts_lex_case_7 :: lex_case where
  "ts_lex_case_7 = (None,
    [(AnyOf [Ch CHR '' ''], ADVANCE 89)])"

definition ts_lex_case_8 :: lex_case where
  "ts_lex_case_8 = (None,
    [(AnyOf [Ch CHR '' ''], ADVANCE 217)])"

definition ts_lex_case_9 :: lex_case where
  "ts_lex_case_9 = (None,
    [(AnyOf [Ch CHR '' ''], ADVANCE 155)])"

definition ts_lex_case_10 :: lex_case where
  "ts_lex_case_10 = (None,
    [(AnyOf [Ch CHR '' ''], ADVANCE 221)])"

definition ts_lex_case_11 :: lex_case where
  "ts_lex_case_11 = (None,
    [(AnyOf [Ch CHR '' ''], ADVANCE 112)])"

definition ts_lex_case_12 :: lex_case where
  "ts_lex_case_12 = (None,
    [(AnyOf [Ch CHR '' ''], ADVANCE 222)])"

definition ts_lex_case_13 :: lex_case where
  "ts_lex_case_13 = (None,
    [(AnyOf [Ch CHR '' ''], ADVANCE 225)])"

definition ts_lex_case_14 :: lex_case where
  "ts_lex_case_14 = (None,
    [(AnyOf [Ch CHR '' ''], ADVANCE 228)])"

definition ts_lex_case_15 :: lex_case where
  "ts_lex_case_15 = (None,
    [(AnyOf [Ch CHR '' ''], ADVANCE 229)])"

definition ts_lex_case_16 :: lex_case where
  "ts_lex_case_16 = (None,
    [(AnyOf [Ch CHR '' ''], ADVANCE 231)])"

definition ts_lex_case_17 :: lex_case where
  "ts_lex_case_17 = (None,
    [(AnyOf [Ch CHR '' ''], ADVANCE 90)])"

definition ts_lex_case_18 :: lex_case where
  "ts_lex_case_18 = (None,
    [(AnyOf [Ch CHR '' ''], ADVANCE 91)])"

definition ts_lex_case_19 :: lex_case where
  "ts_lex_case_19 = (None,
    [(AnyOf [Ch CHR 0x22], ADVANCE 441),
     (AnyOf [Ch CHR ''(''], ADVANCE 462),
     (AnyOf [Ch CHR ''-''], ADVANCE 254),
     (AnyOf [Ch CHR ''[''], ADVANCE 445),
     (AnyOf [Ch CHR '']''], ADVANCE 446),
     (AnyOf [Ch CHR ''c''], ADVANCE 485),
     (AnyOf [Ch CHR ''l''], ADVANCE 505),
     (AnyOf [Ch CHR 0x09, Ch CHR '' ''], SKIP 19),
     (AnyOf [Rng CHR ''0'' CHR ''9''], ADVANCE 439),
     (AnyOf [Rng CHR ''A'' CHR ''Z'', Ch CHR ''_'', Rng CHR ''a'' CHR ''z''], ADVANCE 610)])"

definition ts_lex_case_20 :: lex_case where
  "ts_lex_case_20 = (None,
    [(AnyOf [Ch CHR 0x22], ADVANCE 441),
     (AnyOf [Ch CHR 0x5C], ADVANCE 253),
     (AnyOf [Ch CHR 0x09, Ch CHR '' ''], ADVANCE 442),
     (NoneOf [CHR 0x00], ADVANCE 443)])"

definition ts_lex_case_21 :: lex_case where
  "ts_lex_case_21 = (None,
    [(AnyOf [Ch CHR '')''], ADVANCE 463),
     (AnyOf [Ch CHR ''*''], ADVANCE 449),
     (AnyOf [Ch CHR ''+''], ADVANCE 447),
     (AnyOf [Ch CHR ''-''], ADVANCE 448),
     (AnyOf [Ch CHR ''/''], ADVANCE 450),
     (AnyOf [Ch CHR ''[''], ADVANCE 445),
     (AnyOf [Ch CHR '']''], ADVANCE 446),
     (AnyOf [Ch CHR ''a''], ADVANCE 499),
     (AnyOf [Ch CHR ''e''], ADVANCE 562),
     (AnyOf [Ch CHR ''i''], ADVANCE 582),
     (AnyOf [Ch CHR ''s''], ADVANCE 601),
     (AnyOf [Ch CHR 0x09, Ch CHR '' ''], SKIP 21),
     (AnyOf [Rng CHR ''A'' CHR ''Z'', Ch CHR ''_'', Rng CHR ''b'' CHR ''z''], ADVANCE 610)])"

definition ts_lex_case_22 :: lex_case where
  "ts_lex_case_22 = (None,
    [(AnyOf [Ch CHR '':''], ADVANCE 268)])"

definition ts_lex_case_23 :: lex_case where
  "ts_lex_case_23 = (None,
    [(AnyOf [Ch CHR '':''], ADVANCE 382)])"

definition ts_lex_case_24 :: lex_case where
  "ts_lex_case_24 = (None,
    [(AnyOf [Ch CHR '':''], ADVANCE 380)])"

definition ts_lex_case_25 :: lex_case where
  "ts_lex_case_25 = (None,
    [(AnyOf [Ch CHR '':''], ADVANCE 384)])"

definition ts_lex_case_26 :: lex_case where
  "ts_lex_case_26 = (None,
    [(AnyOf [Ch CHR '':''], ADVANCE 428)])"

definition ts_lex_case_27 :: lex_case where
  "ts_lex_case_27 = (None,
    [(AnyOf [Ch CHR '':''], ADVANCE 270)])"

definition ts_lex_case_28 :: lex_case where
  "ts_lex_case_28 = (None,
    [(AnyOf [Ch CHR '':''], ADVANCE 387)])"

definition ts_lex_case_29 :: lex_case where
  "ts_lex_case_29 = (None,
    [(AnyOf [Ch CHR '':''], ADVANCE 388)])"

definition ts_lex_case_30 :: lex_case where
  "ts_lex_case_30 = (None,
    [(AnyOf [Ch CHR '':''], ADVANCE 378)])"

definition ts_lex_case_31 :: lex_case where
  "ts_lex_case_31 = (None,
    [(AnyOf [Ch CHR '':''], ADVANCE 386)])"

definition ts_lex_case_32 :: lex_case where
  "ts_lex_case_32 = (None,
    [(AnyOf [Ch CHR '':''], ADVANCE 361)])"

definition ts_lex_case_33 :: lex_case where
  "ts_lex_case_33 = (None,
    [(AnyOf [Ch CHR '':''], ADVANCE 431)])"

definition ts_lex_case_34 :: lex_case where
  "ts_lex_case_34 = (None,
    [(AnyOf [Ch CHR '':''], ADVANCE 430)])"

definition ts_lex_case_35 :: lex_case where
  "ts_lex_case_35 = (None,
    [(AnyOf [Ch CHR ''a''], ADVANCE 251)])"

definition ts_lex_case_36 :: lex_case where
  "ts_lex_case_36 = (None,
    [(AnyOf [Ch CHR ''a''], ADVANCE 48)])"

definition ts_lex_case_37 :: lex_case where
  "ts_lex_case_37 = (None,
    [(AnyOf [Ch CHR ''a''], ADVANCE 122)])"

definition ts_lex_case_38 :: lex_case where
  "ts_lex_case_38 = (None,
    [(AnyOf [Ch CHR ''a''], ADVANCE 142)])"

definition ts_lex_case_39 :: lex_case where
  "ts_lex_case_39 = (None,
    [(AnyOf [Ch CHR ''a''], ADVANCE 220)])"

definition ts_lex_case_40 :: lex_case where
  "ts_lex_case_40 = (None,
    [(AnyOf [Ch CHR ''a''], ADVANCE 128)])"

definition ts_lex_case_41 :: lex_case where
  "ts_lex_case_41 = (None,
    [(AnyOf [Ch CHR ''a''], ADVANCE 143)])"

definition ts_lex_case_42 :: lex_case where
  "ts_lex_case_42 = (None,
    [(AnyOf [Ch CHR ''a''], ADVANCE 212)])"

definition ts_lex_case_43 :: lex_case where
  "ts_lex_case_43 = (None,
    [(AnyOf [Ch CHR ''a''], ADVANCE 189)])"

definition ts_lex_case_44 :: lex_case where
  "ts_lex_case_44 = (None,
    [(AnyOf [Ch CHR ''a''], ADVANCE 133)])"

definition ts_lex_case_45 :: lex_case where
  "ts_lex_case_45 = (None,
    [(AnyOf [Ch CHR ''a''], ADVANCE 134)])"

definition ts_lex_case_46 :: lex_case where
  "ts_lex_case_46 = (None,
    [(AnyOf [Ch CHR ''a''], ADVANCE 135)])"

definition ts_lex_case_47 :: lex_case where
  "ts_lex_case_47 = (None,
    [(AnyOf [Ch CHR ''b''], ADVANCE 125)])"

definition ts_lex_case_48 :: lex_case where
  "ts_lex_case_48 = (None,
    [(AnyOf [Ch CHR ''c''], ADVANCE 100)])"

definition ts_lex_case_49 :: lex_case where
  "ts_lex_case_49 = (None,
    [(AnyOf [Ch CHR ''c''], ADVANCE 120)])"

definition ts_lex_case_50 :: lex_case where
  "ts_lex_case_50 = (None,
    [(AnyOf [Ch CHR ''c''], ADVANCE 166)])"

definition ts_lex_case_51 :: lex_case where
  "ts_lex_case_51 = (None,
    [(AnyOf [Ch CHR ''c''], ADVANCE 54)])"

definition ts_lex_case_52 :: lex_case where
  "ts_lex_case_52 = (None,
    [(AnyOf [Ch CHR ''c''], ADVANCE 126)])"

definition ts_lex_case_53 :: lex_case where
  "ts_lex_case_53 = (None,
    [(AnyOf [Ch CHR ''c''], ADVANCE 223)])"

definition ts_lex_case_54 :: lex_case where
  "ts_lex_case_54 = (None,
    [(AnyOf [Ch CHR ''c''], ADVANCE 85)])"

definition ts_lex_case_55 :: lex_case where
  "ts_lex_case_55 = (None,
    [(AnyOf [Ch CHR ''d''], ADVANCE 56),
     (AnyOf [Ch CHR ''t''], ADVANCE 224)])"

definition ts_lex_case_56 :: lex_case where
  "ts_lex_case_56 = (None,
    [(AnyOf [Ch CHR ''d''], ADVANCE 432)])"

definition ts_lex_case_57 :: lex_case where
  "ts_lex_case_57 = (None,
    [(AnyOf [Ch CHR ''d''], ADVANCE 1),
     (NoneOf [CHR 0x00], ADVANCE 369)])"

definition ts_lex_case_58 :: lex_case where
  "ts_lex_case_58 = (None,
    [(AnyOf [Ch CHR ''d''], ADVANCE 9)])"

definition ts_lex_case_59 :: lex_case where
  "ts_lex_case_59 = (None,
    [(AnyOf [Ch CHR ''d''], ADVANCE 116)])"

definition ts_lex_case_60 :: lex_case where
  "ts_lex_case_60 = (None,
    [(AnyOf [Ch CHR ''e''], ADVANCE 179),
     (AnyOf [Ch CHR ''g''], ADVANCE 190),
     (AnyOf [Ch CHR ''i''], ADVANCE 140),
     (AnyOf [Ch CHR ''l''], ADVANCE 70),
     (AnyOf [Ch CHR ''n''], ADVANCE 156)])"

definition ts_lex_case_61 :: lex_case where
  "ts_lex_case_61 = (None,
    [(AnyOf [Ch CHR ''e''], ADVANCE 36)])"

definition ts_lex_case_62 :: lex_case where
  "ts_lex_case_62 = (None,
    [(AnyOf [Ch CHR ''e''], ADVANCE 363)])"

definition ts_lex_case_63 :: lex_case where
  "ts_lex_case_63 = (None,
    [(AnyOf [Ch CHR ''e''], ADVANCE 137),
     (AnyOf [Ch CHR ''i''], ADVANCE 203)])"

definition ts_lex_case_64 :: lex_case where
  "ts_lex_case_64 = (None,
    [(AnyOf [Ch CHR ''e''], ADVANCE 136)])"

definition ts_lex_case_65 :: lex_case where
  "ts_lex_case_65 = (None,
    [(AnyOf [Ch CHR ''e''], ADVANCE 4)])"

definition ts_lex_case_66 :: lex_case where
  "ts_lex_case_66 = (None,
    [(AnyOf [Ch CHR ''e''], ADVANCE 425)])"

definition ts_lex_case_67 :: lex_case where
  "ts_lex_case_67 = (None,
    [(AnyOf [Ch CHR ''e''], ADVANCE 436)])"

definition ts_lex_case_68 :: lex_case where
  "ts_lex_case_68 = (None,
    [(AnyOf [Ch CHR ''e''], ADVANCE 418)])"

definition ts_lex_case_69 :: lex_case where
  "ts_lex_case_69 = (None,
    [(AnyOf [Ch CHR ''e''], ADVANCE 148),
     (AnyOf [Ch CHR 0x09, Ch CHR '' ''], ADVANCE 364),
     (NoneOf [CHR 0x00], ADVANCE 365)])"

definition ts_lex_case_70 :: lex_case where
  "ts_lex_case_70 = (None,
    [(AnyOf [Ch CHR ''e''], ADVANCE 199)])"

definition ts_lex_case_71 :: lex_case where
  "ts_lex_case_71 = (None,
    [(AnyOf [Ch CHR ''e''], ADVANCE 193)])"

definition ts_lex_case_72 :: lex_case where
  "ts_lex_case_72 = (None,
    [(AnyOf [Ch CHR ''e''], ADVANCE 39)])"

definition ts_lex_case_73 :: lex_case where
  "ts_lex_case_73 = (None,
    [(AnyOf [Ch CHR ''e''], ADVANCE 33)])"

definition ts_lex_case_74 :: lex_case where
  "ts_lex_case_74 = (None,
    [(AnyOf [Ch CHR ''e''], ADVANCE 175)])"

definition ts_lex_case_75 :: lex_case where
  "ts_lex_case_75 = (None,
    [(AnyOf [Ch CHR ''e''], ADVANCE 175),
     (AnyOf [Ch CHR ''o''], ADVANCE 192)])"

definition ts_lex_case_76 :: lex_case where
  "ts_lex_case_76 = (None,
    [(AnyOf [Ch CHR ''e''], ADVANCE 52),
     (AnyOf [Ch CHR ''i''], ADVANCE 197),
     (AnyOf [Ch CHR ''o''], ADVANCE 22)])"

definition ts_lex_case_77 :: lex_case where
  "ts_lex_case_77 = (None,
    [(AnyOf [Ch CHR ''e''], ADVANCE 53)])"

definition ts_lex_case_78 :: lex_case where
  "ts_lex_case_78 = (None,
    [(AnyOf [Ch CHR ''e''], ADVANCE 154)])"

definition ts_lex_case_79 :: lex_case where
  "ts_lex_case_79 = (None,
    [(AnyOf [Ch CHR ''e''], ADVANCE 191)])"

definition ts_lex_case_80 :: lex_case where
  "ts_lex_case_80 = (None,
    [(AnyOf [Ch CHR ''e''], ADVANCE 27)])"

definition ts_lex_case_81 :: lex_case where
  "ts_lex_case_81 = (None,
    [(AnyOf [Ch CHR ''e''], ADVANCE 209),
     (AnyOf [Ch CHR ''t''], ADVANCE 75)])"

definition ts_lex_case_82 :: lex_case where
  "ts_lex_case_82 = (None,
    [(AnyOf [Ch CHR ''e''], ADVANCE 209),
     (AnyOf [Ch CHR ''t''], ADVANCE 74)])"

definition ts_lex_case_83 :: lex_case where
  "ts_lex_case_83 = (None,
    [(AnyOf [Ch CHR ''e''], ADVANCE 201)])"

definition ts_lex_case_84 :: lex_case where
  "ts_lex_case_84 = (None,
    [(AnyOf [Ch CHR ''e''], ADVANCE 132),
     (AnyOf [Ch CHR ''u''], ADVANCE 111)])"

definition ts_lex_case_85 :: lex_case where
  "ts_lex_case_85 = (None,
    [(AnyOf [Ch CHR ''e''], ADVANCE 202)])"

definition ts_lex_case_86 :: lex_case where
  "ts_lex_case_86 = (None,
    [(AnyOf [Ch CHR ''e''], ADVANCE 42)])"

definition ts_lex_case_87 :: lex_case where
  "ts_lex_case_87 = (None,
    [(AnyOf [Ch CHR ''e''], ADVANCE 186)])"

definition ts_lex_case_88 :: lex_case where
  "ts_lex_case_88 = (None,
    [(AnyOf [Ch CHR ''e''], ADVANCE 138),
     (AnyOf [Ch CHR ''i''], ADVANCE 203)])"

definition ts_lex_case_89 :: lex_case where
  "ts_lex_case_89 = (None,
    [(AnyOf [Ch CHR ''e''], ADVANCE 180)])"

definition ts_lex_case_90 :: lex_case where
  "ts_lex_case_90 = (None,
    [(AnyOf [Ch CHR ''e''], ADVANCE 181)])"

definition ts_lex_case_91 :: lex_case where
  "ts_lex_case_91 = (None,
    [(AnyOf [Ch CHR ''e''], ADVANCE 182)])"

definition ts_lex_case_92 :: lex_case where
  "ts_lex_case_92 = (None,
    [(AnyOf [Ch CHR ''f''], ADVANCE 461)])"

definition ts_lex_case_93 :: lex_case where
  "ts_lex_case_93 = (None,
    [(AnyOf [Ch CHR ''f''], ADVANCE 417)])"

definition ts_lex_case_94 :: lex_case where
  "ts_lex_case_94 = (None,
    [(AnyOf [Ch CHR ''f''], ADVANCE 412),
     (AnyOf [Ch CHR ''n''], ADVANCE 176)])"

definition ts_lex_case_95 :: lex_case where
  "ts_lex_case_95 = (None,
    [(AnyOf [Ch CHR ''f''], ADVANCE 413),
     (AnyOf [Ch CHR ''n''], ADVANCE 176)])"

definition ts_lex_case_96 :: lex_case where
  "ts_lex_case_96 = (None,
    [(AnyOf [Ch CHR ''f''], ADVANCE 237)])"

definition ts_lex_case_97 :: lex_case where
  "ts_lex_case_97 = (None,
    [(AnyOf [Ch CHR ''g''], ADVANCE 206)])"

definition ts_lex_case_98 :: lex_case where
  "ts_lex_case_98 = (None,
    [(AnyOf [Ch CHR ''g''], ADVANCE 6)])"

definition ts_lex_case_99 :: lex_case where
  "ts_lex_case_99 = (None,
    [(AnyOf [Ch CHR ''g''], ADVANCE 30)])"

definition ts_lex_case_100 :: lex_case where
  "ts_lex_case_100 = (None,
    [(AnyOf [Ch CHR ''h''], ADVANCE 423)])"

definition ts_lex_case_101 :: lex_case where
  "ts_lex_case_101 = (None,
    [(AnyOf [Ch CHR ''h''], ADVANCE 459)])"

definition ts_lex_case_102 :: lex_case where
  "ts_lex_case_102 = (None,
    [(AnyOf [Ch CHR ''h''], ADVANCE 458)])"

definition ts_lex_case_103 :: lex_case where
  "ts_lex_case_103 = (None,
    [(AnyOf [Ch CHR ''h''], ADVANCE 38)])"

definition ts_lex_case_104 :: lex_case where
  "ts_lex_case_104 = (None,
    [(AnyOf [Ch CHR ''h''], ADVANCE 78)])"

definition ts_lex_case_105 :: lex_case where
  "ts_lex_case_105 = (None,
    [(AnyOf [Ch CHR ''h''], ADVANCE 79)])"

definition ts_lex_case_106 :: lex_case where
  "ts_lex_case_106 = (None,
    [(AnyOf [Ch CHR ''h''], ADVANCE 41)])"

definition ts_lex_case_107 :: lex_case where
  "ts_lex_case_107 = (None,
    [(AnyOf [Ch CHR ''h''], ADVANCE 114)])"

definition ts_lex_case_108 :: lex_case where
  "ts_lex_case_108 = (None,
    [(AnyOf [Ch CHR ''i''], ADVANCE 93)])"

definition ts_lex_case_109 :: lex_case where
  "ts_lex_case_109 = (None,
    [(AnyOf [Ch CHR ''i''], ADVANCE 152)])"

definition ts_lex_case_110 :: lex_case where
  "ts_lex_case_110 = (None,
    [(AnyOf [Ch CHR ''i''], ADVANCE 214)])"

definition ts_lex_case_111 :: lex_case where
  "ts_lex_case_111 = (None,
    [(AnyOf [Ch CHR ''i''], ADVANCE 123)])"

definition ts_lex_case_112 :: lex_case where
  "ts_lex_case_112 = (None,
    [(AnyOf [Ch CHR ''i''], ADVANCE 144)])"

definition ts_lex_case_113 :: lex_case where
  "ts_lex_case_113 = (None,
    [(AnyOf [Ch CHR ''i''], ADVANCE 219)])"

definition ts_lex_case_114 :: lex_case where
  "ts_lex_case_114 = (None,
    [(AnyOf [Ch CHR ''i''], ADVANCE 130)])"

definition ts_lex_case_115 :: lex_case where
  "ts_lex_case_115 = (None,
    [(AnyOf [Ch CHR ''i''], ADVANCE 146)])"

definition ts_lex_case_116 :: lex_case where
  "ts_lex_case_116 = (None,
    [(AnyOf [Ch CHR ''i''], ADVANCE 150)])"

definition ts_lex_case_117 :: lex_case where
  "ts_lex_case_117 = (None,
    [(AnyOf [Ch CHR ''i''], ADVANCE 210)])"

definition ts_lex_case_118 :: lex_case where
  "ts_lex_case_118 = (None,
    [(AnyOf [Ch CHR ''i''], ADVANCE 210),
     (AnyOf [Ch CHR ''p''], ADVANCE 77)])"

definition ts_lex_case_119 :: lex_case where
  "ts_lex_case_119 = (None,
    [(AnyOf [Ch CHR ''i''], ADVANCE 205)])"

definition ts_lex_case_120 :: lex_case where
  "ts_lex_case_120 = (None,
    [(AnyOf [Ch CHR ''k''], ADVANCE 32)])"

definition ts_lex_case_121 :: lex_case where
  "ts_lex_case_121 = (None,
    [(AnyOf [Ch CHR ''l''], ADVANCE 394)])"

definition ts_lex_case_122 :: lex_case where
  "ts_lex_case_122 = (None,
    [(AnyOf [Ch CHR ''l''], ADVANCE 12)])"

definition ts_lex_case_123 :: lex_case where
  "ts_lex_case_123 = (None,
    [(AnyOf [Ch CHR ''l''], ADVANCE 59)])"

definition ts_lex_case_124 :: lex_case where
  "ts_lex_case_124 = (None,
    [(AnyOf [Ch CHR ''l''], ADVANCE 34)])"

definition ts_lex_case_125 :: lex_case where
  "ts_lex_case_125 = (None,
    [(AnyOf [Ch CHR ''l''], ADVANCE 169)])"

definition ts_lex_case_126 :: lex_case where
  "ts_lex_case_126 = (None,
    [(AnyOf [Ch CHR ''l''], ADVANCE 43)])"

definition ts_lex_case_127 :: lex_case where
  "ts_lex_case_127 = (None,
    [(AnyOf [Ch CHR ''l''], ADVANCE 35)])"

definition ts_lex_case_128 :: lex_case where
  "ts_lex_case_128 = (None,
    [(AnyOf [Ch CHR ''l''], ADVANCE 121)])"

definition ts_lex_case_129 :: lex_case where
  "ts_lex_case_129 = (None,
    [(AnyOf [Ch CHR ''l''], ADVANCE 173),
     (AnyOf [Ch CHR ''o''], ADVANCE 184)])"

definition ts_lex_case_130 :: lex_case where
  "ts_lex_case_130 = (None,
    [(AnyOf [Ch CHR ''l''], ADVANCE 66)])"

definition ts_lex_case_131 :: lex_case where
  "ts_lex_case_131 = (None,
    [(AnyOf [Ch CHR ''l''], ADVANCE 218)])"

definition ts_lex_case_132 :: lex_case where
  "ts_lex_case_132 = (None,
    [(AnyOf [Ch CHR ''l''], ADVANCE 172)])"

definition ts_lex_case_133 :: lex_case where
  "ts_lex_case_133 = (None,
    [(AnyOf [Ch CHR ''l''], ADVANCE 13)])"

definition ts_lex_case_134 :: lex_case where
  "ts_lex_case_134 = (None,
    [(AnyOf [Ch CHR ''l''], ADVANCE 14)])"

definition ts_lex_case_135 :: lex_case where
  "ts_lex_case_135 = (None,
    [(AnyOf [Ch CHR ''l''], ADVANCE 15)])"

definition ts_lex_case_136 :: lex_case where
  "ts_lex_case_136 = (None,
    [(AnyOf [Ch CHR ''m''], ADVANCE 178)])"

definition ts_lex_case_137 :: lex_case where
  "ts_lex_case_137 = (None,
    [(AnyOf [Ch CHR ''m''], ADVANCE 165),
     (AnyOf [Ch CHR ''p''], ADVANCE 86),
     (AnyOf [Ch CHR ''t''], ADVANCE 239)])"

definition ts_lex_case_138 :: lex_case where
  "ts_lex_case_138 = (None,
    [(AnyOf [Ch CHR ''m''], ADVANCE 165),
     (AnyOf [Ch CHR ''p''], ADVANCE 86),
     (AnyOf [Ch CHR ''t''], ADVANCE 241)])"

definition ts_lex_case_139 :: lex_case where
  "ts_lex_case_139 = (None,
    [(AnyOf [Ch CHR ''n''], ADVANCE 198)])"

definition ts_lex_case_140 :: lex_case where
  "ts_lex_case_140 = (None,
    [(AnyOf [Ch CHR ''n''], ADVANCE 460)])"

definition ts_lex_case_141 :: lex_case where
  "ts_lex_case_141 = (None,
    [(AnyOf [Ch CHR ''n''], ADVANCE 157),
     (NoneOf [CHR 0x00], ADVANCE 374)])"

definition ts_lex_case_142 :: lex_case where
  "ts_lex_case_142 = (None,
    [(AnyOf [Ch CHR ''n''], ADVANCE 453)])"

definition ts_lex_case_143 :: lex_case where
  "ts_lex_case_143 = (None,
    [(AnyOf [Ch CHR ''n''], ADVANCE 454)])"

definition ts_lex_case_144 :: lex_case where
  "ts_lex_case_144 = (None,
    [(AnyOf [Ch CHR ''n''], ADVANCE 397)])"

definition ts_lex_case_145 :: lex_case where
  "ts_lex_case_145 = (None,
    [(AnyOf [Ch CHR ''n''], ADVANCE 404)])"

definition ts_lex_case_146 :: lex_case where
  "ts_lex_case_146 = (None,
    [(AnyOf [Ch CHR ''n''], ADVANCE 98)])"

definition ts_lex_case_147 :: lex_case where
  "ts_lex_case_147 = (None,
    [(AnyOf [Ch CHR ''n''], ADVANCE 406)])"

definition ts_lex_case_148 :: lex_case where
  "ts_lex_case_148 = (None,
    [(AnyOf [Ch CHR ''n''], ADVANCE 57),
     (NoneOf [CHR 0x00], ADVANCE 366)])"

definition ts_lex_case_149 :: lex_case where
  "ts_lex_case_149 = (None,
    [(AnyOf [Ch CHR ''n''], ADVANCE 58),
     (AnyOf [Ch CHR ''x''], ADVANCE 117)])"

definition ts_lex_case_150 :: lex_case where
  "ts_lex_case_150 = (None,
    [(AnyOf [Ch CHR ''n''], ADVANCE 99)])"

definition ts_lex_case_151 :: lex_case where
  "ts_lex_case_151 = (None,
    [(AnyOf [Ch CHR ''n''], ADVANCE 97)])"

definition ts_lex_case_152 :: lex_case where
  "ts_lex_case_152 = (None,
    [(AnyOf [Ch CHR ''n''], ADVANCE 238)])"

definition ts_lex_case_153 :: lex_case where
  "ts_lex_case_153 = (None,
    [(AnyOf [Ch CHR ''n''], ADVANCE 213)])"

definition ts_lex_case_154 :: lex_case where
  "ts_lex_case_154 = (None,
    [(AnyOf [Ch CHR ''n''], ADVANCE 5)])"

definition ts_lex_case_155 :: lex_case where
  "ts_lex_case_155 = (None,
    [(AnyOf [Ch CHR ''n''], ADVANCE 167)])"

definition ts_lex_case_156 :: lex_case where
  "ts_lex_case_156 = (None,
    [(AnyOf [Ch CHR ''o''], ADVANCE 207)])"

definition ts_lex_case_157 :: lex_case where
  "ts_lex_case_157 = (None,
    [(AnyOf [Ch CHR ''o''], ADVANCE 208),
     (NoneOf [CHR 0x00], ADVANCE 375)])"

definition ts_lex_case_158 :: lex_case where
  "ts_lex_case_158 = (None,
    [(AnyOf [Ch CHR ''o''], ADVANCE 457)])"

definition ts_lex_case_159 :: lex_case where
  "ts_lex_case_159 = (None,
    [(AnyOf [Ch CHR ''o''], ADVANCE 92)])"

definition ts_lex_case_160 :: lex_case where
  "ts_lex_case_160 = (None,
    [(AnyOf [Ch CHR ''o''], ADVANCE 31)])"

definition ts_lex_case_161 :: lex_case where
  "ts_lex_case_161 = (None,
    [(AnyOf [Ch CHR ''o''], ADVANCE 451)])"

definition ts_lex_case_162 :: lex_case where
  "ts_lex_case_162 = (None,
    [(AnyOf [Ch CHR ''o''], ADVANCE 452)])"

definition ts_lex_case_163 :: lex_case where
  "ts_lex_case_163 = (None,
    [(AnyOf [Ch CHR ''o''], ADVANCE 455)])"

definition ts_lex_case_164 :: lex_case where
  "ts_lex_case_164 = (None,
    [(AnyOf [Ch CHR ''o''], ADVANCE 456)])"

definition ts_lex_case_165 :: lex_case where
  "ts_lex_case_165 = (None,
    [(AnyOf [Ch CHR ''o''], ADVANCE 245)])"

definition ts_lex_case_166 :: lex_case where
  "ts_lex_case_166 = (None,
    [(AnyOf [Ch CHR ''o''], ADVANCE 153)])"

definition ts_lex_case_167 :: lex_case where
  "ts_lex_case_167 = (None,
    [(AnyOf [Ch CHR ''o''], ADVANCE 215)])"

definition ts_lex_case_168 :: lex_case where
  "ts_lex_case_168 = (None,
    [(AnyOf [Ch CHR ''o''], ADVANCE 194)])"

definition ts_lex_case_169 :: lex_case where
  "ts_lex_case_169 = (None,
    [(AnyOf [Ch CHR ''o''], ADVANCE 49)])"

definition ts_lex_case_170 :: lex_case where
  "ts_lex_case_170 = (None,
    [(AnyOf [Ch CHR ''o''], ADVANCE 185)])"

definition ts_lex_case_171 :: lex_case where
  "ts_lex_case_171 = (None,
    [(AnyOf [Ch CHR ''o''], ADVANCE 227)])"

definition ts_lex_case_172 :: lex_case where
  "ts_lex_case_172 = (None,
    [(AnyOf [Ch CHR ''o''], ADVANCE 151)])"

definition ts_lex_case_173 :: lex_case where
  "ts_lex_case_173 = (None,
    [(AnyOf [Ch CHR ''o''], ADVANCE 170)])"

definition ts_lex_case_174 :: lex_case where
  "ts_lex_case_174 = (None,
    [(AnyOf [Ch CHR ''o''], ADVANCE 195)])"

definition ts_lex_case_175 :: lex_case where
  "ts_lex_case_175 = (None,
    [(AnyOf [Ch CHR ''p''], ADVANCE 23)])"

definition ts_lex_case_176 :: lex_case where
  "ts_lex_case_176 = (None,
    [(AnyOf [Ch CHR ''p''], ADVANCE 240)])"

definition ts_lex_case_177 :: lex_case where
  "ts_lex_case_177 = (None,
    [(AnyOf [Ch CHR ''p''], ADVANCE 127)])"

definition ts_lex_case_178 :: lex_case where
  "ts_lex_case_178 = (None,
    [(AnyOf [Ch CHR ''p''], ADVANCE 226)])"

definition ts_lex_case_179 :: lex_case where
  "ts_lex_case_179 = (None,
    [(AnyOf [Ch CHR ''q''], ADVANCE 233)])"

definition ts_lex_case_180 :: lex_case where
  "ts_lex_case_180 = (None,
    [(AnyOf [Ch CHR ''q''], ADVANCE 242)])"

definition ts_lex_case_181 :: lex_case where
  "ts_lex_case_181 = (None,
    [(AnyOf [Ch CHR ''q''], ADVANCE 243)])"

definition ts_lex_case_182 :: lex_case where
  "ts_lex_case_182 = (None,
    [(AnyOf [Ch CHR ''q''], ADVANCE 244)])"

definition ts_lex_case_183 :: lex_case where
  "ts_lex_case_183 = (None,
    [(AnyOf [Ch CHR ''r''], ADVANCE 83)])"

definition ts_lex_case_184 :: lex_case where
  "ts_lex_case_184 = (None,
    [(AnyOf [Ch CHR ''r''], ADVANCE 2)])"

definition ts_lex_case_185 :: lex_case where
  "ts_lex_case_185 = (None,
    [(AnyOf [Ch CHR ''r''], ADVANCE 24)])"

definition ts_lex_case_186 :: lex_case where
  "ts_lex_case_186 = (None,
    [(AnyOf [Ch CHR ''r''], ADVANCE 25)])"

definition ts_lex_case_187 :: lex_case where
  "ts_lex_case_187 = (None,
    [(AnyOf [Ch CHR ''r''], ADVANCE 145)])"

definition ts_lex_case_188 :: lex_case where
  "ts_lex_case_188 = (None,
    [(AnyOf [Ch CHR ''r''], ADVANCE 147)])"

definition ts_lex_case_189 :: lex_case where
  "ts_lex_case_189 = (None,
    [(AnyOf [Ch CHR ''r''], ADVANCE 80)])"

definition ts_lex_case_190 :: lex_case where
  "ts_lex_case_190 = (None,
    [(AnyOf [Ch CHR ''r''], ADVANCE 72)])"

definition ts_lex_case_191 :: lex_case where
  "ts_lex_case_191 = (None,
    [(AnyOf [Ch CHR ''r''], ADVANCE 247)])"

definition ts_lex_case_192 :: lex_case where
  "ts_lex_case_192 = (None,
    [(AnyOf [Ch CHR ''r''], ADVANCE 115)])"

definition ts_lex_case_193 :: lex_case where
  "ts_lex_case_193 = (None,
    [(AnyOf [Ch CHR ''r''], ADVANCE 16)])"

definition ts_lex_case_194 :: lex_case where
  "ts_lex_case_194 = (None,
    [(AnyOf [Ch CHR ''r''], ADVANCE 17)])"

definition ts_lex_case_195 :: lex_case where
  "ts_lex_case_195 = (None,
    [(AnyOf [Ch CHR ''r''], ADVANCE 18)])"

definition ts_lex_case_196 :: lex_case where
  "ts_lex_case_196 = (None,
    [(AnyOf [Ch CHR ''s''], ADVANCE 8)])"

definition ts_lex_case_197 :: lex_case where
  "ts_lex_case_197 = (None,
    [(AnyOf [Ch CHR ''s''], ADVANCE 177)])"

definition ts_lex_case_198 :: lex_case where
  "ts_lex_case_198 = (None,
    [(AnyOf [Ch CHR ''s''], ADVANCE 234)])"

definition ts_lex_case_199 :: lex_case where
  "ts_lex_case_199 = (None,
    [(AnyOf [Ch CHR ''s''], ADVANCE 196)])"

definition ts_lex_case_200 :: lex_case where
  "ts_lex_case_200 = (None,
    [(AnyOf [Ch CHR ''s''], ADVANCE 96)])"

definition ts_lex_case_201 :: lex_case where
  "ts_lex_case_201 = (None,
    [(AnyOf [Ch CHR ''s''], ADVANCE 235)])"

definition ts_lex_case_202 :: lex_case where
  "ts_lex_case_202 = (None,
    [(AnyOf [Ch CHR ''s''], ADVANCE 200)])"

definition ts_lex_case_203 :: lex_case where
  "ts_lex_case_203 = (None,
    [(AnyOf [Ch CHR ''s''], ADVANCE 87)])"

definition ts_lex_case_204 :: lex_case where
  "ts_lex_case_204 = (None,
    [(AnyOf [Ch CHR ''s''], ADVANCE 28)])"

definition ts_lex_case_205 :: lex_case where
  "ts_lex_case_205 = (None,
    [(AnyOf [Ch CHR ''s''], ADVANCE 68)])"

definition ts_lex_case_206 :: lex_case where
  "ts_lex_case_206 = (None,
    [(AnyOf [Ch CHR ''s''], ADVANCE 10)])"

definition ts_lex_case_207 :: lex_case where
  "ts_lex_case_207 = (None,
    [(AnyOf [Ch CHR ''t''], ADVANCE 7)])"

definition ts_lex_case_208 :: lex_case where
  "ts_lex_case_208 = (None,
    [(AnyOf [Ch CHR ''t''], ADVANCE 256),
     (NoneOf [CHR 0x00], ADVANCE 376)])"

definition ts_lex_case_209 :: lex_case where
  "ts_lex_case_209 = (None,
    [(AnyOf [Ch CHR ''t''], ADVANCE 391)])"

definition ts_lex_case_210 :: lex_case where
  "ts_lex_case_210 = (None,
    [(AnyOf [Ch CHR ''t''], ADVANCE 409)])"

definition ts_lex_case_211 :: lex_case where
  "ts_lex_case_211 = (None,
    [(AnyOf [Ch CHR ''t''], ADVANCE 401)])"

definition ts_lex_case_212 :: lex_case where
  "ts_lex_case_212 = (None,
    [(AnyOf [Ch CHR ''t''], ADVANCE 420)])"

definition ts_lex_case_213 :: lex_case where
  "ts_lex_case_213 = (None,
    [(AnyOf [Ch CHR ''t''], ADVANCE 109)])"

definition ts_lex_case_214 :: lex_case where
  "ts_lex_case_214 = (None,
    [(AnyOf [Ch CHR ''t''], ADVANCE 101)])"

definition ts_lex_case_215 :: lex_case where
  "ts_lex_case_215 = (None,
    [(AnyOf [Ch CHR ''t''], ADVANCE 62)])"

definition ts_lex_case_216 :: lex_case where
  "ts_lex_case_216 = (None,
    [(AnyOf [Ch CHR ''t''], ADVANCE 158)])"

definition ts_lex_case_217 :: lex_case where
  "ts_lex_case_217 = (None,
    [(AnyOf [Ch CHR ''t''], ADVANCE 103)])"

definition ts_lex_case_218 :: lex_case where
  "ts_lex_case_218 = (None,
    [(AnyOf [Ch CHR ''t''], ADVANCE 11)])"

definition ts_lex_case_219 :: lex_case where
  "ts_lex_case_219 = (None,
    [(AnyOf [Ch CHR ''t''], ADVANCE 102)])"

definition ts_lex_case_220 :: lex_case where
  "ts_lex_case_220 = (None,
    [(AnyOf [Ch CHR ''t''], ADVANCE 71)])"

definition ts_lex_case_221 :: lex_case where
  "ts_lex_case_221 = (None,
    [(AnyOf [Ch CHR ''t''], ADVANCE 160)])"

definition ts_lex_case_222 :: lex_case where
  "ts_lex_case_222 = (None,
    [(AnyOf [Ch CHR ''t''], ADVANCE 161)])"

definition ts_lex_case_223 :: lex_case where
  "ts_lex_case_223 = (None,
    [(AnyOf [Ch CHR ''t''], ADVANCE 204)])"

definition ts_lex_case_224 :: lex_case where
  "ts_lex_case_224 = (None,
    [(AnyOf [Ch CHR ''t''], ADVANCE 64)])"

definition ts_lex_case_225 :: lex_case where
  "ts_lex_case_225 = (None,
    [(AnyOf [Ch CHR ''t''], ADVANCE 162)])"

definition ts_lex_case_226 :: lex_case where
  "ts_lex_case_226 = (None,
    [(AnyOf [Ch CHR ''t''], ADVANCE 26)])"

definition ts_lex_case_227 :: lex_case where
  "ts_lex_case_227 = (None,
    [(AnyOf [Ch CHR ''t''], ADVANCE 65)])"

definition ts_lex_case_228 :: lex_case where
  "ts_lex_case_228 = (None,
    [(AnyOf [Ch CHR ''t''], ADVANCE 163)])"

definition ts_lex_case_229 :: lex_case where
  "ts_lex_case_229 = (None,
    [(AnyOf [Ch CHR ''t''], ADVANCE 164)])"

definition ts_lex_case_230 :: lex_case where
  "ts_lex_case_230 = (None,
    [(AnyOf [Ch CHR ''t''], ADVANCE 105)])"

definition ts_lex_case_231 :: lex_case where
  "ts_lex_case_231 = (None,
    [(AnyOf [Ch CHR ''t''], ADVANCE 106)])"

definition ts_lex_case_232 :: lex_case where
  "ts_lex_case_232 = (None,
    [(AnyOf [Ch CHR ''u''], ADVANCE 139)])"

definition ts_lex_case_233 :: lex_case where
  "ts_lex_case_233 = (None,
    [(AnyOf [Ch CHR ''u''], ADVANCE 37)])"

definition ts_lex_case_234 :: lex_case where
  "ts_lex_case_234 = (None,
    [(AnyOf [Ch CHR ''u''], ADVANCE 51)])"

definition ts_lex_case_235 :: lex_case where
  "ts_lex_case_235 = (None,
    [(AnyOf [Ch CHR ''u''], ADVANCE 131)])"

definition ts_lex_case_236 :: lex_case where
  "ts_lex_case_236 = (None,
    [(AnyOf [Ch CHR ''u''], ADVANCE 111)])"

definition ts_lex_case_237 :: lex_case where
  "ts_lex_case_237 = (None,
    [(AnyOf [Ch CHR ''u''], ADVANCE 124)])"

definition ts_lex_case_238 :: lex_case where
  "ts_lex_case_238 = (None,
    [(AnyOf [Ch CHR ''u''], ADVANCE 73)])"

definition ts_lex_case_239 :: lex_case where
  "ts_lex_case_239 = (None,
    [(AnyOf [Ch CHR ''u''], ADVANCE 187)])"

definition ts_lex_case_240 :: lex_case where
  "ts_lex_case_240 = (None,
    [(AnyOf [Ch CHR ''u''], ADVANCE 211)])"

definition ts_lex_case_241 :: lex_case where
  "ts_lex_case_241 = (None,
    [(AnyOf [Ch CHR ''u''], ADVANCE 188)])"

definition ts_lex_case_242 :: lex_case where
  "ts_lex_case_242 = (None,
    [(AnyOf [Ch CHR ''u''], ADVANCE 44)])"

definition ts_lex_case_243 :: lex_case where
  "ts_lex_case_243 = (None,
    [(AnyOf [Ch CHR ''u''], ADVANCE 45)])"

definition ts_lex_case_244 :: lex_case where
  "ts_lex_case_244 = (None,
    [(AnyOf [Ch CHR ''u''], ADVANCE 46)])"

definition ts_lex_case_245 :: lex_case where
  "ts_lex_case_245 = (None,
    [(AnyOf [Ch CHR ''v''], ADVANCE 67)])"

definition ts_lex_case_246 :: lex_case where
  "ts_lex_case_246 = (None,
    [(AnyOf [Ch CHR ''w''], ADVANCE 110)])"

definition ts_lex_case_247 :: lex_case where
  "ts_lex_case_247 = (None,
    [(AnyOf [Ch CHR ''w''], ADVANCE 119)])"

definition ts_lex_case_248 :: lex_case where
  "ts_lex_case_248 = (None,
    [(AnyOf [Ch CHR ''w''], ADVANCE 113)])"

definition ts_lex_case_249 :: lex_case where
  "ts_lex_case_249 = (None,
    [(AnyOf [Ch CHR ''x''], ADVANCE 118)])"

definition ts_lex_case_250 :: lex_case where
  "ts_lex_case_250 = (None,
    [(AnyOf [Ch CHR ''x''], ADVANCE 117)])"

definition ts_lex_case_251 :: lex_case where
  "ts_lex_case_251 = (None,
    [(AnyOf [Ch CHR ''y''], ADVANCE 398)])"

definition ts_lex_case_252 :: lex_case where
  "ts_lex_case_252 = (None,
    [(AnyOf [Ch CHR 0x09, Ch CHR '' ''], SKIP 252),
     (AnyOf [Rng CHR ''A'' CHR ''Z'', Ch CHR ''_'', Rng CHR ''a'' CHR ''z''], ADVANCE 610)])"

definition ts_lex_case_253 :: lex_case where
  "ts_lex_case_253 = (None,
    [(AnyOf [Ch CHR 0x22, Ch CHR 0x5C, Ch CHR ''n'', Ch CHR ''r'', Ch CHR ''t''], ADVANCE 444)])"

definition ts_lex_case_254 :: lex_case where
  "ts_lex_case_254 = (None,
    [(AnyOf [Rng CHR ''0'' CHR ''9''], ADVANCE 439)])"

definition ts_lex_case_255 :: lex_case where
  "ts_lex_case_255 = (None,
    [(AnyOf [Rng CHR ''0'' CHR ''9''], ADVANCE 440)])"

definition ts_lex_case_256 :: lex_case where
  "ts_lex_case_256 = (None,
    [(NoneOf [CHR 0x00, CHR ''e''], ADVANCE 377)])"

definition ts_lex_case_257 :: lex_case where
  "ts_lex_case_257 = (None,
    [(Eof, ADVANCE 267),
     (AnyOf [Ch CHR 0x0A], ADVANCE 611),
     (AnyOf [Ch CHR 0x22], ADVANCE 441),
     (AnyOf [Ch CHR ''(''], ADVANCE 462),
     (AnyOf [Ch CHR ''-''], ADVANCE 254),
     (AnyOf [Ch CHR ''[''], ADVANCE 445),
     (AnyOf [Ch CHR ''a''], ADVANCE 498),
     (AnyOf [Ch CHR ''b''], ADVANCE 602),
     (AnyOf [Ch CHR ''c''], ADVANCE 485),
     (AnyOf [Ch CHR ''d''], ADVANCE 504),
     (AnyOf [Ch CHR ''e''], ADVANCE 608),
     (AnyOf [Ch CHR ''f''], ADVANCE 545),
     (AnyOf [Ch CHR ''i''], ADVANCE 528),
     (AnyOf [Ch CHR ''l''], ADVANCE 505),
     (AnyOf [Ch CHR ''n''], ADVANCE 565),
     (AnyOf [Ch CHR ''r''], ADVANCE 525),
     (AnyOf [Ch CHR ''s''], ADVANCE 521),
     (AnyOf [Ch CHR ''w''], ADVANCE 536),
     (AnyOf [Ch CHR 0x09, Ch CHR '' ''], SKIP 257),
     (AnyOf [Rng CHR ''0'' CHR ''9''], ADVANCE 439),
     (AnyOf [Rng CHR ''A'' CHR ''Z'', Ch CHR ''_'', Rng CHR ''g'' CHR ''z''], ADVANCE 610)])"

definition ts_lex_case_258 :: lex_case where
  "ts_lex_case_258 = (None,
    [(Eof, ADVANCE 267),
     (AnyOf [Ch CHR 0x0A], ADVANCE 611),
     (AnyOf [Ch CHR '')''], ADVANCE 463),
     (AnyOf [Ch CHR ''*''], ADVANCE 449),
     (AnyOf [Ch CHR ''+''], ADVANCE 447),
     (AnyOf [Ch CHR '',''], ADVANCE 389),
     (AnyOf [Ch CHR ''-''], ADVANCE 448),
     (AnyOf [Ch CHR ''/''], ADVANCE 450),
     (AnyOf [Ch CHR ''[''], ADVANCE 445),
     (AnyOf [Ch CHR '']''], ADVANCE 446),
     (AnyOf [Ch CHR ''a''], ADVANCE 493),
     (AnyOf [Ch CHR ''b''], ADVANCE 602),
     (AnyOf [Ch CHR ''c''], ADVANCE 485),
     (AnyOf [Ch CHR ''d''], ADVANCE 504),
     (AnyOf [Ch CHR ''e''], ADVANCE 561),
     (AnyOf [Ch CHR ''f''], ADVANCE 545),
     (AnyOf [Ch CHR ''i''], ADVANCE 527),
     (AnyOf [Ch CHR ''n''], ADVANCE 565),
     (AnyOf [Ch CHR ''o''], ADVANCE 595),
     (AnyOf [Ch CHR ''r''], ADVANCE 525),
     (AnyOf [Ch CHR ''s''], ADVANCE 518),
     (AnyOf [Ch CHR ''w''], ADVANCE 536),
     (AnyOf [Ch CHR 0x09, Ch CHR '' ''], SKIP 258),
     (AnyOf [Rng CHR ''A'' CHR ''Z'', Ch CHR ''_'', Rng CHR ''g'' CHR ''z''], ADVANCE 610)])"

definition ts_lex_case_259 :: lex_case where
  "ts_lex_case_259 = (None,
    [(Eof, ADVANCE 267),
     (AnyOf [Ch CHR 0x0A], ADVANCE 611),
     (AnyOf [Ch CHR '')''], ADVANCE 463),
     (AnyOf [Ch CHR ''*''], ADVANCE 449),
     (AnyOf [Ch CHR ''+''], ADVANCE 447),
     (AnyOf [Ch CHR '',''], ADVANCE 389),
     (AnyOf [Ch CHR ''-''], ADVANCE 448),
     (AnyOf [Ch CHR ''/''], ADVANCE 450),
     (AnyOf [Ch CHR ''[''], ADVANCE 445),
     (AnyOf [Ch CHR '']''], ADVANCE 446),
     (AnyOf [Ch CHR ''a''], ADVANCE 493),
     (AnyOf [Ch CHR ''b''], ADVANCE 602),
     (AnyOf [Ch CHR ''c''], ADVANCE 485),
     (AnyOf [Ch CHR ''d''], ADVANCE 504),
     (AnyOf [Ch CHR ''e''], ADVANCE 561),
     (AnyOf [Ch CHR ''f''], ADVANCE 545),
     (AnyOf [Ch CHR ''i''], ADVANCE 527),
     (AnyOf [Ch CHR ''n''], ADVANCE 565),
     (AnyOf [Ch CHR ''o''], ADVANCE 595),
     (AnyOf [Ch CHR ''r''], ADVANCE 525),
     (AnyOf [Ch CHR ''s''], ADVANCE 519),
     (AnyOf [Ch CHR ''w''], ADVANCE 536),
     (AnyOf [Ch CHR 0x09, Ch CHR '' ''], SKIP 259),
     (AnyOf [Rng CHR ''A'' CHR ''Z'', Ch CHR ''_'', Rng CHR ''g'' CHR ''z''], ADVANCE 610)])"

definition ts_lex_case_260 :: lex_case where
  "ts_lex_case_260 = (None,
    [(Eof, ADVANCE 267),
     (AnyOf [Ch CHR 0x0A], ADVANCE 611),
     (AnyOf [Ch CHR ''*''], ADVANCE 449),
     (AnyOf [Ch CHR ''+''], ADVANCE 447),
     (AnyOf [Ch CHR '',''], ADVANCE 389),
     (AnyOf [Ch CHR ''-''], ADVANCE 448),
     (AnyOf [Ch CHR ''/''], ADVANCE 450),
     (AnyOf [Ch CHR ''[''], ADVANCE 445),
     (AnyOf [Ch CHR '']''], ADVANCE 446),
     (AnyOf [Ch CHR ''a''], ADVANCE 493),
     (AnyOf [Ch CHR ''b''], ADVANCE 602),
     (AnyOf [Ch CHR ''c''], ADVANCE 485),
     (AnyOf [Ch CHR ''d''], ADVANCE 504),
     (AnyOf [Ch CHR ''e''], ADVANCE 561),
     (AnyOf [Ch CHR ''f''], ADVANCE 545),
     (AnyOf [Ch CHR ''i''], ADVANCE 527),
     (AnyOf [Ch CHR ''n''], ADVANCE 565),
     (AnyOf [Ch CHR ''r''], ADVANCE 525),
     (AnyOf [Ch CHR ''s''], ADVANCE 518),
     (AnyOf [Ch CHR ''w''], ADVANCE 536),
     (AnyOf [Ch CHR 0x09, Ch CHR '' ''], SKIP 260),
     (AnyOf [Rng CHR ''A'' CHR ''Z'', Ch CHR ''_'', Rng CHR ''g'' CHR ''z''], ADVANCE 610)])"

definition ts_lex_case_261 :: lex_case where
  "ts_lex_case_261 = (None,
    [(Eof, ADVANCE 267),
     (AnyOf [Ch CHR 0x0A], ADVANCE 611),
     (AnyOf [Ch CHR ''*''], ADVANCE 449),
     (AnyOf [Ch CHR ''+''], ADVANCE 447),
     (AnyOf [Ch CHR ''-''], ADVANCE 448),
     (AnyOf [Ch CHR ''/''], ADVANCE 450),
     (AnyOf [Ch CHR ''[''], ADVANCE 445),
     (AnyOf [Ch CHR ''a''], ADVANCE 493),
     (AnyOf [Ch CHR ''b''], ADVANCE 602),
     (AnyOf [Ch CHR ''c''], ADVANCE 485),
     (AnyOf [Ch CHR ''d''], ADVANCE 504),
     (AnyOf [Ch CHR ''e''], ADVANCE 561),
     (AnyOf [Ch CHR ''f''], ADVANCE 545),
     (AnyOf [Ch CHR ''i''], ADVANCE 527),
     (AnyOf [Ch CHR ''n''], ADVANCE 565),
     (AnyOf [Ch CHR ''r''], ADVANCE 525),
     (AnyOf [Ch CHR ''s''], ADVANCE 519),
     (AnyOf [Ch CHR ''w''], ADVANCE 536),
     (AnyOf [Ch CHR 0x09, Ch CHR '' ''], SKIP 261),
     (AnyOf [Rng CHR ''A'' CHR ''Z'', Ch CHR ''_'', Rng CHR ''g'' CHR ''z''], ADVANCE 610)])"

definition ts_lex_case_262 :: lex_case where
  "ts_lex_case_262 = (None,
    [(Eof, ADVANCE 267),
     (AnyOf [Ch CHR 0x0A], ADVANCE 611),
     (AnyOf [Ch CHR '',''], ADVANCE 389),
     (AnyOf [Ch CHR ''=''], ADVANCE 390),
     (AnyOf [Ch CHR '']''], ADVANCE 446),
     (AnyOf [Ch CHR ''a''], ADVANCE 55),
     (AnyOf [Ch CHR ''b''], ADVANCE 236),
     (AnyOf [Ch CHR ''c''], ADVANCE 40),
     (AnyOf [Ch CHR ''d''], ADVANCE 76),
     (AnyOf [Ch CHR ''e''], ADVANCE 149),
     (AnyOf [Ch CHR ''f''], ADVANCE 129),
     (AnyOf [Ch CHR ''i''], ADVANCE 94),
     (AnyOf [Ch CHR ''n''], ADVANCE 171),
     (AnyOf [Ch CHR ''o''], ADVANCE 230),
     (AnyOf [Ch CHR ''r''], ADVANCE 63),
     (AnyOf [Ch CHR ''s''], ADVANCE 81),
     (AnyOf [Ch CHR ''t''], ADVANCE 104),
     (AnyOf [Ch CHR ''w''], ADVANCE 107),
     (AnyOf [Ch CHR 0x09, Ch CHR '' ''], SKIP 262)])"

definition ts_lex_case_263 :: lex_case where
  "ts_lex_case_263 = (None,
    [(Eof, ADVANCE 267),
     (AnyOf [Ch CHR 0x0A], ADVANCE 611),
     (AnyOf [Ch CHR '',''], ADVANCE 389),
     (AnyOf [Ch CHR ''a''], ADVANCE 55),
     (AnyOf [Ch CHR ''b''], ADVANCE 84),
     (AnyOf [Ch CHR ''c''], ADVANCE 40),
     (AnyOf [Ch CHR ''d''], ADVANCE 76),
     (AnyOf [Ch CHR ''e''], ADVANCE 249),
     (AnyOf [Ch CHR ''f''], ADVANCE 129),
     (AnyOf [Ch CHR ''i''], ADVANCE 94),
     (AnyOf [Ch CHR ''n''], ADVANCE 171),
     (AnyOf [Ch CHR ''r''], ADVANCE 88),
     (AnyOf [Ch CHR ''s''], ADVANCE 82),
     (AnyOf [Ch CHR ''w''], ADVANCE 107),
     (AnyOf [Ch CHR 0x09, Ch CHR '' ''], SKIP 263)])"

definition ts_lex_case_264 :: lex_case where
  "ts_lex_case_264 = (None,
    [(Eof, ADVANCE 267),
     (AnyOf [Ch CHR 0x0A], ADVANCE 611),
     (AnyOf [Ch CHR ''a''], ADVANCE 55),
     (AnyOf [Ch CHR ''b''], ADVANCE 236),
     (AnyOf [Ch CHR ''c''], ADVANCE 40),
     (AnyOf [Ch CHR ''d''], ADVANCE 76),
     (AnyOf [Ch CHR ''e''], ADVANCE 250),
     (AnyOf [Ch CHR ''f''], ADVANCE 129),
     (AnyOf [Ch CHR ''i''], ADVANCE 95),
     (AnyOf [Ch CHR ''n''], ADVANCE 171),
     (AnyOf [Ch CHR ''r''], ADVANCE 63),
     (AnyOf [Ch CHR ''s''], ADVANCE 82),
     (AnyOf [Ch CHR ''t''], ADVANCE 104),
     (AnyOf [Ch CHR ''w''], ADVANCE 107),
     (AnyOf [Ch CHR 0x09, Ch CHR '' ''], SKIP 264)])"

definition ts_lex_case_265 :: lex_case where
  "ts_lex_case_265 = (None,
    [(Eof, ADVANCE 267),
     (AnyOf [Ch CHR 0x0A], ADVANCE 611),
     (AnyOf [Ch CHR ''a''], ADVANCE 498),
     (AnyOf [Ch CHR ''b''], ADVANCE 602),
     (AnyOf [Ch CHR ''c''], ADVANCE 485),
     (AnyOf [Ch CHR ''d''], ADVANCE 504),
     (AnyOf [Ch CHR ''e''], ADVANCE 608),
     (AnyOf [Ch CHR ''f''], ADVANCE 545),
     (AnyOf [Ch CHR ''i''], ADVANCE 528),
     (AnyOf [Ch CHR ''n''], ADVANCE 565),
     (AnyOf [Ch CHR ''r''], ADVANCE 525),
     (AnyOf [Ch CHR ''s''], ADVANCE 521),
     (AnyOf [Ch CHR ''w''], ADVANCE 536),
     (AnyOf [Ch CHR 0x09, Ch CHR '' ''], SKIP 265),
     (AnyOf [Rng CHR ''A'' CHR ''Z'', Ch CHR ''_'', Rng CHR ''g'' CHR ''z''], ADVANCE 610)])"

definition ts_lex_case_266 :: lex_case where
  "ts_lex_case_266 = (None,
    [(Eof, ADVANCE 267),
     (AnyOf [Ch CHR 0x0A], ADVANCE 611),
     (AnyOf [Ch CHR ''a''], ADVANCE 498),
     (AnyOf [Ch CHR ''b''], ADVANCE 602),
     (AnyOf [Ch CHR ''c''], ADVANCE 485),
     (AnyOf [Ch CHR ''d''], ADVANCE 504),
     (AnyOf [Ch CHR ''e''], ADVANCE 608),
     (AnyOf [Ch CHR ''f''], ADVANCE 545),
     (AnyOf [Ch CHR ''i''], ADVANCE 528),
     (AnyOf [Ch CHR ''n''], ADVANCE 565),
     (AnyOf [Ch CHR ''r''], ADVANCE 525),
     (AnyOf [Ch CHR ''s''], ADVANCE 520),
     (AnyOf [Ch CHR ''w''], ADVANCE 536),
     (AnyOf [Ch CHR 0x09, Ch CHR '' ''], SKIP 266),
     (AnyOf [Rng CHR ''A'' CHR ''Z'', Ch CHR ''_'', Rng CHR ''g'' CHR ''z''], ADVANCE 610)])"

definition ts_lex_case_267 :: lex_case where
  "ts_lex_case_267 = (Some ts_builtin_sym_end, [])"

definition ts_lex_case_268 :: lex_case where
  "ts_lex_case_268 = (Some anon_sym_do_COLON, [])"

definition ts_lex_case_269 :: lex_case where
  "ts_lex_case_269 = (Some anon_sym_do_COLON,
    [(NoneOf [CHR 0x00, CHR 0x0A], ADVANCE 359)])"

definition ts_lex_case_270 :: lex_case where
  "ts_lex_case_270 = (Some anon_sym_declare_COLON, [])"

definition ts_lex_case_271 :: lex_case where
  "ts_lex_case_271 = (Some anon_sym_declare_COLON,
    [(NoneOf [CHR 0x00, CHR 0x0A], ADVANCE 359)])"

definition ts_lex_case_272 :: lex_case where
  "ts_lex_case_272 = (Some anon_sym_note_COLON, [])"

definition ts_lex_case_273 :: lex_case where
  "ts_lex_case_273 = (Some anon_sym_note_COLON,
    [(NoneOf [CHR 0x00, CHR 0x0A], ADVANCE 359)])"

definition ts_lex_case_274 :: lex_case where
  "ts_lex_case_274 = (Some sym_comment_content,
    [(AnyOf [Ch CHR '' ''], ADVANCE 290),
     (AnyOf [Ch CHR '':''], ADVANCE 273),
     (NoneOf [CHR 0x00, CHR 0x0A], ADVANCE 359)])"

definition ts_lex_case_275 :: lex_case where
  "ts_lex_case_275 = (Some sym_comment_content,
    [(AnyOf [Ch CHR '' ''], ADVANCE 306),
     (NoneOf [CHR 0x00, CHR 0x0A], ADVANCE 359)])"

definition ts_lex_case_276 :: lex_case where
  "ts_lex_case_276 = (Some sym_comment_content,
    [(AnyOf [Ch CHR '':''], ADVANCE 269),
     (NoneOf [CHR 0x00, CHR 0x0A], ADVANCE 359)])"

definition ts_lex_case_277 :: lex_case where
  "ts_lex_case_277 = (Some sym_comment_content,
    [(AnyOf [Ch CHR '':''], ADVANCE 383),
     (NoneOf [CHR 0x00, CHR 0x0A], ADVANCE 359)])"

definition ts_lex_case_278 :: lex_case where
  "ts_lex_case_278 = (Some sym_comment_content,
    [(AnyOf [Ch CHR '':''], ADVANCE 381),
     (NoneOf [CHR 0x00, CHR 0x0A], ADVANCE 359)])"

definition ts_lex_case_279 :: lex_case where
  "ts_lex_case_279 = (Some sym_comment_content,
    [(AnyOf [Ch CHR '':''], ADVANCE 385),
     (NoneOf [CHR 0x00, CHR 0x0A], ADVANCE 359)])"

definition ts_lex_case_280 :: lex_case where
  "ts_lex_case_280 = (Some sym_comment_content,
    [(AnyOf [Ch CHR '':''], ADVANCE 429),
     (NoneOf [CHR 0x00, CHR 0x0A], ADVANCE 359)])"

definition ts_lex_case_281 :: lex_case where
  "ts_lex_case_281 = (Some sym_comment_content,
    [(AnyOf [Ch CHR '':''], ADVANCE 271),
     (NoneOf [CHR 0x00, CHR 0x0A], ADVANCE 359)])"

definition ts_lex_case_282 :: lex_case where
  "ts_lex_case_282 = (Some sym_comment_content,
    [(AnyOf [Ch CHR '':''], ADVANCE 379),
     (NoneOf [CHR 0x00, CHR 0x0A], ADVANCE 359)])"

definition ts_lex_case_283 :: lex_case where
  "ts_lex_case_283 = (Some sym_comment_content,
    [(AnyOf [Ch CHR '':''], ADVANCE 362),
     (NoneOf [CHR 0x00, CHR 0x0A], ADVANCE 359)])"

definition ts_lex_case_284 :: lex_case where
  "ts_lex_case_284 = (Some sym_comment_content,
    [(AnyOf [Ch CHR ''a''], ADVANCE 294),
     (AnyOf [Ch CHR ''b''], ADVANCE 353),
     (AnyOf [Ch CHR ''c''], ADVANCE 285),
     (AnyOf [Ch CHR ''d''], ADVANCE 297),
     (AnyOf [Ch CHR ''e''], ADVANCE 357),
     (AnyOf [Ch CHR ''f''], ADVANCE 320),
     (AnyOf [Ch CHR ''i''], ADVANCE 309),
     (AnyOf [Ch CHR ''n''], ADVANCE 334),
     (AnyOf [Ch CHR ''r''], ADVANCE 298),
     (AnyOf [Ch CHR ''s''], ADVANCE 303),
     (AnyOf [Ch CHR ''w''], ADVANCE 312),
     (AnyOf [Ch CHR 0x09, Ch CHR '' ''], ADVANCE 284),
     (NoneOf [CHR 0x00, CHR 0x0A], ADVANCE 359)])"

definition ts_lex_case_285 :: lex_case where
  "ts_lex_case_285 = (Some sym_comment_content,
    [(AnyOf [Ch CHR ''a''], ADVANCE 322),
     (NoneOf [CHR 0x00, CHR 0x0A], ADVANCE 359)])"

definition ts_lex_case_286 :: lex_case where
  "ts_lex_case_286 = (Some sym_comment_content,
    [(AnyOf [Ch CHR ''a''], ADVANCE 358),
     (NoneOf [CHR 0x00, CHR 0x0A], ADVANCE 359)])"

definition ts_lex_case_287 :: lex_case where
  "ts_lex_case_287 = (Some sym_comment_content,
    [(AnyOf [Ch CHR ''a''], ADVANCE 292),
     (NoneOf [CHR 0x00, CHR 0x0A], ADVANCE 359)])"

definition ts_lex_case_288 :: lex_case where
  "ts_lex_case_288 = (Some sym_comment_content,
    [(AnyOf [Ch CHR ''a''], ADVANCE 343),
     (NoneOf [CHR 0x00, CHR 0x0A], ADVANCE 359)])"

definition ts_lex_case_289 :: lex_case where
  "ts_lex_case_289 = (Some sym_comment_content,
    [(AnyOf [Ch CHR ''a''], ADVANCE 349),
     (NoneOf [CHR 0x00, CHR 0x0A], ADVANCE 359)])"

definition ts_lex_case_290 :: lex_case where
  "ts_lex_case_290 = (Some sym_comment_content,
    [(AnyOf [Ch CHR ''b''], ADVANCE 324),
     (NoneOf [CHR 0x00, CHR 0x0A], ADVANCE 359)])"

definition ts_lex_case_291 :: lex_case where
  "ts_lex_case_291 = (Some sym_comment_content,
    [(AnyOf [Ch CHR ''c''], ADVANCE 317),
     (NoneOf [CHR 0x00, CHR 0x0A], ADVANCE 359)])"

definition ts_lex_case_292 :: lex_case where
  "ts_lex_case_292 = (Some sym_comment_content,
    [(AnyOf [Ch CHR ''c''], ADVANCE 311),
     (NoneOf [CHR 0x00, CHR 0x0A], ADVANCE 359)])"

definition ts_lex_case_293 :: lex_case where
  "ts_lex_case_293 = (Some sym_comment_content,
    [(AnyOf [Ch CHR ''c''], ADVANCE 319),
     (NoneOf [CHR 0x00, CHR 0x0A], ADVANCE 359)])"

definition ts_lex_case_294 :: lex_case where
  "ts_lex_case_294 = (Some sym_comment_content,
    [(AnyOf [Ch CHR ''d''], ADVANCE 295),
     (AnyOf [Ch CHR ''t''], ADVANCE 350),
     (NoneOf [CHR 0x00, CHR 0x0A], ADVANCE 359)])"

definition ts_lex_case_295 :: lex_case where
  "ts_lex_case_295 = (Some sym_comment_content,
    [(AnyOf [Ch CHR ''d''], ADVANCE 435),
     (NoneOf [CHR 0x00, CHR 0x0A], ADVANCE 359)])"

definition ts_lex_case_296 :: lex_case where
  "ts_lex_case_296 = (Some sym_comment_content,
    [(AnyOf [Ch CHR ''d''], ADVANCE 314),
     (NoneOf [CHR 0x00, CHR 0x0A], ADVANCE 359)])"

definition ts_lex_case_297 :: lex_case where
  "ts_lex_case_297 = (Some sym_comment_content,
    [(AnyOf [Ch CHR ''e''], ADVANCE 293),
     (AnyOf [Ch CHR ''i''], ADVANCE 344),
     (AnyOf [Ch CHR ''o''], ADVANCE 276),
     (NoneOf [CHR 0x00, CHR 0x0A], ADVANCE 359)])"

definition ts_lex_case_298 :: lex_case where
  "ts_lex_case_298 = (Some sym_comment_content,
    [(AnyOf [Ch CHR ''e''], ADVANCE 326),
     (AnyOf [Ch CHR ''i''], ADVANCE 345),
     (NoneOf [CHR 0x00, CHR 0x0A], ADVANCE 359)])"

definition ts_lex_case_299 :: lex_case where
  "ts_lex_case_299 = (Some sym_comment_content,
    [(AnyOf [Ch CHR ''e''], ADVANCE 327),
     (NoneOf [CHR 0x00, CHR 0x0A], ADVANCE 359)])"

definition ts_lex_case_300 :: lex_case where
  "ts_lex_case_300 = (Some sym_comment_content,
    [(AnyOf [Ch CHR ''e''], ADVANCE 274),
     (NoneOf [CHR 0x00, CHR 0x0A], ADVANCE 359)])"

definition ts_lex_case_301 :: lex_case where
  "ts_lex_case_301 = (Some sym_comment_content,
    [(AnyOf [Ch CHR ''e''], ADVANCE 427),
     (NoneOf [CHR 0x00, CHR 0x0A], ADVANCE 359)])"

definition ts_lex_case_302 :: lex_case where
  "ts_lex_case_302 = (Some sym_comment_content,
    [(AnyOf [Ch CHR ''e''], ADVANCE 438),
     (NoneOf [CHR 0x00, CHR 0x0A], ADVANCE 359)])"

definition ts_lex_case_303 :: lex_case where
  "ts_lex_case_303 = (Some sym_comment_content,
    [(AnyOf [Ch CHR ''e''], ADVANCE 346),
     (AnyOf [Ch CHR ''t''], ADVANCE 305),
     (NoneOf [CHR 0x00, CHR 0x0A], ADVANCE 359)])"

definition ts_lex_case_304 :: lex_case where
  "ts_lex_case_304 = (Some sym_comment_content,
    [(AnyOf [Ch CHR ''e''], ADVANCE 289),
     (NoneOf [CHR 0x00, CHR 0x0A], ADVANCE 359)])"

definition ts_lex_case_305 :: lex_case where
  "ts_lex_case_305 = (Some sym_comment_content,
    [(AnyOf [Ch CHR ''e''], ADVANCE 336),
     (NoneOf [CHR 0x00, CHR 0x0A], ADVANCE 359)])"

definition ts_lex_case_306 :: lex_case where
  "ts_lex_case_306 = (Some sym_comment_content,
    [(AnyOf [Ch CHR ''e''], ADVANCE 287),
     (NoneOf [CHR 0x00, CHR 0x0A], ADVANCE 359)])"

definition ts_lex_case_307 :: lex_case where
  "ts_lex_case_307 = (Some sym_comment_content,
    [(AnyOf [Ch CHR ''e''], ADVANCE 281),
     (NoneOf [CHR 0x00, CHR 0x0A], ADVANCE 359)])"

definition ts_lex_case_308 :: lex_case where
  "ts_lex_case_308 = (Some sym_comment_content,
    [(AnyOf [Ch CHR ''e''], ADVANCE 342),
     (NoneOf [CHR 0x00, CHR 0x0A], ADVANCE 359)])"

definition ts_lex_case_309 :: lex_case where
  "ts_lex_case_309 = (Some sym_comment_content,
    [(AnyOf [Ch CHR ''f''], ADVANCE 416),
     (AnyOf [Ch CHR ''n''], ADVANCE 335),
     (NoneOf [CHR 0x00, CHR 0x0A], ADVANCE 359)])"

definition ts_lex_case_310 :: lex_case where
  "ts_lex_case_310 = (Some sym_comment_content,
    [(AnyOf [Ch CHR ''g''], ADVANCE 282),
     (NoneOf [CHR 0x00, CHR 0x0A], ADVANCE 359)])"

definition ts_lex_case_311 :: lex_case where
  "ts_lex_case_311 = (Some sym_comment_content,
    [(AnyOf [Ch CHR ''h''], ADVANCE 424),
     (NoneOf [CHR 0x00, CHR 0x0A], ADVANCE 359)])"

definition ts_lex_case_312 :: lex_case where
  "ts_lex_case_312 = (Some sym_comment_content,
    [(AnyOf [Ch CHR ''h''], ADVANCE 316),
     (NoneOf [CHR 0x00, CHR 0x0A], ADVANCE 359)])"

definition ts_lex_case_313 :: lex_case where
  "ts_lex_case_313 = (Some sym_comment_content,
    [(AnyOf [Ch CHR ''i''], ADVANCE 321),
     (NoneOf [CHR 0x00, CHR 0x0A], ADVANCE 359)])"

definition ts_lex_case_314 :: lex_case where
  "ts_lex_case_314 = (Some sym_comment_content,
    [(AnyOf [Ch CHR ''i''], ADVANCE 329),
     (NoneOf [CHR 0x00, CHR 0x0A], ADVANCE 359)])"

definition ts_lex_case_315 :: lex_case where
  "ts_lex_case_315 = (Some sym_comment_content,
    [(AnyOf [Ch CHR ''i''], ADVANCE 347),
     (NoneOf [CHR 0x00, CHR 0x0A], ADVANCE 359)])"

definition ts_lex_case_316 :: lex_case where
  "ts_lex_case_316 = (Some sym_comment_content,
    [(AnyOf [Ch CHR ''i''], ADVANCE 325),
     (NoneOf [CHR 0x00, CHR 0x0A], ADVANCE 359)])"

definition ts_lex_case_317 :: lex_case where
  "ts_lex_case_317 = (Some sym_comment_content,
    [(AnyOf [Ch CHR ''k''], ADVANCE 283),
     (NoneOf [CHR 0x00, CHR 0x0A], ADVANCE 359)])"

definition ts_lex_case_318 :: lex_case where
  "ts_lex_case_318 = (Some sym_comment_content,
    [(AnyOf [Ch CHR ''l''], ADVANCE 396),
     (NoneOf [CHR 0x00, CHR 0x0A], ADVANCE 359)])"

definition ts_lex_case_319 :: lex_case where
  "ts_lex_case_319 = (Some sym_comment_content,
    [(AnyOf [Ch CHR ''l''], ADVANCE 288),
     (NoneOf [CHR 0x00, CHR 0x0A], ADVANCE 359)])"

definition ts_lex_case_320 :: lex_case where
  "ts_lex_case_320 = (Some sym_comment_content,
    [(AnyOf [Ch CHR ''l''], ADVANCE 332),
     (AnyOf [Ch CHR ''o''], ADVANCE 339),
     (NoneOf [CHR 0x00, CHR 0x0A], ADVANCE 359)])"

definition ts_lex_case_321 :: lex_case where
  "ts_lex_case_321 = (Some sym_comment_content,
    [(AnyOf [Ch CHR ''l''], ADVANCE 296),
     (NoneOf [CHR 0x00, CHR 0x0A], ADVANCE 359)])"

definition ts_lex_case_322 :: lex_case where
  "ts_lex_case_322 = (Some sym_comment_content,
    [(AnyOf [Ch CHR ''l''], ADVANCE 318),
     (NoneOf [CHR 0x00, CHR 0x0A], ADVANCE 359)])"

definition ts_lex_case_323 :: lex_case where
  "ts_lex_case_323 = (Some sym_comment_content,
    [(AnyOf [Ch CHR ''l''], ADVANCE 286),
     (NoneOf [CHR 0x00, CHR 0x0A], ADVANCE 359)])"

definition ts_lex_case_324 :: lex_case where
  "ts_lex_case_324 = (Some sym_comment_content,
    [(AnyOf [Ch CHR ''l''], ADVANCE 333),
     (NoneOf [CHR 0x00, CHR 0x0A], ADVANCE 359)])"

definition ts_lex_case_325 :: lex_case where
  "ts_lex_case_325 = (Some sym_comment_content,
    [(AnyOf [Ch CHR ''l''], ADVANCE 301),
     (NoneOf [CHR 0x00, CHR 0x0A], ADVANCE 359)])"

definition ts_lex_case_326 :: lex_case where
  "ts_lex_case_326 = (Some sym_comment_content,
    [(AnyOf [Ch CHR ''m''], ADVANCE 330),
     (AnyOf [Ch CHR ''p''], ADVANCE 304),
     (AnyOf [Ch CHR ''t''], ADVANCE 354),
     (NoneOf [CHR 0x00, CHR 0x0A], ADVANCE 359)])"

definition ts_lex_case_327 :: lex_case where
  "ts_lex_case_327 = (Some sym_comment_content,
    [(AnyOf [Ch CHR ''m''], ADVANCE 337),
     (NoneOf [CHR 0x00, CHR 0x0A], ADVANCE 359)])"

definition ts_lex_case_328 :: lex_case where
  "ts_lex_case_328 = (Some sym_comment_content,
    [(AnyOf [Ch CHR ''n''], ADVANCE 408),
     (NoneOf [CHR 0x00, CHR 0x0A], ADVANCE 359)])"

definition ts_lex_case_329 :: lex_case where
  "ts_lex_case_329 = (Some sym_comment_content,
    [(AnyOf [Ch CHR ''n''], ADVANCE 310),
     (NoneOf [CHR 0x00, CHR 0x0A], ADVANCE 359)])"

definition ts_lex_case_330 :: lex_case where
  "ts_lex_case_330 = (Some sym_comment_content,
    [(AnyOf [Ch CHR ''o''], ADVANCE 356),
     (NoneOf [CHR 0x00, CHR 0x0A], ADVANCE 359)])"

definition ts_lex_case_331 :: lex_case where
  "ts_lex_case_331 = (Some sym_comment_content,
    [(AnyOf [Ch CHR ''o''], ADVANCE 341),
     (NoneOf [CHR 0x00, CHR 0x0A], ADVANCE 359)])"

definition ts_lex_case_332 :: lex_case where
  "ts_lex_case_332 = (Some sym_comment_content,
    [(AnyOf [Ch CHR ''o''], ADVANCE 331),
     (NoneOf [CHR 0x00, CHR 0x0A], ADVANCE 359)])"

definition ts_lex_case_333 :: lex_case where
  "ts_lex_case_333 = (Some sym_comment_content,
    [(AnyOf [Ch CHR ''o''], ADVANCE 291),
     (NoneOf [CHR 0x00, CHR 0x0A], ADVANCE 359)])"

definition ts_lex_case_334 :: lex_case where
  "ts_lex_case_334 = (Some sym_comment_content,
    [(AnyOf [Ch CHR ''o''], ADVANCE 351),
     (NoneOf [CHR 0x00, CHR 0x0A], ADVANCE 359)])"

definition ts_lex_case_335 :: lex_case where
  "ts_lex_case_335 = (Some sym_comment_content,
    [(AnyOf [Ch CHR ''p''], ADVANCE 355),
     (NoneOf [CHR 0x00, CHR 0x0A], ADVANCE 359)])"

definition ts_lex_case_336 :: lex_case where
  "ts_lex_case_336 = (Some sym_comment_content,
    [(AnyOf [Ch CHR ''p''], ADVANCE 277),
     (NoneOf [CHR 0x00, CHR 0x0A], ADVANCE 359)])"

definition ts_lex_case_337 :: lex_case where
  "ts_lex_case_337 = (Some sym_comment_content,
    [(AnyOf [Ch CHR ''p''], ADVANCE 352),
     (NoneOf [CHR 0x00, CHR 0x0A], ADVANCE 359)])"

definition ts_lex_case_338 :: lex_case where
  "ts_lex_case_338 = (Some sym_comment_content,
    [(AnyOf [Ch CHR ''p''], ADVANCE 323),
     (NoneOf [CHR 0x00, CHR 0x0A], ADVANCE 359)])"

definition ts_lex_case_339 :: lex_case where
  "ts_lex_case_339 = (Some sym_comment_content,
    [(AnyOf [Ch CHR ''r''], ADVANCE 275),
     (NoneOf [CHR 0x00, CHR 0x0A], ADVANCE 359)])"

definition ts_lex_case_340 :: lex_case where
  "ts_lex_case_340 = (Some sym_comment_content,
    [(AnyOf [Ch CHR ''r''], ADVANCE 328),
     (NoneOf [CHR 0x00, CHR 0x0A], ADVANCE 359)])"

definition ts_lex_case_341 :: lex_case where
  "ts_lex_case_341 = (Some sym_comment_content,
    [(AnyOf [Ch CHR ''r''], ADVANCE 278),
     (NoneOf [CHR 0x00, CHR 0x0A], ADVANCE 359)])"

definition ts_lex_case_342 :: lex_case where
  "ts_lex_case_342 = (Some sym_comment_content,
    [(AnyOf [Ch CHR ''r''], ADVANCE 279),
     (NoneOf [CHR 0x00, CHR 0x0A], ADVANCE 359)])"

definition ts_lex_case_343 :: lex_case where
  "ts_lex_case_343 = (Some sym_comment_content,
    [(AnyOf [Ch CHR ''r''], ADVANCE 307),
     (NoneOf [CHR 0x00, CHR 0x0A], ADVANCE 359)])"

definition ts_lex_case_344 :: lex_case where
  "ts_lex_case_344 = (Some sym_comment_content,
    [(AnyOf [Ch CHR ''s''], ADVANCE 338),
     (NoneOf [CHR 0x00, CHR 0x0A], ADVANCE 359)])"

definition ts_lex_case_345 :: lex_case where
  "ts_lex_case_345 = (Some sym_comment_content,
    [(AnyOf [Ch CHR ''s''], ADVANCE 308),
     (NoneOf [CHR 0x00, CHR 0x0A], ADVANCE 359)])"

definition ts_lex_case_346 :: lex_case where
  "ts_lex_case_346 = (Some sym_comment_content,
    [(AnyOf [Ch CHR ''t''], ADVANCE 393),
     (NoneOf [CHR 0x00, CHR 0x0A], ADVANCE 359)])"

definition ts_lex_case_347 :: lex_case where
  "ts_lex_case_347 = (Some sym_comment_content,
    [(AnyOf [Ch CHR ''t''], ADVANCE 411),
     (NoneOf [CHR 0x00, CHR 0x0A], ADVANCE 359)])"

definition ts_lex_case_348 :: lex_case where
  "ts_lex_case_348 = (Some sym_comment_content,
    [(AnyOf [Ch CHR ''t''], ADVANCE 403),
     (NoneOf [CHR 0x00, CHR 0x0A], ADVANCE 359)])"

definition ts_lex_case_349 :: lex_case where
  "ts_lex_case_349 = (Some sym_comment_content,
    [(AnyOf [Ch CHR ''t''], ADVANCE 422),
     (NoneOf [CHR 0x00, CHR 0x0A], ADVANCE 359)])"

definition ts_lex_case_350 :: lex_case where
  "ts_lex_case_350 = (Some sym_comment_content,
    [(AnyOf [Ch CHR ''t''], ADVANCE 299),
     (NoneOf [CHR 0x00, CHR 0x0A], ADVANCE 359)])"

definition ts_lex_case_351 :: lex_case where
  "ts_lex_case_351 = (Some sym_comment_content,
    [(AnyOf [Ch CHR ''t''], ADVANCE 300),
     (NoneOf [CHR 0x00, CHR 0x0A], ADVANCE 359)])"

definition ts_lex_case_352 :: lex_case where
  "ts_lex_case_352 = (Some sym_comment_content,
    [(AnyOf [Ch CHR ''t''], ADVANCE 280),
     (NoneOf [CHR 0x00, CHR 0x0A], ADVANCE 359)])"

definition ts_lex_case_353 :: lex_case where
  "ts_lex_case_353 = (Some sym_comment_content,
    [(AnyOf [Ch CHR ''u''], ADVANCE 313),
     (NoneOf [CHR 0x00, CHR 0x0A], ADVANCE 359)])"

definition ts_lex_case_354 :: lex_case where
  "ts_lex_case_354 = (Some sym_comment_content,
    [(AnyOf [Ch CHR ''u''], ADVANCE 340),
     (NoneOf [CHR 0x00, CHR 0x0A], ADVANCE 359)])"

definition ts_lex_case_355 :: lex_case where
  "ts_lex_case_355 = (Some sym_comment_content,
    [(AnyOf [Ch CHR ''u''], ADVANCE 348),
     (NoneOf [CHR 0x00, CHR 0x0A], ADVANCE 359)])"

definition ts_lex_case_356 :: lex_case where
  "ts_lex_case_356 = (Some sym_comment_content,
    [(AnyOf [Ch CHR ''v''], ADVANCE 302),
     (NoneOf [CHR 0x00, CHR 0x0A], ADVANCE 359)])"

definition ts_lex_case_357 :: lex_case where
  "ts_lex_case_357 = (Some sym_comment_content,
    [(AnyOf [Ch CHR ''x''], ADVANCE 315),
     (NoneOf [CHR 0x00, CHR 0x0A], ADVANCE 359)])"

definition ts_lex_case_358 :: lex_case where
  "ts_lex_case_358 = (Some sym_comment_content,
    [(AnyOf [Ch CHR ''y''], ADVANCE 400),
     (NoneOf [CHR 0x00, CHR 0x0A], ADVANCE 359)])"

definition ts_lex_case_359 :: lex_case where
  "ts_lex_case_359 = (Some sym_comment_content,
    [(NoneOf [CHR 0x00, CHR 0x0A], ADVANCE 359)])"

definition ts_lex_case_360 :: lex_case where
  "ts_lex_case_360 = (Some sym_comment_content,
    [(Eof, ADVANCE 267),
     (AnyOf [Ch CHR ''a''], ADVANCE 294),
     (AnyOf [Ch CHR ''b''], ADVANCE 353),
     (AnyOf [Ch CHR ''c''], ADVANCE 285),
     (AnyOf [Ch CHR ''d''], ADVANCE 297),
     (AnyOf [Ch CHR ''e''], ADVANCE 357),
     (AnyOf [Ch CHR ''f''], ADVANCE 320),
     (AnyOf [Ch CHR ''i''], ADVANCE 309),
     (AnyOf [Ch CHR ''n''], ADVANCE 334),
     (AnyOf [Ch CHR ''r''], ADVANCE 298),
     (AnyOf [Ch CHR ''s''], ADVANCE 303),
     (AnyOf [Ch CHR ''w''], ADVANCE 312),
     (AnyOf [Ch CHR 0x09, Ch CHR '' ''], ADVANCE 284),
     (NoneOf [CHR 0x00, CHR 0x0A], ADVANCE 359)])"

definition ts_lex_case_361 :: lex_case where
  "ts_lex_case_361 = (Some anon_sym_noteblock_COLON, [])"

definition ts_lex_case_362 :: lex_case where
  "ts_lex_case_362 = (Some anon_sym_noteblock_COLON,
    [(NoneOf [CHR 0x00, CHR 0x0A], ADVANCE 359)])"

definition ts_lex_case_363 :: lex_case where
  "ts_lex_case_363 = (Some anon_sym_endnote, [])"

definition ts_lex_case_364 :: lex_case where
  "ts_lex_case_364 = (Some aux_sym_block_comment_content_token1,
    [(AnyOf [Ch CHR 0x09, Ch CHR '' ''], ADVANCE 364),
     (NoneOf [CHR 0x00, CHR ''e''], ADVANCE 365)])"

definition ts_lex_case_365 :: lex_case where
  "ts_lex_case_365 = (Some aux_sym_block_comment_content_token1,
    [(NoneOf [CHR 0x00, CHR ''e''], ADVANCE 365)])"

definition ts_lex_case_366 :: lex_case where
  "ts_lex_case_366 = (Some aux_sym_block_comment_content_token2, [])"

definition ts_lex_case_367 :: lex_case where
  "ts_lex_case_367 = (Some aux_sym_block_comment_content_token2,
    [(AnyOf [Ch CHR ''i''], ADVANCE 591),
     (AnyOf [Ch CHR ''p''], ADVANCE 513),
     (AnyOf [Rng CHR ''0'' CHR ''9'', Rng CHR ''A'' CHR ''Z'', Ch CHR ''_'', Rng CHR ''a'' CHR ''z''], ADVANCE 610)])"

definition ts_lex_case_368 :: lex_case where
  "ts_lex_case_368 = (Some aux_sym_block_comment_content_token2,
    [(AnyOf [Rng CHR ''0'' CHR ''9'', Rng CHR ''A'' CHR ''Z'', Ch CHR ''_'', Rng CHR ''a'' CHR ''z''], ADVANCE 610)])"

definition ts_lex_case_369 :: lex_case where
  "ts_lex_case_369 = (Some aux_sym_block_comment_content_token3, [])"

definition ts_lex_case_370 :: lex_case where
  "ts_lex_case_370 = (Some aux_sym_block_comment_content_token3,
    [(AnyOf [Rng CHR ''0'' CHR ''9'', Rng CHR ''A'' CHR ''Z'', Ch CHR ''_'', Rng CHR ''a'' CHR ''z''], ADVANCE 610)])"

definition ts_lex_case_371 :: lex_case where
  "ts_lex_case_371 = (Some aux_sym_block_comment_content_token4, [])"

definition ts_lex_case_372 :: lex_case where
  "ts_lex_case_372 = (Some aux_sym_block_comment_content_token4,
    [(AnyOf [Ch CHR '' ''], ADVANCE 246),
     (AnyOf [Rng CHR ''0'' CHR ''9'', Rng CHR ''A'' CHR ''Z'', Ch CHR ''_'', Rng CHR ''a'' CHR ''z''], ADVANCE 610)])"

definition ts_lex_case_373 :: lex_case where
  "ts_lex_case_373 = (Some aux_sym_block_comment_content_token4,
    [(AnyOf [Rng CHR ''0'' CHR ''9'', Rng CHR ''A'' CHR ''Z'', Ch CHR ''_'', Rng CHR ''a'' CHR ''z''], ADVANCE 610)])"

definition ts_lex_case_374 :: lex_case where
  "ts_lex_case_374 = (Some aux_sym_block_comment_content_token5, [])"

definition ts_lex_case_375 :: lex_case where
  "ts_lex_case_375 = (Some aux_sym_block_comment_content_token6, [])"

definition ts_lex_case_376 :: lex_case where
  "ts_lex_case_376 = (Some aux_sym_block_comment_content_token7, [])"

definition ts_lex_case_377 :: lex_case where
  "ts_lex_case_377 = (Some aux_sym_block_comment_content_token8, [])"

definition ts_lex_case_378 :: lex_case where
  "ts_lex_case_378 = (Some anon_sym_building_COLON, [])"

definition ts_lex_case_379 :: lex_case where
  "ts_lex_case_379 = (Some anon_sym_building_COLON,
    [(NoneOf [CHR 0x00, CHR 0x0A], ADVANCE 359)])"

definition ts_lex_case_380 :: lex_case where
  "ts_lex_case_380 = (Some anon_sym_floor_COLON, [])"

definition ts_lex_case_381 :: lex_case where
  "ts_lex_case_381 = (Some anon_sym_floor_COLON,
    [(NoneOf [CHR 0x00, CHR 0x0A], ADVANCE 359)])"

definition ts_lex_case_382 :: lex_case where
  "ts_lex_case_382 = (Some anon_sym_step_COLON, [])"

definition ts_lex_case_383 :: lex_case where
  "ts_lex_case_383 = (Some anon_sym_step_COLON,
    [(NoneOf [CHR 0x00, CHR 0x0A], ADVANCE 359)])"

definition ts_lex_case_384 :: lex_case where
  "ts_lex_case_384 = (Some anon_sym_riser_COLON, [])"

definition ts_lex_case_385 :: lex_case where
  "ts_lex_case_385 = (Some anon_sym_riser_COLON,
    [(NoneOf [CHR 0x00, CHR 0x0A], ADVANCE 359)])"

definition ts_lex_case_386 :: lex_case where
  "ts_lex_case_386 = (Some anon_sym_belongsto_COLON, [])"

definition ts_lex_case_387 :: lex_case where
  "ts_lex_case_387 = (Some anon_sym_expects_COLON, [])"

definition ts_lex_case_388 :: lex_case where
  "ts_lex_case_388 = (Some anon_sym_returns_COLON, [])"

definition ts_lex_case_389 :: lex_case where
  "ts_lex_case_389 = (Some anon_sym_COMMA, [])"

definition ts_lex_case_390 :: lex_case where
  "ts_lex_case_390 = (Some anon_sym_EQ, [])"

definition ts_lex_case_391 :: lex_case where
  "ts_lex_case_391 = (Some anon_sym_set, [])"

definition ts_lex_case_392 :: lex_case where
  "ts_lex_case_392 = (Some anon_sym_set,
    [(AnyOf [Rng CHR ''0'' CHR ''9'', Rng CHR ''A'' CHR ''Z'', Ch CHR ''_'', Rng CHR ''a'' CHR ''z''], ADVANCE 610)])"

definition ts_lex_case_393 :: lex_case where
  "ts_lex_case_393 = (Some anon_sym_set,
    [(NoneOf [CHR 0x00, CHR 0x0A], ADVANCE 359)])"

definition ts_lex_case_394 :: lex_case where
  "ts_lex_case_394 = (Some anon_sym_call, [])"

definition ts_lex_case_395 :: lex_case where
  "ts_lex_case_395 = (Some anon_sym_call,
    [(AnyOf [Rng CHR ''0'' CHR ''9'', Rng CHR ''A'' CHR ''Z'', Ch CHR ''_'', Rng CHR ''a'' CHR ''z''], ADVANCE 610)])"

definition ts_lex_case_396 :: lex_case where
  "ts_lex_case_396 = (Some anon_sym_call,
    [(NoneOf [CHR 0x00, CHR 0x0A], ADVANCE 359)])"

definition ts_lex_case_397 :: lex_case where
  "ts_lex_case_397 = (Some anon_sym_storingresultin, [])"

definition ts_lex_case_398 :: lex_case where
  "ts_lex_case_398 = (Some anon_sym_display, [])"

definition ts_lex_case_399 :: lex_case where
  "ts_lex_case_399 = (Some anon_sym_display,
    [(AnyOf [Rng CHR ''0'' CHR ''9'', Rng CHR ''A'' CHR ''Z'', Ch CHR ''_'', Rng CHR ''a'' CHR ''z''], ADVANCE 610)])"

definition ts_lex_case_400 :: lex_case where
  "ts_lex_case_400 = (Some anon_sym_display,
    [(NoneOf [CHR 0x00, CHR 0x0A], ADVANCE 359)])"

definition ts_lex_case_401 :: lex_case where
  "ts_lex_case_401 = (Some anon_sym_input, [])"

definition ts_lex_case_402 :: lex_case where
  "ts_lex_case_402 = (Some anon_sym_input,
    [(AnyOf [Rng CHR ''0'' CHR ''9'', Rng CHR ''A'' CHR ''Z'', Ch CHR ''_'', Rng CHR ''a'' CHR ''z''], ADVANCE 610)])"

definition ts_lex_case_403 :: lex_case where
  "ts_lex_case_403 = (Some anon_sym_input,
    [(NoneOf [CHR 0x00, CHR 0x0A], ADVANCE 359)])"

definition ts_lex_case_404 :: lex_case where
  "ts_lex_case_404 = (Some anon_sym_return, [])"

definition ts_lex_case_405 :: lex_case where
  "ts_lex_case_405 = (Some anon_sym_return,
    [(AnyOf [Ch CHR ''s''], ADVANCE 482),
     (AnyOf [Rng CHR ''0'' CHR ''9'', Rng CHR ''A'' CHR ''Z'', Ch CHR ''_'', Rng CHR ''a'' CHR ''z''], ADVANCE 610)])"

definition ts_lex_case_406 :: lex_case where
  "ts_lex_case_406 = (Some anon_sym_return,
    [(AnyOf [Ch CHR ''s''], ADVANCE 29)])"

definition ts_lex_case_407 :: lex_case where
  "ts_lex_case_407 = (Some anon_sym_return,
    [(AnyOf [Rng CHR ''0'' CHR ''9'', Rng CHR ''A'' CHR ''Z'', Ch CHR ''_'', Rng CHR ''a'' CHR ''z''], ADVANCE 610)])"

definition ts_lex_case_408 :: lex_case where
  "ts_lex_case_408 = (Some anon_sym_return,
    [(NoneOf [CHR 0x00, CHR 0x0A], ADVANCE 359)])"

definition ts_lex_case_409 :: lex_case where
  "ts_lex_case_409 = (Some sym_exit_statement, [])"

definition ts_lex_case_410 :: lex_case where
  "ts_lex_case_410 = (Some sym_exit_statement,
    [(AnyOf [Rng CHR ''0'' CHR ''9'', Rng CHR ''A'' CHR ''Z'', Ch CHR ''_'', Rng CHR ''a'' CHR ''z''], ADVANCE 610)])"

definition ts_lex_case_411 :: lex_case where
  "ts_lex_case_411 = (Some sym_exit_statement,
    [(NoneOf [CHR 0x00, CHR 0x0A], ADVANCE 359)])"

definition ts_lex_case_412 :: lex_case where
  "ts_lex_case_412 = (Some anon_sym_if, [])"

definition ts_lex_case_413 :: lex_case where
  "ts_lex_case_413 = (Some anon_sym_if,
    [(AnyOf [Ch CHR '' ''], ADVANCE 232)])"

definition ts_lex_case_414 :: lex_case where
  "ts_lex_case_414 = (Some anon_sym_if,
    [(AnyOf [Ch CHR '' ''], ADVANCE 232),
     (AnyOf [Rng CHR ''0'' CHR ''9'', Rng CHR ''A'' CHR ''Z'', Ch CHR ''_'', Rng CHR ''a'' CHR ''z''], ADVANCE 610)])"

definition ts_lex_case_415 :: lex_case where
  "ts_lex_case_415 = (Some anon_sym_if,
    [(AnyOf [Rng CHR ''0'' CHR ''9'', Rng CHR ''A'' CHR ''Z'', Ch CHR ''_'', Rng CHR ''a'' CHR ''z''], ADVANCE 610)])"

definition ts_lex_case_416 :: lex_case where
  "ts_lex_case_416 = (Some anon_sym_if,
    [(NoneOf [CHR 0x00, CHR 0x0A], ADVANCE 359)])"

definition ts_lex_case_417 :: lex_case where
  "ts_lex_case_417 = (Some anon_sym_otherwiseif, [])"

definition ts_lex_case_418 :: lex_case where
  "ts_lex_case_418 = (Some anon_sym_otherwise,
    [(AnyOf [Ch CHR '' ''], ADVANCE 108)])"

definition ts_lex_case_419 :: lex_case where
  "ts_lex_case_419 = (Some anon_sym_otherwise,
    [(AnyOf [Ch CHR '' ''], ADVANCE 108),
     (AnyOf [Rng CHR ''0'' CHR ''9'', Rng CHR ''A'' CHR ''Z'', Ch CHR ''_'', Rng CHR ''a'' CHR ''z''], ADVANCE 610)])"

definition ts_lex_case_420 :: lex_case where
  "ts_lex_case_420 = (Some anon_sym_repeat, [])"

definition ts_lex_case_421 :: lex_case where
  "ts_lex_case_421 = (Some anon_sym_repeat,
    [(AnyOf [Rng CHR ''0'' CHR ''9'', Rng CHR ''A'' CHR ''Z'', Ch CHR ''_'', Rng CHR ''a'' CHR ''z''], ADVANCE 610)])"

definition ts_lex_case_422 :: lex_case where
  "ts_lex_case_422 = (Some anon_sym_repeat,
    [(NoneOf [CHR 0x00, CHR 0x0A], ADVANCE 359)])"

definition ts_lex_case_423 :: lex_case where
  "ts_lex_case_423 = (Some anon_sym_foreach, [])"

definition ts_lex_case_424 :: lex_case where
  "ts_lex_case_424 = (Some anon_sym_foreach,
    [(NoneOf [CHR 0x00, CHR 0x0A], ADVANCE 359)])"

definition ts_lex_case_425 :: lex_case where
  "ts_lex_case_425 = (Some anon_sym_while, [])"

definition ts_lex_case_426 :: lex_case where
  "ts_lex_case_426 = (Some anon_sym_while,
    [(AnyOf [Rng CHR ''0'' CHR ''9'', Rng CHR ''A'' CHR ''Z'', Ch CHR ''_'', Rng CHR ''a'' CHR ''z''], ADVANCE 610)])"

definition ts_lex_case_427 :: lex_case where
  "ts_lex_case_427 = (Some anon_sym_while,
    [(NoneOf [CHR 0x00, CHR 0x0A], ADVANCE 359)])"

definition ts_lex_case_428 :: lex_case where
  "ts_lex_case_428 = (Some anon_sym_attempt_COLON, [])"

definition ts_lex_case_429 :: lex_case where
  "ts_lex_case_429 = (Some anon_sym_attempt_COLON,
    [(NoneOf [CHR 0x00, CHR 0x0A], ADVANCE 359)])"

definition ts_lex_case_430 :: lex_case where
  "ts_lex_case_430 = (Some anon_sym_ifunsuccessful_COLON, [])"

definition ts_lex_case_431 :: lex_case where
  "ts_lex_case_431 = (Some anon_sym_thencontinue_COLON, [])"

definition ts_lex_case_432 :: lex_case where
  "ts_lex_case_432 = (Some anon_sym_add, [])"

definition ts_lex_case_433 :: lex_case where
  "ts_lex_case_433 = (Some anon_sym_add,
    [(AnyOf [Ch CHR ''e''], ADVANCE 497),
     (AnyOf [Rng CHR ''0'' CHR ''9'', Rng CHR ''A'' CHR ''Z'', Ch CHR ''_'', Rng CHR ''a'' CHR ''z''], ADVANCE 610)])"

definition ts_lex_case_434 :: lex_case where
  "ts_lex_case_434 = (Some anon_sym_add,
    [(AnyOf [Rng CHR ''0'' CHR ''9'', Rng CHR ''A'' CHR ''Z'', Ch CHR ''_'', Rng CHR ''a'' CHR ''z''], ADVANCE 610)])"

definition ts_lex_case_435 :: lex_case where
  "ts_lex_case_435 = (Some anon_sym_add,
    [(NoneOf [CHR 0x00, CHR 0x0A], ADVANCE 359)])"

definition ts_lex_case_436 :: lex_case where
  "ts_lex_case_436 = (Some anon_sym_remove, [])"

definition ts_lex_case_437 :: lex_case where
  "ts_lex_case_437 = (Some anon_sym_remove,
    [(AnyOf [Rng CHR ''0'' CHR ''9'', Rng CHR ''A'' CHR ''Z'', Ch CHR ''_'', Rng CHR ''a'' CHR ''z''], ADVANCE 610)])"

definition ts_lex_case_438 :: lex_case where
  "ts_lex_case_438 = (Some anon_sym_remove,
    [(NoneOf [CHR 0x00, CHR 0x0A], ADVANCE 359)])"

definition ts_lex_case_439 :: lex_case where
  "ts_lex_case_439 = (Some sym_number,
    [(AnyOf [Ch CHR ''.''], ADVANCE 255),
     (AnyOf [Rng CHR ''0'' CHR ''9''], ADVANCE 439)])"

definition ts_lex_case_440 :: lex_case where
  "ts_lex_case_440 = (Some sym_number,
    [(AnyOf [Rng CHR ''0'' CHR ''9''], ADVANCE 440)])"

definition ts_lex_case_441 :: lex_case where
  "ts_lex_case_441 = (Some anon_sym_DQUOTE, [])"

definition ts_lex_case_442 :: lex_case where
  "ts_lex_case_442 = (Some aux_sym_string_content_token1,
    [(AnyOf [Ch CHR 0x09, Ch CHR '' ''], ADVANCE 442),
     (NoneOf [CHR 0x00, CHR 0x22, CHR 0x5C], ADVANCE 443)])"

definition ts_lex_case_443 :: lex_case where
  "ts_lex_case_443 = (Some aux_sym_string_content_token1,
    [(NoneOf [CHR 0x00, CHR 0x22, CHR 0x5C], ADVANCE 443)])"

definition ts_lex_case_444 :: lex_case where
  "ts_lex_case_444 = (Some sym_escape_sequence, [])"

definition ts_lex_case_445 :: lex_case where
  "ts_lex_case_445 = (Some anon_sym_LBRACK, [])"

definition ts_lex_case_446 :: lex_case where
  "ts_lex_case_446 = (Some anon_sym_RBRACK, [])"

definition ts_lex_case_447 :: lex_case where
  "ts_lex_case_447 = (Some anon_sym_PLUS, [])"

definition ts_lex_case_448 :: lex_case where
  "ts_lex_case_448 = (Some anon_sym_DASH, [])"

definition ts_lex_case_449 :: lex_case where
  "ts_lex_case_449 = (Some anon_sym_STAR, [])"

definition ts_lex_case_450 :: lex_case where
  "ts_lex_case_450 = (Some anon_sym_SLASH, [])"

definition ts_lex_case_451 :: lex_case where
  "ts_lex_case_451 = (Some anon_sym_isequalto, [])"

definition ts_lex_case_452 :: lex_case where
  "ts_lex_case_452 = (Some anon_sym_isnotequalto, [])"

definition ts_lex_case_453 :: lex_case where
  "ts_lex_case_453 = (Some anon_sym_islessthan,
    [(AnyOf [Ch CHR '' ''], ADVANCE 168)])"

definition ts_lex_case_454 :: lex_case where
  "ts_lex_case_454 = (Some anon_sym_isgreaterthan,
    [(AnyOf [Ch CHR '' ''], ADVANCE 174)])"

definition ts_lex_case_455 :: lex_case where
  "ts_lex_case_455 = (Some anon_sym_islessthanorequalto, [])"

definition ts_lex_case_456 :: lex_case where
  "ts_lex_case_456 = (Some anon_sym_isgreaterthanorequalto, [])"

definition ts_lex_case_457 :: lex_case where
  "ts_lex_case_457 = (Some anon_sym_addedto, [])"

definition ts_lex_case_458 :: lex_case where
  "ts_lex_case_458 = (Some anon_sym_startswith, [])"

definition ts_lex_case_459 :: lex_case where
  "ts_lex_case_459 = (Some anon_sym_endswith, [])"

definition ts_lex_case_460 :: lex_case where
  "ts_lex_case_460 = (Some anon_sym_isin, [])"

definition ts_lex_case_461 :: lex_case where
  "ts_lex_case_461 = (Some anon_sym_lengthof, [])"

definition ts_lex_case_462 :: lex_case where
  "ts_lex_case_462 = (Some anon_sym_LPAREN, [])"

definition ts_lex_case_463 :: lex_case where
  "ts_lex_case_463 = (Some anon_sym_RPAREN, [])"

definition ts_lex_case_464 :: lex_case where
  "ts_lex_case_464 = (Some sym_identifier,
    [(AnyOf [Ch CHR '' ''], ADVANCE 60),
     (AnyOf [Rng CHR ''0'' CHR ''9'', Rng CHR ''A'' CHR ''Z'', Ch CHR ''_'', Rng CHR ''a'' CHR ''z''], ADVANCE 610)])"

definition ts_lex_case_465 :: lex_case where
  "ts_lex_case_465 = (Some sym_identifier,
    [(AnyOf [Ch CHR '' ''], ADVANCE 3),
     (AnyOf [Ch CHR ''s''], ADVANCE 372),
     (AnyOf [Rng CHR ''0'' CHR ''9'', Rng CHR ''A'' CHR ''Z'', Ch CHR ''_'', Rng CHR ''a'' CHR ''z''], ADVANCE 373),
     (NoneOf [CHR 0x00], ADVANCE 371)])"

definition ts_lex_case_466 :: lex_case where
  "ts_lex_case_466 = (Some sym_identifier,
    [(AnyOf [Ch CHR '' ''], ADVANCE 61),
     (AnyOf [Rng CHR ''0'' CHR ''9'', Rng CHR ''A'' CHR ''Z'', Ch CHR ''_'', Rng CHR ''a'' CHR ''z''], ADVANCE 610)])"

definition ts_lex_case_467 :: lex_case where
  "ts_lex_case_467 = (Some sym_identifier,
    [(AnyOf [Ch CHR '' ''], ADVANCE 246),
     (AnyOf [Rng CHR ''0'' CHR ''9'', Rng CHR ''A'' CHR ''Z'', Ch CHR ''_'', Rng CHR ''a'' CHR ''z''], ADVANCE 610)])"

definition ts_lex_case_468 :: lex_case where
  "ts_lex_case_468 = (Some sym_identifier,
    [(AnyOf [Ch CHR '' ''], ADVANCE 47),
     (AnyOf [Ch CHR '':''], ADVANCE 272),
     (AnyOf [Rng CHR ''0'' CHR ''9'', Rng CHR ''A'' CHR ''Z'', Ch CHR ''_'', Rng CHR ''a'' CHR ''z''], ADVANCE 610)])"

definition ts_lex_case_469 :: lex_case where
  "ts_lex_case_469 = (Some sym_identifier,
    [(AnyOf [Ch CHR '' ''], ADVANCE 50),
     (AnyOf [Rng CHR ''0'' CHR ''9'', Rng CHR ''A'' CHR ''Z'', Ch CHR ''_'', Rng CHR ''a'' CHR ''z''], ADVANCE 610)])"

definition ts_lex_case_470 :: lex_case where
  "ts_lex_case_470 = (Some sym_identifier,
    [(AnyOf [Ch CHR '' ''], ADVANCE 183),
     (AnyOf [Rng CHR ''0'' CHR ''9'', Rng CHR ''A'' CHR ''Z'', Ch CHR ''_'', Rng CHR ''a'' CHR ''z''], ADVANCE 610)])"

definition ts_lex_case_471 :: lex_case where
  "ts_lex_case_471 = (Some sym_identifier,
    [(AnyOf [Ch CHR '' ''], ADVANCE 216),
     (AnyOf [Rng CHR ''0'' CHR ''9'', Rng CHR ''A'' CHR ''Z'', Ch CHR ''_'', Rng CHR ''a'' CHR ''z''], ADVANCE 610)])"

definition ts_lex_case_472 :: lex_case where
  "ts_lex_case_472 = (Some sym_identifier,
    [(AnyOf [Ch CHR '' ''], ADVANCE 159),
     (AnyOf [Rng CHR ''0'' CHR ''9'', Rng CHR ''A'' CHR ''Z'', Ch CHR ''_'', Rng CHR ''a'' CHR ''z''], ADVANCE 610)])"

definition ts_lex_case_473 :: lex_case where
  "ts_lex_case_473 = (Some sym_identifier,
    [(AnyOf [Ch CHR '' ''], ADVANCE 221),
     (AnyOf [Rng CHR ''0'' CHR ''9'', Rng CHR ''A'' CHR ''Z'', Ch CHR ''_'', Rng CHR ''a'' CHR ''z''], ADVANCE 610)])"

definition ts_lex_case_474 :: lex_case where
  "ts_lex_case_474 = (Some sym_identifier,
    [(AnyOf [Ch CHR '' ''], ADVANCE 248),
     (AnyOf [Rng CHR ''0'' CHR ''9'', Rng CHR ''A'' CHR ''Z'', Ch CHR ''_'', Rng CHR ''a'' CHR ''z''], ADVANCE 610)])"

definition ts_lex_case_475 :: lex_case where
  "ts_lex_case_475 = (Some sym_identifier,
    [(AnyOf [Ch CHR '':''], ADVANCE 268),
     (AnyOf [Rng CHR ''0'' CHR ''9'', Rng CHR ''A'' CHR ''Z'', Ch CHR ''_'', Rng CHR ''a'' CHR ''z''], ADVANCE 610)])"

definition ts_lex_case_476 :: lex_case where
  "ts_lex_case_476 = (Some sym_identifier,
    [(AnyOf [Ch CHR '':''], ADVANCE 382),
     (AnyOf [Rng CHR ''0'' CHR ''9'', Rng CHR ''A'' CHR ''Z'', Ch CHR ''_'', Rng CHR ''a'' CHR ''z''], ADVANCE 610)])"

definition ts_lex_case_477 :: lex_case where
  "ts_lex_case_477 = (Some sym_identifier,
    [(AnyOf [Ch CHR '':''], ADVANCE 380),
     (AnyOf [Rng CHR ''0'' CHR ''9'', Rng CHR ''A'' CHR ''Z'', Ch CHR ''_'', Rng CHR ''a'' CHR ''z''], ADVANCE 610)])"

definition ts_lex_case_478 :: lex_case where
  "ts_lex_case_478 = (Some sym_identifier,
    [(AnyOf [Ch CHR '':''], ADVANCE 384),
     (AnyOf [Rng CHR ''0'' CHR ''9'', Rng CHR ''A'' CHR ''Z'', Ch CHR ''_'', Rng CHR ''a'' CHR ''z''], ADVANCE 610)])"

definition ts_lex_case_479 :: lex_case where
  "ts_lex_case_479 = (Some sym_identifier,
    [(AnyOf [Ch CHR '':''], ADVANCE 428),
     (AnyOf [Rng CHR ''0'' CHR ''9'', Rng CHR ''A'' CHR ''Z'', Ch CHR ''_'', Rng CHR ''a'' CHR ''z''], ADVANCE 610)])"

definition ts_lex_case_480 :: lex_case where
  "ts_lex_case_480 = (Some sym_identifier,
    [(AnyOf [Ch CHR '':''], ADVANCE 270),
     (AnyOf [Rng CHR ''0'' CHR ''9'', Rng CHR ''A'' CHR ''Z'', Ch CHR ''_'', Rng CHR ''a'' CHR ''z''], ADVANCE 610)])"

definition ts_lex_case_481 :: lex_case where
  "ts_lex_case_481 = (Some sym_identifier,
    [(AnyOf [Ch CHR '':''], ADVANCE 387),
     (AnyOf [Rng CHR ''0'' CHR ''9'', Rng CHR ''A'' CHR ''Z'', Ch CHR ''_'', Rng CHR ''a'' CHR ''z''], ADVANCE 610)])"

definition ts_lex_case_482 :: lex_case where
  "ts_lex_case_482 = (Some sym_identifier,
    [(AnyOf [Ch CHR '':''], ADVANCE 388),
     (AnyOf [Rng CHR ''0'' CHR ''9'', Rng CHR ''A'' CHR ''Z'', Ch CHR ''_'', Rng CHR ''a'' CHR ''z''], ADVANCE 610)])"

definition ts_lex_case_483 :: lex_case where
  "ts_lex_case_483 = (Some sym_identifier,
    [(AnyOf [Ch CHR '':''], ADVANCE 378),
     (AnyOf [Rng CHR ''0'' CHR ''9'', Rng CHR ''A'' CHR ''Z'', Ch CHR ''_'', Rng CHR ''a'' CHR ''z''], ADVANCE 610)])"

definition ts_lex_case_484 :: lex_case where
  "ts_lex_case_484 = (Some sym_identifier,
    [(AnyOf [Ch CHR ''a''], ADVANCE 609),
     (AnyOf [Rng CHR ''0'' CHR ''9'', Rng CHR ''A'' CHR ''Z'', Ch CHR ''_'', Rng CHR ''b'' CHR ''z''], ADVANCE 610)])"

definition ts_lex_case_485 :: lex_case where
  "ts_lex_case_485 = (Some sym_identifier,
    [(AnyOf [Ch CHR ''a''], ADVANCE 549),
     (AnyOf [Rng CHR ''0'' CHR ''9'', Rng CHR ''A'' CHR ''Z'', Ch CHR ''_'', Rng CHR ''b'' CHR ''z''], ADVANCE 610)])"

definition ts_lex_case_486 :: lex_case where
  "ts_lex_case_486 = (Some sym_identifier,
    [(AnyOf [Ch CHR ''a''], ADVANCE 580),
     (AnyOf [Ch CHR ''e''], ADVANCE 569),
     (AnyOf [Ch CHR ''o''], ADVANCE 574),
     (AnyOf [Rng CHR ''0'' CHR ''9'', Rng CHR ''A'' CHR ''Z'', Ch CHR ''_'', Rng CHR ''b'' CHR ''z''], ADVANCE 610)])"

definition ts_lex_case_487 :: lex_case where
  "ts_lex_case_487 = (Some sym_identifier,
    [(AnyOf [Ch CHR ''a''], ADVANCE 580),
     (AnyOf [Ch CHR ''e''], ADVANCE 569),
     (AnyOf [Rng CHR ''0'' CHR ''9'', Rng CHR ''A'' CHR ''Z'', Ch CHR ''_'', Rng CHR ''b'' CHR ''z''], ADVANCE 610)])"

definition ts_lex_case_488 :: lex_case where
  "ts_lex_case_488 = (Some sym_identifier,
    [(AnyOf [Ch CHR ''a''], ADVANCE 580),
     (AnyOf [Rng CHR ''0'' CHR ''9'', Rng CHR ''A'' CHR ''Z'', Ch CHR ''_'', Rng CHR ''b'' CHR ''z''], ADVANCE 610)])"

definition ts_lex_case_489 :: lex_case where
  "ts_lex_case_489 = (Some sym_identifier,
    [(AnyOf [Ch CHR ''a''], ADVANCE 592),
     (AnyOf [Rng CHR ''0'' CHR ''9'', Rng CHR ''A'' CHR ''Z'', Ch CHR ''_'', Rng CHR ''b'' CHR ''z''], ADVANCE 610)])"

definition ts_lex_case_490 :: lex_case where
  "ts_lex_case_490 = (Some sym_identifier,
    [(AnyOf [Ch CHR ''a''], ADVANCE 581),
     (AnyOf [Rng CHR ''0'' CHR ''9'', Rng CHR ''A'' CHR ''Z'', Ch CHR ''_'', Rng CHR ''b'' CHR ''z''], ADVANCE 610)])"

definition ts_lex_case_491 :: lex_case where
  "ts_lex_case_491 = (Some sym_identifier,
    [(AnyOf [Ch CHR ''c''], ADVANCE 544),
     (AnyOf [Rng CHR ''0'' CHR ''9'', Rng CHR ''A'' CHR ''Z'', Ch CHR ''_'', Rng CHR ''a'' CHR ''z''], ADVANCE 610)])"

definition ts_lex_case_492 :: lex_case where
  "ts_lex_case_492 = (Some sym_identifier,
    [(AnyOf [Ch CHR ''c''], ADVANCE 599),
     (AnyOf [Rng CHR ''0'' CHR ''9'', Rng CHR ''A'' CHR ''Z'', Ch CHR ''_'', Rng CHR ''a'' CHR ''z''], ADVANCE 610)])"

definition ts_lex_case_493 :: lex_case where
  "ts_lex_case_493 = (Some sym_identifier,
    [(AnyOf [Ch CHR ''d''], ADVANCE 494),
     (AnyOf [Ch CHR ''t''], ADVANCE 594),
     (AnyOf [Rng CHR ''0'' CHR ''9'', Rng CHR ''A'' CHR ''Z'', Ch CHR ''_'', Rng CHR ''a'' CHR ''z''], ADVANCE 610)])"

definition ts_lex_case_494 :: lex_case where
  "ts_lex_case_494 = (Some sym_identifier,
    [(AnyOf [Ch CHR ''d''], ADVANCE 433),
     (AnyOf [Rng CHR ''0'' CHR ''9'', Rng CHR ''A'' CHR ''Z'', Ch CHR ''_'', Rng CHR ''a'' CHR ''z''], ADVANCE 610)])"

definition ts_lex_case_495 :: lex_case where
  "ts_lex_case_495 = (Some sym_identifier,
    [(AnyOf [Ch CHR ''d''], ADVANCE 465),
     (AnyOf [Rng CHR ''0'' CHR ''9'', Rng CHR ''A'' CHR ''Z'', Ch CHR ''_'', Rng CHR ''a'' CHR ''z''], ADVANCE 370),
     (NoneOf [CHR 0x00], ADVANCE 369)])"

definition ts_lex_case_496 :: lex_case where
  "ts_lex_case_496 = (Some sym_identifier,
    [(AnyOf [Ch CHR ''d''], ADVANCE 434),
     (AnyOf [Rng CHR ''0'' CHR ''9'', Rng CHR ''A'' CHR ''Z'', Ch CHR ''_'', Rng CHR ''a'' CHR ''z''], ADVANCE 610)])"

definition ts_lex_case_497 :: lex_case where
  "ts_lex_case_497 = (Some sym_identifier,
    [(AnyOf [Ch CHR ''d''], ADVANCE 471),
     (AnyOf [Rng CHR ''0'' CHR ''9'', Rng CHR ''A'' CHR ''Z'', Ch CHR ''_'', Rng CHR ''a'' CHR ''z''], ADVANCE 610)])"

definition ts_lex_case_498 :: lex_case where
  "ts_lex_case_498 = (Some sym_identifier,
    [(AnyOf [Ch CHR ''d''], ADVANCE 496),
     (AnyOf [Ch CHR ''t''], ADVANCE 594),
     (AnyOf [Rng CHR ''0'' CHR ''9'', Rng CHR ''A'' CHR ''Z'', Ch CHR ''_'', Rng CHR ''a'' CHR ''z''], ADVANCE 610)])"

definition ts_lex_case_499 :: lex_case where
  "ts_lex_case_499 = (Some sym_identifier,
    [(AnyOf [Ch CHR ''d''], ADVANCE 500),
     (AnyOf [Rng CHR ''0'' CHR ''9'', Rng CHR ''A'' CHR ''Z'', Ch CHR ''_'', Rng CHR ''a'' CHR ''z''], ADVANCE 610)])"

definition ts_lex_case_500 :: lex_case where
  "ts_lex_case_500 = (Some sym_identifier,
    [(AnyOf [Ch CHR ''d''], ADVANCE 512),
     (AnyOf [Rng CHR ''0'' CHR ''9'', Rng CHR ''A'' CHR ''Z'', Ch CHR ''_'', Rng CHR ''a'' CHR ''z''], ADVANCE 610)])"

definition ts_lex_case_501 :: lex_case where
  "ts_lex_case_501 = (Some sym_identifier,
    [(AnyOf [Ch CHR ''d''], ADVANCE 542),
     (AnyOf [Rng CHR ''0'' CHR ''9'', Rng CHR ''A'' CHR ''Z'', Ch CHR ''_'', Rng CHR ''a'' CHR ''z''], ADVANCE 610)])"

definition ts_lex_case_502 :: lex_case where
  "ts_lex_case_502 = (Some sym_identifier,
    [(AnyOf [Ch CHR ''d''], ADVANCE 589),
     (AnyOf [Rng CHR ''0'' CHR ''9'', Rng CHR ''A'' CHR ''Z'', Ch CHR ''_'', Rng CHR ''a'' CHR ''z''], ADVANCE 610)])"

definition ts_lex_case_503 :: lex_case where
  "ts_lex_case_503 = (Some sym_identifier,
    [(AnyOf [Ch CHR ''e''], ADVANCE 546),
     (AnyOf [Ch CHR ''u''], ADVANCE 537),
     (AnyOf [Rng CHR ''0'' CHR ''9'', Rng CHR ''A'' CHR ''Z'', Ch CHR ''_'', Rng CHR ''a'' CHR ''z''], ADVANCE 610)])"

definition ts_lex_case_504 :: lex_case where
  "ts_lex_case_504 = (Some sym_identifier,
    [(AnyOf [Ch CHR ''e''], ADVANCE 491),
     (AnyOf [Ch CHR ''i''], ADVANCE 583),
     (AnyOf [Ch CHR ''o''], ADVANCE 475),
     (AnyOf [Rng CHR ''0'' CHR ''9'', Rng CHR ''A'' CHR ''Z'', Ch CHR ''_'', Rng CHR ''a'' CHR ''z''], ADVANCE 610)])"

definition ts_lex_case_505 :: lex_case where
  "ts_lex_case_505 = (Some sym_identifier,
    [(AnyOf [Ch CHR ''e''], ADVANCE 555),
     (AnyOf [Rng CHR ''0'' CHR ''9'', Rng CHR ''A'' CHR ''Z'', Ch CHR ''_'', Rng CHR ''a'' CHR ''z''], ADVANCE 610)])"

definition ts_lex_case_506 :: lex_case where
  "ts_lex_case_506 = (Some sym_identifier,
    [(AnyOf [Ch CHR ''e''], ADVANCE 552),
     (AnyOf [Ch CHR ''i''], ADVANCE 588),
     (AnyOf [Rng CHR ''0'' CHR ''9'', Rng CHR ''A'' CHR ''Z'', Ch CHR ''_'', Rng CHR ''a'' CHR ''z''], ADVANCE 610)])"

definition ts_lex_case_507 :: lex_case where
  "ts_lex_case_507 = (Some sym_identifier,
    [(AnyOf [Ch CHR ''e''], ADVANCE 551),
     (AnyOf [Rng CHR ''0'' CHR ''9'', Rng CHR ''A'' CHR ''Z'', Ch CHR ''_'', Rng CHR ''a'' CHR ''z''], ADVANCE 610)])"

definition ts_lex_case_508 :: lex_case where
  "ts_lex_case_508 = (Some sym_identifier,
    [(AnyOf [Ch CHR ''e''], ADVANCE 468),
     (AnyOf [Rng CHR ''0'' CHR ''9'', Rng CHR ''A'' CHR ''Z'', Ch CHR ''_'', Rng CHR ''a'' CHR ''z''], ADVANCE 610)])"

definition ts_lex_case_509 :: lex_case where
  "ts_lex_case_509 = (Some sym_identifier,
    [(AnyOf [Ch CHR ''e''], ADVANCE 426),
     (AnyOf [Rng CHR ''0'' CHR ''9'', Rng CHR ''A'' CHR ''Z'', Ch CHR ''_'', Rng CHR ''a'' CHR ''z''], ADVANCE 610)])"

definition ts_lex_case_510 :: lex_case where
  "ts_lex_case_510 = (Some sym_identifier,
    [(AnyOf [Ch CHR ''e''], ADVANCE 437),
     (AnyOf [Rng CHR ''0'' CHR ''9'', Rng CHR ''A'' CHR ''Z'', Ch CHR ''_'', Rng CHR ''a'' CHR ''z''], ADVANCE 610)])"

definition ts_lex_case_511 :: lex_case where
  "ts_lex_case_511 = (Some sym_identifier,
    [(AnyOf [Ch CHR ''e''], ADVANCE 419),
     (AnyOf [Rng CHR ''0'' CHR ''9'', Rng CHR ''A'' CHR ''Z'', Ch CHR ''_'', Rng CHR ''a'' CHR ''z''], ADVANCE 610)])"

definition ts_lex_case_512 :: lex_case where
  "ts_lex_case_512 = (Some sym_identifier,
    [(AnyOf [Ch CHR ''e''], ADVANCE 497),
     (AnyOf [Rng CHR ''0'' CHR ''9'', Rng CHR ''A'' CHR ''Z'', Ch CHR ''_'', Rng CHR ''a'' CHR ''z''], ADVANCE 610)])"

definition ts_lex_case_513 :: lex_case where
  "ts_lex_case_513 = (Some sym_identifier,
    [(AnyOf [Ch CHR ''e''], ADVANCE 492),
     (AnyOf [Rng CHR ''0'' CHR ''9'', Rng CHR ''A'' CHR ''Z'', Ch CHR ''_'', Rng CHR ''a'' CHR ''z''], ADVANCE 610)])"

definition ts_lex_case_514 :: lex_case where
  "ts_lex_case_514 = (Some sym_identifier,
    [(AnyOf [Ch CHR ''e''], ADVANCE 559),
     (AnyOf [Rng CHR ''0'' CHR ''9'', Rng CHR ''A'' CHR ''Z'', Ch CHR ''_'', Rng CHR ''a'' CHR ''z''], ADVANCE 610)])"

definition ts_lex_case_515 :: lex_case where
  "ts_lex_case_515 = (Some sym_identifier,
    [(AnyOf [Ch CHR ''e''], ADVANCE 569),
     (AnyOf [Ch CHR ''o''], ADVANCE 574),
     (AnyOf [Rng CHR ''0'' CHR ''9'', Rng CHR ''A'' CHR ''Z'', Ch CHR ''_'', Rng CHR ''a'' CHR ''z''], ADVANCE 610)])"

definition ts_lex_case_516 :: lex_case where
  "ts_lex_case_516 = (Some sym_identifier,
    [(AnyOf [Ch CHR ''e''], ADVANCE 569),
     (AnyOf [Rng CHR ''0'' CHR ''9'', Rng CHR ''A'' CHR ''Z'', Ch CHR ''_'', Rng CHR ''a'' CHR ''z''], ADVANCE 610)])"

definition ts_lex_case_517 :: lex_case where
  "ts_lex_case_517 = (Some sym_identifier,
    [(AnyOf [Ch CHR ''e''], ADVANCE 489),
     (AnyOf [Rng CHR ''0'' CHR ''9'', Rng CHR ''A'' CHR ''Z'', Ch CHR ''_'', Rng CHR ''a'' CHR ''z''], ADVANCE 610)])"

definition ts_lex_case_518 :: lex_case where
  "ts_lex_case_518 = (Some sym_identifier,
    [(AnyOf [Ch CHR ''e''], ADVANCE 590),
     (AnyOf [Ch CHR ''t''], ADVANCE 486),
     (AnyOf [Rng CHR ''0'' CHR ''9'', Rng CHR ''A'' CHR ''Z'', Ch CHR ''_'', Rng CHR ''a'' CHR ''z''], ADVANCE 610)])"

definition ts_lex_case_519 :: lex_case where
  "ts_lex_case_519 = (Some sym_identifier,
    [(AnyOf [Ch CHR ''e''], ADVANCE 590),
     (AnyOf [Ch CHR ''t''], ADVANCE 487),
     (AnyOf [Rng CHR ''0'' CHR ''9'', Rng CHR ''A'' CHR ''Z'', Ch CHR ''_'', Rng CHR ''a'' CHR ''z''], ADVANCE 610)])"

definition ts_lex_case_520 :: lex_case where
  "ts_lex_case_520 = (Some sym_identifier,
    [(AnyOf [Ch CHR ''e''], ADVANCE 590),
     (AnyOf [Ch CHR ''t''], ADVANCE 515),
     (AnyOf [Rng CHR ''0'' CHR ''9'', Rng CHR ''A'' CHR ''Z'', Ch CHR ''_'', Rng CHR ''a'' CHR ''z''], ADVANCE 610)])"

definition ts_lex_case_521 :: lex_case where
  "ts_lex_case_521 = (Some sym_identifier,
    [(AnyOf [Ch CHR ''e''], ADVANCE 590),
     (AnyOf [Ch CHR ''t''], ADVANCE 516),
     (AnyOf [Rng CHR ''0'' CHR ''9'', Rng CHR ''A'' CHR ''Z'', Ch CHR ''_'', Rng CHR ''a'' CHR ''z''], ADVANCE 610)])"

definition ts_lex_case_522 :: lex_case where
  "ts_lex_case_522 = (Some sym_identifier,
    [(AnyOf [Ch CHR ''e''], ADVANCE 573),
     (AnyOf [Rng CHR ''0'' CHR ''9'', Rng CHR ''A'' CHR ''Z'', Ch CHR ''_'', Rng CHR ''a'' CHR ''z''], ADVANCE 610)])"

definition ts_lex_case_523 :: lex_case where
  "ts_lex_case_523 = (Some sym_identifier,
    [(AnyOf [Ch CHR ''e''], ADVANCE 480),
     (AnyOf [Rng CHR ''0'' CHR ''9'', Rng CHR ''A'' CHR ''Z'', Ch CHR ''_'', Rng CHR ''a'' CHR ''z''], ADVANCE 610)])"

definition ts_lex_case_524 :: lex_case where
  "ts_lex_case_524 = (Some sym_identifier,
    [(AnyOf [Ch CHR ''e''], ADVANCE 578),
     (AnyOf [Rng CHR ''0'' CHR ''9'', Rng CHR ''A'' CHR ''Z'', Ch CHR ''_'', Rng CHR ''a'' CHR ''z''], ADVANCE 610)])"

definition ts_lex_case_525 :: lex_case where
  "ts_lex_case_525 = (Some sym_identifier,
    [(AnyOf [Ch CHR ''e''], ADVANCE 553),
     (AnyOf [Ch CHR ''i''], ADVANCE 588),
     (AnyOf [Rng CHR ''0'' CHR ''9'', Rng CHR ''A'' CHR ''Z'', Ch CHR ''_'', Rng CHR ''a'' CHR ''z''], ADVANCE 610)])"

definition ts_lex_case_526 :: lex_case where
  "ts_lex_case_526 = (Some sym_identifier,
    [(AnyOf [Ch CHR ''f''], ADVANCE 414),
     (AnyOf [Ch CHR ''s''], ADVANCE 464),
     (AnyOf [Rng CHR ''0'' CHR ''9'', Rng CHR ''A'' CHR ''Z'', Ch CHR ''_'', Rng CHR ''a'' CHR ''z''], ADVANCE 610)])"

definition ts_lex_case_527 :: lex_case where
  "ts_lex_case_527 = (Some sym_identifier,
    [(AnyOf [Ch CHR ''f''], ADVANCE 415),
     (AnyOf [Ch CHR ''n''], ADVANCE 570),
     (AnyOf [Ch CHR ''s''], ADVANCE 464),
     (AnyOf [Rng CHR ''0'' CHR ''9'', Rng CHR ''A'' CHR ''Z'', Ch CHR ''_'', Rng CHR ''a'' CHR ''z''], ADVANCE 610)])"

definition ts_lex_case_528 :: lex_case where
  "ts_lex_case_528 = (Some sym_identifier,
    [(AnyOf [Ch CHR ''f''], ADVANCE 415),
     (AnyOf [Ch CHR ''n''], ADVANCE 570),
     (AnyOf [Rng CHR ''0'' CHR ''9'', Rng CHR ''A'' CHR ''Z'', Ch CHR ''_'', Rng CHR ''a'' CHR ''z''], ADVANCE 610)])"

definition ts_lex_case_529 :: lex_case where
  "ts_lex_case_529 = (Some sym_identifier,
    [(AnyOf [Ch CHR ''g''], ADVANCE 470),
     (AnyOf [Rng CHR ''0'' CHR ''9'', Rng CHR ''A'' CHR ''Z'', Ch CHR ''_'', Rng CHR ''a'' CHR ''z''], ADVANCE 610)])"

definition ts_lex_case_530 :: lex_case where
  "ts_lex_case_530 = (Some sym_identifier,
    [(AnyOf [Ch CHR ''g''], ADVANCE 483),
     (AnyOf [Rng CHR ''0'' CHR ''9'', Rng CHR ''A'' CHR ''Z'', Ch CHR ''_'', Rng CHR ''a'' CHR ''z''], ADVANCE 610)])"

definition ts_lex_case_531 :: lex_case where
  "ts_lex_case_531 = (Some sym_identifier,
    [(AnyOf [Ch CHR ''g''], ADVANCE 598),
     (AnyOf [Rng CHR ''0'' CHR ''9'', Rng CHR ''A'' CHR ''Z'', Ch CHR ''_'', Rng CHR ''a'' CHR ''z''], ADVANCE 610)])"

definition ts_lex_case_532 :: lex_case where
  "ts_lex_case_532 = (Some sym_identifier,
    [(AnyOf [Ch CHR ''g''], ADVANCE 587),
     (AnyOf [Rng CHR ''0'' CHR ''9'', Rng CHR ''A'' CHR ''Z'', Ch CHR ''_'', Rng CHR ''a'' CHR ''z''], ADVANCE 610)])"

definition ts_lex_case_533 :: lex_case where
  "ts_lex_case_533 = (Some sym_identifier,
    [(AnyOf [Ch CHR ''h''], ADVANCE 522),
     (AnyOf [Rng CHR ''0'' CHR ''9'', Rng CHR ''A'' CHR ''Z'', Ch CHR ''_'', Rng CHR ''a'' CHR ''z''], ADVANCE 610)])"

definition ts_lex_case_534 :: lex_case where
  "ts_lex_case_534 = (Some sym_identifier,
    [(AnyOf [Ch CHR ''h''], ADVANCE 472),
     (AnyOf [Rng CHR ''0'' CHR ''9'', Rng CHR ''A'' CHR ''Z'', Ch CHR ''_'', Rng CHR ''a'' CHR ''z''], ADVANCE 610)])"

definition ts_lex_case_535 :: lex_case where
  "ts_lex_case_535 = (Some sym_identifier,
    [(AnyOf [Ch CHR ''h''], ADVANCE 514),
     (AnyOf [Rng CHR ''0'' CHR ''9'', Rng CHR ''A'' CHR ''Z'', Ch CHR ''_'', Rng CHR ''a'' CHR ''z''], ADVANCE 610)])"

definition ts_lex_case_536 :: lex_case where
  "ts_lex_case_536 = (Some sym_identifier,
    [(AnyOf [Ch CHR ''h''], ADVANCE 539),
     (AnyOf [Rng CHR ''0'' CHR ''9'', Rng CHR ''A'' CHR ''Z'', Ch CHR ''_'', Rng CHR ''a'' CHR ''z''], ADVANCE 610)])"

definition ts_lex_case_537 :: lex_case where
  "ts_lex_case_537 = (Some sym_identifier,
    [(AnyOf [Ch CHR ''i''], ADVANCE 547),
     (AnyOf [Rng CHR ''0'' CHR ''9'', Rng CHR ''A'' CHR ''Z'', Ch CHR ''_'', Rng CHR ''a'' CHR ''z''], ADVANCE 610)])"

definition ts_lex_case_538 :: lex_case where
  "ts_lex_case_538 = (Some sym_identifier,
    [(AnyOf [Ch CHR ''i''], ADVANCE 591),
     (AnyOf [Rng CHR ''0'' CHR ''9'', Rng CHR ''A'' CHR ''Z'', Ch CHR ''_'', Rng CHR ''a'' CHR ''z''], ADVANCE 610)])"

definition ts_lex_case_539 :: lex_case where
  "ts_lex_case_539 = (Some sym_identifier,
    [(AnyOf [Ch CHR ''i''], ADVANCE 550),
     (AnyOf [Rng CHR ''0'' CHR ''9'', Rng CHR ''A'' CHR ''Z'', Ch CHR ''_'', Rng CHR ''a'' CHR ''z''], ADVANCE 610)])"

definition ts_lex_case_540 :: lex_case where
  "ts_lex_case_540 = (Some sym_identifier,
    [(AnyOf [Ch CHR ''i''], ADVANCE 586),
     (AnyOf [Rng CHR ''0'' CHR ''9'', Rng CHR ''A'' CHR ''Z'', Ch CHR ''_'', Rng CHR ''a'' CHR ''z''], ADVANCE 610)])"

definition ts_lex_case_541 :: lex_case where
  "ts_lex_case_541 = (Some sym_identifier,
    [(AnyOf [Ch CHR ''i''], ADVANCE 560),
     (AnyOf [Rng CHR ''0'' CHR ''9'', Rng CHR ''A'' CHR ''Z'', Ch CHR ''_'', Rng CHR ''a'' CHR ''z''], ADVANCE 610)])"

definition ts_lex_case_542 :: lex_case where
  "ts_lex_case_542 = (Some sym_identifier,
    [(AnyOf [Ch CHR ''i''], ADVANCE 563),
     (AnyOf [Rng CHR ''0'' CHR ''9'', Rng CHR ''A'' CHR ''Z'', Ch CHR ''_'', Rng CHR ''a'' CHR ''z''], ADVANCE 610)])"

definition ts_lex_case_543 :: lex_case where
  "ts_lex_case_543 = (Some sym_identifier,
    [(AnyOf [Ch CHR ''l''], ADVANCE 395),
     (AnyOf [Rng CHR ''0'' CHR ''9'', Rng CHR ''A'' CHR ''Z'', Ch CHR ''_'', Rng CHR ''a'' CHR ''z''], ADVANCE 610)])"

definition ts_lex_case_544 :: lex_case where
  "ts_lex_case_544 = (Some sym_identifier,
    [(AnyOf [Ch CHR ''l''], ADVANCE 490),
     (AnyOf [Rng CHR ''0'' CHR ''9'', Rng CHR ''A'' CHR ''Z'', Ch CHR ''_'', Rng CHR ''a'' CHR ''z''], ADVANCE 610)])"

definition ts_lex_case_545 :: lex_case where
  "ts_lex_case_545 = (Some sym_identifier,
    [(AnyOf [Ch CHR ''l''], ADVANCE 566),
     (AnyOf [Ch CHR ''o''], ADVANCE 575),
     (AnyOf [Rng CHR ''0'' CHR ''9'', Rng CHR ''A'' CHR ''Z'', Ch CHR ''_'', Rng CHR ''a'' CHR ''z''], ADVANCE 610)])"

definition ts_lex_case_546 :: lex_case where
  "ts_lex_case_546 = (Some sym_identifier,
    [(AnyOf [Ch CHR ''l''], ADVANCE 568),
     (AnyOf [Rng CHR ''0'' CHR ''9'', Rng CHR ''A'' CHR ''Z'', Ch CHR ''_'', Rng CHR ''a'' CHR ''z''], ADVANCE 610)])"

definition ts_lex_case_547 :: lex_case where
  "ts_lex_case_547 = (Some sym_identifier,
    [(AnyOf [Ch CHR ''l''], ADVANCE 501),
     (AnyOf [Rng CHR ''0'' CHR ''9'', Rng CHR ''A'' CHR ''Z'', Ch CHR ''_'', Rng CHR ''a'' CHR ''z''], ADVANCE 610)])"

definition ts_lex_case_548 :: lex_case where
  "ts_lex_case_548 = (Some sym_identifier,
    [(AnyOf [Ch CHR ''l''], ADVANCE 484),
     (AnyOf [Rng CHR ''0'' CHR ''9'', Rng CHR ''A'' CHR ''Z'', Ch CHR ''_'', Rng CHR ''a'' CHR ''z''], ADVANCE 610)])"

definition ts_lex_case_549 :: lex_case where
  "ts_lex_case_549 = (Some sym_identifier,
    [(AnyOf [Ch CHR ''l''], ADVANCE 543),
     (AnyOf [Rng CHR ''0'' CHR ''9'', Rng CHR ''A'' CHR ''Z'', Ch CHR ''_'', Rng CHR ''a'' CHR ''z''], ADVANCE 610)])"

definition ts_lex_case_550 :: lex_case where
  "ts_lex_case_550 = (Some sym_identifier,
    [(AnyOf [Ch CHR ''l''], ADVANCE 509),
     (AnyOf [Rng CHR ''0'' CHR ''9'', Rng CHR ''A'' CHR ''Z'', Ch CHR ''_'', Rng CHR ''a'' CHR ''z''], ADVANCE 610)])"

definition ts_lex_case_551 :: lex_case where
  "ts_lex_case_551 = (Some sym_identifier,
    [(AnyOf [Ch CHR ''m''], ADVANCE 572),
     (AnyOf [Rng CHR ''0'' CHR ''9'', Rng CHR ''A'' CHR ''Z'', Ch CHR ''_'', Rng CHR ''a'' CHR ''z''], ADVANCE 610)])"

definition ts_lex_case_552 :: lex_case where
  "ts_lex_case_552 = (Some sym_identifier,
    [(AnyOf [Ch CHR ''m''], ADVANCE 564),
     (AnyOf [Ch CHR ''p''], ADVANCE 517),
     (AnyOf [Ch CHR ''t''], ADVANCE 603),
     (AnyOf [Rng CHR ''0'' CHR ''9'', Rng CHR ''A'' CHR ''Z'', Ch CHR ''_'', Rng CHR ''a'' CHR ''z''], ADVANCE 610)])"

definition ts_lex_case_553 :: lex_case where
  "ts_lex_case_553 = (Some sym_identifier,
    [(AnyOf [Ch CHR ''m''], ADVANCE 564),
     (AnyOf [Ch CHR ''p''], ADVANCE 517),
     (AnyOf [Ch CHR ''t''], ADVANCE 604),
     (AnyOf [Rng CHR ''0'' CHR ''9'', Rng CHR ''A'' CHR ''Z'', Ch CHR ''_'', Rng CHR ''a'' CHR ''z''], ADVANCE 610)])"

definition ts_lex_case_554 :: lex_case where
  "ts_lex_case_554 = (Some sym_identifier,
    [(AnyOf [Ch CHR ''n''], ADVANCE 495),
     (AnyOf [Ch CHR ''x''], ADVANCE 367),
     (AnyOf [Rng CHR ''0'' CHR ''9'', Rng CHR ''A'' CHR ''Z'', Ch CHR ''_'', Rng CHR ''a'' CHR ''z''], ADVANCE 368),
     (NoneOf [CHR 0x00], ADVANCE 366)])"

definition ts_lex_case_555 :: lex_case where
  "ts_lex_case_555 = (Some sym_identifier,
    [(AnyOf [Ch CHR ''n''], ADVANCE 531),
     (AnyOf [Rng CHR ''0'' CHR ''9'', Rng CHR ''A'' CHR ''Z'', Ch CHR ''_'', Rng CHR ''a'' CHR ''z''], ADVANCE 610)])"

definition ts_lex_case_556 :: lex_case where
  "ts_lex_case_556 = (Some sym_identifier,
    [(AnyOf [Ch CHR ''n''], ADVANCE 405),
     (AnyOf [Rng CHR ''0'' CHR ''9'', Rng CHR ''A'' CHR ''Z'', Ch CHR ''_'', Rng CHR ''a'' CHR ''z''], ADVANCE 610)])"

definition ts_lex_case_557 :: lex_case where
  "ts_lex_case_557 = (Some sym_identifier,
    [(AnyOf [Ch CHR ''n''], ADVANCE 407),
     (AnyOf [Rng CHR ''0'' CHR ''9'', Rng CHR ''A'' CHR ''Z'', Ch CHR ''_'', Rng CHR ''a'' CHR ''z''], ADVANCE 610)])"

definition ts_lex_case_558 :: lex_case where
  "ts_lex_case_558 = (Some sym_identifier,
    [(AnyOf [Ch CHR ''n''], ADVANCE 532),
     (AnyOf [Rng CHR ''0'' CHR ''9'', Rng CHR ''A'' CHR ''Z'', Ch CHR ''_'', Rng CHR ''a'' CHR ''z''], ADVANCE 610)])"

definition ts_lex_case_559 :: lex_case where
  "ts_lex_case_559 = (Some sym_identifier,
    [(AnyOf [Ch CHR ''n''], ADVANCE 469),
     (AnyOf [Rng CHR ''0'' CHR ''9'', Rng CHR ''A'' CHR ''Z'', Ch CHR ''_'', Rng CHR ''a'' CHR ''z''], ADVANCE 610)])"

definition ts_lex_case_560 :: lex_case where
  "ts_lex_case_560 = (Some sym_identifier,
    [(AnyOf [Ch CHR ''n''], ADVANCE 529),
     (AnyOf [Rng CHR ''0'' CHR ''9'', Rng CHR ''A'' CHR ''Z'', Ch CHR ''_'', Rng CHR ''a'' CHR ''z''], ADVANCE 610)])"

definition ts_lex_case_561 :: lex_case where
  "ts_lex_case_561 = (Some sym_identifier,
    [(AnyOf [Ch CHR ''n''], ADVANCE 502),
     (AnyOf [Ch CHR ''x''], ADVANCE 538),
     (AnyOf [Rng CHR ''0'' CHR ''9'', Rng CHR ''A'' CHR ''Z'', Ch CHR ''_'', Rng CHR ''a'' CHR ''z''], ADVANCE 610)])"

definition ts_lex_case_562 :: lex_case where
  "ts_lex_case_562 = (Some sym_identifier,
    [(AnyOf [Ch CHR ''n''], ADVANCE 502),
     (AnyOf [Rng CHR ''0'' CHR ''9'', Rng CHR ''A'' CHR ''Z'', Ch CHR ''_'', Rng CHR ''a'' CHR ''z''], ADVANCE 610)])"

definition ts_lex_case_563 :: lex_case where
  "ts_lex_case_563 = (Some sym_identifier,
    [(AnyOf [Ch CHR ''n''], ADVANCE 530),
     (AnyOf [Rng CHR ''0'' CHR ''9'', Rng CHR ''A'' CHR ''Z'', Ch CHR ''_'', Rng CHR ''a'' CHR ''z''], ADVANCE 610)])"

definition ts_lex_case_564 :: lex_case where
  "ts_lex_case_564 = (Some sym_identifier,
    [(AnyOf [Ch CHR ''o''], ADVANCE 606),
     (AnyOf [Rng CHR ''0'' CHR ''9'', Rng CHR ''A'' CHR ''Z'', Ch CHR ''_'', Rng CHR ''a'' CHR ''z''], ADVANCE 610)])"

definition ts_lex_case_565 :: lex_case where
  "ts_lex_case_565 = (Some sym_identifier,
    [(AnyOf [Ch CHR ''o''], ADVANCE 597),
     (AnyOf [Rng CHR ''0'' CHR ''9'', Rng CHR ''A'' CHR ''Z'', Ch CHR ''_'', Rng CHR ''a'' CHR ''z''], ADVANCE 610)])"

definition ts_lex_case_566 :: lex_case where
  "ts_lex_case_566 = (Some sym_identifier,
    [(AnyOf [Ch CHR ''o''], ADVANCE 567),
     (AnyOf [Rng CHR ''0'' CHR ''9'', Rng CHR ''A'' CHR ''Z'', Ch CHR ''_'', Rng CHR ''a'' CHR ''z''], ADVANCE 610)])"

definition ts_lex_case_567 :: lex_case where
  "ts_lex_case_567 = (Some sym_identifier,
    [(AnyOf [Ch CHR ''o''], ADVANCE 576),
     (AnyOf [Rng CHR ''0'' CHR ''9'', Rng CHR ''A'' CHR ''Z'', Ch CHR ''_'', Rng CHR ''a'' CHR ''z''], ADVANCE 610)])"

definition ts_lex_case_568 :: lex_case where
  "ts_lex_case_568 = (Some sym_identifier,
    [(AnyOf [Ch CHR ''o''], ADVANCE 558),
     (AnyOf [Rng CHR ''0'' CHR ''9'', Rng CHR ''A'' CHR ''Z'', Ch CHR ''_'', Rng CHR ''a'' CHR ''z''], ADVANCE 610)])"

definition ts_lex_case_569 :: lex_case where
  "ts_lex_case_569 = (Some sym_identifier,
    [(AnyOf [Ch CHR ''p''], ADVANCE 476),
     (AnyOf [Rng CHR ''0'' CHR ''9'', Rng CHR ''A'' CHR ''Z'', Ch CHR ''_'', Rng CHR ''a'' CHR ''z''], ADVANCE 610)])"

definition ts_lex_case_570 :: lex_case where
  "ts_lex_case_570 = (Some sym_identifier,
    [(AnyOf [Ch CHR ''p''], ADVANCE 605),
     (AnyOf [Rng CHR ''0'' CHR ''9'', Rng CHR ''A'' CHR ''Z'', Ch CHR ''_'', Rng CHR ''a'' CHR ''z''], ADVANCE 610)])"

definition ts_lex_case_571 :: lex_case where
  "ts_lex_case_571 = (Some sym_identifier,
    [(AnyOf [Ch CHR ''p''], ADVANCE 548),
     (AnyOf [Rng CHR ''0'' CHR ''9'', Rng CHR ''A'' CHR ''Z'', Ch CHR ''_'', Rng CHR ''a'' CHR ''z''], ADVANCE 610)])"

definition ts_lex_case_572 :: lex_case where
  "ts_lex_case_572 = (Some sym_identifier,
    [(AnyOf [Ch CHR ''p''], ADVANCE 600),
     (AnyOf [Rng CHR ''0'' CHR ''9'', Rng CHR ''A'' CHR ''Z'', Ch CHR ''_'', Rng CHR ''a'' CHR ''z''], ADVANCE 610)])"

definition ts_lex_case_573 :: lex_case where
  "ts_lex_case_573 = (Some sym_identifier,
    [(AnyOf [Ch CHR ''r''], ADVANCE 607),
     (AnyOf [Rng CHR ''0'' CHR ''9'', Rng CHR ''A'' CHR ''Z'', Ch CHR ''_'', Rng CHR ''a'' CHR ''z''], ADVANCE 610)])"

definition ts_lex_case_574 :: lex_case where
  "ts_lex_case_574 = (Some sym_identifier,
    [(AnyOf [Ch CHR ''r''], ADVANCE 541),
     (AnyOf [Rng CHR ''0'' CHR ''9'', Rng CHR ''A'' CHR ''Z'', Ch CHR ''_'', Rng CHR ''a'' CHR ''z''], ADVANCE 610)])"

definition ts_lex_case_575 :: lex_case where
  "ts_lex_case_575 = (Some sym_identifier,
    [(AnyOf [Ch CHR ''r''], ADVANCE 466),
     (AnyOf [Rng CHR ''0'' CHR ''9'', Rng CHR ''A'' CHR ''Z'', Ch CHR ''_'', Rng CHR ''a'' CHR ''z''], ADVANCE 610)])"

definition ts_lex_case_576 :: lex_case where
  "ts_lex_case_576 = (Some sym_identifier,
    [(AnyOf [Ch CHR ''r''], ADVANCE 477),
     (AnyOf [Rng CHR ''0'' CHR ''9'', Rng CHR ''A'' CHR ''Z'', Ch CHR ''_'', Rng CHR ''a'' CHR ''z''], ADVANCE 610)])"

definition ts_lex_case_577 :: lex_case where
  "ts_lex_case_577 = (Some sym_identifier,
    [(AnyOf [Ch CHR ''r''], ADVANCE 556),
     (AnyOf [Rng CHR ''0'' CHR ''9'', Rng CHR ''A'' CHR ''Z'', Ch CHR ''_'', Rng CHR ''a'' CHR ''z''], ADVANCE 610)])"

definition ts_lex_case_578 :: lex_case where
  "ts_lex_case_578 = (Some sym_identifier,
    [(AnyOf [Ch CHR ''r''], ADVANCE 478),
     (AnyOf [Rng CHR ''0'' CHR ''9'', Rng CHR ''A'' CHR ''Z'', Ch CHR ''_'', Rng CHR ''a'' CHR ''z''], ADVANCE 610)])"

definition ts_lex_case_579 :: lex_case where
  "ts_lex_case_579 = (Some sym_identifier,
    [(AnyOf [Ch CHR ''r''], ADVANCE 557),
     (AnyOf [Rng CHR ''0'' CHR ''9'', Rng CHR ''A'' CHR ''Z'', Ch CHR ''_'', Rng CHR ''a'' CHR ''z''], ADVANCE 610)])"

definition ts_lex_case_580 :: lex_case where
  "ts_lex_case_580 = (Some sym_identifier,
    [(AnyOf [Ch CHR ''r''], ADVANCE 596),
     (AnyOf [Rng CHR ''0'' CHR ''9'', Rng CHR ''A'' CHR ''Z'', Ch CHR ''_'', Rng CHR ''a'' CHR ''z''], ADVANCE 610)])"

definition ts_lex_case_581 :: lex_case where
  "ts_lex_case_581 = (Some sym_identifier,
    [(AnyOf [Ch CHR ''r''], ADVANCE 523),
     (AnyOf [Rng CHR ''0'' CHR ''9'', Rng CHR ''A'' CHR ''Z'', Ch CHR ''_'', Rng CHR ''a'' CHR ''z''], ADVANCE 610)])"

definition ts_lex_case_582 :: lex_case where
  "ts_lex_case_582 = (Some sym_identifier,
    [(AnyOf [Ch CHR ''s''], ADVANCE 464),
     (AnyOf [Rng CHR ''0'' CHR ''9'', Rng CHR ''A'' CHR ''Z'', Ch CHR ''_'', Rng CHR ''a'' CHR ''z''], ADVANCE 610)])"

definition ts_lex_case_583 :: lex_case where
  "ts_lex_case_583 = (Some sym_identifier,
    [(AnyOf [Ch CHR ''s''], ADVANCE 571),
     (AnyOf [Rng CHR ''0'' CHR ''9'', Rng CHR ''A'' CHR ''Z'', Ch CHR ''_'', Rng CHR ''a'' CHR ''z''], ADVANCE 610)])"

definition ts_lex_case_584 :: lex_case where
  "ts_lex_case_584 = (Some sym_identifier,
    [(AnyOf [Ch CHR ''s''], ADVANCE 474),
     (AnyOf [Rng CHR ''0'' CHR ''9'', Rng CHR ''A'' CHR ''Z'', Ch CHR ''_'', Rng CHR ''a'' CHR ''z''], ADVANCE 610)])"

definition ts_lex_case_585 :: lex_case where
  "ts_lex_case_585 = (Some sym_identifier,
    [(AnyOf [Ch CHR ''s''], ADVANCE 481),
     (AnyOf [Rng CHR ''0'' CHR ''9'', Rng CHR ''A'' CHR ''Z'', Ch CHR ''_'', Rng CHR ''a'' CHR ''z''], ADVANCE 610)])"

definition ts_lex_case_586 :: lex_case where
  "ts_lex_case_586 = (Some sym_identifier,
    [(AnyOf [Ch CHR ''s''], ADVANCE 511),
     (AnyOf [Rng CHR ''0'' CHR ''9'', Rng CHR ''A'' CHR ''Z'', Ch CHR ''_'', Rng CHR ''a'' CHR ''z''], ADVANCE 610)])"

definition ts_lex_case_587 :: lex_case where
  "ts_lex_case_587 = (Some sym_identifier,
    [(AnyOf [Ch CHR ''s''], ADVANCE 473),
     (AnyOf [Rng CHR ''0'' CHR ''9'', Rng CHR ''A'' CHR ''Z'', Ch CHR ''_'', Rng CHR ''a'' CHR ''z''], ADVANCE 610)])"

definition ts_lex_case_588 :: lex_case where
  "ts_lex_case_588 = (Some sym_identifier,
    [(AnyOf [Ch CHR ''s''], ADVANCE 524),
     (AnyOf [Rng CHR ''0'' CHR ''9'', Rng CHR ''A'' CHR ''Z'', Ch CHR ''_'', Rng CHR ''a'' CHR ''z''], ADVANCE 610)])"

definition ts_lex_case_589 :: lex_case where
  "ts_lex_case_589 = (Some sym_identifier,
    [(AnyOf [Ch CHR ''s''], ADVANCE 467),
     (AnyOf [Rng CHR ''0'' CHR ''9'', Rng CHR ''A'' CHR ''Z'', Ch CHR ''_'', Rng CHR ''a'' CHR ''z''], ADVANCE 610)])"

definition ts_lex_case_590 :: lex_case where
  "ts_lex_case_590 = (Some sym_identifier,
    [(AnyOf [Ch CHR ''t''], ADVANCE 392),
     (AnyOf [Rng CHR ''0'' CHR ''9'', Rng CHR ''A'' CHR ''Z'', Ch CHR ''_'', Rng CHR ''a'' CHR ''z''], ADVANCE 610)])"

definition ts_lex_case_591 :: lex_case where
  "ts_lex_case_591 = (Some sym_identifier,
    [(AnyOf [Ch CHR ''t''], ADVANCE 410),
     (AnyOf [Rng CHR ''0'' CHR ''9'', Rng CHR ''A'' CHR ''Z'', Ch CHR ''_'', Rng CHR ''a'' CHR ''z''], ADVANCE 610)])"

definition ts_lex_case_592 :: lex_case where
  "ts_lex_case_592 = (Some sym_identifier,
    [(AnyOf [Ch CHR ''t''], ADVANCE 421),
     (AnyOf [Rng CHR ''0'' CHR ''9'', Rng CHR ''A'' CHR ''Z'', Ch CHR ''_'', Rng CHR ''a'' CHR ''z''], ADVANCE 610)])"

definition ts_lex_case_593 :: lex_case where
  "ts_lex_case_593 = (Some sym_identifier,
    [(AnyOf [Ch CHR ''t''], ADVANCE 402),
     (AnyOf [Rng CHR ''0'' CHR ''9'', Rng CHR ''A'' CHR ''Z'', Ch CHR ''_'', Rng CHR ''a'' CHR ''z''], ADVANCE 610)])"

definition ts_lex_case_594 :: lex_case where
  "ts_lex_case_594 = (Some sym_identifier,
    [(AnyOf [Ch CHR ''t''], ADVANCE 507),
     (AnyOf [Rng CHR ''0'' CHR ''9'', Rng CHR ''A'' CHR ''Z'', Ch CHR ''_'', Rng CHR ''a'' CHR ''z''], ADVANCE 610)])"

definition ts_lex_case_595 :: lex_case where
  "ts_lex_case_595 = (Some sym_identifier,
    [(AnyOf [Ch CHR ''t''], ADVANCE 533),
     (AnyOf [Rng CHR ''0'' CHR ''9'', Rng CHR ''A'' CHR ''Z'', Ch CHR ''_'', Rng CHR ''a'' CHR ''z''], ADVANCE 610)])"

definition ts_lex_case_596 :: lex_case where
  "ts_lex_case_596 = (Some sym_identifier,
    [(AnyOf [Ch CHR ''t''], ADVANCE 584),
     (AnyOf [Rng CHR ''0'' CHR ''9'', Rng CHR ''A'' CHR ''Z'', Ch CHR ''_'', Rng CHR ''a'' CHR ''z''], ADVANCE 610)])"

definition ts_lex_case_597 :: lex_case where
  "ts_lex_case_597 = (Some sym_identifier,
    [(AnyOf [Ch CHR ''t''], ADVANCE 508),
     (AnyOf [Rng CHR ''0'' CHR ''9'', Rng CHR ''A'' CHR ''Z'', Ch CHR ''_'', Rng CHR ''a'' CHR ''z''], ADVANCE 610)])"

definition ts_lex_case_598 :: lex_case where
  "ts_lex_case_598 = (Some sym_identifier,
    [(AnyOf [Ch CHR ''t''], ADVANCE 534),
     (AnyOf [Rng CHR ''0'' CHR ''9'', Rng CHR ''A'' CHR ''Z'', Ch CHR ''_'', Rng CHR ''a'' CHR ''z''], ADVANCE 610)])"

definition ts_lex_case_599 :: lex_case where
  "ts_lex_case_599 = (Some sym_identifier,
    [(AnyOf [Ch CHR ''t''], ADVANCE 585),
     (AnyOf [Rng CHR ''0'' CHR ''9'', Rng CHR ''A'' CHR ''Z'', Ch CHR ''_'', Rng CHR ''a'' CHR ''z''], ADVANCE 610)])"

definition ts_lex_case_600 :: lex_case where
  "ts_lex_case_600 = (Some sym_identifier,
    [(AnyOf [Ch CHR ''t''], ADVANCE 479),
     (AnyOf [Rng CHR ''0'' CHR ''9'', Rng CHR ''A'' CHR ''Z'', Ch CHR ''_'', Rng CHR ''a'' CHR ''z''], ADVANCE 610)])"

definition ts_lex_case_601 :: lex_case where
  "ts_lex_case_601 = (Some sym_identifier,
    [(AnyOf [Ch CHR ''t''], ADVANCE 488),
     (AnyOf [Rng CHR ''0'' CHR ''9'', Rng CHR ''A'' CHR ''Z'', Ch CHR ''_'', Rng CHR ''a'' CHR ''z''], ADVANCE 610)])"

definition ts_lex_case_602 :: lex_case where
  "ts_lex_case_602 = (Some sym_identifier,
    [(AnyOf [Ch CHR ''u''], ADVANCE 537),
     (AnyOf [Rng CHR ''0'' CHR ''9'', Rng CHR ''A'' CHR ''Z'', Ch CHR ''_'', Rng CHR ''a'' CHR ''z''], ADVANCE 610)])"

definition ts_lex_case_603 :: lex_case where
  "ts_lex_case_603 = (Some sym_identifier,
    [(AnyOf [Ch CHR ''u''], ADVANCE 577),
     (AnyOf [Rng CHR ''0'' CHR ''9'', Rng CHR ''A'' CHR ''Z'', Ch CHR ''_'', Rng CHR ''a'' CHR ''z''], ADVANCE 610)])"

definition ts_lex_case_604 :: lex_case where
  "ts_lex_case_604 = (Some sym_identifier,
    [(AnyOf [Ch CHR ''u''], ADVANCE 579),
     (AnyOf [Rng CHR ''0'' CHR ''9'', Rng CHR ''A'' CHR ''Z'', Ch CHR ''_'', Rng CHR ''a'' CHR ''z''], ADVANCE 610)])"

definition ts_lex_case_605 :: lex_case where
  "ts_lex_case_605 = (Some sym_identifier,
    [(AnyOf [Ch CHR ''u''], ADVANCE 593),
     (AnyOf [Rng CHR ''0'' CHR ''9'', Rng CHR ''A'' CHR ''Z'', Ch CHR ''_'', Rng CHR ''a'' CHR ''z''], ADVANCE 610)])"

definition ts_lex_case_606 :: lex_case where
  "ts_lex_case_606 = (Some sym_identifier,
    [(AnyOf [Ch CHR ''v''], ADVANCE 510),
     (AnyOf [Rng CHR ''0'' CHR ''9'', Rng CHR ''A'' CHR ''Z'', Ch CHR ''_'', Rng CHR ''a'' CHR ''z''], ADVANCE 610)])"

definition ts_lex_case_607 :: lex_case where
  "ts_lex_case_607 = (Some sym_identifier,
    [(AnyOf [Ch CHR ''w''], ADVANCE 540),
     (AnyOf [Rng CHR ''0'' CHR ''9'', Rng CHR ''A'' CHR ''Z'', Ch CHR ''_'', Rng CHR ''a'' CHR ''z''], ADVANCE 610)])"

definition ts_lex_case_608 :: lex_case where
  "ts_lex_case_608 = (Some sym_identifier,
    [(AnyOf [Ch CHR ''x''], ADVANCE 538),
     (AnyOf [Rng CHR ''0'' CHR ''9'', Rng CHR ''A'' CHR ''Z'', Ch CHR ''_'', Rng CHR ''a'' CHR ''z''], ADVANCE 610)])"

definition ts_lex_case_609 :: lex_case where
  "ts_lex_case_609 = (Some sym_identifier,
    [(AnyOf [Ch CHR ''y''], ADVANCE 399),
     (AnyOf [Rng CHR ''0'' CHR ''9'', Rng CHR ''A'' CHR ''Z'', Ch CHR ''_'', Rng CHR ''a'' CHR ''z''], ADVANCE 610)])"

definition ts_lex_case_610 :: lex_case where
  "ts_lex_case_610 = (Some sym_identifier,
    [(AnyOf [Rng CHR ''0'' CHR ''9'', Rng CHR ''A'' CHR ''Z'', Ch CHR ''_'', Rng CHR ''a'' CHR ''z''], ADVANCE 610)])"

definition ts_lex_case_611 :: lex_case where
  "ts_lex_case_611 = (Some sym__newline, [])"

definition ts_lex :: "TSStateId \<Rightarrow> lex_case" where
  "ts_lex state =
    (if state < 306 then
      (if state < 153 then
        (if state < 76 then
          (if state < 38 then
            (if state < 19 then
              (if state < 9 then
                (if state < 4 then
                  (if state < 2 then
                    (if state < 1 then
                      ts_lex_case_0
                     else
                      ts_lex_case_1)
                   else
                    (if state < 3 then
                      ts_lex_case_2
                     else
                      ts_lex_case_3))
                 else
                  (if state < 6 then
                    (if state < 5 then
                      ts_lex_case_4
                     else
                      ts_lex_case_5)
                   else
                    (if state < 7 then
                      ts_lex_case_6
                     else
                      (if state < 8 then
                        ts_lex_case_7
                       else
                        ts_lex_case_8))))
               else
                (if state < 14 then
                  (if state < 11 then
                    (if state < 10 then
                      ts_lex_case_9
                     else
                      ts_lex_case_10)
                   else
                    (if state < 12 then
                      ts_lex_case_11
                     else
                      (if state < 13 then
                        ts_lex_case_12
                       else
                        ts_lex_case_13)))
                 else
                  (if state < 16 then
                    (if state < 15 then
                      ts_lex_case_14
                     else
                      ts_lex_case_15)
                   else
                    (if state < 17 then
                      ts_lex_case_16
                     else
                      (if state < 18 then
                        ts_lex_case_17
                       else
                        ts_lex_case_18)))))
             else
              (if state < 28 then
                (if state < 23 then
                  (if state < 21 then
                    (if state < 20 then
                      ts_lex_case_19
                     else
                      ts_lex_case_20)
                   else
                    (if state < 22 then
                      ts_lex_case_21
                     else
                      ts_lex_case_22))
                 else
                  (if state < 25 then
                    (if state < 24 then
                      ts_lex_case_23
                     else
                      ts_lex_case_24)
                   else
                    (if state < 26 then
                      ts_lex_case_25
                     else
                      (if state < 27 then
                        ts_lex_case_26
                       else
                        ts_lex_case_27))))
               else
                (if state < 33 then
                  (if state < 30 then
                    (if state < 29 then
                      ts_lex_case_28
                     else
                      ts_lex_case_29)
                   else
                    (if state < 31 then
                      ts_lex_case_30
                     else
                      (if state < 32 then
                        ts_lex_case_31
                       else
                        ts_lex_case_32)))
                 else
                  (if state < 35 then
                    (if state < 34 then
                      ts_lex_case_33
                     else
                      ts_lex_case_34)
                   else
                    (if state < 36 then
                      ts_lex_case_35
                     else
                      (if state < 37 then
                        ts_lex_case_36
                       else
                        ts_lex_case_37))))))
           else
            (if state < 57 then
              (if state < 47 then
                (if state < 42 then
                  (if state < 40 then
                    (if state < 39 then
                      ts_lex_case_38
                     else
                      ts_lex_case_39)
                   else
                    (if state < 41 then
                      ts_lex_case_40
                     else
                      ts_lex_case_41))
                 else
                  (if state < 44 then
                    (if state < 43 then
                      ts_lex_case_42
                     else
                      ts_lex_case_43)
                   else
                    (if state < 45 then
                      ts_lex_case_44
                     else
                      (if state < 46 then
                        ts_lex_case_45
                       else
                        ts_lex_case_46))))
               else
                (if state < 52 then
                  (if state < 49 then
                    (if state < 48 then
                      ts_lex_case_47
                     else
                      ts_lex_case_48)
                   else
                    (if state < 50 then
                      ts_lex_case_49
                     else
                      (if state < 51 then
                        ts_lex_case_50
                       else
                        ts_lex_case_51)))
                 else
                  (if state < 54 then
                    (if state < 53 then
                      ts_lex_case_52
                     else
                      ts_lex_case_53)
                   else
                    (if state < 55 then
                      ts_lex_case_54
                     else
                      (if state < 56 then
                        ts_lex_case_55
                       else
                        ts_lex_case_56)))))
             else
              (if state < 66 then
                (if state < 61 then
                  (if state < 59 then
                    (if state < 58 then
                      ts_lex_case_57
                     else
                      ts_lex_case_58)
                   else
                    (if state < 60 then
                      ts_lex_case_59
                     else
                      ts_lex_case_60))
                 else
                  (if state < 63 then
                    (if state < 62 then
                      ts_lex_case_61
                     else
                      ts_lex_case_62)
                   else
                    (if state < 64 then
                      ts_lex_case_63
                     else
                      (if state < 65 then
                        ts_lex_case_64
                       else
                        ts_lex_case_65))))
               else
                (if state < 71 then
                  (if state < 68 then
                    (if state < 67 then
                      ts_lex_case_66
                     else
                      ts_lex_case_67)
                   else
                    (if state < 69 then
                      ts_lex_case_68
                     else
                      (if state < 70 then
                        ts_lex_case_69
                       else
                        ts_lex_case_70)))
                 else
                  (if state < 73 then
                    (if state < 72 then
                      ts_lex_case_71
                     else
                      ts_lex_case_72)
                   else
                    (if state < 74 then
                      ts_lex_case_73
                     else
                      (if state < 75 then
                        ts_lex_case_74
                       else
                        ts_lex_case_75)))))))
         else
          (if state < 114 then
            (if state < 95 then
              (if state < 85 then
                (if state < 80 then
                  (if state < 78 then
                    (if state < 77 then
                      ts_lex_case_76
                     else
                      ts_lex_case_77)
                   else
                    (if state < 79 then
                      ts_lex_case_78
                     else
                      ts_lex_case_79))
                 else
                  (if state < 82 then
                    (if state < 81 then
                      ts_lex_case_80
                     else
                      ts_lex_case_81)
                   else
                    (if state < 83 then
                      ts_lex_case_82
                     else
                      (if state < 84 then
                        ts_lex_case_83
                       else
                        ts_lex_case_84))))
               else
                (if state < 90 then
                  (if state < 87 then
                    (if state < 86 then
                      ts_lex_case_85
                     else
                      ts_lex_case_86)
                   else
                    (if state < 88 then
                      ts_lex_case_87
                     else
                      (if state < 89 then
                        ts_lex_case_88
                       else
                        ts_lex_case_89)))
                 else
                  (if state < 92 then
                    (if state < 91 then
                      ts_lex_case_90
                     else
                      ts_lex_case_91)
                   else
                    (if state < 93 then
                      ts_lex_case_92
                     else
                      (if state < 94 then
                        ts_lex_case_93
                       else
                        ts_lex_case_94)))))
             else
              (if state < 104 then
                (if state < 99 then
                  (if state < 97 then
                    (if state < 96 then
                      ts_lex_case_95
                     else
                      ts_lex_case_96)
                   else
                    (if state < 98 then
                      ts_lex_case_97
                     else
                      ts_lex_case_98))
                 else
                  (if state < 101 then
                    (if state < 100 then
                      ts_lex_case_99
                     else
                      ts_lex_case_100)
                   else
                    (if state < 102 then
                      ts_lex_case_101
                     else
                      (if state < 103 then
                        ts_lex_case_102
                       else
                        ts_lex_case_103))))
               else
                (if state < 109 then
                  (if state < 106 then
                    (if state < 105 then
                      ts_lex_case_104
                     else
                      ts_lex_case_105)
                   else
                    (if state < 107 then
                      ts_lex_case_106
                     else
                      (if state < 108 then
                        ts_lex_case_107
                       else
                        ts_lex_case_108)))
                 else
                  (if state < 111 then
                    (if state < 110 then
                      ts_lex_case_109
                     else
                      ts_lex_case_110)
                   else
                    (if state < 112 then
                      ts_lex_case_111
                     else
                      (if state < 113 then
                        ts_lex_case_112
                       else
                        ts_lex_case_113))))))
           else
            (if state < 133 then
              (if state < 123 then
                (if state < 118 then
                  (if state < 116 then
                    (if state < 115 then
                      ts_lex_case_114
                     else
                      ts_lex_case_115)
                   else
                    (if state < 117 then
                      ts_lex_case_116
                     else
                      ts_lex_case_117))
                 else
                  (if state < 120 then
                    (if state < 119 then
                      ts_lex_case_118
                     else
                      ts_lex_case_119)
                   else
                    (if state < 121 then
                      ts_lex_case_120
                     else
                      (if state < 122 then
                        ts_lex_case_121
                       else
                        ts_lex_case_122))))
               else
                (if state < 128 then
                  (if state < 125 then
                    (if state < 124 then
                      ts_lex_case_123
                     else
                      ts_lex_case_124)
                   else
                    (if state < 126 then
                      ts_lex_case_125
                     else
                      (if state < 127 then
                        ts_lex_case_126
                       else
                        ts_lex_case_127)))
                 else
                  (if state < 130 then
                    (if state < 129 then
                      ts_lex_case_128
                     else
                      ts_lex_case_129)
                   else
                    (if state < 131 then
                      ts_lex_case_130
                     else
                      (if state < 132 then
                        ts_lex_case_131
                       else
                        ts_lex_case_132)))))
             else
              (if state < 143 then
                (if state < 138 then
                  (if state < 135 then
                    (if state < 134 then
                      ts_lex_case_133
                     else
                      ts_lex_case_134)
                   else
                    (if state < 136 then
                      ts_lex_case_135
                     else
                      (if state < 137 then
                        ts_lex_case_136
                       else
                        ts_lex_case_137)))
                 else
                  (if state < 140 then
                    (if state < 139 then
                      ts_lex_case_138
                     else
                      ts_lex_case_139)
                   else
                    (if state < 141 then
                      ts_lex_case_140
                     else
                      (if state < 142 then
                        ts_lex_case_141
                       else
                        ts_lex_case_142))))
               else
                (if state < 148 then
                  (if state < 145 then
                    (if state < 144 then
                      ts_lex_case_143
                     else
                      ts_lex_case_144)
                   else
                    (if state < 146 then
                      ts_lex_case_145
                     else
                      (if state < 147 then
                        ts_lex_case_146
                       else
                        ts_lex_case_147)))
                 else
                  (if state < 150 then
                    (if state < 149 then
                      ts_lex_case_148
                     else
                      ts_lex_case_149)
                   else
                    (if state < 151 then
                      ts_lex_case_150
                     else
                      (if state < 152 then
                        ts_lex_case_151
                       else
                        ts_lex_case_152))))))))
       else
        (if state < 229 then
          (if state < 191 then
            (if state < 172 then
              (if state < 162 then
                (if state < 157 then
                  (if state < 155 then
                    (if state < 154 then
                      ts_lex_case_153
                     else
                      ts_lex_case_154)
                   else
                    (if state < 156 then
                      ts_lex_case_155
                     else
                      ts_lex_case_156))
                 else
                  (if state < 159 then
                    (if state < 158 then
                      ts_lex_case_157
                     else
                      ts_lex_case_158)
                   else
                    (if state < 160 then
                      ts_lex_case_159
                     else
                      (if state < 161 then
                        ts_lex_case_160
                       else
                        ts_lex_case_161))))
               else
                (if state < 167 then
                  (if state < 164 then
                    (if state < 163 then
                      ts_lex_case_162
                     else
                      ts_lex_case_163)
                   else
                    (if state < 165 then
                      ts_lex_case_164
                     else
                      (if state < 166 then
                        ts_lex_case_165
                       else
                        ts_lex_case_166)))
                 else
                  (if state < 169 then
                    (if state < 168 then
                      ts_lex_case_167
                     else
                      ts_lex_case_168)
                   else
                    (if state < 170 then
                      ts_lex_case_169
                     else
                      (if state < 171 then
                        ts_lex_case_170
                       else
                        ts_lex_case_171)))))
             else
              (if state < 181 then
                (if state < 176 then
                  (if state < 174 then
                    (if state < 173 then
                      ts_lex_case_172
                     else
                      ts_lex_case_173)
                   else
                    (if state < 175 then
                      ts_lex_case_174
                     else
                      ts_lex_case_175))
                 else
                  (if state < 178 then
                    (if state < 177 then
                      ts_lex_case_176
                     else
                      ts_lex_case_177)
                   else
                    (if state < 179 then
                      ts_lex_case_178
                     else
                      (if state < 180 then
                        ts_lex_case_179
                       else
                        ts_lex_case_180))))
               else
                (if state < 186 then
                  (if state < 183 then
                    (if state < 182 then
                      ts_lex_case_181
                     else
                      ts_lex_case_182)
                   else
                    (if state < 184 then
                      ts_lex_case_183
                     else
                      (if state < 185 then
                        ts_lex_case_184
                       else
                        ts_lex_case_185)))
                 else
                  (if state < 188 then
                    (if state < 187 then
                      ts_lex_case_186
                     else
                      ts_lex_case_187)
                   else
                    (if state < 189 then
                      ts_lex_case_188
                     else
                      (if state < 190 then
                        ts_lex_case_189
                       else
                        ts_lex_case_190))))))
           else
            (if state < 210 then
              (if state < 200 then
                (if state < 195 then
                  (if state < 193 then
                    (if state < 192 then
                      ts_lex_case_191
                     else
                      ts_lex_case_192)
                   else
                    (if state < 194 then
                      ts_lex_case_193
                     else
                      ts_lex_case_194))
                 else
                  (if state < 197 then
                    (if state < 196 then
                      ts_lex_case_195
                     else
                      ts_lex_case_196)
                   else
                    (if state < 198 then
                      ts_lex_case_197
                     else
                      (if state < 199 then
                        ts_lex_case_198
                       else
                        ts_lex_case_199))))
               else
                (if state < 205 then
                  (if state < 202 then
                    (if state < 201 then
                      ts_lex_case_200
                     else
                      ts_lex_case_201)
                   else
                    (if state < 203 then
                      ts_lex_case_202
                     else
                      (if state < 204 then
                        ts_lex_case_203
                       else
                        ts_lex_case_204)))
                 else
                  (if state < 207 then
                    (if state < 206 then
                      ts_lex_case_205
                     else
                      ts_lex_case_206)
                   else
                    (if state < 208 then
                      ts_lex_case_207
                     else
                      (if state < 209 then
                        ts_lex_case_208
                       else
                        ts_lex_case_209)))))
             else
              (if state < 219 then
                (if state < 214 then
                  (if state < 212 then
                    (if state < 211 then
                      ts_lex_case_210
                     else
                      ts_lex_case_211)
                   else
                    (if state < 213 then
                      ts_lex_case_212
                     else
                      ts_lex_case_213))
                 else
                  (if state < 216 then
                    (if state < 215 then
                      ts_lex_case_214
                     else
                      ts_lex_case_215)
                   else
                    (if state < 217 then
                      ts_lex_case_216
                     else
                      (if state < 218 then
                        ts_lex_case_217
                       else
                        ts_lex_case_218))))
               else
                (if state < 224 then
                  (if state < 221 then
                    (if state < 220 then
                      ts_lex_case_219
                     else
                      ts_lex_case_220)
                   else
                    (if state < 222 then
                      ts_lex_case_221
                     else
                      (if state < 223 then
                        ts_lex_case_222
                       else
                        ts_lex_case_223)))
                 else
                  (if state < 226 then
                    (if state < 225 then
                      ts_lex_case_224
                     else
                      ts_lex_case_225)
                   else
                    (if state < 227 then
                      ts_lex_case_226
                     else
                      (if state < 228 then
                        ts_lex_case_227
                       else
                        ts_lex_case_228)))))))
         else
          (if state < 267 then
            (if state < 248 then
              (if state < 238 then
                (if state < 233 then
                  (if state < 231 then
                    (if state < 230 then
                      ts_lex_case_229
                     else
                      ts_lex_case_230)
                   else
                    (if state < 232 then
                      ts_lex_case_231
                     else
                      ts_lex_case_232))
                 else
                  (if state < 235 then
                    (if state < 234 then
                      ts_lex_case_233
                     else
                      ts_lex_case_234)
                   else
                    (if state < 236 then
                      ts_lex_case_235
                     else
                      (if state < 237 then
                        ts_lex_case_236
                       else
                        ts_lex_case_237))))
               else
                (if state < 243 then
                  (if state < 240 then
                    (if state < 239 then
                      ts_lex_case_238
                     else
                      ts_lex_case_239)
                   else
                    (if state < 241 then
                      ts_lex_case_240
                     else
                      (if state < 242 then
                        ts_lex_case_241
                       else
                        ts_lex_case_242)))
                 else
                  (if state < 245 then
                    (if state < 244 then
                      ts_lex_case_243
                     else
                      ts_lex_case_244)
                   else
                    (if state < 246 then
                      ts_lex_case_245
                     else
                      (if state < 247 then
                        ts_lex_case_246
                       else
                        ts_lex_case_247)))))
             else
              (if state < 257 then
                (if state < 252 then
                  (if state < 250 then
                    (if state < 249 then
                      ts_lex_case_248
                     else
                      ts_lex_case_249)
                   else
                    (if state < 251 then
                      ts_lex_case_250
                     else
                      ts_lex_case_251))
                 else
                  (if state < 254 then
                    (if state < 253 then
                      ts_lex_case_252
                     else
                      ts_lex_case_253)
                   else
                    (if state < 255 then
                      ts_lex_case_254
                     else
                      (if state < 256 then
                        ts_lex_case_255
                       else
                        ts_lex_case_256))))
               else
                (if state < 262 then
                  (if state < 259 then
                    (if state < 258 then
                      ts_lex_case_257
                     else
                      ts_lex_case_258)
                   else
                    (if state < 260 then
                      ts_lex_case_259
                     else
                      (if state < 261 then
                        ts_lex_case_260
                       else
                        ts_lex_case_261)))
                 else
                  (if state < 264 then
                    (if state < 263 then
                      ts_lex_case_262
                     else
                      ts_lex_case_263)
                   else
                    (if state < 265 then
                      ts_lex_case_264
                     else
                      (if state < 266 then
                        ts_lex_case_265
                       else
                        ts_lex_case_266))))))
           else
            (if state < 286 then
              (if state < 276 then
                (if state < 271 then
                  (if state < 269 then
                    (if state < 268 then
                      ts_lex_case_267
                     else
                      ts_lex_case_268)
                   else
                    (if state < 270 then
                      ts_lex_case_269
                     else
                      ts_lex_case_270))
                 else
                  (if state < 273 then
                    (if state < 272 then
                      ts_lex_case_271
                     else
                      ts_lex_case_272)
                   else
                    (if state < 274 then
                      ts_lex_case_273
                     else
                      (if state < 275 then
                        ts_lex_case_274
                       else
                        ts_lex_case_275))))
               else
                (if state < 281 then
                  (if state < 278 then
                    (if state < 277 then
                      ts_lex_case_276
                     else
                      ts_lex_case_277)
                   else
                    (if state < 279 then
                      ts_lex_case_278
                     else
                      (if state < 280 then
                        ts_lex_case_279
                       else
                        ts_lex_case_280)))
                 else
                  (if state < 283 then
                    (if state < 282 then
                      ts_lex_case_281
                     else
                      ts_lex_case_282)
                   else
                    (if state < 284 then
                      ts_lex_case_283
                     else
                      (if state < 285 then
                        ts_lex_case_284
                       else
                        ts_lex_case_285)))))
             else
              (if state < 296 then
                (if state < 291 then
                  (if state < 288 then
                    (if state < 287 then
                      ts_lex_case_286
                     else
                      ts_lex_case_287)
                   else
                    (if state < 289 then
                      ts_lex_case_288
                     else
                      (if state < 290 then
                        ts_lex_case_289
                       else
                        ts_lex_case_290)))
                 else
                  (if state < 293 then
                    (if state < 292 then
                      ts_lex_case_291
                     else
                      ts_lex_case_292)
                   else
                    (if state < 294 then
                      ts_lex_case_293
                     else
                      (if state < 295 then
                        ts_lex_case_294
                       else
                        ts_lex_case_295))))
               else
                (if state < 301 then
                  (if state < 298 then
                    (if state < 297 then
                      ts_lex_case_296
                     else
                      ts_lex_case_297)
                   else
                    (if state < 299 then
                      ts_lex_case_298
                     else
                      (if state < 300 then
                        ts_lex_case_299
                       else
                        ts_lex_case_300)))
                 else
                  (if state < 303 then
                    (if state < 302 then
                      ts_lex_case_301
                     else
                      ts_lex_case_302)
                   else
                    (if state < 304 then
                      ts_lex_case_303
                     else
                      (if state < 305 then
                        ts_lex_case_304
                       else
                        ts_lex_case_305)))))))))
     else
      (if state < 459 then
        (if state < 382 then
          (if state < 344 then
            (if state < 325 then
              (if state < 315 then
                (if state < 310 then
                  (if state < 308 then
                    (if state < 307 then
                      ts_lex_case_306
                     else
                      ts_lex_case_307)
                   else
                    (if state < 309 then
                      ts_lex_case_308
                     else
                      ts_lex_case_309))
                 else
                  (if state < 312 then
                    (if state < 311 then
                      ts_lex_case_310
                     else
                      ts_lex_case_311)
                   else
                    (if state < 313 then
                      ts_lex_case_312
                     else
                      (if state < 314 then
                        ts_lex_case_313
                       else
                        ts_lex_case_314))))
               else
                (if state < 320 then
                  (if state < 317 then
                    (if state < 316 then
                      ts_lex_case_315
                     else
                      ts_lex_case_316)
                   else
                    (if state < 318 then
                      ts_lex_case_317
                     else
                      (if state < 319 then
                        ts_lex_case_318
                       else
                        ts_lex_case_319)))
                 else
                  (if state < 322 then
                    (if state < 321 then
                      ts_lex_case_320
                     else
                      ts_lex_case_321)
                   else
                    (if state < 323 then
                      ts_lex_case_322
                     else
                      (if state < 324 then
                        ts_lex_case_323
                       else
                        ts_lex_case_324)))))
             else
              (if state < 334 then
                (if state < 329 then
                  (if state < 327 then
                    (if state < 326 then
                      ts_lex_case_325
                     else
                      ts_lex_case_326)
                   else
                    (if state < 328 then
                      ts_lex_case_327
                     else
                      ts_lex_case_328))
                 else
                  (if state < 331 then
                    (if state < 330 then
                      ts_lex_case_329
                     else
                      ts_lex_case_330)
                   else
                    (if state < 332 then
                      ts_lex_case_331
                     else
                      (if state < 333 then
                        ts_lex_case_332
                       else
                        ts_lex_case_333))))
               else
                (if state < 339 then
                  (if state < 336 then
                    (if state < 335 then
                      ts_lex_case_334
                     else
                      ts_lex_case_335)
                   else
                    (if state < 337 then
                      ts_lex_case_336
                     else
                      (if state < 338 then
                        ts_lex_case_337
                       else
                        ts_lex_case_338)))
                 else
                  (if state < 341 then
                    (if state < 340 then
                      ts_lex_case_339
                     else
                      ts_lex_case_340)
                   else
                    (if state < 342 then
                      ts_lex_case_341
                     else
                      (if state < 343 then
                        ts_lex_case_342
                       else
                        ts_lex_case_343))))))
           else
            (if state < 363 then
              (if state < 353 then
                (if state < 348 then
                  (if state < 346 then
                    (if state < 345 then
                      ts_lex_case_344
                     else
                      ts_lex_case_345)
                   else
                    (if state < 347 then
                      ts_lex_case_346
                     else
                      ts_lex_case_347))
                 else
                  (if state < 350 then
                    (if state < 349 then
                      ts_lex_case_348
                     else
                      ts_lex_case_349)
                   else
                    (if state < 351 then
                      ts_lex_case_350
                     else
                      (if state < 352 then
                        ts_lex_case_351
                       else
                        ts_lex_case_352))))
               else
                (if state < 358 then
                  (if state < 355 then
                    (if state < 354 then
                      ts_lex_case_353
                     else
                      ts_lex_case_354)
                   else
                    (if state < 356 then
                      ts_lex_case_355
                     else
                      (if state < 357 then
                        ts_lex_case_356
                       else
                        ts_lex_case_357)))
                 else
                  (if state < 360 then
                    (if state < 359 then
                      ts_lex_case_358
                     else
                      ts_lex_case_359)
                   else
                    (if state < 361 then
                      ts_lex_case_360
                     else
                      (if state < 362 then
                        ts_lex_case_361
                       else
                        ts_lex_case_362)))))
             else
              (if state < 372 then
                (if state < 367 then
                  (if state < 365 then
                    (if state < 364 then
                      ts_lex_case_363
                     else
                      ts_lex_case_364)
                   else
                    (if state < 366 then
                      ts_lex_case_365
                     else
                      ts_lex_case_366))
                 else
                  (if state < 369 then
                    (if state < 368 then
                      ts_lex_case_367
                     else
                      ts_lex_case_368)
                   else
                    (if state < 370 then
                      ts_lex_case_369
                     else
                      (if state < 371 then
                        ts_lex_case_370
                       else
                        ts_lex_case_371))))
               else
                (if state < 377 then
                  (if state < 374 then
                    (if state < 373 then
                      ts_lex_case_372
                     else
                      ts_lex_case_373)
                   else
                    (if state < 375 then
                      ts_lex_case_374
                     else
                      (if state < 376 then
                        ts_lex_case_375
                       else
                        ts_lex_case_376)))
                 else
                  (if state < 379 then
                    (if state < 378 then
                      ts_lex_case_377
                     else
                      ts_lex_case_378)
                   else
                    (if state < 380 then
                      ts_lex_case_379
                     else
                      (if state < 381 then
                        ts_lex_case_380
                       else
                        ts_lex_case_381)))))))
         else
          (if state < 420 then
            (if state < 401 then
              (if state < 391 then
                (if state < 386 then
                  (if state < 384 then
                    (if state < 383 then
                      ts_lex_case_382
                     else
                      ts_lex_case_383)
                   else
                    (if state < 385 then
                      ts_lex_case_384
                     else
                      ts_lex_case_385))
                 else
                  (if state < 388 then
                    (if state < 387 then
                      ts_lex_case_386
                     else
                      ts_lex_case_387)
                   else
                    (if state < 389 then
                      ts_lex_case_388
                     else
                      (if state < 390 then
                        ts_lex_case_389
                       else
                        ts_lex_case_390))))
               else
                (if state < 396 then
                  (if state < 393 then
                    (if state < 392 then
                      ts_lex_case_391
                     else
                      ts_lex_case_392)
                   else
                    (if state < 394 then
                      ts_lex_case_393
                     else
                      (if state < 395 then
                        ts_lex_case_394
                       else
                        ts_lex_case_395)))
                 else
                  (if state < 398 then
                    (if state < 397 then
                      ts_lex_case_396
                     else
                      ts_lex_case_397)
                   else
                    (if state < 399 then
                      ts_lex_case_398
                     else
                      (if state < 400 then
                        ts_lex_case_399
                       else
                        ts_lex_case_400)))))
             else
              (if state < 410 then
                (if state < 405 then
                  (if state < 403 then
                    (if state < 402 then
                      ts_lex_case_401
                     else
                      ts_lex_case_402)
                   else
                    (if state < 404 then
                      ts_lex_case_403
                     else
                      ts_lex_case_404))
                 else
                  (if state < 407 then
                    (if state < 406 then
                      ts_lex_case_405
                     else
                      ts_lex_case_406)
                   else
                    (if state < 408 then
                      ts_lex_case_407
                     else
                      (if state < 409 then
                        ts_lex_case_408
                       else
                        ts_lex_case_409))))
               else
                (if state < 415 then
                  (if state < 412 then
                    (if state < 411 then
                      ts_lex_case_410
                     else
                      ts_lex_case_411)
                   else
                    (if state < 413 then
                      ts_lex_case_412
                     else
                      (if state < 414 then
                        ts_lex_case_413
                       else
                        ts_lex_case_414)))
                 else
                  (if state < 417 then
                    (if state < 416 then
                      ts_lex_case_415
                     else
                      ts_lex_case_416)
                   else
                    (if state < 418 then
                      ts_lex_case_417
                     else
                      (if state < 419 then
                        ts_lex_case_418
                       else
                        ts_lex_case_419))))))
           else
            (if state < 439 then
              (if state < 429 then
                (if state < 424 then
                  (if state < 422 then
                    (if state < 421 then
                      ts_lex_case_420
                     else
                      ts_lex_case_421)
                   else
                    (if state < 423 then
                      ts_lex_case_422
                     else
                      ts_lex_case_423))
                 else
                  (if state < 426 then
                    (if state < 425 then
                      ts_lex_case_424
                     else
                      ts_lex_case_425)
                   else
                    (if state < 427 then
                      ts_lex_case_426
                     else
                      (if state < 428 then
                        ts_lex_case_427
                       else
                        ts_lex_case_428))))
               else
                (if state < 434 then
                  (if state < 431 then
                    (if state < 430 then
                      ts_lex_case_429
                     else
                      ts_lex_case_430)
                   else
                    (if state < 432 then
                      ts_lex_case_431
                     else
                      (if state < 433 then
                        ts_lex_case_432
                       else
                        ts_lex_case_433)))
                 else
                  (if state < 436 then
                    (if state < 435 then
                      ts_lex_case_434
                     else
                      ts_lex_case_435)
                   else
                    (if state < 437 then
                      ts_lex_case_436
                     else
                      (if state < 438 then
                        ts_lex_case_437
                       else
                        ts_lex_case_438)))))
             else
              (if state < 449 then
                (if state < 444 then
                  (if state < 441 then
                    (if state < 440 then
                      ts_lex_case_439
                     else
                      ts_lex_case_440)
                   else
                    (if state < 442 then
                      ts_lex_case_441
                     else
                      (if state < 443 then
                        ts_lex_case_442
                       else
                        ts_lex_case_443)))
                 else
                  (if state < 446 then
                    (if state < 445 then
                      ts_lex_case_444
                     else
                      ts_lex_case_445)
                   else
                    (if state < 447 then
                      ts_lex_case_446
                     else
                      (if state < 448 then
                        ts_lex_case_447
                       else
                        ts_lex_case_448))))
               else
                (if state < 454 then
                  (if state < 451 then
                    (if state < 450 then
                      ts_lex_case_449
                     else
                      ts_lex_case_450)
                   else
                    (if state < 452 then
                      ts_lex_case_451
                     else
                      (if state < 453 then
                        ts_lex_case_452
                       else
                        ts_lex_case_453)))
                 else
                  (if state < 456 then
                    (if state < 455 then
                      ts_lex_case_454
                     else
                      ts_lex_case_455)
                   else
                    (if state < 457 then
                      ts_lex_case_456
                     else
                      (if state < 458 then
                        ts_lex_case_457
                       else
                        ts_lex_case_458))))))))
       else
        (if state < 536 then
          (if state < 497 then
            (if state < 478 then
              (if state < 468 then
                (if state < 463 then
                  (if state < 461 then
                    (if state < 460 then
                      ts_lex_case_459
                     else
                      ts_lex_case_460)
                   else
                    (if state < 462 then
                      ts_lex_case_461
                     else
                      ts_lex_case_462))
                 else
                  (if state < 465 then
                    (if state < 464 then
                      ts_lex_case_463
                     else
                      ts_lex_case_464)
                   else
                    (if state < 466 then
                      ts_lex_case_465
                     else
                      (if state < 467 then
                        ts_lex_case_466
                       else
                        ts_lex_case_467))))
               else
                (if state < 473 then
                  (if state < 470 then
                    (if state < 469 then
                      ts_lex_case_468
                     else
                      ts_lex_case_469)
                   else
                    (if state < 471 then
                      ts_lex_case_470
                     else
                      (if state < 472 then
                        ts_lex_case_471
                       else
                        ts_lex_case_472)))
                 else
                  (if state < 475 then
                    (if state < 474 then
                      ts_lex_case_473
                     else
                      ts_lex_case_474)
                   else
                    (if state < 476 then
                      ts_lex_case_475
                     else
                      (if state < 477 then
                        ts_lex_case_476
                       else
                        ts_lex_case_477)))))
             else
              (if state < 487 then
                (if state < 482 then
                  (if state < 480 then
                    (if state < 479 then
                      ts_lex_case_478
                     else
                      ts_lex_case_479)
                   else
                    (if state < 481 then
                      ts_lex_case_480
                     else
                      ts_lex_case_481))
                 else
                  (if state < 484 then
                    (if state < 483 then
                      ts_lex_case_482
                     else
                      ts_lex_case_483)
                   else
                    (if state < 485 then
                      ts_lex_case_484
                     else
                      (if state < 486 then
                        ts_lex_case_485
                       else
                        ts_lex_case_486))))
               else
                (if state < 492 then
                  (if state < 489 then
                    (if state < 488 then
                      ts_lex_case_487
                     else
                      ts_lex_case_488)
                   else
                    (if state < 490 then
                      ts_lex_case_489
                     else
                      (if state < 491 then
                        ts_lex_case_490
                       else
                        ts_lex_case_491)))
                 else
                  (if state < 494 then
                    (if state < 493 then
                      ts_lex_case_492
                     else
                      ts_lex_case_493)
                   else
                    (if state < 495 then
                      ts_lex_case_494
                     else
                      (if state < 496 then
                        ts_lex_case_495
                       else
                        ts_lex_case_496))))))
           else
            (if state < 516 then
              (if state < 506 then
                (if state < 501 then
                  (if state < 499 then
                    (if state < 498 then
                      ts_lex_case_497
                     else
                      ts_lex_case_498)
                   else
                    (if state < 500 then
                      ts_lex_case_499
                     else
                      ts_lex_case_500))
                 else
                  (if state < 503 then
                    (if state < 502 then
                      ts_lex_case_501
                     else
                      ts_lex_case_502)
                   else
                    (if state < 504 then
                      ts_lex_case_503
                     else
                      (if state < 505 then
                        ts_lex_case_504
                       else
                        ts_lex_case_505))))
               else
                (if state < 511 then
                  (if state < 508 then
                    (if state < 507 then
                      ts_lex_case_506
                     else
                      ts_lex_case_507)
                   else
                    (if state < 509 then
                      ts_lex_case_508
                     else
                      (if state < 510 then
                        ts_lex_case_509
                       else
                        ts_lex_case_510)))
                 else
                  (if state < 513 then
                    (if state < 512 then
                      ts_lex_case_511
                     else
                      ts_lex_case_512)
                   else
                    (if state < 514 then
                      ts_lex_case_513
                     else
                      (if state < 515 then
                        ts_lex_case_514
                       else
                        ts_lex_case_515)))))
             else
              (if state < 526 then
                (if state < 521 then
                  (if state < 518 then
                    (if state < 517 then
                      ts_lex_case_516
                     else
                      ts_lex_case_517)
                   else
                    (if state < 519 then
                      ts_lex_case_518
                     else
                      (if state < 520 then
                        ts_lex_case_519
                       else
                        ts_lex_case_520)))
                 else
                  (if state < 523 then
                    (if state < 522 then
                      ts_lex_case_521
                     else
                      ts_lex_case_522)
                   else
                    (if state < 524 then
                      ts_lex_case_523
                     else
                      (if state < 525 then
                        ts_lex_case_524
                       else
                        ts_lex_case_525))))
               else
                (if state < 531 then
                  (if state < 528 then
                    (if state < 527 then
                      ts_lex_case_526
                     else
                      ts_lex_case_527)
                   else
                    (if state < 529 then
                      ts_lex_case_528
                     else
                      (if state < 530 then
                        ts_lex_case_529
                       else
                        ts_lex_case_530)))
                 else
                  (if state < 533 then
                    (if state < 532 then
                      ts_lex_case_531
                     else
                      ts_lex_case_532)
                   else
                    (if state < 534 then
                      ts_lex_case_533
                     else
                      (if state < 535 then
                        ts_lex_case_534
                       else
                        ts_lex_case_535)))))))
         else
          (if state < 574 then
            (if state < 555 then
              (if state < 545 then
                (if state < 540 then
                  (if state < 538 then
                    (if state < 537 then
                      ts_lex_case_536
                     else
                      ts_lex_case_537)
                   else
                    (if state < 539 then
                      ts_lex_case_538
                     else
                      ts_lex_case_539))
                 else
                  (if state < 542 then
                    (if state < 541 then
                      ts_lex_case_540
                     else
                      ts_lex_case_541)
                   else
                    (if state < 543 then
                      ts_lex_case_542
                     else
                      (if state < 544 then
                        ts_lex_case_543
                       else
                        ts_lex_case_544))))
               else
                (if state < 550 then
                  (if state < 547 then
                    (if state < 546 then
                      ts_lex_case_545
                     else
                      ts_lex_case_546)
                   else
                    (if state < 548 then
                      ts_lex_case_547
                     else
                      (if state < 549 then
                        ts_lex_case_548
                       else
                        ts_lex_case_549)))
                 else
                  (if state < 552 then
                    (if state < 551 then
                      ts_lex_case_550
                     else
                      ts_lex_case_551)
                   else
                    (if state < 553 then
                      ts_lex_case_552
                     else
                      (if state < 554 then
                        ts_lex_case_553
                       else
                        ts_lex_case_554)))))
             else
              (if state < 564 then
                (if state < 559 then
                  (if state < 557 then
                    (if state < 556 then
                      ts_lex_case_555
                     else
                      ts_lex_case_556)
                   else
                    (if state < 558 then
                      ts_lex_case_557
                     else
                      ts_lex_case_558))
                 else
                  (if state < 561 then
                    (if state < 560 then
                      ts_lex_case_559
                     else
                      ts_lex_case_560)
                   else
                    (if state < 562 then
                      ts_lex_case_561
                     else
                      (if state < 563 then
                        ts_lex_case_562
                       else
                        ts_lex_case_563))))
               else
                (if state < 569 then
                  (if state < 566 then
                    (if state < 565 then
                      ts_lex_case_564
                     else
                      ts_lex_case_565)
                   else
                    (if state < 567 then
                      ts_lex_case_566
                     else
                      (if state < 568 then
                        ts_lex_case_567
                       else
                        ts_lex_case_568)))
                 else
                  (if state < 571 then
                    (if state < 570 then
                      ts_lex_case_569
                     else
                      ts_lex_case_570)
                   else
                    (if state < 572 then
                      ts_lex_case_571
                     else
                      (if state < 573 then
                        ts_lex_case_572
                       else
                        ts_lex_case_573))))))
           else
            (if state < 593 then
              (if state < 583 then
                (if state < 578 then
                  (if state < 576 then
                    (if state < 575 then
                      ts_lex_case_574
                     else
                      ts_lex_case_575)
                   else
                    (if state < 577 then
                      ts_lex_case_576
                     else
                      ts_lex_case_577))
                 else
                  (if state < 580 then
                    (if state < 579 then
                      ts_lex_case_578
                     else
                      ts_lex_case_579)
                   else
                    (if state < 581 then
                      ts_lex_case_580
                     else
                      (if state < 582 then
                        ts_lex_case_581
                       else
                        ts_lex_case_582))))
               else
                (if state < 588 then
                  (if state < 585 then
                    (if state < 584 then
                      ts_lex_case_583
                     else
                      ts_lex_case_584)
                   else
                    (if state < 586 then
                      ts_lex_case_585
                     else
                      (if state < 587 then
                        ts_lex_case_586
                       else
                        ts_lex_case_587)))
                 else
                  (if state < 590 then
                    (if state < 589 then
                      ts_lex_case_588
                     else
                      ts_lex_case_589)
                   else
                    (if state < 591 then
                      ts_lex_case_590
                     else
                      (if state < 592 then
                        ts_lex_case_591
                       else
                        ts_lex_case_592)))))
             else
              (if state < 603 then
                (if state < 598 then
                  (if state < 595 then
                    (if state < 594 then
                      ts_lex_case_593
                     else
                      ts_lex_case_594)
                   else
                    (if state < 596 then
                      ts_lex_case_595
                     else
                      (if state < 597 then
                        ts_lex_case_596
                       else
                        ts_lex_case_597)))
                 else
                  (if state < 600 then
                    (if state < 599 then
                      ts_lex_case_598
                     else
                      ts_lex_case_599)
                   else
                    (if state < 601 then
                      ts_lex_case_600
                     else
                      (if state < 602 then
                        ts_lex_case_601
                       else
                        ts_lex_case_602))))
               else
                (if state < 608 then
                  (if state < 605 then
                    (if state < 604 then
                      ts_lex_case_603
                     else
                      ts_lex_case_604)
                   else
                    (if state < 606 then
                      ts_lex_case_605
                     else
                      (if state < 607 then
                        ts_lex_case_606
                       else
                        ts_lex_case_607)))
                 else
                  (if state < 610 then
                    (if state < 609 then
                      ts_lex_case_608
                     else
                      ts_lex_case_609)
                   else
                    (if state < 611 then
                      ts_lex_case_610
                     else
                      (if state < 612 then
                        ts_lex_case_611
                       else
                        (None, [])))))))))))"

subsection \<open>The keyword lexer \<^verbatim>\<open>ts_lex_keywords\<close>\<close>

definition ts_lex_keywords_case_0 :: lex_case where
  "ts_lex_keywords_case_0 = (None,
    [(AnyOf [Ch CHR ''a''], ADVANCE 1),
     (AnyOf [Ch CHR ''b''], ADVANCE 2),
     (AnyOf [Ch CHR ''c''], ADVANCE 3),
     (AnyOf [Ch CHR ''e''], ADVANCE 4),
     (AnyOf [Ch CHR ''f''], ADVANCE 5),
     (AnyOf [Ch CHR ''i''], ADVANCE 6),
     (AnyOf [Ch CHR ''l''], ADVANCE 7),
     (AnyOf [Ch CHR ''n''], ADVANCE 8),
     (AnyOf [Ch CHR ''o''], ADVANCE 9),
     (AnyOf [Ch CHR ''t''], ADVANCE 10),
     (AnyOf [Ch CHR ''w''], ADVANCE 11),
     (AnyOf [Ch CHR 0x09, Ch CHR '' ''], SKIP 0)])"

definition ts_lex_keywords_case_1 :: lex_case where
  "ts_lex_keywords_case_1 = (None,
    [(AnyOf [Ch CHR ''n''], ADVANCE 12),
     (AnyOf [Ch CHR ''s''], ADVANCE 13)])"

definition ts_lex_keywords_case_2 :: lex_case where
  "ts_lex_keywords_case_2 = (None,
    [(AnyOf [Ch CHR ''o''], ADVANCE 14)])"

definition ts_lex_keywords_case_3 :: lex_case where
  "ts_lex_keywords_case_3 = (None,
    [(AnyOf [Ch CHR ''o''], ADVANCE 15)])"

definition ts_lex_keywords_case_4 :: lex_case where
  "ts_lex_keywords_case_4 = (None,
    [(AnyOf [Ch CHR ''q''], ADVANCE 16)])"

definition ts_lex_keywords_case_5 :: lex_case where
  "ts_lex_keywords_case_5 = (None,
    [(AnyOf [Ch CHR ''a''], ADVANCE 17),
     (AnyOf [Ch CHR ''i''], ADVANCE 18),
     (AnyOf [Ch CHR ''r''], ADVANCE 19)])"

definition ts_lex_keywords_case_6 :: lex_case where
  "ts_lex_keywords_case_6 = (None,
    [(AnyOf [Ch CHR ''n''], ADVANCE 20)])"

definition ts_lex_keywords_case_7 :: lex_case where
  "ts_lex_keywords_case_7 = (None,
    [(AnyOf [Ch CHR ''i''], ADVANCE 21)])"

definition ts_lex_keywords_case_8 :: lex_case where
  "ts_lex_keywords_case_8 = (None,
    [(AnyOf [Ch CHR ''o''], ADVANCE 22),
     (AnyOf [Ch CHR ''u''], ADVANCE 23)])"

definition ts_lex_keywords_case_9 :: lex_case where
  "ts_lex_keywords_case_9 = (None,
    [(AnyOf [Ch CHR ''r''], ADVANCE 24)])"

definition ts_lex_keywords_case_10 :: lex_case where
  "ts_lex_keywords_case_10 = (None,
    [(AnyOf [Ch CHR ''a''], ADVANCE 25),
     (AnyOf [Ch CHR ''e''], ADVANCE 26),
     (AnyOf [Ch CHR ''i''], ADVANCE 27),
     (AnyOf [Ch CHR ''o''], ADVANCE 28),
     (AnyOf [Ch CHR ''r''], ADVANCE 29)])"

definition ts_lex_keywords_case_11 :: lex_case where
  "ts_lex_keywords_case_11 = (None,
    [(AnyOf [Ch CHR ''i''], ADVANCE 30)])"

definition ts_lex_keywords_case_12 :: lex_case where
  "ts_lex_keywords_case_12 = (None,
    [(AnyOf [Ch CHR ''d''], ADVANCE 31)])"

definition ts_lex_keywords_case_13 :: lex_case where
  "ts_lex_keywords_case_13 = (Some anon_sym_as, [])"

definition ts_lex_keywords_case_14 :: lex_case where
  "ts_lex_keywords_case_14 = (None,
    [(AnyOf [Ch CHR ''o''], ADVANCE 32)])"

definition ts_lex_keywords_case_15 :: lex_case where
  "ts_lex_keywords_case_15 = (None,
    [(AnyOf [Ch CHR ''n''], ADVANCE 33)])"

definition ts_lex_keywords_case_16 :: lex_case where
  "ts_lex_keywords_case_16 = (None,
    [(AnyOf [Ch CHR ''u''], ADVANCE 34)])"

definition ts_lex_keywords_case_17 :: lex_case where
  "ts_lex_keywords_case_17 = (None,
    [(AnyOf [Ch CHR ''l''], ADVANCE 35)])"

definition ts_lex_keywords_case_18 :: lex_case where
  "ts_lex_keywords_case_18 = (None,
    [(AnyOf [Ch CHR ''x''], ADVANCE 36)])"

definition ts_lex_keywords_case_19 :: lex_case where
  "ts_lex_keywords_case_19 = (None,
    [(AnyOf [Ch CHR ''o''], ADVANCE 37)])"

definition ts_lex_keywords_case_20 :: lex_case where
  "ts_lex_keywords_case_20 = (Some anon_sym_in, [])"

definition ts_lex_keywords_case_21 :: lex_case where
  "ts_lex_keywords_case_21 = (None,
    [(AnyOf [Ch CHR ''s''], ADVANCE 38)])"

definition ts_lex_keywords_case_22 :: lex_case where
  "ts_lex_keywords_case_22 = (None,
    [(AnyOf [Ch CHR ''t''], ADVANCE 39)])"

definition ts_lex_keywords_case_23 :: lex_case where
  "ts_lex_keywords_case_23 = (None,
    [(AnyOf [Ch CHR ''m''], ADVANCE 40)])"

definition ts_lex_keywords_case_24 :: lex_case where
  "ts_lex_keywords_case_24 = (Some anon_sym_or, [])"

definition ts_lex_keywords_case_25 :: lex_case where
  "ts_lex_keywords_case_25 = (None,
    [(AnyOf [Ch CHR ''b''], ADVANCE 41)])"

definition ts_lex_keywords_case_26 :: lex_case where
  "ts_lex_keywords_case_26 = (None,
    [(AnyOf [Ch CHR ''x''], ADVANCE 42)])"

definition ts_lex_keywords_case_27 :: lex_case where
  "ts_lex_keywords_case_27 = (None,
    [(AnyOf [Ch CHR ''m''], ADVANCE 43)])"

definition ts_lex_keywords_case_28 :: lex_case where
  "ts_lex_keywords_case_28 = (Some anon_sym_to, [])"

definition ts_lex_keywords_case_29 :: lex_case where
  "ts_lex_keywords_case_29 = (None,
    [(AnyOf [Ch CHR ''u''], ADVANCE 44)])"

definition ts_lex_keywords_case_30 :: lex_case where
  "ts_lex_keywords_case_30 = (None,
    [(AnyOf [Ch CHR ''t''], ADVANCE 45)])"

definition ts_lex_keywords_case_31 :: lex_case where
  "ts_lex_keywords_case_31 = (Some anon_sym_and, [])"

definition ts_lex_keywords_case_32 :: lex_case where
  "ts_lex_keywords_case_32 = (None,
    [(AnyOf [Ch CHR ''l''], ADVANCE 46)])"

definition ts_lex_keywords_case_33 :: lex_case where
  "ts_lex_keywords_case_33 = (None,
    [(AnyOf [Ch CHR ''t''], ADVANCE 47)])"

definition ts_lex_keywords_case_34 :: lex_case where
  "ts_lex_keywords_case_34 = (None,
    [(AnyOf [Ch CHR ''a''], ADVANCE 48)])"

definition ts_lex_keywords_case_35 :: lex_case where
  "ts_lex_keywords_case_35 = (None,
    [(AnyOf [Ch CHR ''s''], ADVANCE 49)])"

definition ts_lex_keywords_case_36 :: lex_case where
  "ts_lex_keywords_case_36 = (None,
    [(AnyOf [Ch CHR ''e''], ADVANCE 50)])"

definition ts_lex_keywords_case_37 :: lex_case where
  "ts_lex_keywords_case_37 = (None,
    [(AnyOf [Ch CHR ''m''], ADVANCE 51)])"

definition ts_lex_keywords_case_38 :: lex_case where
  "ts_lex_keywords_case_38 = (None,
    [(AnyOf [Ch CHR ''t''], ADVANCE 52)])"

definition ts_lex_keywords_case_39 :: lex_case where
  "ts_lex_keywords_case_39 = (Some anon_sym_not,
    [(AnyOf [Ch CHR ''h''], ADVANCE 53)])"

definition ts_lex_keywords_case_40 :: lex_case where
  "ts_lex_keywords_case_40 = (None,
    [(AnyOf [Ch CHR ''b''], ADVANCE 54)])"

definition ts_lex_keywords_case_41 :: lex_case where
  "ts_lex_keywords_case_41 = (None,
    [(AnyOf [Ch CHR ''l''], ADVANCE 55)])"

definition ts_lex_keywords_case_42 :: lex_case where
  "ts_lex_keywords_case_42 = (None,
    [(AnyOf [Ch CHR ''t''], ADVANCE 56)])"

definition ts_lex_keywords_case_43 :: lex_case where
  "ts_lex_keywords_case_43 = (None,
    [(AnyOf [Ch CHR ''e''], ADVANCE 57)])"

definition ts_lex_keywords_case_44 :: lex_case where
  "ts_lex_keywords_case_44 = (None,
    [(AnyOf [Ch CHR ''e''], ADVANCE 58)])"

definition ts_lex_keywords_case_45 :: lex_case where
  "ts_lex_keywords_case_45 = (None,
    [(AnyOf [Ch CHR ''h''], ADVANCE 59)])"

definition ts_lex_keywords_case_46 :: lex_case where
  "ts_lex_keywords_case_46 = (None,
    [(AnyOf [Ch CHR ''e''], ADVANCE 60)])"

definition ts_lex_keywords_case_47 :: lex_case where
  "ts_lex_keywords_case_47 = (None,
    [(AnyOf [Ch CHR ''a''], ADVANCE 61)])"

definition ts_lex_keywords_case_48 :: lex_case where
  "ts_lex_keywords_case_48 = (None,
    [(AnyOf [Ch CHR ''l''], ADVANCE 62)])"

definition ts_lex_keywords_case_49 :: lex_case where
  "ts_lex_keywords_case_49 = (None,
    [(AnyOf [Ch CHR ''e''], ADVANCE 63)])"

definition ts_lex_keywords_case_50 :: lex_case where
  "ts_lex_keywords_case_50 = (None,
    [(AnyOf [Ch CHR ''d''], ADVANCE 64)])"

definition ts_lex_keywords_case_51 :: lex_case where
  "ts_lex_keywords_case_51 = (Some anon_sym_from, [])"

definition ts_lex_keywords_case_52 :: lex_case where
  "ts_lex_keywords_case_52 = (Some anon_sym_list, [])"

definition ts_lex_keywords_case_53 :: lex_case where
  "ts_lex_keywords_case_53 = (None,
    [(AnyOf [Ch CHR ''i''], ADVANCE 65)])"

definition ts_lex_keywords_case_54 :: lex_case where
  "ts_lex_keywords_case_54 = (None,
    [(AnyOf [Ch CHR ''e''], ADVANCE 66)])"

definition ts_lex_keywords_case_55 :: lex_case where
  "ts_lex_keywords_case_55 = (None,
    [(AnyOf [Ch CHR ''e''], ADVANCE 67)])"

definition ts_lex_keywords_case_56 :: lex_case where
  "ts_lex_keywords_case_56 = (Some anon_sym_text, [])"

definition ts_lex_keywords_case_57 :: lex_case where
  "ts_lex_keywords_case_57 = (None,
    [(AnyOf [Ch CHR ''s''], ADVANCE 68)])"

definition ts_lex_keywords_case_58 :: lex_case where
  "ts_lex_keywords_case_58 = (Some anon_sym_true, [])"

definition ts_lex_keywords_case_59 :: lex_case where
  "ts_lex_keywords_case_59 = (Some anon_sym_with, [])"

definition ts_lex_keywords_case_60 :: lex_case where
  "ts_lex_keywords_case_60 = (None,
    [(AnyOf [Ch CHR ''a''], ADVANCE 69)])"

definition ts_lex_keywords_case_61 :: lex_case where
  "ts_lex_keywords_case_61 = (None,
    [(AnyOf [Ch CHR ''i''], ADVANCE 70)])"

definition ts_lex_keywords_case_62 :: lex_case where
  "ts_lex_keywords_case_62 = (None,
    [(AnyOf [Ch CHR ''s''], ADVANCE 71)])"

definition ts_lex_keywords_case_63 :: lex_case where
  "ts_lex_keywords_case_63 = (Some anon_sym_false, [])"

definition ts_lex_keywords_case_64 :: lex_case where
  "ts_lex_keywords_case_64 = (Some anon_sym_fixed, [])"

definition ts_lex_keywords_case_65 :: lex_case where
  "ts_lex_keywords_case_65 = (None,
    [(AnyOf [Ch CHR ''n''], ADVANCE 72)])"

definition ts_lex_keywords_case_66 :: lex_case where
  "ts_lex_keywords_case_66 = (None,
    [(AnyOf [Ch CHR ''r''], ADVANCE 73)])"

definition ts_lex_keywords_case_67 :: lex_case where
  "ts_lex_keywords_case_67 = (Some anon_sym_table, [])"

definition ts_lex_keywords_case_68 :: lex_case where
  "ts_lex_keywords_case_68 = (Some anon_sym_times, [])"

definition ts_lex_keywords_case_69 :: lex_case where
  "ts_lex_keywords_case_69 = (None,
    [(AnyOf [Ch CHR ''n''], ADVANCE 74)])"

definition ts_lex_keywords_case_70 :: lex_case where
  "ts_lex_keywords_case_70 = (None,
    [(AnyOf [Ch CHR ''n''], ADVANCE 75)])"

definition ts_lex_keywords_case_71 :: lex_case where
  "ts_lex_keywords_case_71 = (Some anon_sym_equals, [])"

definition ts_lex_keywords_case_72 :: lex_case where
  "ts_lex_keywords_case_72 = (None,
    [(AnyOf [Ch CHR ''g''], ADVANCE 76)])"

definition ts_lex_keywords_case_73 :: lex_case where
  "ts_lex_keywords_case_73 = (Some anon_sym_number, [])"

definition ts_lex_keywords_case_74 :: lex_case where
  "ts_lex_keywords_case_74 = (Some anon_sym_boolean, [])"

definition ts_lex_keywords_case_75 :: lex_case where
  "ts_lex_keywords_case_75 = (None,
    [(AnyOf [Ch CHR ''s''], ADVANCE 77)])"

definition ts_lex_keywords_case_76 :: lex_case where
  "ts_lex_keywords_case_76 = (Some sym_nothing, [])"

definition ts_lex_keywords_case_77 :: lex_case where
  "ts_lex_keywords_case_77 = (Some anon_sym_contains, [])"

definition ts_lex_keywords :: "TSStateId \<Rightarrow> lex_case" where
  "ts_lex_keywords state =
    (if state < 39 then
      (if state < 19 then
        (if state < 9 then
          (if state < 4 then
            (if state < 2 then
              (if state < 1 then
                ts_lex_keywords_case_0
               else
                ts_lex_keywords_case_1)
             else
              (if state < 3 then
                ts_lex_keywords_case_2
               else
                ts_lex_keywords_case_3))
           else
            (if state < 6 then
              (if state < 5 then
                ts_lex_keywords_case_4
               else
                ts_lex_keywords_case_5)
             else
              (if state < 7 then
                ts_lex_keywords_case_6
               else
                (if state < 8 then
                  ts_lex_keywords_case_7
                 else
                  ts_lex_keywords_case_8))))
         else
          (if state < 14 then
            (if state < 11 then
              (if state < 10 then
                ts_lex_keywords_case_9
               else
                ts_lex_keywords_case_10)
             else
              (if state < 12 then
                ts_lex_keywords_case_11
               else
                (if state < 13 then
                  ts_lex_keywords_case_12
                 else
                  ts_lex_keywords_case_13)))
           else
            (if state < 16 then
              (if state < 15 then
                ts_lex_keywords_case_14
               else
                ts_lex_keywords_case_15)
             else
              (if state < 17 then
                ts_lex_keywords_case_16
               else
                (if state < 18 then
                  ts_lex_keywords_case_17
                 else
                  ts_lex_keywords_case_18)))))
       else
        (if state < 29 then
          (if state < 24 then
            (if state < 21 then
              (if state < 20 then
                ts_lex_keywords_case_19
               else
                ts_lex_keywords_case_20)
             else
              (if state < 22 then
                ts_lex_keywords_case_21
               else
                (if state < 23 then
                  ts_lex_keywords_case_22
                 else
                  ts_lex_keywords_case_23)))
           else
            (if state < 26 then
              (if state < 25 then
                ts_lex_keywords_case_24
               else
                ts_lex_keywords_case_25)
             else
              (if state < 27 then
                ts_lex_keywords_case_26
               else
                (if state < 28 then
                  ts_lex_keywords_case_27
                 else
                  ts_lex_keywords_case_28))))
         else
          (if state < 34 then
            (if state < 31 then
              (if state < 30 then
                ts_lex_keywords_case_29
               else
                ts_lex_keywords_case_30)
             else
              (if state < 32 then
                ts_lex_keywords_case_31
               else
                (if state < 33 then
                  ts_lex_keywords_case_32
                 else
                  ts_lex_keywords_case_33)))
           else
            (if state < 36 then
              (if state < 35 then
                ts_lex_keywords_case_34
               else
                ts_lex_keywords_case_35)
             else
              (if state < 37 then
                ts_lex_keywords_case_36
               else
                (if state < 38 then
                  ts_lex_keywords_case_37
                 else
                  ts_lex_keywords_case_38))))))
     else
      (if state < 59 then
        (if state < 49 then
          (if state < 44 then
            (if state < 41 then
              (if state < 40 then
                ts_lex_keywords_case_39
               else
                ts_lex_keywords_case_40)
             else
              (if state < 42 then
                ts_lex_keywords_case_41
               else
                (if state < 43 then
                  ts_lex_keywords_case_42
                 else
                  ts_lex_keywords_case_43)))
           else
            (if state < 46 then
              (if state < 45 then
                ts_lex_keywords_case_44
               else
                ts_lex_keywords_case_45)
             else
              (if state < 47 then
                ts_lex_keywords_case_46
               else
                (if state < 48 then
                  ts_lex_keywords_case_47
                 else
                  ts_lex_keywords_case_48))))
         else
          (if state < 54 then
            (if state < 51 then
              (if state < 50 then
                ts_lex_keywords_case_49
               else
                ts_lex_keywords_case_50)
             else
              (if state < 52 then
                ts_lex_keywords_case_51
               else
                (if state < 53 then
                  ts_lex_keywords_case_52
                 else
                  ts_lex_keywords_case_53)))
           else
            (if state < 56 then
              (if state < 55 then
                ts_lex_keywords_case_54
               else
                ts_lex_keywords_case_55)
             else
              (if state < 57 then
                ts_lex_keywords_case_56
               else
                (if state < 58 then
                  ts_lex_keywords_case_57
                 else
                  ts_lex_keywords_case_58)))))
       else
        (if state < 69 then
          (if state < 64 then
            (if state < 61 then
              (if state < 60 then
                ts_lex_keywords_case_59
               else
                ts_lex_keywords_case_60)
             else
              (if state < 62 then
                ts_lex_keywords_case_61
               else
                (if state < 63 then
                  ts_lex_keywords_case_62
                 else
                  ts_lex_keywords_case_63)))
           else
            (if state < 66 then
              (if state < 65 then
                ts_lex_keywords_case_64
               else
                ts_lex_keywords_case_65)
             else
              (if state < 67 then
                ts_lex_keywords_case_66
               else
                (if state < 68 then
                  ts_lex_keywords_case_67
                 else
                  ts_lex_keywords_case_68))))
         else
          (if state < 74 then
            (if state < 71 then
              (if state < 70 then
                ts_lex_keywords_case_69
               else
                ts_lex_keywords_case_70)
             else
              (if state < 72 then
                ts_lex_keywords_case_71
               else
                (if state < 73 then
                  ts_lex_keywords_case_72
                 else
                  ts_lex_keywords_case_73)))
           else
            (if state < 76 then
              (if state < 75 then
                ts_lex_keywords_case_74
               else
                ts_lex_keywords_case_75)
             else
              (if state < 77 then
                ts_lex_keywords_case_76
               else
                (if state < 78 then
                  ts_lex_keywords_case_77
                 else
                  (None, []))))))))"

subsection \<open>Running a lexer automaton\<close>

text \<open>
  Modelled from the spec: the macros \<^verbatim>\<open>START_LEXER\<close>, \<^verbatim>\<open>ADVANCE\<close>, \<^verbatim>\<open>SKIP\<close>,
  \<^verbatim>\<open>ACCEPT_TOKEN\<close> and \<^verbatim>\<open>END_STATE\<close> come from \<^verbatim>\<open>tree_sitter/parser.h\<close>, which is not
  part of the source tree.  They are taken with their usual meaning, the longest-match scan
  of the specification: \<^verbatim>\<open>ACCEPT_TOKEN\<close> records the symbol and marks the current position as
  the end of the token; \<^verbatim>\<open>ADVANCE\<close> consumes the lookahead and continues in the given
  state; \<^verbatim>\<open>SKIP\<close> does the same and moves the start of the token behind the skipped
  character; \<^verbatim>\<open>END_STATE\<close> returns whether a token was recorded.  At the end of the input
  consuming the lookahead leaves the position where it is.

  The cursor is the list of code points not yet consumed and the number of those consumed.
  The result is \<open>None\<close> if the automaton runs forever.
\<close>

datatype lex_result = NoToken | Token TSSymbol nat nat

partial_function (option) run_lexer ::
  "(TSStateId \<Rightarrow> lex_case) \<Rightarrow> TSStateId \<Rightarrow> lookahead list \<Rightarrow> nat \<Rightarrow> nat \<Rightarrow> lex_result
    \<Rightarrow> lex_result option"
where
  "run_lexer lex_fn state inp pos start result =
    (let eof = (inp = []);
         la = (case inp of [] \<Rightarrow> 0 | c # _ \<Rightarrow> c);
         pos' = (if eof then pos else pos + 1);
         result' = (case fst (lex_fn state) of None \<Rightarrow> result | Some s \<Rightarrow> Token s start pos)
     in case first_move (snd (lex_fn state)) eof la of
          None \<Rightarrow> Some result'
        | Some (ADVANCE s) \<Rightarrow> run_lexer lex_fn s (tl inp) pos' start result'
        | Some (SKIP s) \<Rightarrow> run_lexer lex_fn s (tl inp) pos' pos' result')"

section \<open>The parse tables\<close>

text \<open>
  An entry of the parse table is written \<^verbatim>\<open>ACTIONS(i)\<close> under a token (the index of an
  entry of \<^verbatim>\<open>ts_parse_actions\<close>) and \<^verbatim>\<open>STATE(s)\<close> under a non-terminal (the state entered
  after a reduction to it).  The first \<^verbatim>\<open>LARGE_STATE_COUNT\<close> states have a row indexed by
  symbol; every other state has a row of groups, each group a value and the symbols that
  share it.  \<^verbatim>\<open>ts_small_parse_table_map\<close> gives the offset of a state's row in one flat
  array; here the rows are named by their state.
\<close>

datatype table_entry = ACTIONS nat | STATE TSStateId

datatype parse_action =
    SHIFT TSStateId
  | SHIFT_REPEAT TSStateId
  | REDUCE TSSymbol nat
  | RECOVER
  | ACCEPT_INPUT

subsection \<open>Lexer start states: \<^verbatim>\<open>ts_lex_modes\<close>\<close>

definition ts_lex_modes :: "TSStateId \<Rightarrow> TSStateId" where
  "ts_lex_modes state =
    (if state < 76 then
      (if state < 38 then
        (if state < 19 then
          (if state < 9 then
            (if state < 4 then
              (if state < 2 then
                (if state < 1 then
                  0
                 else
                  262)
               else
                (if state < 3 then
                  258
                 else
                  258))
             else
              (if state < 6 then
                (if state < 5 then
                  258
                 else
                  258)
               else
                (if state < 7 then
                  259
                 else
                  (if state < 8 then
                    258
                   else
                    258))))
           else
            (if state < 14 then
              (if state < 11 then
                (if state < 10 then
                  258
                 else
                  258)
               else
                (if state < 12 then
                  258
                 else
                  (if state < 13 then
                    259
                   else
                    258)))
             else
              (if state < 16 then
                (if state < 15 then
                  259
                 else
                  258)
               else
                (if state < 17 then
                  258
                 else
                  (if state < 18 then
                    258
                   else
                    258)))))
         else
          (if state < 28 then
            (if state < 23 then
              (if state < 21 then
                (if state < 20 then
                  258
                 else
                  258)
               else
                (if state < 22 then
                  259
                 else
                  259))
             else
              (if state < 25 then
                (if state < 24 then
                  259
                 else
                  260)
               else
                (if state < 26 then
                  262
                 else
                  (if state < 27 then
                    262
                   else
                    259))))
           else
            (if state < 33 then
              (if state < 30 then
                (if state < 29 then
                  261
                 else
                  261)
               else
                (if state < 31 then
                  261
                 else
                  (if state < 32 then
                    261
                   else
                    257)))
             else
              (if state < 35 then
                (if state < 34 then
                  261
                 else
                  261)
               else
                (if state < 36 then
                  261
                 else
                  (if state < 37 then
                    263
                   else
                    263))))))
       else
        (if state < 57 then
          (if state < 47 then
            (if state < 42 then
              (if state < 40 then
                (if state < 39 then
                  263
                 else
                  263)
               else
                (if state < 41 then
                  263
                 else
                  262))
             else
              (if state < 44 then
                (if state < 43 then
                  263
                 else
                  263)
               else
                (if state < 45 then
                  262
                 else
                  (if state < 46 then
                    264
                   else
                    263))))
           else
            (if state < 52 then
              (if state < 49 then
                (if state < 48 then
                  263
                 else
                  263)
               else
                (if state < 50 then
                  262
                 else
                  (if state < 51 then
                    266
                   else
                    262)))
             else
              (if state < 54 then
                (if state < 53 then
                  263
                 else
                  263)
               else
                (if state < 55 then
                  263
                 else
                  (if state < 56 then
                    265
                   else
                    262)))))
         else
          (if state < 66 then
            (if state < 61 then
              (if state < 59 then
                (if state < 58 then
                  262
                 else
                  360)
               else
                (if state < 60 then
                  262
                 else
                  262))
             else
              (if state < 63 then
                (if state < 62 then
                  262
                 else
                  262)
               else
                (if state < 64 then
                  262
                 else
                  (if state < 65 then
                    262
                   else
                    262))))
           else
            (if state < 71 then
              (if state < 68 then
                (if state < 67 then
                  262
                 else
                  262)
               else
                (if state < 69 then
                  262
                 else
                  (if state < 70 then
                    262
                   else
                    19)))
             else
              (if state < 73 then
                (if state < 72 then
                  262
                 else
                  262)
               else
                (if state < 74 then
                  262
                 else
                  (if state < 75 then
                    262
                   else
                    262)))))))
     else
      (if state < 114 then
        (if state < 95 then
          (if state < 85 then
            (if state < 80 then
              (if state < 78 then
                (if state < 77 then
                  262
                 else
                  262)
               else
                (if state < 79 then
                  262
                 else
                  262))
             else
              (if state < 82 then
                (if state < 81 then
                  262
                 else
                  262)
               else
                (if state < 83 then
                  262
                 else
                  (if state < 84 then
                    262
                   else
                    262))))
           else
            (if state < 90 then
              (if state < 87 then
                (if state < 86 then
                  262
                 else
                  262)
               else
                (if state < 88 then
                  19
                 else
                  (if state < 89 then
                    19
                   else
                    19)))
             else
              (if state < 92 then
                (if state < 91 then
                  19
                 else
                  21)
               else
                (if state < 93 then
                  19
                 else
                  (if state < 94 then
                    19
                   else
                    19)))))
         else
          (if state < 104 then
            (if state < 99 then
              (if state < 97 then
                (if state < 96 then
                  19
                 else
                  19)
               else
                (if state < 98 then
                  19
                 else
                  19))
             else
              (if state < 101 then
                (if state < 100 then
                  19
                 else
                  21)
               else
                (if state < 102 then
                  19
                 else
                  (if state < 103 then
                    19
                   else
                    19))))
           else
            (if state < 109 then
              (if state < 106 then
                (if state < 105 then
                  21
                 else
                  19)
               else
                (if state < 107 then
                  21
                 else
                  (if state < 108 then
                    19
                   else
                    19)))
             else
              (if state < 111 then
                (if state < 110 then
                  19
                 else
                  21)
               else
                (if state < 112 then
                  19
                 else
                  (if state < 113 then
                    19
                   else
                    69))))))
       else
        (if state < 133 then
          (if state < 123 then
            (if state < 118 then
              (if state < 116 then
                (if state < 115 then
                  19
                 else
                  19)
               else
                (if state < 117 then
                  69
                 else
                  69))
             else
              (if state < 120 then
                (if state < 119 then
                  252
                 else
                  252)
               else
                (if state < 121 then
                  252
                 else
                  (if state < 122 then
                    252
                   else
                    20))))
           else
            (if state < 128 then
              (if state < 125 then
                (if state < 124 then
                  20
                 else
                  20)
               else
                (if state < 126 then
                  252
                 else
                  (if state < 127 then
                    252
                   else
                    252)))
             else
              (if state < 130 then
                (if state < 129 then
                  252
                 else
                  0)
               else
                (if state < 131 then
                  252
                 else
                  (if state < 132 then
                    252
                   else
                    252)))))
         else
          (if state < 142 then
            (if state < 137 then
              (if state < 135 then
                (if state < 134 then
                  0
                 else
                  252)
               else
                (if state < 136 then
                  252
                 else
                  252))
             else
              (if state < 139 then
                (if state < 138 then
                  0
                 else
                  252)
               else
                (if state < 140 then
                  252
                 else
                  (if state < 141 then
                    252
                   else
                    252))))
           else
            (if state < 147 then
              (if state < 144 then
                (if state < 143 then
                  252
                 else
                  252)
               else
                (if state < 145 then
                  262
                 else
                  (if state < 146 then
                    252
                   else
                    252)))
             else
              (if state < 149 then
                (if state < 148 then
                  252
                 else
                  252)
               else
                (if state < 150 then
                  252
                 else
                  (if state < 151 then
                    252
                   else
                    0))))))))"

subsection \<open>The parse table\<close>

definition ts_parse_table_0 :: "(TSSymbol \<times> table_entry) list" where
  "ts_parse_table_0 =
    [(ts_builtin_sym_end, ACTIONS 1),
     (sym_identifier, ACTIONS 1),
     (anon_sym_do_COLON, ACTIONS 1),
     (anon_sym_declare_COLON, ACTIONS 1),
     (anon_sym_note_COLON, ACTIONS 1),
     (anon_sym_noteblock_COLON, ACTIONS 1),
     (anon_sym_endnote, ACTIONS 1),
     (aux_sym_block_comment_content_token2, ACTIONS 1),
     (aux_sym_block_comment_content_token3, ACTIONS 1),
     (aux_sym_block_comment_content_token4, ACTIONS 1),
     (aux_sym_block_comment_content_token5, ACTIONS 1),
     (aux_sym_block_comment_content_token6, ACTIONS 1),
     (aux_sym_block_comment_content_token7, ACTIONS 1),
     (aux_sym_block_comment_content_token8, ACTIONS 1),
     (anon_sym_building_COLON, ACTIONS 1),
     (anon_sym_floor_COLON, ACTIONS 1),
     (anon_sym_step_COLON, ACTIONS 1),
     (anon_sym_riser_COLON, ACTIONS 1),
     (anon_sym_belongsto_COLON, ACTIONS 1),
     (anon_sym_expects_COLON, ACTIONS 1),
     (anon_sym_returns_COLON, ACTIONS 1),
     (anon_sym_COMMA, ACTIONS 1),
     (anon_sym_as, ACTIONS 1),
     (anon_sym_number, ACTIONS 1),
     (anon_sym_text, ACTIONS 1),
     (anon_sym_boolean, ACTIONS 1),
     (anon_sym_list, ACTIONS 1),
     (anon_sym_table, ACTIONS 1),
     (anon_sym_fixed, ACTIONS 1),
     (anon_sym_EQ, ACTIONS 1),
     (anon_sym_set, ACTIONS 1),
     (anon_sym_to, ACTIONS 1),
     (anon_sym_call, ACTIONS 1),
     (anon_sym_with, ACTIONS 1),
     (anon_sym_storingresultin, ACTIONS 1),
     (anon_sym_display, ACTIONS 1),
     (anon_sym_return, ACTIONS 1),
     (sym_exit_statement, ACTIONS 1),
     (anon_sym_if, ACTIONS 1),
     (anon_sym_otherwiseif, ACTIONS 1),
     (anon_sym_otherwise, ACTIONS 1),
     (anon_sym_repeat, ACTIONS 1),
     (anon_sym_times, ACTIONS 1),
     (anon_sym_foreach, ACTIONS 1),
     (anon_sym_in, ACTIONS 1),
     (anon_sym_while, ACTIONS 1),
     (anon_sym_attempt_COLON, ACTIONS 1),
     (anon_sym_ifunsuccessful_COLON, ACTIONS 1),
     (anon_sym_thencontinue_COLON, ACTIONS 1),
     (anon_sym_add, ACTIONS 1),
     (anon_sym_remove, ACTIONS 1),
     (anon_sym_from, ACTIONS 1),
     (anon_sym_DQUOTE, ACTIONS 1),
     (sym_escape_sequence, ACTIONS 1),
     (anon_sym_true, ACTIONS 1),
     (anon_sym_false, ACTIONS 1),
     (sym_nothing, ACTIONS 1),
     (anon_sym_LBRACK, ACTIONS 1),
     (anon_sym_RBRACK, ACTIONS 1),
     (anon_sym_PLUS, ACTIONS 1),
     (anon_sym_DASH, ACTIONS 1),
     (anon_sym_STAR, ACTIONS 1),
     (anon_sym_SLASH, ACTIONS 1),
     (anon_sym_isequalto, ACTIONS 1),
     (anon_sym_equals, ACTIONS 1),
     (anon_sym_isnotequalto, ACTIONS 1),
     (anon_sym_islessthan, ACTIONS 1),
     (anon_sym_isgreaterthan, ACTIONS 1),
     (anon_sym_islessthanorequalto, ACTIONS 1),
     (anon_sym_isgreaterthanorequalto, ACTIONS 1),
     (anon_sym_and, ACTIONS 1),
     (anon_sym_or, ACTIONS 1),
     (anon_sym_addedto, ACTIONS 1),
     (anon_sym_contains, ACTIONS 1),
     (anon_sym_startswith, ACTIONS 1),
     (anon_sym_endswith, ACTIONS 1),
     (anon_sym_isin, ACTIONS 1),
     (anon_sym_not, ACTIONS 1),
     (anon_sym_lengthof, ACTIONS 1),
     (anon_sym_LPAREN, ACTIONS 1),
     (anon_sym_RPAREN, ACTIONS 1),
     (sym__newline, ACTIONS 1)]"

definition ts_parse_table_1 :: "(TSSymbol \<times> table_entry) list" where
  "ts_parse_table_1 =
    [(sym_source_file, STATE 129),
     (sym__statement, STATE 26),
     (sym_section_marker, STATE 26),
     (sym_comment, STATE 26),
     (sym_block_comment, STATE 26),
     (sym_structure_definition, STATE 26),
     (sym_building_def, STATE 67),
     (sym_floor_def, STATE 67),
     (sym_step_def, STATE 67),
     (sym_riser_def, STATE 67),
     (sym_declaration, STATE 26),
     (sym_assignment, STATE 26),
     (sym_call_statement, STATE 26),
     (sym_display_statement, STATE 26),
     (sym_input_statement, STATE 26),
     (sym_return_statement, STATE 26),
     (sym_if_statement, STATE 26),
     (sym_repeat_statement, STATE 26),
     (sym_for_each_statement, STATE 26),
     (sym_while_statement, STATE 26),
     (sym_attempt_statement, STATE 26),
     (sym_add_statement, STATE 26),
     (sym_remove_statement, STATE 26),
     (aux_sym_source_file_repeat1, STATE 26),
     (ts_builtin_sym_end, ACTIONS 3),
     (anon_sym_do_COLON, ACTIONS 5),
     (anon_sym_declare_COLON, ACTIONS 7),
     (anon_sym_note_COLON, ACTIONS 9),
     (anon_sym_noteblock_COLON, ACTIONS 11),
     (anon_sym_building_COLON, ACTIONS 13),
     (anon_sym_floor_COLON, ACTIONS 15),
     (anon_sym_step_COLON, ACTIONS 17),
     (anon_sym_riser_COLON, ACTIONS 19),
     (anon_sym_set, ACTIONS 21),
     (anon_sym_call, ACTIONS 23),
     (anon_sym_display, ACTIONS 25),
     (anon_sym_input, ACTIONS 27),
     (anon_sym_return, ACTIONS 29),
     (sym_exit_statement, ACTIONS 31),
     (anon_sym_if, ACTIONS 33),
     (anon_sym_repeat, ACTIONS 35),
     (anon_sym_foreach, ACTIONS 37),
     (anon_sym_while, ACTIONS 39),
     (anon_sym_attempt_COLON, ACTIONS 41),
     (anon_sym_add, ACTIONS 43),
     (anon_sym_remove, ACTIONS 45),
     (sym__newline, ACTIONS 31)]"

definition ts_small_parse_table_2 :: "(table_entry \<times> TSSymbol list) list" where
  "ts_small_parse_table_2 =
    [(ACTIONS 51, [anon_sym_LBRACK]),
     (STATE 8, [aux_sym_argument_list_repeat1]),
     (STATE 96, [sym_binary_operator]),
     (ACTIONS 49, [anon_sym_otherwise, anon_sym_add]),
     (ACTIONS 55, [anon_sym_islessthan, anon_sym_isgreaterthan]),
     (ACTIONS 53, [anon_sym_PLUS, anon_sym_DASH, anon_sym_STAR, anon_sym_SLASH, anon_sym_isequalto,
        anon_sym_equals, anon_sym_isnotequalto, anon_sym_islessthanorequalto,
        anon_sym_isgreaterthanorequalto, anon_sym_and, anon_sym_or, anon_sym_addedto,
        anon_sym_contains, anon_sym_startswith, anon_sym_endswith, anon_sym_isin]),
     (ACTIONS 47, [ts_builtin_sym_end, anon_sym_do_COLON, anon_sym_declare_COLON,
        anon_sym_note_COLON, anon_sym_noteblock_COLON, anon_sym_building_COLON,
        anon_sym_floor_COLON, anon_sym_step_COLON, anon_sym_riser_COLON, anon_sym_COMMA,
        anon_sym_set, anon_sym_to, anon_sym_call, anon_sym_storingresultin, anon_sym_display,
        anon_sym_input, anon_sym_return, sym_exit_statement, anon_sym_if, anon_sym_otherwiseif,
        anon_sym_repeat, anon_sym_times, anon_sym_foreach, anon_sym_while, anon_sym_attempt_COLON,
        anon_sym_remove, anon_sym_from, anon_sym_RBRACK, anon_sym_RPAREN, sym__newline])]"

definition ts_small_parse_table_3 :: "(table_entry \<times> TSSymbol list) list" where
  "ts_small_parse_table_3 =
    [(ACTIONS 59, [anon_sym_with]),
     (STATE 20, [sym_with_clause]),
     (ACTIONS 61, [anon_sym_otherwise, anon_sym_add, anon_sym_islessthan, anon_sym_isgreaterthan]),
     (ACTIONS 57, [ts_builtin_sym_end, anon_sym_do_COLON, anon_sym_declare_COLON,
        anon_sym_note_COLON, anon_sym_noteblock_COLON, anon_sym_building_COLON,
        anon_sym_floor_COLON, anon_sym_step_COLON, anon_sym_riser_COLON, anon_sym_COMMA,
        anon_sym_set, anon_sym_to, anon_sym_call, anon_sym_storingresultin, anon_sym_display,
        anon_sym_input, anon_sym_return, sym_exit_statement, anon_sym_if, anon_sym_otherwiseif,
        anon_sym_repeat, anon_sym_times, anon_sym_foreach, anon_sym_while, anon_sym_attempt_COLON,
        anon_sym_remove, anon_sym_from, anon_sym_LBRACK, anon_sym_RBRACK, anon_sym_PLUS,
        anon_sym_DASH, anon_sym_STAR, anon_sym_SLASH, anon_sym_isequalto, anon_sym_equals,
        anon_sym_isnotequalto, anon_sym_islessthanorequalto, anon_sym_isgreaterthanorequalto,
        anon_sym_and, anon_sym_or, anon_sym_addedto, anon_sym_contains, anon_sym_startswith,
        anon_sym_endswith, anon_sym_isin, anon_sym_RPAREN, sym__newline])]"

definition ts_small_parse_table_4 :: "(table_entry \<times> TSSymbol list) list" where
  "ts_small_parse_table_4 =
    [(ACTIONS 51, [anon_sym_LBRACK]),
     (STATE 96, [sym_binary_operator]),
     (ACTIONS 65, [anon_sym_otherwise, anon_sym_add, anon_sym_islessthan, anon_sym_isgreaterthan]),
     (ACTIONS 63, [ts_builtin_sym_end, anon_sym_do_COLON, anon_sym_declare_COLON,
        anon_sym_note_COLON, anon_sym_noteblock_COLON, anon_sym_building_COLON,
        anon_sym_floor_COLON, anon_sym_step_COLON, anon_sym_riser_COLON, anon_sym_COMMA,
        anon_sym_set, anon_sym_to, anon_sym_call, anon_sym_storingresultin, anon_sym_display,
        anon_sym_input, anon_sym_return, sym_exit_statement, anon_sym_if, anon_sym_otherwiseif,
        anon_sym_repeat, anon_sym_times, anon_sym_foreach, anon_sym_while, anon_sym_attempt_COLON,
        anon_sym_remove, anon_sym_from, anon_sym_RBRACK, anon_sym_PLUS, anon_sym_DASH,
        anon_sym_STAR, anon_sym_SLASH, anon_sym_isequalto, anon_sym_equals, anon_sym_isnotequalto,
        anon_sym_islessthanorequalto, anon_sym_isgreaterthanorequalto, anon_sym_and, anon_sym_or,
        anon_sym_addedto, anon_sym_contains, anon_sym_startswith, anon_sym_endswith, anon_sym_isin,
        anon_sym_RPAREN, sym__newline])]"

definition ts_small_parse_table_5 :: "(table_entry \<times> TSSymbol list) list" where
  "ts_small_parse_table_5 =
    [(ACTIONS 51, [anon_sym_LBRACK]),
     (STATE 96, [sym_binary_operator]),
     (ACTIONS 69, [anon_sym_otherwise, anon_sym_add, anon_sym_islessthan, anon_sym_isgreaterthan]),
     (ACTIONS 67, [ts_builtin_sym_end, anon_sym_do_COLON, anon_sym_declare_COLON,
        anon_sym_note_COLON, anon_sym_noteblock_COLON, anon_sym_building_COLON,
        anon_sym_floor_COLON, anon_sym_step_COLON, anon_sym_riser_COLON, anon_sym_COMMA,
        anon_sym_set, anon_sym_to, anon_sym_call, anon_sym_storingresultin, anon_sym_display,
        anon_sym_input, anon_sym_return, sym_exit_statement, anon_sym_if, anon_sym_otherwiseif,
        anon_sym_repeat, anon_sym_times, anon_sym_foreach, anon_sym_while, anon_sym_attempt_COLON,
        anon_sym_remove, anon_sym_from, anon_sym_RBRACK, anon_sym_PLUS, anon_sym_DASH,
        anon_sym_STAR, anon_sym_SLASH, anon_sym_isequalto, anon_sym_equals, anon_sym_isnotequalto,
        anon_sym_islessthanorequalto, anon_sym_isgreaterthanorequalto, anon_sym_and, anon_sym_or,
        anon_sym_addedto, anon_sym_contains, anon_sym_startswith, anon_sym_endswith, anon_sym_isin,
        anon_sym_RPAREN, sym__newline])]"

definition ts_small_parse_table_6 :: "(table_entry \<times> TSSymbol list) list" where
  "ts_small_parse_table_6 =
    [(ACTIONS 51, [anon_sym_LBRACK]),
     (ACTIONS 71, [anon_sym_COMMA]),
     (STATE 14, [aux_sym_argument_list_repeat1]),
     (STATE 96, [sym_binary_operator]),
     (ACTIONS 49, [anon_sym_otherwise, anon_sym_add]),
     (ACTIONS 55, [anon_sym_islessthan, anon_sym_isgreaterthan]),
     (ACTIONS 53, [anon_sym_PLUS, anon_sym_DASH, anon_sym_STAR, anon_sym_SLASH, anon_sym_isequalto,
        anon_sym_equals, anon_sym_isnotequalto, anon_sym_islessthanorequalto,
        anon_sym_isgreaterthanorequalto, anon_sym_and, anon_sym_or, anon_sym_addedto,
        anon_sym_contains, anon_sym_startswith, anon_sym_endswith, anon_sym_isin]),
     (ACTIONS 47, [ts_builtin_sym_end, anon_sym_do_COLON, anon_sym_declare_COLON,
        anon_sym_note_COLON, anon_sym_noteblock_COLON, anon_sym_building_COLON,
        anon_sym_floor_COLON, anon_sym_step_COLON, anon_sym_riser_COLON, anon_sym_set, anon_sym_to,
        anon_sym_call, anon_sym_display, anon_sym_input, anon_sym_return, sym_exit_statement,
        anon_sym_if, anon_sym_otherwiseif, anon_sym_repeat, anon_sym_times, anon_sym_foreach,
        anon_sym_while, anon_sym_attempt_COLON, anon_sym_remove, anon_sym_from, anon_sym_RBRACK,
        anon_sym_RPAREN, sym__newline])]"

definition ts_small_parse_table_7 :: "(table_entry \<times> TSSymbol list) list" where
  "ts_small_parse_table_7 =
    [(ACTIONS 75, [anon_sym_COMMA]),
     (STATE 7, [aux_sym_argument_list_repeat1]),
     (ACTIONS 78, [anon_sym_otherwise, anon_sym_add, anon_sym_islessthan, anon_sym_isgreaterthan]),
     (ACTIONS 73, [ts_builtin_sym_end, anon_sym_do_COLON, anon_sym_declare_COLON,
        anon_sym_note_COLON, anon_sym_noteblock_COLON, anon_sym_building_COLON,
        anon_sym_floor_COLON, anon_sym_step_COLON, anon_sym_riser_COLON, anon_sym_set, anon_sym_to,
        anon_sym_call, anon_sym_storingresultin, anon_sym_display, anon_sym_input, anon_sym_return,
        sym_exit_statement, anon_sym_if, anon_sym_otherwiseif, anon_sym_repeat, anon_sym_times,
        anon_sym_foreach, anon_sym_while, anon_sym_attempt_COLON, anon_sym_remove, anon_sym_from,
        anon_sym_LBRACK, anon_sym_RBRACK, anon_sym_PLUS, anon_sym_DASH, anon_sym_STAR,
        anon_sym_SLASH, anon_sym_isequalto, anon_sym_equals, anon_sym_isnotequalto,
        anon_sym_islessthanorequalto, anon_sym_isgreaterthanorequalto, anon_sym_and, anon_sym_or,
        anon_sym_addedto, anon_sym_contains, anon_sym_startswith, anon_sym_endswith, anon_sym_isin,
        anon_sym_RPAREN, sym__newline])]"

definition ts_small_parse_table_8 :: "(table_entry \<times> TSSymbol list) list" where
  "ts_small_parse_table_8 =
    [(STATE 7, [aux_sym_argument_list_repeat1]),
     (ACTIONS 82, [anon_sym_otherwise, anon_sym_add, anon_sym_islessthan, anon_sym_isgreaterthan]),
     (ACTIONS 80, [ts_builtin_sym_end, anon_sym_do_COLON, anon_sym_declare_COLON,
        anon_sym_note_COLON, anon_sym_noteblock_COLON, anon_sym_building_COLON,
        anon_sym_floor_COLON, anon_sym_step_COLON, anon_sym_riser_COLON, anon_sym_COMMA,
        anon_sym_set, anon_sym_to, anon_sym_call, anon_sym_storingresultin, anon_sym_display,
        anon_sym_input, anon_sym_return, sym_exit_statement, anon_sym_if, anon_sym_otherwiseif,
        anon_sym_repeat, anon_sym_times, anon_sym_foreach, anon_sym_while, anon_sym_attempt_COLON,
        anon_sym_remove, anon_sym_from, anon_sym_LBRACK, anon_sym_RBRACK, anon_sym_PLUS,
        anon_sym_DASH, anon_sym_STAR, anon_sym_SLASH, anon_sym_isequalto, anon_sym_equals,
        anon_sym_isnotequalto, anon_sym_islessthanorequalto, anon_sym_isgreaterthanorequalto,
        anon_sym_and, anon_sym_or, anon_sym_addedto, anon_sym_contains, anon_sym_startswith,
        anon_sym_endswith, anon_sym_isin, anon_sym_RPAREN, sym__newline])]"

definition ts_small_parse_table_9 :: "(table_entry \<times> TSSymbol list) list" where
  "ts_small_parse_table_9 =
    [(ACTIONS 51, [anon_sym_LBRACK]),
     (STATE 96, [sym_binary_operator]),
     (ACTIONS 55, [anon_sym_islessthan, anon_sym_isgreaterthan]),
     (ACTIONS 78, [anon_sym_otherwise, anon_sym_add]),
     (ACTIONS 53, [anon_sym_PLUS, anon_sym_DASH, anon_sym_STAR, anon_sym_SLASH, anon_sym_isequalto,
        anon_sym_equals, anon_sym_isnotequalto, anon_sym_islessthanorequalto,
        anon_sym_isgreaterthanorequalto, anon_sym_and, anon_sym_or, anon_sym_addedto,
        anon_sym_contains, anon_sym_startswith, anon_sym_endswith, anon_sym_isin]),
     (ACTIONS 73, [ts_builtin_sym_end, anon_sym_do_COLON, anon_sym_declare_COLON,
        anon_sym_note_COLON, anon_sym_noteblock_COLON, anon_sym_building_COLON,
        anon_sym_floor_COLON, anon_sym_step_COLON, anon_sym_riser_COLON, anon_sym_COMMA,
        anon_sym_set, anon_sym_to, anon_sym_call, anon_sym_storingresultin, anon_sym_display,
        anon_sym_input, anon_sym_return, sym_exit_statement, anon_sym_if, anon_sym_otherwiseif,
        anon_sym_repeat, anon_sym_times, anon_sym_foreach, anon_sym_while, anon_sym_attempt_COLON,
        anon_sym_remove, anon_sym_from, anon_sym_RBRACK, anon_sym_RPAREN, sym__newline])]"

definition ts_small_parse_table_10 :: "(table_entry \<times> TSSymbol list) list" where
  "ts_small_parse_table_10 =
    [(ACTIONS 86, [anon_sym_otherwise, anon_sym_add, anon_sym_islessthan, anon_sym_isgreaterthan]),
     (ACTIONS 84, [ts_builtin_sym_end, anon_sym_do_COLON, anon_sym_declare_COLON,
        anon_sym_note_COLON, anon_sym_noteblock_COLON, anon_sym_building_COLON,
        anon_sym_floor_COLON, anon_sym_step_COLON, anon_sym_riser_COLON, anon_sym_COMMA,
        anon_sym_set, anon_sym_to, anon_sym_call, anon_sym_storingresultin, anon_sym_display,
        anon_sym_input, anon_sym_return, sym_exit_statement, anon_sym_if, anon_sym_otherwiseif,
        anon_sym_repeat, anon_sym_times, anon_sym_foreach, anon_sym_while, anon_sym_attempt_COLON,
        anon_sym_remove, anon_sym_from, anon_sym_LBRACK, anon_sym_RBRACK, anon_sym_PLUS,
        anon_sym_DASH, anon_sym_STAR, anon_sym_SLASH, anon_sym_isequalto, anon_sym_equals,
        anon_sym_isnotequalto, anon_sym_islessthanorequalto, anon_sym_isgreaterthanorequalto,
        anon_sym_and, anon_sym_or, anon_sym_addedto, anon_sym_contains, anon_sym_startswith,
        anon_sym_endswith, anon_sym_isin, anon_sym_RPAREN, sym__newline])]"

definition ts_small_parse_table_11 :: "(table_entry \<times> TSSymbol list) list" where
  "ts_small_parse_table_11 =
    [(ACTIONS 90, [anon_sym_otherwise, anon_sym_add, anon_sym_islessthan, anon_sym_isgreaterthan]),
     (ACTIONS 88, [ts_builtin_sym_end, anon_sym_do_COLON, anon_sym_declare_COLON,
        anon_sym_note_COLON, anon_sym_noteblock_COLON, anon_sym_building_COLON,
        anon_sym_floor_COLON, anon_sym_step_COLON, anon_sym_riser_COLON, anon_sym_COMMA,
        anon_sym_set, anon_sym_to, anon_sym_call, anon_sym_storingresultin, anon_sym_display,
        anon_sym_input, anon_sym_return, sym_exit_statement, anon_sym_if, anon_sym_otherwiseif,
        anon_sym_repeat, anon_sym_times, anon_sym_foreach, anon_sym_while, anon_sym_attempt_COLON,
        anon_sym_remove, anon_sym_from, anon_sym_LBRACK, anon_sym_RBRACK, anon_sym_PLUS,
        anon_sym_DASH, anon_sym_STAR, anon_sym_SLASH, anon_sym_isequalto, anon_sym_equals,
        anon_sym_isnotequalto, anon_sym_islessthanorequalto, anon_sym_isgreaterthanorequalto,
        anon_sym_and, anon_sym_or, anon_sym_addedto, anon_sym_contains, anon_sym_startswith,
        anon_sym_endswith, anon_sym_isin, anon_sym_RPAREN, sym__newline])]"

definition ts_small_parse_table_12 :: "(table_entry \<times> TSSymbol list) list" where
  "ts_small_parse_table_12 =
    [(ACTIONS 92, [anon_sym_with]),
     (STATE 20, [sym_with_clause]),
     (ACTIONS 61, [anon_sym_otherwise, anon_sym_add, anon_sym_islessthan, anon_sym_isgreaterthan]),
     (ACTIONS 57, [ts_builtin_sym_end, anon_sym_do_COLON, anon_sym_declare_COLON,
        anon_sym_note_COLON, anon_sym_noteblock_COLON, anon_sym_building_COLON,
        anon_sym_floor_COLON, anon_sym_step_COLON, anon_sym_riser_COLON, anon_sym_set, anon_sym_to,
        anon_sym_call, anon_sym_display, anon_sym_input, anon_sym_return, sym_exit_statement,
        anon_sym_if, anon_sym_otherwiseif, anon_sym_repeat, anon_sym_times, anon_sym_foreach,
        anon_sym_while, anon_sym_attempt_COLON, anon_sym_remove, anon_sym_from, anon_sym_LBRACK,
        anon_sym_RBRACK, anon_sym_PLUS, anon_sym_DASH, anon_sym_STAR, anon_sym_SLASH,
        anon_sym_isequalto, anon_sym_equals, anon_sym_isnotequalto, anon_sym_islessthanorequalto,
        anon_sym_isgreaterthanorequalto, anon_sym_and, anon_sym_or, anon_sym_addedto,
        anon_sym_contains, anon_sym_startswith, anon_sym_endswith, anon_sym_isin, anon_sym_RPAREN,
        sym__newline])]"

definition ts_small_parse_table_13 :: "(table_entry \<times> TSSymbol list) list" where
  "ts_small_parse_table_13 =
    [(ACTIONS 96, [anon_sym_otherwise, anon_sym_add, anon_sym_islessthan, anon_sym_isgreaterthan]),
     (ACTIONS 94, [ts_builtin_sym_end, anon_sym_do_COLON, anon_sym_declare_COLON,
        anon_sym_note_COLON, anon_sym_noteblock_COLON, anon_sym_building_COLON,
        anon_sym_floor_COLON, anon_sym_step_COLON, anon_sym_riser_COLON, anon_sym_COMMA,
        anon_sym_set, anon_sym_to, anon_sym_call, anon_sym_storingresultin, anon_sym_display,
        anon_sym_input, anon_sym_return, sym_exit_statement, anon_sym_if, anon_sym_otherwiseif,
        anon_sym_repeat, anon_sym_times, anon_sym_foreach, anon_sym_while, anon_sym_attempt_COLON,
        anon_sym_remove, anon_sym_from, anon_sym_LBRACK, anon_sym_RBRACK, anon_sym_PLUS,
        anon_sym_DASH, anon_sym_STAR, anon_sym_SLASH, anon_sym_isequalto, anon_sym_equals,
        anon_sym_isnotequalto, anon_sym_islessthanorequalto, anon_sym_isgreaterthanorequalto,
        anon_sym_and, anon_sym_or, anon_sym_addedto, anon_sym_contains, anon_sym_startswith,
        anon_sym_endswith, anon_sym_isin, anon_sym_RPAREN, sym__newline])]"

definition ts_small_parse_table_14 :: "(table_entry \<times> TSSymbol list) list" where
  "ts_small_parse_table_14 =
    [(ACTIONS 71, [anon_sym_COMMA]),
     (STATE 7, [aux_sym_argument_list_repeat1]),
     (ACTIONS 82, [anon_sym_otherwise, anon_sym_add, anon_sym_islessthan, anon_sym_isgreaterthan]),
     (ACTIONS 80, [ts_builtin_sym_end, anon_sym_do_COLON, anon_sym_declare_COLON,
        anon_sym_note_COLON, anon_sym_noteblock_COLON, anon_sym_building_COLON,
        anon_sym_floor_COLON, anon_sym_step_COLON, anon_sym_riser_COLON, anon_sym_set, anon_sym_to,
        anon_sym_call, anon_sym_display, anon_sym_input, anon_sym_return, sym_exit_statement,
        anon_sym_if, anon_sym_otherwiseif, anon_sym_repeat, anon_sym_times, anon_sym_foreach,
        anon_sym_while, anon_sym_attempt_COLON, anon_sym_remove, anon_sym_from, anon_sym_LBRACK,
        anon_sym_RBRACK, anon_sym_PLUS, anon_sym_DASH, anon_sym_STAR, anon_sym_SLASH,
        anon_sym_isequalto, anon_sym_equals, anon_sym_isnotequalto, anon_sym_islessthanorequalto,
        anon_sym_isgreaterthanorequalto, anon_sym_and, anon_sym_or, anon_sym_addedto,
        anon_sym_contains, anon_sym_startswith, anon_sym_endswith, anon_sym_isin, anon_sym_RPAREN,
        sym__newline])]"

definition ts_small_parse_table_15 :: "(table_entry \<times> TSSymbol list) list" where
  "ts_small_parse_table_15 =
    [(ACTIONS 100, [anon_sym_otherwise, anon_sym_add, anon_sym_islessthan, anon_sym_isgreaterthan]),
     (ACTIONS 98, [ts_builtin_sym_end, anon_sym_do_COLON, anon_sym_declare_COLON,
        anon_sym_note_COLON, anon_sym_noteblock_COLON, anon_sym_building_COLON,
        anon_sym_floor_COLON, anon_sym_step_COLON, anon_sym_riser_COLON, anon_sym_COMMA,
        anon_sym_set, anon_sym_to, anon_sym_call, anon_sym_storingresultin, anon_sym_display,
        anon_sym_input, anon_sym_return, sym_exit_statement, anon_sym_if, anon_sym_otherwiseif,
        anon_sym_repeat, anon_sym_times, anon_sym_foreach, anon_sym_while, anon_sym_attempt_COLON,
        anon_sym_remove, anon_sym_from, anon_sym_LBRACK, anon_sym_RBRACK, anon_sym_PLUS,
        anon_sym_DASH, anon_sym_STAR, anon_sym_SLASH, anon_sym_isequalto, anon_sym_equals,
        anon_sym_isnotequalto, anon_sym_islessthanorequalto, anon_sym_isgreaterthanorequalto,
        anon_sym_and, anon_sym_or, anon_sym_addedto, anon_sym_contains, anon_sym_startswith,
        anon_sym_endswith, anon_sym_isin, anon_sym_RPAREN, sym__newline])]"

definition ts_small_parse_table_16 :: "(table_entry \<times> TSSymbol list) list" where
  "ts_small_parse_table_16 =
    [(ACTIONS 104, [anon_sym_otherwise, anon_sym_add, anon_sym_islessthan, anon_sym_isgreaterthan]),
     (ACTIONS 102, [ts_builtin_sym_end, anon_sym_do_COLON, anon_sym_declare_COLON,
        anon_sym_note_COLON, anon_sym_noteblock_COLON, anon_sym_building_COLON,
        anon_sym_floor_COLON, anon_sym_step_COLON, anon_sym_riser_COLON, anon_sym_COMMA,
        anon_sym_set, anon_sym_to, anon_sym_call, anon_sym_storingresultin, anon_sym_display,
        anon_sym_input, anon_sym_return, sym_exit_statement, anon_sym_if, anon_sym_otherwiseif,
        anon_sym_repeat, anon_sym_times, anon_sym_foreach, anon_sym_while, anon_sym_attempt_COLON,
        anon_sym_remove, anon_sym_from, anon_sym_LBRACK, anon_sym_RBRACK, anon_sym_PLUS,
        anon_sym_DASH, anon_sym_STAR, anon_sym_SLASH, anon_sym_isequalto, anon_sym_equals,
        anon_sym_isnotequalto, anon_sym_islessthanorequalto, anon_sym_isgreaterthanorequalto,
        anon_sym_and, anon_sym_or, anon_sym_addedto, anon_sym_contains, anon_sym_startswith,
        anon_sym_endswith, anon_sym_isin, anon_sym_RPAREN, sym__newline])]"

definition ts_small_parse_table_17 :: "(table_entry \<times> TSSymbol list) list" where
  "ts_small_parse_table_17 =
    [(ACTIONS 108, [anon_sym_otherwise, anon_sym_add, anon_sym_islessthan, anon_sym_isgreaterthan]),
     (ACTIONS 106, [ts_builtin_sym_end, anon_sym_do_COLON, anon_sym_declare_COLON,
        anon_sym_note_COLON, anon_sym_noteblock_COLON, anon_sym_building_COLON,
        anon_sym_floor_COLON, anon_sym_step_COLON, anon_sym_riser_COLON, anon_sym_COMMA,
        anon_sym_set, anon_sym_to, anon_sym_call, anon_sym_storingresultin, anon_sym_display,
        anon_sym_input, anon_sym_return, sym_exit_statement, anon_sym_if, anon_sym_otherwiseif,
        anon_sym_repeat, anon_sym_times, anon_sym_foreach, anon_sym_while, anon_sym_attempt_COLON,
        anon_sym_remove, anon_sym_from, anon_sym_LBRACK, anon_sym_RBRACK, anon_sym_PLUS,
        anon_sym_DASH, anon_sym_STAR, anon_sym_SLASH, anon_sym_isequalto, anon_sym_equals,
        anon_sym_isnotequalto, anon_sym_islessthanorequalto, anon_sym_isgreaterthanorequalto,
        anon_sym_and, anon_sym_or, anon_sym_addedto, anon_sym_contains, anon_sym_startswith,
        anon_sym_endswith, anon_sym_isin, anon_sym_RPAREN, sym__newline])]"

definition ts_small_parse_table_18 :: "(table_entry \<times> TSSymbol list) list" where
  "ts_small_parse_table_18 =
    [(ACTIONS 112, [anon_sym_otherwise, anon_sym_add, anon_sym_islessthan, anon_sym_isgreaterthan]),
     (ACTIONS 110, [ts_builtin_sym_end, anon_sym_do_COLON, anon_sym_declare_COLON,
        anon_sym_note_COLON, anon_sym_noteblock_COLON, anon_sym_building_COLON,
        anon_sym_floor_COLON, anon_sym_step_COLON, anon_sym_riser_COLON, anon_sym_COMMA,
        anon_sym_set, anon_sym_to, anon_sym_call, anon_sym_storingresultin, anon_sym_display,
        anon_sym_input, anon_sym_return, sym_exit_statement, anon_sym_if, anon_sym_otherwiseif,
        anon_sym_repeat, anon_sym_times, anon_sym_foreach, anon_sym_while, anon_sym_attempt_COLON,
        anon_sym_remove, anon_sym_from, anon_sym_LBRACK, anon_sym_RBRACK, anon_sym_PLUS,
        anon_sym_DASH, anon_sym_STAR, anon_sym_SLASH, anon_sym_isequalto, anon_sym_equals,
        anon_sym_isnotequalto, anon_sym_islessthanorequalto, anon_sym_isgreaterthanorequalto,
        anon_sym_and, anon_sym_or, anon_sym_addedto, anon_sym_contains, anon_sym_startswith,
        anon_sym_endswith, anon_sym_isin, anon_sym_RPAREN, sym__newline])]"

definition ts_small_parse_table_19 :: "(table_entry \<times> TSSymbol list) list" where
  "ts_small_parse_table_19 =
    [(ACTIONS 116, [anon_sym_otherwise, anon_sym_add, anon_sym_islessthan, anon_sym_isgreaterthan]),
     (ACTIONS 114, [ts_builtin_sym_end, anon_sym_do_COLON, anon_sym_declare_COLON,
        anon_sym_note_COLON, anon_sym_noteblock_COLON, anon_sym_building_COLON,
        anon_sym_floor_COLON, anon_sym_step_COLON, anon_sym_riser_COLON, anon_sym_COMMA,
        anon_sym_set, anon_sym_to, anon_sym_call, anon_sym_storingresultin, anon_sym_display,
        anon_sym_input, anon_sym_return, sym_exit_statement, anon_sym_if, anon_sym_otherwiseif,
        anon_sym_repeat, anon_sym_times, anon_sym_foreach, anon_sym_while, anon_sym_attempt_COLON,
        anon_sym_remove, anon_sym_from, anon_sym_LBRACK, anon_sym_RBRACK, anon_sym_PLUS,
        anon_sym_DASH, anon_sym_STAR, anon_sym_SLASH, anon_sym_isequalto, anon_sym_equals,
        anon_sym_isnotequalto, anon_sym_islessthanorequalto, anon_sym_isgreaterthanorequalto,
        anon_sym_and, anon_sym_or, anon_sym_addedto, anon_sym_contains, anon_sym_startswith,
        anon_sym_endswith, anon_sym_isin, anon_sym_RPAREN, sym__newline])]"

definition ts_small_parse_table_20 :: "(table_entry \<times> TSSymbol list) list" where
  "ts_small_parse_table_20 =
    [(ACTIONS 120, [anon_sym_otherwise, anon_sym_add, anon_sym_islessthan, anon_sym_isgreaterthan]),
     (ACTIONS 118, [ts_builtin_sym_end, anon_sym_do_COLON, anon_sym_declare_COLON,
        anon_sym_note_COLON, anon_sym_noteblock_COLON, anon_sym_building_COLON,
        anon_sym_floor_COLON, anon_sym_step_COLON, anon_sym_riser_COLON, anon_sym_COMMA,
        anon_sym_set, anon_sym_to, anon_sym_call, anon_sym_storingresultin, anon_sym_display,
        anon_sym_input, anon_sym_return, sym_exit_statement, anon_sym_if, anon_sym_otherwiseif,
        anon_sym_repeat, anon_sym_times, anon_sym_foreach, anon_sym_while, anon_sym_attempt_COLON,
        anon_sym_remove, anon_sym_from, anon_sym_LBRACK, anon_sym_RBRACK, anon_sym_PLUS,
        anon_sym_DASH, anon_sym_STAR, anon_sym_SLASH, anon_sym_isequalto, anon_sym_equals,
        anon_sym_isnotequalto, anon_sym_islessthanorequalto, anon_sym_isgreaterthanorequalto,
        anon_sym_and, anon_sym_or, anon_sym_addedto, anon_sym_contains, anon_sym_startswith,
        anon_sym_endswith, anon_sym_isin, anon_sym_RPAREN, sym__newline])]"

definition ts_small_parse_table_21 :: "(table_entry \<times> TSSymbol list) list" where
  "ts_small_parse_table_21 =
    [(ACTIONS 51, [anon_sym_LBRACK]),
     (STATE 92, [sym_binary_operator]),
     (ACTIONS 65, [anon_sym_otherwise, anon_sym_add, anon_sym_islessthan, anon_sym_isgreaterthan]),
     (ACTIONS 63, [ts_builtin_sym_end, anon_sym_do_COLON, anon_sym_declare_COLON,
        anon_sym_note_COLON, anon_sym_noteblock_COLON, anon_sym_building_COLON,
        anon_sym_floor_COLON, anon_sym_step_COLON, anon_sym_riser_COLON, anon_sym_set, anon_sym_to,
        anon_sym_call, anon_sym_display, anon_sym_input, anon_sym_return, sym_exit_statement,
        anon_sym_if, anon_sym_otherwiseif, anon_sym_repeat, anon_sym_times, anon_sym_foreach,
        anon_sym_while, anon_sym_attempt_COLON, anon_sym_remove, anon_sym_from, anon_sym_RBRACK,
        anon_sym_PLUS, anon_sym_DASH, anon_sym_STAR, anon_sym_SLASH, anon_sym_isequalto,
        anon_sym_equals, anon_sym_isnotequalto, anon_sym_islessthanorequalto,
        anon_sym_isgreaterthanorequalto, anon_sym_and, anon_sym_or, anon_sym_addedto,
        anon_sym_contains, anon_sym_startswith, anon_sym_endswith, anon_sym_isin, anon_sym_RPAREN,
        sym__newline])]"

definition ts_small_parse_table_22 :: "(table_entry \<times> TSSymbol list) list" where
  "ts_small_parse_table_22 =
    [(ACTIONS 51, [anon_sym_LBRACK]),
     (STATE 92, [sym_binary_operator]),
     (ACTIONS 69, [anon_sym_otherwise, anon_sym_add, anon_sym_islessthan, anon_sym_isgreaterthan]),
     (ACTIONS 67, [ts_builtin_sym_end, anon_sym_do_COLON, anon_sym_declare_COLON,
        anon_sym_note_COLON, anon_sym_noteblock_COLON, anon_sym_building_COLON,
        anon_sym_floor_COLON, anon_sym_step_COLON, anon_sym_riser_COLON, anon_sym_set, anon_sym_to,
        anon_sym_call, anon_sym_display, anon_sym_input, anon_sym_return, sym_exit_statement,
        anon_sym_if, anon_sym_otherwiseif, anon_sym_repeat, anon_sym_times, anon_sym_foreach,
        anon_sym_while, anon_sym_attempt_COLON, anon_sym_remove, anon_sym_from, anon_sym_RBRACK,
        anon_sym_PLUS, anon_sym_DASH, anon_sym_STAR, anon_sym_SLASH, anon_sym_isequalto,
        anon_sym_equals, anon_sym_isnotequalto, anon_sym_islessthanorequalto,
        anon_sym_isgreaterthanorequalto, anon_sym_and, anon_sym_or, anon_sym_addedto,
        anon_sym_contains, anon_sym_startswith, anon_sym_endswith, anon_sym_isin, anon_sym_RPAREN,
        sym__newline])]"

definition ts_small_parse_table_23 :: "(table_entry \<times> TSSymbol list) list" where
  "ts_small_parse_table_23 =
    [(ACTIONS 51, [anon_sym_LBRACK]),
     (ACTIONS 124, [anon_sym_otherwiseif]),
     (ACTIONS 126, [anon_sym_otherwise]),
     (ACTIONS 128, [anon_sym_add]),
     (STATE 75, [sym_otherwise_clause]),
     (STATE 92, [sym_binary_operator]),
     (ACTIONS 55, [anon_sym_islessthan, anon_sym_isgreaterthan]),
     (STATE 41, [sym_otherwise_if_clause, aux_sym_if_statement_repeat1]),
     (ACTIONS 53, [anon_sym_PLUS, anon_sym_DASH, anon_sym_STAR, anon_sym_SLASH, anon_sym_isequalto,
        anon_sym_equals, anon_sym_isnotequalto, anon_sym_islessthanorequalto,
        anon_sym_isgreaterthanorequalto, anon_sym_and, anon_sym_or, anon_sym_addedto,
        anon_sym_contains, anon_sym_startswith, anon_sym_endswith, anon_sym_isin]),
     (ACTIONS 122, [ts_builtin_sym_end, anon_sym_do_COLON, anon_sym_declare_COLON,
        anon_sym_note_COLON, anon_sym_noteblock_COLON, anon_sym_building_COLON,
        anon_sym_floor_COLON, anon_sym_step_COLON, anon_sym_riser_COLON, anon_sym_set,
        anon_sym_call, anon_sym_display, anon_sym_input, anon_sym_return, sym_exit_statement,
        anon_sym_if, anon_sym_repeat, anon_sym_foreach, anon_sym_while, anon_sym_attempt_COLON,
        anon_sym_remove, sym__newline])]"

definition ts_small_parse_table_24 :: "(table_entry \<times> TSSymbol list) list" where
  "ts_small_parse_table_24 =
    [(ACTIONS 49, [anon_sym_add]),
     (ACTIONS 51, [anon_sym_LBRACK]),
     (ACTIONS 71, [anon_sym_COMMA]),
     (STATE 44, [aux_sym_argument_list_repeat1]),
     (STATE 96, [sym_binary_operator]),
     (ACTIONS 55, [anon_sym_islessthan, anon_sym_isgreaterthan]),
     (ACTIONS 53, [anon_sym_PLUS, anon_sym_DASH, anon_sym_STAR, anon_sym_SLASH, anon_sym_isequalto,
        anon_sym_equals, anon_sym_isnotequalto, anon_sym_islessthanorequalto,
        anon_sym_isgreaterthanorequalto, anon_sym_and, anon_sym_or, anon_sym_addedto,
        anon_sym_contains, anon_sym_startswith, anon_sym_endswith, anon_sym_isin]),
     (ACTIONS 47, [ts_builtin_sym_end, anon_sym_do_COLON, anon_sym_declare_COLON,
        anon_sym_note_COLON, anon_sym_noteblock_COLON, anon_sym_building_COLON,
        anon_sym_floor_COLON, anon_sym_step_COLON, anon_sym_riser_COLON, anon_sym_set,
        anon_sym_call, anon_sym_storingresultin, anon_sym_display, anon_sym_input, anon_sym_return,
        sym_exit_statement, anon_sym_if, anon_sym_repeat, anon_sym_foreach, anon_sym_while,
        anon_sym_attempt_COLON, anon_sym_remove, anon_sym_RBRACK, sym__newline])]"

definition ts_small_parse_table_25 :: "(table_entry \<times> TSSymbol list) list" where
  "ts_small_parse_table_25 =
    [(ACTIONS 130, [ts_builtin_sym_end]),
     (ACTIONS 132, [anon_sym_do_COLON]),
     (ACTIONS 135, [anon_sym_declare_COLON]),
     (ACTIONS 138, [anon_sym_note_COLON]),
     (ACTIONS 141, [anon_sym_noteblock_COLON]),
     (ACTIONS 144, [anon_sym_building_COLON]),
     (ACTIONS 147, [anon_sym_floor_COLON]),
     (ACTIONS 150, [anon_sym_step_COLON]),
     (ACTIONS 153, [anon_sym_riser_COLON]),
     (ACTIONS 156, [anon_sym_set]),
     (ACTIONS 159, [anon_sym_call]),
     (ACTIONS 162, [anon_sym_display]),
     (ACTIONS 165, [anon_sym_input]),
     (ACTIONS 168, [anon_sym_return]),
     (ACTIONS 174, [anon_sym_if]),
     (ACTIONS 177, [anon_sym_repeat]),
     (ACTIONS 180, [anon_sym_foreach]),
     (ACTIONS 183, [anon_sym_while]),
     (ACTIONS 186, [anon_sym_attempt_COLON]),
     (ACTIONS 189, [anon_sym_add]),
     (ACTIONS 192, [anon_sym_remove]),
     (ACTIONS 171, [sym_exit_statement, sym__newline]),
     (STATE 67, [sym_building_def, sym_floor_def, sym_step_def, sym_riser_def]),
     (STATE 25, [sym__statement, sym_section_marker, sym_comment, sym_block_comment,
        sym_structure_definition, sym_declaration, sym_assignment, sym_call_statement,
        sym_display_statement, sym_input_statement, sym_return_statement, sym_if_statement,
        sym_repeat_statement, sym_for_each_statement, sym_while_statement, sym_attempt_statement,
        sym_add_statement, sym_remove_statement, aux_sym_source_file_repeat1])]"

definition ts_small_parse_table_26 :: "(table_entry \<times> TSSymbol list) list" where
  "ts_small_parse_table_26 =
    [(ACTIONS 5, [anon_sym_do_COLON]),
     (ACTIONS 7, [anon_sym_declare_COLON]),
     (ACTIONS 9, [anon_sym_note_COLON]),
     (ACTIONS 11, [anon_sym_noteblock_COLON]),
     (ACTIONS 13, [anon_sym_building_COLON]),
     (ACTIONS 15, [anon_sym_floor_COLON]),
     (ACTIONS 17, [anon_sym_step_COLON]),
     (ACTIONS 19, [anon_sym_riser_COLON]),
     (ACTIONS 21, [anon_sym_set]),
     (ACTIONS 23, [anon_sym_call]),
     (ACTIONS 25, [anon_sym_display]),
     (ACTIONS 27, [anon_sym_input]),
     (ACTIONS 29, [anon_sym_return]),
     (ACTIONS 33, [anon_sym_if]),
     (ACTIONS 35, [anon_sym_repeat]),
     (ACTIONS 37, [anon_sym_foreach]),
     (ACTIONS 39, [anon_sym_while]),
     (ACTIONS 41, [anon_sym_attempt_COLON]),
     (ACTIONS 43, [anon_sym_add]),
     (ACTIONS 45, [anon_sym_remove]),
     (ACTIONS 195, [ts_builtin_sym_end]),
     (ACTIONS 197, [sym_exit_statement, sym__newline]),
     (STATE 67, [sym_building_def, sym_floor_def, sym_step_def, sym_riser_def]),
     (STATE 25, [sym__statement, sym_section_marker, sym_comment, sym_block_comment,
        sym_structure_definition, sym_declaration, sym_assignment, sym_call_statement,
        sym_display_statement, sym_input_statement, sym_return_statement, sym_if_statement,
        sym_repeat_statement, sym_for_each_statement, sym_while_statement, sym_attempt_statement,
        sym_add_statement, sym_remove_statement, aux_sym_source_file_repeat1])]"

definition ts_small_parse_table_27 :: "(table_entry \<times> TSSymbol list) list" where
  "ts_small_parse_table_27 =
    [(ACTIONS 51, [anon_sym_LBRACK]),
     (STATE 92, [sym_binary_operator]),
     (ACTIONS 55, [anon_sym_islessthan, anon_sym_isgreaterthan]),
     (ACTIONS 201, [anon_sym_otherwise, anon_sym_add]),
     (ACTIONS 53, [anon_sym_PLUS, anon_sym_DASH, anon_sym_STAR, anon_sym_SLASH, anon_sym_isequalto,
        anon_sym_equals, anon_sym_isnotequalto, anon_sym_islessthanorequalto,
        anon_sym_isgreaterthanorequalto, anon_sym_and, anon_sym_or, anon_sym_addedto,
        anon_sym_contains, anon_sym_startswith, anon_sym_endswith, anon_sym_isin]),
     (ACTIONS 199, [ts_builtin_sym_end, anon_sym_do_COLON, anon_sym_declare_COLON,
        anon_sym_note_COLON, anon_sym_noteblock_COLON, anon_sym_building_COLON,
        anon_sym_floor_COLON, anon_sym_step_COLON, anon_sym_riser_COLON, anon_sym_set,
        anon_sym_call, anon_sym_display, anon_sym_input, anon_sym_return, sym_exit_statement,
        anon_sym_if, anon_sym_otherwiseif, anon_sym_repeat, anon_sym_foreach, anon_sym_while,
        anon_sym_attempt_COLON, anon_sym_remove, sym__newline])]"

definition ts_small_parse_table_28 :: "(table_entry \<times> TSSymbol list) list" where
  "ts_small_parse_table_28 =
    [(ACTIONS 51, [anon_sym_LBRACK]),
     (ACTIONS 205, [anon_sym_add]),
     (STATE 92, [sym_binary_operator]),
     (ACTIONS 55, [anon_sym_islessthan, anon_sym_isgreaterthan]),
     (ACTIONS 53, [anon_sym_PLUS, anon_sym_DASH, anon_sym_STAR, anon_sym_SLASH, anon_sym_isequalto,
        anon_sym_equals, anon_sym_isnotequalto, anon_sym_islessthanorequalto,
        anon_sym_isgreaterthanorequalto, anon_sym_and, anon_sym_or, anon_sym_addedto,
        anon_sym_contains, anon_sym_startswith, anon_sym_endswith, anon_sym_isin]),
     (ACTIONS 203, [ts_builtin_sym_end, anon_sym_do_COLON, anon_sym_declare_COLON,
        anon_sym_note_COLON, anon_sym_noteblock_COLON, anon_sym_building_COLON,
        anon_sym_floor_COLON, anon_sym_step_COLON, anon_sym_riser_COLON, anon_sym_set,
        anon_sym_call, anon_sym_display, anon_sym_input, anon_sym_return, sym_exit_statement,
        anon_sym_if, anon_sym_repeat, anon_sym_foreach, anon_sym_while, anon_sym_attempt_COLON,
        anon_sym_remove, sym__newline])]"

definition ts_small_parse_table_29 :: "(table_entry \<times> TSSymbol list) list" where
  "ts_small_parse_table_29 =
    [(ACTIONS 51, [anon_sym_LBRACK]),
     (ACTIONS 209, [anon_sym_add]),
     (STATE 92, [sym_binary_operator]),
     (ACTIONS 55, [anon_sym_islessthan, anon_sym_isgreaterthan]),
     (ACTIONS 53, [anon_sym_PLUS, anon_sym_DASH, anon_sym_STAR, anon_sym_SLASH, anon_sym_isequalto,
        anon_sym_equals, anon_sym_isnotequalto, anon_sym_islessthanorequalto,
        anon_sym_isgreaterthanorequalto, anon_sym_and, anon_sym_or, anon_sym_addedto,
        anon_sym_contains, anon_sym_startswith, anon_sym_endswith, anon_sym_isin]),
     (ACTIONS 207, [ts_builtin_sym_end, anon_sym_do_COLON, anon_sym_declare_COLON,
        anon_sym_note_COLON, anon_sym_noteblock_COLON, anon_sym_building_COLON,
        anon_sym_floor_COLON, anon_sym_step_COLON, anon_sym_riser_COLON, anon_sym_set,
        anon_sym_call, anon_sym_display, anon_sym_input, anon_sym_return, sym_exit_statement,
        anon_sym_if, anon_sym_repeat, anon_sym_foreach, anon_sym_while, anon_sym_attempt_COLON,
        anon_sym_remove, sym__newline])]"

definition ts_small_parse_table_30 :: "(table_entry \<times> TSSymbol list) list" where
  "ts_small_parse_table_30 =
    [(ACTIONS 51, [anon_sym_LBRACK]),
     (ACTIONS 213, [anon_sym_add]),
     (STATE 92, [sym_binary_operator]),
     (ACTIONS 55, [anon_sym_islessthan, anon_sym_isgreaterthan]),
     (ACTIONS 53, [anon_sym_PLUS, anon_sym_DASH, anon_sym_STAR, anon_sym_SLASH, anon_sym_isequalto,
        anon_sym_equals, anon_sym_isnotequalto, anon_sym_islessthanorequalto,
        anon_sym_isgreaterthanorequalto, anon_sym_and, anon_sym_or, anon_sym_addedto,
        anon_sym_contains, anon_sym_startswith, anon_sym_endswith, anon_sym_isin]),
     (ACTIONS 211, [ts_builtin_sym_end, anon_sym_do_COLON, anon_sym_declare_COLON,
        anon_sym_note_COLON, anon_sym_noteblock_COLON, anon_sym_building_COLON,
        anon_sym_floor_COLON, anon_sym_step_COLON, anon_sym_riser_COLON, anon_sym_set,
        anon_sym_call, anon_sym_display, anon_sym_input, anon_sym_return, sym_exit_statement,
        anon_sym_if, anon_sym_repeat, anon_sym_foreach, anon_sym_while, anon_sym_attempt_COLON,
        anon_sym_remove, sym__newline])]"

definition ts_small_parse_table_31 :: "(table_entry \<times> TSSymbol list) list" where
  "ts_small_parse_table_31 =
    [(ACTIONS 51, [anon_sym_LBRACK]),
     (ACTIONS 217, [anon_sym_add]),
     (STATE 92, [sym_binary_operator]),
     (ACTIONS 55, [anon_sym_islessthan, anon_sym_isgreaterthan]),
     (ACTIONS 53, [anon_sym_PLUS, anon_sym_DASH, anon_sym_STAR, anon_sym_SLASH, anon_sym_isequalto,
        anon_sym_equals, anon_sym_isnotequalto, anon_sym_islessthanorequalto,
        anon_sym_isgreaterthanorequalto, anon_sym_and, anon_sym_or, anon_sym_addedto,
        anon_sym_contains, anon_sym_startswith, anon_sym_endswith, anon_sym_isin]),
     (ACTIONS 215, [ts_builtin_sym_end, anon_sym_do_COLON, anon_sym_declare_COLON,
        anon_sym_note_COLON, anon_sym_noteblock_COLON, anon_sym_building_COLON,
        anon_sym_floor_COLON, anon_sym_step_COLON, anon_sym_riser_COLON, anon_sym_set,
        anon_sym_call, anon_sym_display, anon_sym_input, anon_sym_return, sym_exit_statement,
        anon_sym_if, anon_sym_repeat, anon_sym_foreach, anon_sym_while, anon_sym_attempt_COLON,
        anon_sym_remove, sym__newline])]"

definition ts_small_parse_table_32 :: "(table_entry \<times> TSSymbol list) list" where
  "ts_small_parse_table_32 =
    [(ACTIONS 225, [anon_sym_call]),
     (ACTIONS 227, [sym_number]),
     (ACTIONS 229, [anon_sym_DQUOTE]),
     (ACTIONS 233, [anon_sym_LBRACK]),
     (ACTIONS 235, [anon_sym_not]),
     (ACTIONS 237, [anon_sym_lengthof]),
     (ACTIONS 239, [anon_sym_LPAREN]),
     (STATE 102, [sym_unary_operator]),
     (ACTIONS 221, [sym_nothing, sym_identifier]),
     (ACTIONS 231, [anon_sym_true, anon_sym_false]),
     (STATE 30, [sym__expression, sym_string, sym_boolean, sym_list_literal, sym_binary_expression,
        sym_unary_expression, sym_call_expression, sym_index_expression,
        sym_parenthesized_expression]),
     (ACTIONS 223, [anon_sym_set, anon_sym_display, anon_sym_input, anon_sym_return,
        sym_exit_statement, anon_sym_if, anon_sym_repeat, anon_sym_while, anon_sym_add,
        anon_sym_remove]),
     (ACTIONS 219, [ts_builtin_sym_end, anon_sym_do_COLON, anon_sym_declare_COLON,
        anon_sym_note_COLON, anon_sym_noteblock_COLON, anon_sym_building_COLON,
        anon_sym_floor_COLON, anon_sym_step_COLON, anon_sym_riser_COLON, anon_sym_foreach,
        anon_sym_attempt_COLON, sym__newline])]"

definition ts_small_parse_table_33 :: "(table_entry \<times> TSSymbol list) list" where
  "ts_small_parse_table_33 =
    [(ACTIONS 51, [anon_sym_LBRACK]),
     (ACTIONS 243, [anon_sym_add]),
     (STATE 92, [sym_binary_operator]),
     (ACTIONS 55, [anon_sym_islessthan, anon_sym_isgreaterthan]),
     (ACTIONS 53, [anon_sym_PLUS, anon_sym_DASH, anon_sym_STAR, anon_sym_SLASH, anon_sym_isequalto,
        anon_sym_equals, anon_sym_isnotequalto, anon_sym_islessthanorequalto,
        anon_sym_isgreaterthanorequalto, anon_sym_and, anon_sym_or, anon_sym_addedto,
        anon_sym_contains, anon_sym_startswith, anon_sym_endswith, anon_sym_isin]),
     (ACTIONS 241, [ts_builtin_sym_end, anon_sym_do_COLON, anon_sym_declare_COLON,
        anon_sym_note_COLON, anon_sym_noteblock_COLON, anon_sym_building_COLON,
        anon_sym_floor_COLON, anon_sym_step_COLON, anon_sym_riser_COLON, anon_sym_set,
        anon_sym_call, anon_sym_display, anon_sym_input, anon_sym_return, sym_exit_statement,
        anon_sym_if, anon_sym_repeat, anon_sym_foreach, anon_sym_while, anon_sym_attempt_COLON,
        anon_sym_remove, sym__newline])]"

definition ts_small_parse_table_34 :: "(table_entry \<times> TSSymbol list) list" where
  "ts_small_parse_table_34 =
    [(ACTIONS 51, [anon_sym_LBRACK]),
     (ACTIONS 247, [anon_sym_add]),
     (STATE 92, [sym_binary_operator]),
     (ACTIONS 55, [anon_sym_islessthan, anon_sym_isgreaterthan]),
     (ACTIONS 53, [anon_sym_PLUS, anon_sym_DASH, anon_sym_STAR, anon_sym_SLASH, anon_sym_isequalto,
        anon_sym_equals, anon_sym_isnotequalto, anon_sym_islessthanorequalto,
        anon_sym_isgreaterthanorequalto, anon_sym_and, anon_sym_or, anon_sym_addedto,
        anon_sym_contains, anon_sym_startswith, anon_sym_endswith, anon_sym_isin]),
     (ACTIONS 245, [ts_builtin_sym_end, anon_sym_do_COLON, anon_sym_declare_COLON,
        anon_sym_note_COLON, anon_sym_noteblock_COLON, anon_sym_building_COLON,
        anon_sym_floor_COLON, anon_sym_step_COLON, anon_sym_riser_COLON, anon_sym_set,
        anon_sym_call, anon_sym_display, anon_sym_input, anon_sym_return, sym_exit_statement,
        anon_sym_if, anon_sym_repeat, anon_sym_foreach, anon_sym_while, anon_sym_attempt_COLON,
        anon_sym_remove, sym__newline])]"

definition ts_small_parse_table_35 :: "(table_entry \<times> TSSymbol list) list" where
  "ts_small_parse_table_35 =
    [(ACTIONS 51, [anon_sym_LBRACK]),
     (ACTIONS 251, [anon_sym_add]),
     (STATE 92, [sym_binary_operator]),
     (ACTIONS 55, [anon_sym_islessthan, anon_sym_isgreaterthan]),
     (ACTIONS 53, [anon_sym_PLUS, anon_sym_DASH, anon_sym_STAR, anon_sym_SLASH, anon_sym_isequalto,
        anon_sym_equals, anon_sym_isnotequalto, anon_sym_islessthanorequalto,
        anon_sym_isgreaterthanorequalto, anon_sym_and, anon_sym_or, anon_sym_addedto,
        anon_sym_contains, anon_sym_startswith, anon_sym_endswith, anon_sym_isin]),
     (ACTIONS 249, [ts_builtin_sym_end, anon_sym_do_COLON, anon_sym_declare_COLON,
        anon_sym_note_COLON, anon_sym_noteblock_COLON, anon_sym_building_COLON,
        anon_sym_floor_COLON, anon_sym_step_COLON, anon_sym_riser_COLON, anon_sym_set,
        anon_sym_call, anon_sym_display, anon_sym_input, anon_sym_return, sym_exit_statement,
        anon_sym_if, anon_sym_repeat, anon_sym_foreach, anon_sym_while, anon_sym_attempt_COLON,
        anon_sym_remove, sym__newline])]"

definition ts_small_parse_table_36 :: "(table_entry \<times> TSSymbol list) list" where
  "ts_small_parse_table_36 =
    [(ACTIONS 255, [anon_sym_belongsto_COLON]),
     (ACTIONS 257, [anon_sym_expects_COLON]),
     (ACTIONS 259, [anon_sym_returns_COLON]),
     (ACTIONS 261, [anon_sym_return]),
     (STATE 68, [sym_step_clauses]),
     (STATE 39, [sym_belongs_clause, sym_expects_clause, sym_returns_clause,
        aux_sym_step_clauses_repeat1]),
     (ACTIONS 253, [ts_builtin_sym_end, anon_sym_do_COLON, anon_sym_declare_COLON,
        anon_sym_note_COLON, anon_sym_noteblock_COLON, anon_sym_building_COLON,
        anon_sym_floor_COLON, anon_sym_step_COLON, anon_sym_riser_COLON, anon_sym_set,
        anon_sym_call, anon_sym_display, anon_sym_input, sym_exit_statement, anon_sym_if,
        anon_sym_repeat, anon_sym_foreach, anon_sym_while, anon_sym_attempt_COLON, anon_sym_add,
        anon_sym_remove, sym__newline])]"

definition ts_small_parse_table_37 :: "(table_entry \<times> TSSymbol list) list" where
  "ts_small_parse_table_37 =
    [(ACTIONS 255, [anon_sym_belongsto_COLON]),
     (ACTIONS 257, [anon_sym_expects_COLON]),
     (ACTIONS 259, [anon_sym_returns_COLON]),
     (ACTIONS 265, [anon_sym_return]),
     (STATE 69, [sym_step_clauses]),
     (STATE 39, [sym_belongs_clause, sym_expects_clause, sym_returns_clause,
        aux_sym_step_clauses_repeat1]),
     (ACTIONS 263, [ts_builtin_sym_end, anon_sym_do_COLON, anon_sym_declare_COLON,
        anon_sym_note_COLON, anon_sym_noteblock_COLON, anon_sym_building_COLON,
        anon_sym_floor_COLON, anon_sym_step_COLON, anon_sym_riser_COLON, anon_sym_set,
        anon_sym_call, anon_sym_display, anon_sym_input, sym_exit_statement, anon_sym_if,
        anon_sym_repeat, anon_sym_foreach, anon_sym_while, anon_sym_attempt_COLON, anon_sym_add,
        anon_sym_remove, sym__newline])]"

definition ts_small_parse_table_38 :: "(table_entry \<times> TSSymbol list) list" where
  "ts_small_parse_table_38 =
    [(ACTIONS 269, [anon_sym_belongsto_COLON]),
     (ACTIONS 272, [anon_sym_expects_COLON]),
     (ACTIONS 275, [anon_sym_returns_COLON]),
     (ACTIONS 278, [anon_sym_return]),
     (STATE 38, [sym_belongs_clause, sym_expects_clause, sym_returns_clause,
        aux_sym_step_clauses_repeat1]),
     (ACTIONS 267, [ts_builtin_sym_end, anon_sym_do_COLON, anon_sym_declare_COLON,
        anon_sym_note_COLON, anon_sym_noteblock_COLON, anon_sym_building_COLON,
        anon_sym_floor_COLON, anon_sym_step_COLON, anon_sym_riser_COLON, anon_sym_set,
        anon_sym_call, anon_sym_display, anon_sym_input, sym_exit_statement, anon_sym_if,
        anon_sym_repeat, anon_sym_foreach, anon_sym_while, anon_sym_attempt_COLON, anon_sym_add,
        anon_sym_remove, sym__newline])]"

definition ts_small_parse_table_39 :: "(table_entry \<times> TSSymbol list) list" where
  "ts_small_parse_table_39 =
    [(ACTIONS 255, [anon_sym_belongsto_COLON]),
     (ACTIONS 257, [anon_sym_expects_COLON]),
     (ACTIONS 259, [anon_sym_returns_COLON]),
     (ACTIONS 282, [anon_sym_return]),
     (STATE 38, [sym_belongs_clause, sym_expects_clause, sym_returns_clause,
        aux_sym_step_clauses_repeat1]),
     (ACTIONS 280, [ts_builtin_sym_end, anon_sym_do_COLON, anon_sym_declare_COLON,
        anon_sym_note_COLON, anon_sym_noteblock_COLON, anon_sym_building_COLON,
        anon_sym_floor_COLON, anon_sym_step_COLON, anon_sym_riser_COLON, anon_sym_set,
        anon_sym_call, anon_sym_display, anon_sym_input, sym_exit_statement, anon_sym_if,
        anon_sym_repeat, anon_sym_foreach, anon_sym_while, anon_sym_attempt_COLON, anon_sym_add,
        anon_sym_remove, sym__newline])]"

definition ts_small_parse_table_40 :: "(table_entry \<times> TSSymbol list) list" where
  "ts_small_parse_table_40 =
    [(ACTIONS 286, [anon_sym_COMMA]),
     (ACTIONS 288, [anon_sym_return]),
     (STATE 43, [aux_sym_parameter_list_repeat1]),
     (ACTIONS 284, [ts_builtin_sym_end, anon_sym_do_COLON, anon_sym_declare_COLON,
        anon_sym_note_COLON, anon_sym_noteblock_COLON, anon_sym_building_COLON,
        anon_sym_floor_COLON, anon_sym_step_COLON, anon_sym_riser_COLON, anon_sym_belongsto_COLON,
        anon_sym_expects_COLON, anon_sym_returns_COLON, anon_sym_set, anon_sym_call,
        anon_sym_display, anon_sym_input, sym_exit_statement, anon_sym_if, anon_sym_repeat,
        anon_sym_foreach, anon_sym_while, anon_sym_attempt_COLON, anon_sym_add, anon_sym_remove,
        sym__newline])]"

definition ts_small_parse_table_41 :: "(table_entry \<times> TSSymbol list) list" where
  "ts_small_parse_table_41 =
    [(ACTIONS 124, [anon_sym_otherwiseif]),
     (ACTIONS 126, [anon_sym_otherwise]),
     (STATE 66, [sym_otherwise_clause]),
     (STATE 51, [sym_otherwise_if_clause, aux_sym_if_statement_repeat1]),
     (ACTIONS 290, [ts_builtin_sym_end, anon_sym_do_COLON, anon_sym_declare_COLON,
        anon_sym_note_COLON, anon_sym_noteblock_COLON, anon_sym_building_COLON,
        anon_sym_floor_COLON, anon_sym_step_COLON, anon_sym_riser_COLON, anon_sym_set,
        anon_sym_call, anon_sym_display, anon_sym_input, anon_sym_return, sym_exit_statement,
        anon_sym_if, anon_sym_repeat, anon_sym_foreach, anon_sym_while, anon_sym_attempt_COLON,
        anon_sym_add, anon_sym_remove, sym__newline])]"

definition ts_small_parse_table_42 :: "(table_entry \<times> TSSymbol list) list" where
  "ts_small_parse_table_42 =
    [(ACTIONS 294, [anon_sym_COMMA]),
     (ACTIONS 297, [anon_sym_return]),
     (STATE 42, [aux_sym_parameter_list_repeat1]),
     (ACTIONS 292, [ts_builtin_sym_end, anon_sym_do_COLON, anon_sym_declare_COLON,
        anon_sym_note_COLON, anon_sym_noteblock_COLON, anon_sym_building_COLON,
        anon_sym_floor_COLON, anon_sym_step_COLON, anon_sym_riser_COLON, anon_sym_belongsto_COLON,
        anon_sym_expects_COLON, anon_sym_returns_COLON, anon_sym_set, anon_sym_call,
        anon_sym_display, anon_sym_input, sym_exit_statement, anon_sym_if, anon_sym_repeat,
        anon_sym_foreach, anon_sym_while, anon_sym_attempt_COLON, anon_sym_add, anon_sym_remove,
        sym__newline])]"

definition ts_small_parse_table_43 :: "(table_entry \<times> TSSymbol list) list" where
  "ts_small_parse_table_43 =
    [(ACTIONS 286, [anon_sym_COMMA]),
     (ACTIONS 301, [anon_sym_return]),
     (STATE 42, [aux_sym_parameter_list_repeat1]),
     (ACTIONS 299, [ts_builtin_sym_end, anon_sym_do_COLON, anon_sym_declare_COLON,
        anon_sym_note_COLON, anon_sym_noteblock_COLON, anon_sym_building_COLON,
        anon_sym_floor_COLON, anon_sym_step_COLON, anon_sym_riser_COLON, anon_sym_belongsto_COLON,
        anon_sym_expects_COLON, anon_sym_returns_COLON, anon_sym_set, anon_sym_call,
        anon_sym_display, anon_sym_input, sym_exit_statement, anon_sym_if, anon_sym_repeat,
        anon_sym_foreach, anon_sym_while, anon_sym_attempt_COLON, anon_sym_add, anon_sym_remove,
        sym__newline])]"

definition ts_small_parse_table_44 :: "(table_entry \<times> TSSymbol list) list" where
  "ts_small_parse_table_44 =
    [(ACTIONS 71, [anon_sym_COMMA]),
     (STATE 49, [aux_sym_argument_list_repeat1]),
     (ACTIONS 80, [ts_builtin_sym_end, anon_sym_do_COLON, anon_sym_declare_COLON,
        anon_sym_note_COLON, anon_sym_noteblock_COLON, anon_sym_building_COLON,
        anon_sym_floor_COLON, anon_sym_step_COLON, anon_sym_riser_COLON, anon_sym_set,
        anon_sym_call, anon_sym_storingresultin, anon_sym_display, anon_sym_input, anon_sym_return,
        sym_exit_statement, anon_sym_if, anon_sym_repeat, anon_sym_foreach, anon_sym_while,
        anon_sym_attempt_COLON, anon_sym_add, anon_sym_remove, anon_sym_RBRACK, sym__newline])]"

definition ts_small_parse_table_45 :: "(table_entry \<times> TSSymbol list) list" where
  "ts_small_parse_table_45 =
    [(ACTIONS 305, [anon_sym_if]),
     (ACTIONS 307, [anon_sym_ifunsuccessful_COLON]),
     (ACTIONS 309, [anon_sym_thencontinue_COLON]),
     (STATE 56, [sym_if_unsuccessful_clause]),
     (STATE 80, [sym_then_continue_clause]),
     (ACTIONS 303, [ts_builtin_sym_end, anon_sym_do_COLON, anon_sym_declare_COLON,
        anon_sym_note_COLON, anon_sym_noteblock_COLON, anon_sym_building_COLON,
        anon_sym_floor_COLON, anon_sym_step_COLON, anon_sym_riser_COLON, anon_sym_set,
        anon_sym_call, anon_sym_display, anon_sym_input, anon_sym_return, sym_exit_statement,
        anon_sym_repeat, anon_sym_foreach, anon_sym_while, anon_sym_attempt_COLON, anon_sym_add,
        anon_sym_remove, sym__newline])]"

definition ts_small_parse_table_46 :: "(table_entry \<times> TSSymbol list) list" where
  "ts_small_parse_table_46 =
    [(ACTIONS 313, [anon_sym_return]),
     (ACTIONS 311, [ts_builtin_sym_end, anon_sym_do_COLON, anon_sym_declare_COLON,
        anon_sym_note_COLON, anon_sym_noteblock_COLON, anon_sym_building_COLON,
        anon_sym_floor_COLON, anon_sym_step_COLON, anon_sym_riser_COLON, anon_sym_belongsto_COLON,
        anon_sym_expects_COLON, anon_sym_returns_COLON, anon_sym_COMMA, anon_sym_set,
        anon_sym_call, anon_sym_display, anon_sym_input, sym_exit_statement, anon_sym_if,
        anon_sym_repeat, anon_sym_foreach, anon_sym_while, anon_sym_attempt_COLON, anon_sym_add,
        anon_sym_remove, sym__newline])]"

definition ts_small_parse_table_47 :: "(table_entry \<times> TSSymbol list) list" where
  "ts_small_parse_table_47 =
    [(ACTIONS 297, [anon_sym_return]),
     (ACTIONS 292, [ts_builtin_sym_end, anon_sym_do_COLON, anon_sym_declare_COLON,
        anon_sym_note_COLON, anon_sym_noteblock_COLON, anon_sym_building_COLON,
        anon_sym_floor_COLON, anon_sym_step_COLON, anon_sym_riser_COLON, anon_sym_belongsto_COLON,
        anon_sym_expects_COLON, anon_sym_returns_COLON, anon_sym_COMMA, anon_sym_set,
        anon_sym_call, anon_sym_display, anon_sym_input, sym_exit_statement, anon_sym_if,
        anon_sym_repeat, anon_sym_foreach, anon_sym_while, anon_sym_attempt_COLON, anon_sym_add,
        anon_sym_remove, sym__newline])]"

definition ts_small_parse_table_48 :: "(table_entry \<times> TSSymbol list) list" where
  "ts_small_parse_table_48 =
    [(ACTIONS 317, [anon_sym_return]),
     (ACTIONS 315, [ts_builtin_sym_end, anon_sym_do_COLON, anon_sym_declare_COLON,
        anon_sym_note_COLON, anon_sym_noteblock_COLON, anon_sym_building_COLON,
        anon_sym_floor_COLON, anon_sym_step_COLON, anon_sym_riser_COLON, anon_sym_belongsto_COLON,
        anon_sym_expects_COLON, anon_sym_returns_COLON, anon_sym_COMMA, anon_sym_set,
        anon_sym_call, anon_sym_display, anon_sym_input, sym_exit_statement, anon_sym_if,
        anon_sym_repeat, anon_sym_foreach, anon_sym_while, anon_sym_attempt_COLON, anon_sym_add,
        anon_sym_remove, sym__newline])]"

definition ts_small_parse_table_49 :: "(table_entry \<times> TSSymbol list) list" where
  "ts_small_parse_table_49 =
    [(ACTIONS 75, [anon_sym_COMMA]),
     (STATE 49, [aux_sym_argument_list_repeat1]),
     (ACTIONS 73, [ts_builtin_sym_end, anon_sym_do_COLON, anon_sym_declare_COLON,
        anon_sym_note_COLON, anon_sym_noteblock_COLON, anon_sym_building_COLON,
        anon_sym_floor_COLON, anon_sym_step_COLON, anon_sym_riser_COLON, anon_sym_set,
        anon_sym_call, anon_sym_storingresultin, anon_sym_display, anon_sym_input, anon_sym_return,
        sym_exit_statement, anon_sym_if, anon_sym_repeat, anon_sym_foreach, anon_sym_while,
        anon_sym_attempt_COLON, anon_sym_add, anon_sym_remove, anon_sym_RBRACK, sym__newline])]"

definition ts_small_parse_table_50 :: "(table_entry \<times> TSSymbol list) list" where
  "ts_small_parse_table_50 =
    [(ACTIONS 321, [anon_sym_with]),
     (ACTIONS 323, [anon_sym_storingresultin]),
     (STATE 57, [sym_with_clause]),
     (STATE 74, [sym_storing_clause]),
     (ACTIONS 319, [ts_builtin_sym_end, anon_sym_do_COLON, anon_sym_declare_COLON,
        anon_sym_note_COLON, anon_sym_noteblock_COLON, anon_sym_building_COLON,
        anon_sym_floor_COLON, anon_sym_step_COLON, anon_sym_riser_COLON, anon_sym_set,
        anon_sym_call, anon_sym_display, anon_sym_input, anon_sym_return, sym_exit_statement,
        anon_sym_if, anon_sym_repeat, anon_sym_foreach, anon_sym_while, anon_sym_attempt_COLON,
        anon_sym_add, anon_sym_remove, sym__newline])]"

definition ts_small_parse_table_51 :: "(table_entry \<times> TSSymbol list) list" where
  "ts_small_parse_table_51 =
    [(ACTIONS 327, [anon_sym_otherwiseif]),
     (ACTIONS 330, [anon_sym_otherwise]),
     (STATE 51, [sym_otherwise_if_clause, aux_sym_if_statement_repeat1]),
     (ACTIONS 325, [ts_builtin_sym_end, anon_sym_do_COLON, anon_sym_declare_COLON,
        anon_sym_note_COLON, anon_sym_noteblock_COLON, anon_sym_building_COLON,
        anon_sym_floor_COLON, anon_sym_step_COLON, anon_sym_riser_COLON, anon_sym_set,
        anon_sym_call, anon_sym_display, anon_sym_input, anon_sym_return, sym_exit_statement,
        anon_sym_if, anon_sym_repeat, anon_sym_foreach, anon_sym_while, anon_sym_attempt_COLON,
        anon_sym_add, anon_sym_remove, sym__newline])]"

definition ts_small_parse_table_52 :: "(table_entry \<times> TSSymbol list) list" where
  "ts_small_parse_table_52 =
    [(ACTIONS 334, [anon_sym_return]),
     (ACTIONS 332, [ts_builtin_sym_end, anon_sym_do_COLON, anon_sym_declare_COLON,
        anon_sym_note_COLON, anon_sym_noteblock_COLON, anon_sym_building_COLON,
        anon_sym_floor_COLON, anon_sym_step_COLON, anon_sym_riser_COLON, anon_sym_belongsto_COLON,
        anon_sym_expects_COLON, anon_sym_returns_COLON, anon_sym_set, anon_sym_call,
        anon_sym_display, anon_sym_input, sym_exit_statement, anon_sym_if, anon_sym_repeat,
        anon_sym_foreach, anon_sym_while, anon_sym_attempt_COLON, anon_sym_add, anon_sym_remove,
        sym__newline])]"

definition ts_small_parse_table_53 :: "(table_entry \<times> TSSymbol list) list" where
  "ts_small_parse_table_53 =
    [(ACTIONS 338, [anon_sym_return]),
     (ACTIONS 336, [ts_builtin_sym_end, anon_sym_do_COLON, anon_sym_declare_COLON,
        anon_sym_note_COLON, anon_sym_noteblock_COLON, anon_sym_building_COLON,
        anon_sym_floor_COLON, anon_sym_step_COLON, anon_sym_riser_COLON, anon_sym_belongsto_COLON,
        anon_sym_expects_COLON, anon_sym_returns_COLON, anon_sym_set, anon_sym_call,
        anon_sym_display, anon_sym_input, sym_exit_statement, anon_sym_if, anon_sym_repeat,
        anon_sym_foreach, anon_sym_while, anon_sym_attempt_COLON, anon_sym_add, anon_sym_remove,
        sym__newline])]"

definition ts_small_parse_table_54 :: "(table_entry \<times> TSSymbol list) list" where
  "ts_small_parse_table_54 =
    [(ACTIONS 342, [anon_sym_return]),
     (ACTIONS 340, [ts_builtin_sym_end, anon_sym_do_COLON, anon_sym_declare_COLON,
        anon_sym_note_COLON, anon_sym_noteblock_COLON, anon_sym_building_COLON,
        anon_sym_floor_COLON, anon_sym_step_COLON, anon_sym_riser_COLON, anon_sym_belongsto_COLON,
        anon_sym_expects_COLON, anon_sym_returns_COLON, anon_sym_set, anon_sym_call,
        anon_sym_display, anon_sym_input, sym_exit_statement, anon_sym_if, anon_sym_repeat,
        anon_sym_foreach, anon_sym_while, anon_sym_attempt_COLON, anon_sym_add, anon_sym_remove,
        sym__newline])]"

definition ts_small_parse_table_55 :: "(table_entry \<times> TSSymbol list) list" where
  "ts_small_parse_table_55 =
    [(ACTIONS 346, [sym_identifier]),
     (ACTIONS 348, [anon_sym_fixed]),
     (ACTIONS 350, [anon_sym_set, anon_sym_call, anon_sym_display, anon_sym_input, anon_sym_return,
        sym_exit_statement, anon_sym_if, anon_sym_repeat, anon_sym_while, anon_sym_add,
        anon_sym_remove]),
     (ACTIONS 344, [ts_builtin_sym_end, anon_sym_do_COLON, anon_sym_declare_COLON,
        anon_sym_note_COLON, anon_sym_noteblock_COLON, anon_sym_building_COLON,
        anon_sym_floor_COLON, anon_sym_step_COLON, anon_sym_riser_COLON, anon_sym_foreach,
        anon_sym_attempt_COLON, sym__newline])]"

definition ts_small_parse_table_56 :: "(table_entry \<times> TSSymbol list) list" where
  "ts_small_parse_table_56 =
    [(ACTIONS 309, [anon_sym_thencontinue_COLON]),
     (STATE 82, [sym_then_continue_clause]),
     (ACTIONS 352, [ts_builtin_sym_end, anon_sym_do_COLON, anon_sym_declare_COLON,
        anon_sym_note_COLON, anon_sym_noteblock_COLON, anon_sym_building_COLON,
        anon_sym_floor_COLON, anon_sym_step_COLON, anon_sym_riser_COLON, anon_sym_set,
        anon_sym_call, anon_sym_display, anon_sym_input, anon_sym_return, sym_exit_statement,
        anon_sym_if, anon_sym_repeat, anon_sym_foreach, anon_sym_while, anon_sym_attempt_COLON,
        anon_sym_add, anon_sym_remove, sym__newline])]"

definition ts_small_parse_table_57 :: "(table_entry \<times> TSSymbol list) list" where
  "ts_small_parse_table_57 =
    [(ACTIONS 323, [anon_sym_storingresultin]),
     (STATE 65, [sym_storing_clause]),
     (ACTIONS 354, [ts_builtin_sym_end, anon_sym_do_COLON, anon_sym_declare_COLON,
        anon_sym_note_COLON, anon_sym_noteblock_COLON, anon_sym_building_COLON,
        anon_sym_floor_COLON, anon_sym_step_COLON, anon_sym_riser_COLON, anon_sym_set,
        anon_sym_call, anon_sym_display, anon_sym_input, anon_sym_return, sym_exit_statement,
        anon_sym_if, anon_sym_repeat, anon_sym_foreach, anon_sym_while, anon_sym_attempt_COLON,
        anon_sym_add, anon_sym_remove, sym__newline])]"

definition ts_small_parse_table_58 :: "(table_entry \<times> TSSymbol list) list" where
  "ts_small_parse_table_58 =
    [(ACTIONS 356, [ts_builtin_sym_end]),
     (ACTIONS 360, [sym_comment_content]),
     (ACTIONS 358, [anon_sym_do_COLON, anon_sym_declare_COLON, anon_sym_note_COLON,
        anon_sym_noteblock_COLON, anon_sym_building_COLON, anon_sym_floor_COLON,
        anon_sym_step_COLON, anon_sym_riser_COLON, anon_sym_set, anon_sym_call, anon_sym_display,
        anon_sym_input, anon_sym_return, sym_exit_statement, anon_sym_if, anon_sym_repeat,
        anon_sym_foreach, anon_sym_while, anon_sym_attempt_COLON, anon_sym_add, anon_sym_remove,
        sym__newline])]"

definition ts_small_parse_table_59 :: "(table_entry \<times> TSSymbol list) list" where
  "ts_small_parse_table_59 =
    [(ACTIONS 364, [anon_sym_EQ]),
     (ACTIONS 362, [ts_builtin_sym_end, anon_sym_do_COLON, anon_sym_declare_COLON,
        anon_sym_note_COLON, anon_sym_noteblock_COLON, anon_sym_building_COLON,
        anon_sym_floor_COLON, anon_sym_step_COLON, anon_sym_riser_COLON, anon_sym_set,
        anon_sym_call, anon_sym_display, anon_sym_input, anon_sym_return, sym_exit_statement,
        anon_sym_if, anon_sym_repeat, anon_sym_foreach, anon_sym_while, anon_sym_attempt_COLON,
        anon_sym_add, anon_sym_remove, sym__newline])]"

definition ts_small_parse_table_60 :: "(table_entry \<times> TSSymbol list) list" where
  "ts_small_parse_table_60 =
    [(ACTIONS 311, [ts_builtin_sym_end, anon_sym_do_COLON, anon_sym_declare_COLON,
        anon_sym_note_COLON, anon_sym_noteblock_COLON, anon_sym_building_COLON,
        anon_sym_floor_COLON, anon_sym_step_COLON, anon_sym_riser_COLON, anon_sym_EQ, anon_sym_set,
        anon_sym_call, anon_sym_display, anon_sym_input, anon_sym_return, sym_exit_statement,
        anon_sym_if, anon_sym_repeat, anon_sym_foreach, anon_sym_while, anon_sym_attempt_COLON,
        anon_sym_add, anon_sym_remove, sym__newline])]"

definition ts_small_parse_table_61 :: "(table_entry \<times> TSSymbol list) list" where
  "ts_small_parse_table_61 =
    [(ACTIONS 366, [ts_builtin_sym_end, anon_sym_do_COLON, anon_sym_declare_COLON,
        anon_sym_note_COLON, anon_sym_noteblock_COLON, anon_sym_building_COLON,
        anon_sym_floor_COLON, anon_sym_step_COLON, anon_sym_riser_COLON, anon_sym_set,
        anon_sym_call, anon_sym_display, anon_sym_input, anon_sym_return, sym_exit_statement,
        anon_sym_if, anon_sym_repeat, anon_sym_foreach, anon_sym_while, anon_sym_attempt_COLON,
        anon_sym_thencontinue_COLON, anon_sym_add, anon_sym_remove, sym__newline])]"

definition ts_small_parse_table_62 :: "(table_entry \<times> TSSymbol list) list" where
  "ts_small_parse_table_62 =
    [(ACTIONS 106, [ts_builtin_sym_end, anon_sym_do_COLON, anon_sym_declare_COLON,
        anon_sym_note_COLON, anon_sym_noteblock_COLON, anon_sym_building_COLON,
        anon_sym_floor_COLON, anon_sym_step_COLON, anon_sym_riser_COLON, anon_sym_set,
        anon_sym_call, anon_sym_storingresultin, anon_sym_display, anon_sym_input, anon_sym_return,
        sym_exit_statement, anon_sym_if, anon_sym_repeat, anon_sym_foreach, anon_sym_while,
        anon_sym_attempt_COLON, anon_sym_add, anon_sym_remove, sym__newline])]"

definition ts_small_parse_table_63 :: "(table_entry \<times> TSSymbol list) list" where
  "ts_small_parse_table_63 =
    [(ACTIONS 370, [anon_sym_EQ]),
     (ACTIONS 368, [ts_builtin_sym_end, anon_sym_do_COLON, anon_sym_declare_COLON,
        anon_sym_note_COLON, anon_sym_noteblock_COLON, anon_sym_building_COLON,
        anon_sym_floor_COLON, anon_sym_step_COLON, anon_sym_riser_COLON, anon_sym_set,
        anon_sym_call, anon_sym_display, anon_sym_input, anon_sym_return, sym_exit_statement,
        anon_sym_if, anon_sym_repeat, anon_sym_foreach, anon_sym_while, anon_sym_attempt_COLON,
        anon_sym_add, anon_sym_remove, sym__newline])]"

definition ts_small_parse_table_64 :: "(table_entry \<times> TSSymbol list) list" where
  "ts_small_parse_table_64 =
    [(ACTIONS 372, [ts_builtin_sym_end, anon_sym_do_COLON, anon_sym_declare_COLON,
        anon_sym_note_COLON, anon_sym_noteblock_COLON, anon_sym_building_COLON,
        anon_sym_floor_COLON, anon_sym_step_COLON, anon_sym_riser_COLON, anon_sym_set,
        anon_sym_call, anon_sym_display, anon_sym_input, anon_sym_return, sym_exit_statement,
        anon_sym_if, anon_sym_repeat, anon_sym_foreach, anon_sym_while, anon_sym_attempt_COLON,
        anon_sym_add, anon_sym_remove, sym__newline])]"

definition ts_small_parse_table_65 :: "(table_entry \<times> TSSymbol list) list" where
  "ts_small_parse_table_65 =
    [(ACTIONS 374, [ts_builtin_sym_end, anon_sym_do_COLON, anon_sym_declare_COLON,
        anon_sym_note_COLON, anon_sym_noteblock_COLON, anon_sym_building_COLON,
        anon_sym_floor_COLON, anon_sym_step_COLON, anon_sym_riser_COLON, anon_sym_set,
        anon_sym_call, anon_sym_display, anon_sym_input, anon_sym_return, sym_exit_statement,
        anon_sym_if, anon_sym_repeat, anon_sym_foreach, anon_sym_while, anon_sym_attempt_COLON,
        anon_sym_add, anon_sym_remove, sym__newline])]"

definition ts_small_parse_table_66 :: "(table_entry \<times> TSSymbol list) list" where
  "ts_small_parse_table_66 =
    [(ACTIONS 376, [ts_builtin_sym_end, anon_sym_do_COLON, anon_sym_declare_COLON,
        anon_sym_note_COLON, anon_sym_noteblock_COLON, anon_sym_building_COLON,
        anon_sym_floor_COLON, anon_sym_step_COLON, anon_sym_riser_COLON, anon_sym_set,
        anon_sym_call, anon_sym_display, anon_sym_input, anon_sym_return, sym_exit_statement,
        anon_sym_if, anon_sym_repeat, anon_sym_foreach, anon_sym_while, anon_sym_attempt_COLON,
        anon_sym_add, anon_sym_remove, sym__newline])]"

definition ts_small_parse_table_67 :: "(table_entry \<times> TSSymbol list) list" where
  "ts_small_parse_table_67 =
    [(ACTIONS 378, [ts_builtin_sym_end, anon_sym_do_COLON, anon_sym_declare_COLON,
        anon_sym_note_COLON, anon_sym_noteblock_COLON, anon_sym_building_COLON,
        anon_sym_floor_COLON, anon_sym_step_COLON, anon_sym_riser_COLON, anon_sym_set,
        anon_sym_call, anon_sym_display, anon_sym_input, anon_sym_return, sym_exit_statement,
        anon_sym_if, anon_sym_repeat, anon_sym_foreach, anon_sym_while, anon_sym_attempt_COLON,
        anon_sym_add, anon_sym_remove, sym__newline])]"

definition ts_small_parse_table_68 :: "(table_entry \<times> TSSymbol list) list" where
  "ts_small_parse_table_68 =
    [(ACTIONS 380, [ts_builtin_sym_end, anon_sym_do_COLON, anon_sym_declare_COLON,
        anon_sym_note_COLON, anon_sym_noteblock_COLON, anon_sym_building_COLON,
        anon_sym_floor_COLON, anon_sym_step_COLON, anon_sym_riser_COLON, anon_sym_set,
        anon_sym_call, anon_sym_display, anon_sym_input, anon_sym_return, sym_exit_statement,
        anon_sym_if, anon_sym_repeat, anon_sym_foreach, anon_sym_while, anon_sym_attempt_COLON,
        anon_sym_add, anon_sym_remove, sym__newline])]"

definition ts_small_parse_table_69 :: "(table_entry \<times> TSSymbol list) list" where
  "ts_small_parse_table_69 =
    [(ACTIONS 382, [ts_builtin_sym_end, anon_sym_do_COLON, anon_sym_declare_COLON,
        anon_sym_note_COLON, anon_sym_noteblock_COLON, anon_sym_building_COLON,
        anon_sym_floor_COLON, anon_sym_step_COLON, anon_sym_riser_COLON, anon_sym_set,
        anon_sym_call, anon_sym_display, anon_sym_input, anon_sym_return, sym_exit_statement,
        anon_sym_if, anon_sym_repeat, anon_sym_foreach, anon_sym_while, anon_sym_attempt_COLON,
        anon_sym_add, anon_sym_remove, sym__newline])]"

definition ts_small_parse_table_70 :: "(table_entry \<times> TSSymbol list) list" where
  "ts_small_parse_table_70 =
    [(ACTIONS 229, [anon_sym_DQUOTE]),
     (ACTIONS 233, [anon_sym_LBRACK]),
     (ACTIONS 235, [anon_sym_not]),
     (ACTIONS 237, [anon_sym_lengthof]),
     (ACTIONS 239, [anon_sym_LPAREN]),
     (ACTIONS 386, [anon_sym_call]),
     (ACTIONS 388, [sym_number]),
     (ACTIONS 390, [anon_sym_RBRACK]),
     (STATE 97, [sym_unary_operator]),
     (STATE 137, [sym_argument_list]),
     (ACTIONS 231, [anon_sym_true, anon_sym_false]),
     (ACTIONS 384, [sym_nothing, sym_identifier]),
     (STATE 24, [sym__expression, sym_string, sym_boolean, sym_list_literal, sym_binary_expression,
        sym_unary_expression, sym_call_expression, sym_index_expression,
        sym_parenthesized_expression])]"

definition ts_small_parse_table_71 :: "(table_entry \<times> TSSymbol list) list" where
  "ts_small_parse_table_71 =
    [(ACTIONS 392, [ts_builtin_sym_end, anon_sym_do_COLON, anon_sym_declare_COLON,
        anon_sym_note_COLON, anon_sym_noteblock_COLON, anon_sym_building_COLON,
        anon_sym_floor_COLON, anon_sym_step_COLON, anon_sym_riser_COLON, anon_sym_set,
        anon_sym_call, anon_sym_display, anon_sym_input, anon_sym_return, sym_exit_statement,
        anon_sym_if, anon_sym_repeat, anon_sym_foreach, anon_sym_while, anon_sym_attempt_COLON,
        anon_sym_add, anon_sym_remove, sym__newline])]"

definition ts_small_parse_table_72 :: "(table_entry \<times> TSSymbol list) list" where
  "ts_small_parse_table_72 =
    [(ACTIONS 394, [ts_builtin_sym_end, anon_sym_do_COLON, anon_sym_declare_COLON,
        anon_sym_note_COLON, anon_sym_noteblock_COLON, anon_sym_building_COLON,
        anon_sym_floor_COLON, anon_sym_step_COLON, anon_sym_riser_COLON, anon_sym_set,
        anon_sym_call, anon_sym_display, anon_sym_input, anon_sym_return, sym_exit_statement,
        anon_sym_if, anon_sym_repeat, anon_sym_foreach, anon_sym_while, anon_sym_attempt_COLON,
        anon_sym_add, anon_sym_remove, sym__newline])]"

definition ts_small_parse_table_73 :: "(table_entry \<times> TSSymbol list) list" where
  "ts_small_parse_table_73 =
    [(ACTIONS 396, [ts_builtin_sym_end, anon_sym_do_COLON, anon_sym_declare_COLON,
        anon_sym_note_COLON, anon_sym_noteblock_COLON, anon_sym_building_COLON,
        anon_sym_floor_COLON, anon_sym_step_COLON, anon_sym_riser_COLON, anon_sym_set,
        anon_sym_call, anon_sym_display, anon_sym_input, anon_sym_return, sym_exit_statement,
        anon_sym_if, anon_sym_repeat, anon_sym_foreach, anon_sym_while, anon_sym_attempt_COLON,
        anon_sym_add, anon_sym_remove, sym__newline])]"

definition ts_small_parse_table_74 :: "(table_entry \<times> TSSymbol list) list" where
  "ts_small_parse_table_74 =
    [(ACTIONS 354, [ts_builtin_sym_end, anon_sym_do_COLON, anon_sym_declare_COLON,
        anon_sym_note_COLON, anon_sym_noteblock_COLON, anon_sym_building_COLON,
        anon_sym_floor_COLON, anon_sym_step_COLON, anon_sym_riser_COLON, anon_sym_set,
        anon_sym_call, anon_sym_display, anon_sym_input, anon_sym_return, sym_exit_statement,
        anon_sym_if, anon_sym_repeat, anon_sym_foreach, anon_sym_while, anon_sym_attempt_COLON,
        anon_sym_add, anon_sym_remove, sym__newline])]"

definition ts_small_parse_table_75 :: "(table_entry \<times> TSSymbol list) list" where
  "ts_small_parse_table_75 =
    [(ACTIONS 290, [ts_builtin_sym_end, anon_sym_do_COLON, anon_sym_declare_COLON,
        anon_sym_note_COLON, anon_sym_noteblock_COLON, anon_sym_building_COLON,
        anon_sym_floor_COLON, anon_sym_step_COLON, anon_sym_riser_COLON, anon_sym_set,
        anon_sym_call, anon_sym_display, anon_sym_input, anon_sym_return, sym_exit_statement,
        anon_sym_if, anon_sym_repeat, anon_sym_foreach, anon_sym_while, anon_sym_attempt_COLON,
        anon_sym_add, anon_sym_remove, sym__newline])]"

definition ts_small_parse_table_76 :: "(table_entry \<times> TSSymbol list) list" where
  "ts_small_parse_table_76 =
    [(ACTIONS 398, [ts_builtin_sym_end, anon_sym_do_COLON, anon_sym_declare_COLON,
        anon_sym_note_COLON, anon_sym_noteblock_COLON, anon_sym_building_COLON,
        anon_sym_floor_COLON, anon_sym_step_COLON, anon_sym_riser_COLON, anon_sym_set,
        anon_sym_call, anon_sym_display, anon_sym_input, anon_sym_return, sym_exit_statement,
        anon_sym_if, anon_sym_repeat, anon_sym_foreach, anon_sym_while, anon_sym_attempt_COLON,
        anon_sym_add, anon_sym_remove, sym__newline])]"

definition ts_small_parse_table_77 :: "(table_entry \<times> TSSymbol list) list" where
  "ts_small_parse_table_77 =
    [(ACTIONS 344, [ts_builtin_sym_end, anon_sym_do_COLON, anon_sym_declare_COLON,
        anon_sym_note_COLON, anon_sym_noteblock_COLON, anon_sym_building_COLON,
        anon_sym_floor_COLON, anon_sym_step_COLON, anon_sym_riser_COLON, anon_sym_set,
        anon_sym_call, anon_sym_display, anon_sym_input, anon_sym_return, sym_exit_statement,
        anon_sym_if, anon_sym_repeat, anon_sym_foreach, anon_sym_while, anon_sym_attempt_COLON,
        anon_sym_add, anon_sym_remove, sym__newline])]"

definition ts_small_parse_table_78 :: "(table_entry \<times> TSSymbol list) list" where
  "ts_small_parse_table_78 =
    [(ACTIONS 400, [ts_builtin_sym_end, anon_sym_do_COLON, anon_sym_declare_COLON,
        anon_sym_note_COLON, anon_sym_noteblock_COLON, anon_sym_building_COLON,
        anon_sym_floor_COLON, anon_sym_step_COLON, anon_sym_riser_COLON, anon_sym_set,
        anon_sym_call, anon_sym_display, anon_sym_input, anon_sym_return, sym_exit_statement,
        anon_sym_if, anon_sym_repeat, anon_sym_foreach, anon_sym_while, anon_sym_attempt_COLON,
        anon_sym_add, anon_sym_remove, sym__newline])]"

definition ts_small_parse_table_79 :: "(table_entry \<times> TSSymbol list) list" where
  "ts_small_parse_table_79 =
    [(ACTIONS 402, [ts_builtin_sym_end, anon_sym_do_COLON, anon_sym_declare_COLON,
        anon_sym_note_COLON, anon_sym_noteblock_COLON, anon_sym_building_COLON,
        anon_sym_floor_COLON, anon_sym_step_COLON, anon_sym_riser_COLON, anon_sym_set,
        anon_sym_call, anon_sym_display, anon_sym_input, anon_sym_return, sym_exit_statement,
        anon_sym_if, anon_sym_repeat, anon_sym_foreach, anon_sym_while, anon_sym_attempt_COLON,
        anon_sym_add, anon_sym_remove, sym__newline])]"

definition ts_small_parse_table_80 :: "(table_entry \<times> TSSymbol list) list" where
  "ts_small_parse_table_80 =
    [(ACTIONS 352, [ts_builtin_sym_end, anon_sym_do_COLON, anon_sym_declare_COLON,
        anon_sym_note_COLON, anon_sym_noteblock_COLON, anon_sym_building_COLON,
        anon_sym_floor_COLON, anon_sym_step_COLON, anon_sym_riser_COLON, anon_sym_set,
        anon_sym_call, anon_sym_display, anon_sym_input, anon_sym_return, sym_exit_statement,
        anon_sym_if, anon_sym_repeat, anon_sym_foreach, anon_sym_while, anon_sym_attempt_COLON,
        anon_sym_add, anon_sym_remove, sym__newline])]"

definition ts_small_parse_table_81 :: "(table_entry \<times> TSSymbol list) list" where
  "ts_small_parse_table_81 =
    [(ACTIONS 404, [ts_builtin_sym_end, anon_sym_do_COLON, anon_sym_declare_COLON,
        anon_sym_note_COLON, anon_sym_noteblock_COLON, anon_sym_building_COLON,
        anon_sym_floor_COLON, anon_sym_step_COLON, anon_sym_riser_COLON, anon_sym_set,
        anon_sym_call, anon_sym_display, anon_sym_input, anon_sym_return, sym_exit_statement,
        anon_sym_if, anon_sym_repeat, anon_sym_foreach, anon_sym_while, anon_sym_attempt_COLON,
        anon_sym_add, anon_sym_remove, sym__newline])]"

definition ts_small_parse_table_82 :: "(table_entry \<times> TSSymbol list) list" where
  "ts_small_parse_table_82 =
    [(ACTIONS 406, [ts_builtin_sym_end, anon_sym_do_COLON, anon_sym_declare_COLON,
        anon_sym_note_COLON, anon_sym_noteblock_COLON, anon_sym_building_COLON,
        anon_sym_floor_COLON, anon_sym_step_COLON, anon_sym_riser_COLON, anon_sym_set,
        anon_sym_call, anon_sym_display, anon_sym_input, anon_sym_return, sym_exit_statement,
        anon_sym_if, anon_sym_repeat, anon_sym_foreach, anon_sym_while, anon_sym_attempt_COLON,
        anon_sym_add, anon_sym_remove, sym__newline])]"

definition ts_small_parse_table_83 :: "(table_entry \<times> TSSymbol list) list" where
  "ts_small_parse_table_83 =
    [(ACTIONS 408, [ts_builtin_sym_end, anon_sym_do_COLON, anon_sym_declare_COLON,
        anon_sym_note_COLON, anon_sym_noteblock_COLON, anon_sym_building_COLON,
        anon_sym_floor_COLON, anon_sym_step_COLON, anon_sym_riser_COLON, anon_sym_set,
        anon_sym_call, anon_sym_display, anon_sym_input, anon_sym_return, sym_exit_statement,
        anon_sym_if, anon_sym_repeat, anon_sym_foreach, anon_sym_while, anon_sym_attempt_COLON,
        anon_sym_add, anon_sym_remove, sym__newline])]"

definition ts_small_parse_table_84 :: "(table_entry \<times> TSSymbol list) list" where
  "ts_small_parse_table_84 =
    [(ACTIONS 410, [ts_builtin_sym_end, anon_sym_do_COLON, anon_sym_declare_COLON,
        anon_sym_note_COLON, anon_sym_noteblock_COLON, anon_sym_building_COLON,
        anon_sym_floor_COLON, anon_sym_step_COLON, anon_sym_riser_COLON, anon_sym_set,
        anon_sym_call, anon_sym_display, anon_sym_input, anon_sym_return, sym_exit_statement,
        anon_sym_if, anon_sym_repeat, anon_sym_foreach, anon_sym_while, anon_sym_attempt_COLON,
        anon_sym_add, anon_sym_remove, sym__newline])]"

definition ts_small_parse_table_85 :: "(table_entry \<times> TSSymbol list) list" where
  "ts_small_parse_table_85 =
    [(ACTIONS 412, [ts_builtin_sym_end, anon_sym_do_COLON, anon_sym_declare_COLON,
        anon_sym_note_COLON, anon_sym_noteblock_COLON, anon_sym_building_COLON,
        anon_sym_floor_COLON, anon_sym_step_COLON, anon_sym_riser_COLON, anon_sym_set,
        anon_sym_call, anon_sym_display, anon_sym_input, anon_sym_return, sym_exit_statement,
        anon_sym_if, anon_sym_repeat, anon_sym_foreach, anon_sym_while, anon_sym_attempt_COLON,
        anon_sym_add, anon_sym_remove, sym__newline])]"

definition ts_small_parse_table_86 :: "(table_entry \<times> TSSymbol list) list" where
  "ts_small_parse_table_86 =
    [(ACTIONS 414, [ts_builtin_sym_end, anon_sym_do_COLON, anon_sym_declare_COLON,
        anon_sym_note_COLON, anon_sym_noteblock_COLON, anon_sym_building_COLON,
        anon_sym_floor_COLON, anon_sym_step_COLON, anon_sym_riser_COLON, anon_sym_set,
        anon_sym_call, anon_sym_display, anon_sym_input, anon_sym_return, sym_exit_statement,
        anon_sym_if, anon_sym_repeat, anon_sym_foreach, anon_sym_while, anon_sym_attempt_COLON,
        anon_sym_add, anon_sym_remove, sym__newline])]"

definition ts_small_parse_table_87 :: "(table_entry \<times> TSSymbol list) list" where
  "ts_small_parse_table_87 =
    [(ACTIONS 229, [anon_sym_DQUOTE]),
     (ACTIONS 233, [anon_sym_LBRACK]),
     (ACTIONS 235, [anon_sym_not]),
     (ACTIONS 237, [anon_sym_lengthof]),
     (ACTIONS 239, [anon_sym_LPAREN]),
     (ACTIONS 386, [anon_sym_call]),
     (ACTIONS 388, [sym_number]),
     (STATE 62, [sym_argument_list]),
     (STATE 97, [sym_unary_operator]),
     (ACTIONS 231, [anon_sym_true, anon_sym_false]),
     (ACTIONS 384, [sym_nothing, sym_identifier]),
     (STATE 24, [sym__expression, sym_string, sym_boolean, sym_list_literal, sym_binary_expression,
        sym_unary_expression, sym_call_expression, sym_index_expression,
        sym_parenthesized_expression])]"

definition ts_small_parse_table_88 :: "(table_entry \<times> TSSymbol list) list" where
  "ts_small_parse_table_88 =
    [(ACTIONS 229, [anon_sym_DQUOTE]),
     (ACTIONS 233, [anon_sym_LBRACK]),
     (ACTIONS 235, [anon_sym_not]),
     (ACTIONS 237, [anon_sym_lengthof]),
     (ACTIONS 239, [anon_sym_LPAREN]),
     (ACTIONS 386, [anon_sym_call]),
     (ACTIONS 418, [sym_number]),
     (STATE 17, [sym_argument_list]),
     (STATE 97, [sym_unary_operator]),
     (ACTIONS 231, [anon_sym_true, anon_sym_false]),
     (ACTIONS 416, [sym_nothing, sym_identifier]),
     (STATE 6, [sym__expression, sym_string, sym_boolean, sym_list_literal, sym_binary_expression,
        sym_unary_expression, sym_call_expression, sym_index_expression,
        sym_parenthesized_expression])]"

definition ts_small_parse_table_89 :: "(table_entry \<times> TSSymbol list) list" where
  "ts_small_parse_table_89 =
    [(ACTIONS 229, [anon_sym_DQUOTE]),
     (ACTIONS 233, [anon_sym_LBRACK]),
     (ACTIONS 235, [anon_sym_not]),
     (ACTIONS 237, [anon_sym_lengthof]),
     (ACTIONS 239, [anon_sym_LPAREN]),
     (ACTIONS 386, [anon_sym_call]),
     (ACTIONS 422, [sym_number]),
     (STATE 17, [sym_argument_list]),
     (STATE 97, [sym_unary_operator]),
     (ACTIONS 231, [anon_sym_true, anon_sym_false]),
     (ACTIONS 420, [sym_nothing, sym_identifier]),
     (STATE 2, [sym__expression, sym_string, sym_boolean, sym_list_literal, sym_binary_expression,
        sym_unary_expression, sym_call_expression, sym_index_expression,
        sym_parenthesized_expression])]"

definition ts_small_parse_table_90 :: "(table_entry \<times> TSSymbol list) list" where
  "ts_small_parse_table_90 =
    [(ACTIONS 225, [anon_sym_call]),
     (ACTIONS 229, [anon_sym_DQUOTE]),
     (ACTIONS 233, [anon_sym_LBRACK]),
     (ACTIONS 235, [anon_sym_not]),
     (ACTIONS 237, [anon_sym_lengthof]),
     (ACTIONS 239, [anon_sym_LPAREN]),
     (ACTIONS 426, [sym_number]),
     (STATE 102, [sym_unary_operator]),
     (ACTIONS 231, [anon_sym_true, anon_sym_false]),
     (ACTIONS 424, [sym_nothing, sym_identifier]),
     (STATE 29, [sym__expression, sym_string, sym_boolean, sym_list_literal, sym_binary_expression,
        sym_unary_expression, sym_call_expression, sym_index_expression,
        sym_parenthesized_expression])]"

definition ts_small_parse_table_91 :: "(table_entry \<times> TSSymbol list) list" where
  "ts_small_parse_table_91 =
    [(ACTIONS 51, [anon_sym_LBRACK]),
     (ACTIONS 428, [anon_sym_RPAREN]),
     (STATE 92, [sym_binary_operator]),
     (ACTIONS 55, [anon_sym_islessthan, anon_sym_isgreaterthan]),
     (ACTIONS 53, [anon_sym_PLUS, anon_sym_DASH, anon_sym_STAR, anon_sym_SLASH, anon_sym_isequalto,
        anon_sym_equals, anon_sym_isnotequalto, anon_sym_islessthanorequalto,
        anon_sym_isgreaterthanorequalto, anon_sym_and, anon_sym_or, anon_sym_addedto,
        anon_sym_contains, anon_sym_startswith, anon_sym_endswith, anon_sym_isin])]"

definition ts_small_parse_table_92 :: "(table_entry \<times> TSSymbol list) list" where
  "ts_small_parse_table_92 =
    [(ACTIONS 225, [anon_sym_call]),
     (ACTIONS 229, [anon_sym_DQUOTE]),
     (ACTIONS 233, [anon_sym_LBRACK]),
     (ACTIONS 235, [anon_sym_not]),
     (ACTIONS 237, [anon_sym_lengthof]),
     (ACTIONS 239, [anon_sym_LPAREN]),
     (ACTIONS 432, [sym_number]),
     (STATE 102, [sym_unary_operator]),
     (ACTIONS 231, [anon_sym_true, anon_sym_false]),
     (ACTIONS 430, [sym_nothing, sym_identifier]),
     (STATE 21, [sym__expression, sym_string, sym_boolean, sym_list_literal, sym_binary_expression,
        sym_unary_expression, sym_call_expression, sym_index_expression,
        sym_parenthesized_expression])]"

definition ts_small_parse_table_93 :: "(table_entry \<times> TSSymbol list) list" where
  "ts_small_parse_table_93 =
    [(ACTIONS 225, [anon_sym_call]),
     (ACTIONS 229, [anon_sym_DQUOTE]),
     (ACTIONS 233, [anon_sym_LBRACK]),
     (ACTIONS 235, [anon_sym_not]),
     (ACTIONS 237, [anon_sym_lengthof]),
     (ACTIONS 239, [anon_sym_LPAREN]),
     (ACTIONS 436, [sym_number]),
     (STATE 102, [sym_unary_operator]),
     (ACTIONS 231, [anon_sym_true, anon_sym_false]),
     (ACTIONS 434, [sym_nothing, sym_identifier]),
     (STATE 27, [sym__expression, sym_string, sym_boolean, sym_list_literal, sym_binary_expression,
        sym_unary_expression, sym_call_expression, sym_index_expression,
        sym_parenthesized_expression])]"

definition ts_small_parse_table_94 :: "(table_entry \<times> TSSymbol list) list" where
  "ts_small_parse_table_94 =
    [(ACTIONS 225, [anon_sym_call]),
     (ACTIONS 229, [anon_sym_DQUOTE]),
     (ACTIONS 233, [anon_sym_LBRACK]),
     (ACTIONS 235, [anon_sym_not]),
     (ACTIONS 237, [anon_sym_lengthof]),
     (ACTIONS 239, [anon_sym_LPAREN]),
     (ACTIONS 440, [sym_number]),
     (STATE 102, [sym_unary_operator]),
     (ACTIONS 231, [anon_sym_true, anon_sym_false]),
     (ACTIONS 438, [sym_nothing, sym_identifier]),
     (STATE 31, [sym__expression, sym_string, sym_boolean, sym_list_literal, sym_binary_expression,
        sym_unary_expression, sym_call_expression, sym_index_expression,
        sym_parenthesized_expression])]"

definition ts_small_parse_table_95 :: "(table_entry \<times> TSSymbol list) list" where
  "ts_small_parse_table_95 =
    [(ACTIONS 225, [anon_sym_call]),
     (ACTIONS 229, [anon_sym_DQUOTE]),
     (ACTIONS 233, [anon_sym_LBRACK]),
     (ACTIONS 235, [anon_sym_not]),
     (ACTIONS 237, [anon_sym_lengthof]),
     (ACTIONS 239, [anon_sym_LPAREN]),
     (ACTIONS 444, [sym_number]),
     (STATE 102, [sym_unary_operator]),
     (ACTIONS 231, [anon_sym_true, anon_sym_false]),
     (ACTIONS 442, [sym_nothing, sym_identifier]),
     (STATE 106, [sym__expression, sym_string, sym_boolean, sym_list_literal,
        sym_binary_expression, sym_unary_expression, sym_call_expression, sym_index_expression,
        sym_parenthesized_expression])]"

definition ts_small_parse_table_96 :: "(table_entry \<times> TSSymbol list) list" where
  "ts_small_parse_table_96 =
    [(ACTIONS 229, [anon_sym_DQUOTE]),
     (ACTIONS 233, [anon_sym_LBRACK]),
     (ACTIONS 235, [anon_sym_not]),
     (ACTIONS 237, [anon_sym_lengthof]),
     (ACTIONS 239, [anon_sym_LPAREN]),
     (ACTIONS 386, [anon_sym_call]),
     (ACTIONS 448, [sym_number]),
     (STATE 97, [sym_unary_operator]),
     (ACTIONS 231, [anon_sym_true, anon_sym_false]),
     (ACTIONS 446, [sym_nothing, sym_identifier]),
     (STATE 4, [sym__expression, sym_string, sym_boolean, sym_list_literal, sym_binary_expression,
        sym_unary_expression, sym_call_expression, sym_index_expression,
        sym_parenthesized_expression])]"

definition ts_small_parse_table_97 :: "(table_entry \<times> TSSymbol list) list" where
  "ts_small_parse_table_97 =
    [(ACTIONS 229, [anon_sym_DQUOTE]),
     (ACTIONS 233, [anon_sym_LBRACK]),
     (ACTIONS 235, [anon_sym_not]),
     (ACTIONS 237, [anon_sym_lengthof]),
     (ACTIONS 239, [anon_sym_LPAREN]),
     (ACTIONS 386, [anon_sym_call]),
     (ACTIONS 452, [sym_number]),
     (STATE 97, [sym_unary_operator]),
     (ACTIONS 231, [anon_sym_true, anon_sym_false]),
     (ACTIONS 450, [sym_nothing, sym_identifier]),
     (STATE 5, [sym__expression, sym_string, sym_boolean, sym_list_literal, sym_binary_expression,
        sym_unary_expression, sym_call_expression, sym_index_expression,
        sym_parenthesized_expression])]"

definition ts_small_parse_table_98 :: "(table_entry \<times> TSSymbol list) list" where
  "ts_small_parse_table_98 =
    [(ACTIONS 225, [anon_sym_call]),
     (ACTIONS 229, [anon_sym_DQUOTE]),
     (ACTIONS 233, [anon_sym_LBRACK]),
     (ACTIONS 235, [anon_sym_not]),
     (ACTIONS 237, [anon_sym_lengthof]),
     (ACTIONS 239, [anon_sym_LPAREN]),
     (ACTIONS 456, [sym_number]),
     (STATE 102, [sym_unary_operator]),
     (ACTIONS 231, [anon_sym_true, anon_sym_false]),
     (ACTIONS 454, [sym_nothing, sym_identifier]),
     (STATE 110, [sym__expression, sym_string, sym_boolean, sym_list_literal,
        sym_binary_expression, sym_unary_expression, sym_call_expression, sym_index_expression,
        sym_parenthesized_expression])]"

definition ts_small_parse_table_99 :: "(table_entry \<times> TSSymbol list) list" where
  "ts_small_parse_table_99 =
    [(ACTIONS 225, [anon_sym_call]),
     (ACTIONS 229, [anon_sym_DQUOTE]),
     (ACTIONS 233, [anon_sym_LBRACK]),
     (ACTIONS 235, [anon_sym_not]),
     (ACTIONS 237, [anon_sym_lengthof]),
     (ACTIONS 239, [anon_sym_LPAREN]),
     (ACTIONS 460, [sym_number]),
     (STATE 102, [sym_unary_operator]),
     (ACTIONS 231, [anon_sym_true, anon_sym_false]),
     (ACTIONS 458, [sym_nothing, sym_identifier]),
     (STATE 91, [sym__expression, sym_string, sym_boolean, sym_list_literal, sym_binary_expression,
        sym_unary_expression, sym_call_expression, sym_index_expression,
        sym_parenthesized_expression])]"

definition ts_small_parse_table_100 :: "(table_entry \<times> TSSymbol list) list" where
  "ts_small_parse_table_100 =
    [(ACTIONS 51, [anon_sym_LBRACK]),
     (ACTIONS 462, [anon_sym_RBRACK]),
     (STATE 92, [sym_binary_operator]),
     (ACTIONS 55, [anon_sym_islessthan, anon_sym_isgreaterthan]),
     (ACTIONS 53, [anon_sym_PLUS, anon_sym_DASH, anon_sym_STAR, anon_sym_SLASH, anon_sym_isequalto,
        anon_sym_equals, anon_sym_isnotequalto, anon_sym_islessthanorequalto,
        anon_sym_isgreaterthanorequalto, anon_sym_and, anon_sym_or, anon_sym_addedto,
        anon_sym_contains, anon_sym_startswith, anon_sym_endswith, anon_sym_isin])]"

definition ts_small_parse_table_101 :: "(table_entry \<times> TSSymbol list) list" where
  "ts_small_parse_table_101 =
    [(ACTIONS 225, [anon_sym_call]),
     (ACTIONS 229, [anon_sym_DQUOTE]),
     (ACTIONS 233, [anon_sym_LBRACK]),
     (ACTIONS 235, [anon_sym_not]),
     (ACTIONS 237, [anon_sym_lengthof]),
     (ACTIONS 239, [anon_sym_LPAREN]),
     (ACTIONS 466, [sym_number]),
     (STATE 102, [sym_unary_operator]),
     (ACTIONS 231, [anon_sym_true, anon_sym_false]),
     (ACTIONS 464, [sym_nothing, sym_identifier]),
     (STATE 100, [sym__expression, sym_string, sym_boolean, sym_list_literal,
        sym_binary_expression, sym_unary_expression, sym_call_expression, sym_index_expression,
        sym_parenthesized_expression])]"

definition ts_small_parse_table_102 :: "(table_entry \<times> TSSymbol list) list" where
  "ts_small_parse_table_102 =
    [(ACTIONS 225, [anon_sym_call]),
     (ACTIONS 229, [anon_sym_DQUOTE]),
     (ACTIONS 233, [anon_sym_LBRACK]),
     (ACTIONS 235, [anon_sym_not]),
     (ACTIONS 237, [anon_sym_lengthof]),
     (ACTIONS 239, [anon_sym_LPAREN]),
     (ACTIONS 470, [sym_number]),
     (STATE 102, [sym_unary_operator]),
     (ACTIONS 231, [anon_sym_true, anon_sym_false]),
     (ACTIONS 468, [sym_nothing, sym_identifier]),
     (STATE 22, [sym__expression, sym_string, sym_boolean, sym_list_literal, sym_binary_expression,
        sym_unary_expression, sym_call_expression, sym_index_expression,
        sym_parenthesized_expression])]"

definition ts_small_parse_table_103 :: "(table_entry \<times> TSSymbol list) list" where
  "ts_small_parse_table_103 =
    [(ACTIONS 225, [anon_sym_call]),
     (ACTIONS 229, [anon_sym_DQUOTE]),
     (ACTIONS 233, [anon_sym_LBRACK]),
     (ACTIONS 235, [anon_sym_not]),
     (ACTIONS 237, [anon_sym_lengthof]),
     (ACTIONS 239, [anon_sym_LPAREN]),
     (ACTIONS 474, [sym_number]),
     (STATE 102, [sym_unary_operator]),
     (ACTIONS 231, [anon_sym_true, anon_sym_false]),
     (ACTIONS 472, [sym_nothing, sym_identifier]),
     (STATE 33, [sym__expression, sym_string, sym_boolean, sym_list_literal, sym_binary_expression,
        sym_unary_expression, sym_call_expression, sym_index_expression,
        sym_parenthesized_expression])]"

definition ts_small_parse_table_104 :: "(table_entry \<times> TSSymbol list) list" where
  "ts_small_parse_table_104 =
    [(ACTIONS 51, [anon_sym_LBRACK]),
     (ACTIONS 476, [anon_sym_times]),
     (STATE 92, [sym_binary_operator]),
     (ACTIONS 55, [anon_sym_islessthan, anon_sym_isgreaterthan]),
     (ACTIONS 53, [anon_sym_PLUS, anon_sym_DASH, anon_sym_STAR, anon_sym_SLASH, anon_sym_isequalto,
        anon_sym_equals, anon_sym_isnotequalto, anon_sym_islessthanorequalto,
        anon_sym_isgreaterthanorequalto, anon_sym_and, anon_sym_or, anon_sym_addedto,
        anon_sym_contains, anon_sym_startswith, anon_sym_endswith, anon_sym_isin])]"

definition ts_small_parse_table_105 :: "(table_entry \<times> TSSymbol list) list" where
  "ts_small_parse_table_105 =
    [(ACTIONS 225, [anon_sym_call]),
     (ACTIONS 229, [anon_sym_DQUOTE]),
     (ACTIONS 233, [anon_sym_LBRACK]),
     (ACTIONS 235, [anon_sym_not]),
     (ACTIONS 237, [anon_sym_lengthof]),
     (ACTIONS 239, [anon_sym_LPAREN]),
     (ACTIONS 480, [sym_number]),
     (STATE 102, [sym_unary_operator]),
     (ACTIONS 231, [anon_sym_true, anon_sym_false]),
     (ACTIONS 478, [sym_nothing, sym_identifier]),
     (STATE 35, [sym__expression, sym_string, sym_boolean, sym_list_literal, sym_binary_expression,
        sym_unary_expression, sym_call_expression, sym_index_expression,
        sym_parenthesized_expression])]"

definition ts_small_parse_table_106 :: "(table_entry \<times> TSSymbol list) list" where
  "ts_small_parse_table_106 =
    [(ACTIONS 51, [anon_sym_LBRACK]),
     (ACTIONS 482, [anon_sym_to]),
     (STATE 92, [sym_binary_operator]),
     (ACTIONS 55, [anon_sym_islessthan, anon_sym_isgreaterthan]),
     (ACTIONS 53, [anon_sym_PLUS, anon_sym_DASH, anon_sym_STAR, anon_sym_SLASH, anon_sym_isequalto,
        anon_sym_equals, anon_sym_isnotequalto, anon_sym_islessthanorequalto,
        anon_sym_isgreaterthanorequalto, anon_sym_and, anon_sym_or, anon_sym_addedto,
        anon_sym_contains, anon_sym_startswith, anon_sym_endswith, anon_sym_isin])]"

definition ts_small_parse_table_107 :: "(table_entry \<times> TSSymbol list) list" where
  "ts_small_parse_table_107 =
    [(ACTIONS 225, [anon_sym_call]),
     (ACTIONS 229, [anon_sym_DQUOTE]),
     (ACTIONS 233, [anon_sym_LBRACK]),
     (ACTIONS 235, [anon_sym_not]),
     (ACTIONS 237, [anon_sym_lengthof]),
     (ACTIONS 239, [anon_sym_LPAREN]),
     (ACTIONS 486, [sym_number]),
     (STATE 102, [sym_unary_operator]),
     (ACTIONS 231, [anon_sym_true, anon_sym_false]),
     (ACTIONS 484, [sym_nothing, sym_identifier]),
     (STATE 23, [sym__expression, sym_string, sym_boolean, sym_list_literal, sym_binary_expression,
        sym_unary_expression, sym_call_expression, sym_index_expression,
        sym_parenthesized_expression])]"

definition ts_small_parse_table_108 :: "(table_entry \<times> TSSymbol list) list" where
  "ts_small_parse_table_108 =
    [(ACTIONS 225, [anon_sym_call]),
     (ACTIONS 229, [anon_sym_DQUOTE]),
     (ACTIONS 233, [anon_sym_LBRACK]),
     (ACTIONS 235, [anon_sym_not]),
     (ACTIONS 237, [anon_sym_lengthof]),
     (ACTIONS 239, [anon_sym_LPAREN]),
     (ACTIONS 490, [sym_number]),
     (STATE 102, [sym_unary_operator]),
     (ACTIONS 231, [anon_sym_true, anon_sym_false]),
     (ACTIONS 488, [sym_nothing, sym_identifier]),
     (STATE 28, [sym__expression, sym_string, sym_boolean, sym_list_literal, sym_binary_expression,
        sym_unary_expression, sym_call_expression, sym_index_expression,
        sym_parenthesized_expression])]"

definition ts_small_parse_table_109 :: "(table_entry \<times> TSSymbol list) list" where
  "ts_small_parse_table_109 =
    [(ACTIONS 225, [anon_sym_call]),
     (ACTIONS 229, [anon_sym_DQUOTE]),
     (ACTIONS 233, [anon_sym_LBRACK]),
     (ACTIONS 235, [anon_sym_not]),
     (ACTIONS 237, [anon_sym_lengthof]),
     (ACTIONS 239, [anon_sym_LPAREN]),
     (ACTIONS 494, [sym_number]),
     (STATE 102, [sym_unary_operator]),
     (ACTIONS 231, [anon_sym_true, anon_sym_false]),
     (ACTIONS 492, [sym_nothing, sym_identifier]),
     (STATE 104, [sym__expression, sym_string, sym_boolean, sym_list_literal,
        sym_binary_expression, sym_unary_expression, sym_call_expression, sym_index_expression,
        sym_parenthesized_expression])]"

definition ts_small_parse_table_110 :: "(table_entry \<times> TSSymbol list) list" where
  "ts_small_parse_table_110 =
    [(ACTIONS 51, [anon_sym_LBRACK]),
     (ACTIONS 496, [anon_sym_from]),
     (STATE 92, [sym_binary_operator]),
     (ACTIONS 55, [anon_sym_islessthan, anon_sym_isgreaterthan]),
     (ACTIONS 53, [anon_sym_PLUS, anon_sym_DASH, anon_sym_STAR, anon_sym_SLASH, anon_sym_isequalto,
        anon_sym_equals, anon_sym_isnotequalto, anon_sym_islessthanorequalto,
        anon_sym_isgreaterthanorequalto, anon_sym_and, anon_sym_or, anon_sym_addedto,
        anon_sym_contains, anon_sym_startswith, anon_sym_endswith, anon_sym_isin])]"

definition ts_small_parse_table_111 :: "(table_entry \<times> TSSymbol list) list" where
  "ts_small_parse_table_111 =
    [(ACTIONS 229, [anon_sym_DQUOTE]),
     (ACTIONS 233, [anon_sym_LBRACK]),
     (ACTIONS 235, [anon_sym_not]),
     (ACTIONS 237, [anon_sym_lengthof]),
     (ACTIONS 239, [anon_sym_LPAREN]),
     (ACTIONS 386, [anon_sym_call]),
     (ACTIONS 500, [sym_number]),
     (STATE 97, [sym_unary_operator]),
     (ACTIONS 231, [anon_sym_true, anon_sym_false]),
     (ACTIONS 498, [sym_nothing, sym_identifier]),
     (STATE 9, [sym__expression, sym_string, sym_boolean, sym_list_literal, sym_binary_expression,
        sym_unary_expression, sym_call_expression, sym_index_expression,
        sym_parenthesized_expression])]"

definition ts_small_parse_table_112 :: "(table_entry \<times> TSSymbol list) list" where
  "ts_small_parse_table_112 =
    [(ACTIONS 225, [anon_sym_call]),
     (ACTIONS 229, [anon_sym_DQUOTE]),
     (ACTIONS 233, [anon_sym_LBRACK]),
     (ACTIONS 235, [anon_sym_not]),
     (ACTIONS 237, [anon_sym_lengthof]),
     (ACTIONS 239, [anon_sym_LPAREN]),
     (ACTIONS 504, [sym_number]),
     (STATE 102, [sym_unary_operator]),
     (ACTIONS 231, [anon_sym_true, anon_sym_false]),
     (ACTIONS 502, [sym_nothing, sym_identifier]),
     (STATE 34, [sym__expression, sym_string, sym_boolean, sym_list_literal, sym_binary_expression,
        sym_unary_expression, sym_call_expression, sym_index_expression,
        sym_parenthesized_expression])]"

definition ts_small_parse_table_113 :: "(table_entry \<times> TSSymbol list) list" where
  "ts_small_parse_table_113 =
    [(ACTIONS 506, [anon_sym_endnote]),
     (ACTIONS 508, [aux_sym_block_comment_content_token1]),
     (STATE 117, [aux_sym_block_comment_content_repeat1]),
     (STATE 144, [sym_block_comment_content]),
     (ACTIONS 510, [aux_sym_block_comment_content_token2, aux_sym_block_comment_content_token3,
        aux_sym_block_comment_content_token4, aux_sym_block_comment_content_token5,
        aux_sym_block_comment_content_token6, aux_sym_block_comment_content_token7,
        aux_sym_block_comment_content_token8])]"

definition ts_small_parse_table_114 :: "(table_entry \<times> TSSymbol list) list" where
  "ts_small_parse_table_114 =
    [(ACTIONS 514, [sym_number, anon_sym_DQUOTE, anon_sym_LBRACK, anon_sym_lengthof, anon_sym_LPAREN]),
     (ACTIONS 512, [anon_sym_call, anon_sym_true, anon_sym_false, sym_nothing, anon_sym_not,
        sym_identifier])]"

definition ts_small_parse_table_115 :: "(table_entry \<times> TSSymbol list) list" where
  "ts_small_parse_table_115 =
    [(ACTIONS 518, [sym_number, anon_sym_DQUOTE, anon_sym_LBRACK, anon_sym_lengthof, anon_sym_LPAREN]),
     (ACTIONS 516, [anon_sym_call, anon_sym_true, anon_sym_false, sym_nothing, anon_sym_not,
        sym_identifier])]"

definition ts_small_parse_table_116 :: "(table_entry \<times> TSSymbol list) list" where
  "ts_small_parse_table_116 =
    [(ACTIONS 520, [anon_sym_endnote]),
     (ACTIONS 522, [aux_sym_block_comment_content_token1]),
     (STATE 116, [aux_sym_block_comment_content_repeat1]),
     (ACTIONS 525, [aux_sym_block_comment_content_token2, aux_sym_block_comment_content_token3,
        aux_sym_block_comment_content_token4, aux_sym_block_comment_content_token5,
        aux_sym_block_comment_content_token6, aux_sym_block_comment_content_token7,
        aux_sym_block_comment_content_token8])]"

definition ts_small_parse_table_117 :: "(table_entry \<times> TSSymbol list) list" where
  "ts_small_parse_table_117 =
    [(ACTIONS 528, [anon_sym_endnote]),
     (ACTIONS 530, [aux_sym_block_comment_content_token1]),
     (STATE 116, [aux_sym_block_comment_content_repeat1]),
     (ACTIONS 532, [aux_sym_block_comment_content_token2, aux_sym_block_comment_content_token3,
        aux_sym_block_comment_content_token4, aux_sym_block_comment_content_token5,
        aux_sym_block_comment_content_token6, aux_sym_block_comment_content_token7,
        aux_sym_block_comment_content_token8])]"

definition ts_small_parse_table_118 :: "(table_entry \<times> TSSymbol list) list" where
  "ts_small_parse_table_118 =
    [(STATE 59, [sym_type]),
     (ACTIONS 534, [anon_sym_number, anon_sym_text, anon_sym_boolean, anon_sym_list, anon_sym_table])]"

definition ts_small_parse_table_119 :: "(table_entry \<times> TSSymbol list) list" where
  "ts_small_parse_table_119 =
    [(STATE 53, [sym_type]),
     (ACTIONS 536, [anon_sym_number, anon_sym_text, anon_sym_boolean, anon_sym_list, anon_sym_table])]"

definition ts_small_parse_table_120 :: "(table_entry \<times> TSSymbol list) list" where
  "ts_small_parse_table_120 =
    [(STATE 63, [sym_type]),
     (ACTIONS 534, [anon_sym_number, anon_sym_text, anon_sym_boolean, anon_sym_list, anon_sym_table])]"

definition ts_small_parse_table_121 :: "(table_entry \<times> TSSymbol list) list" where
  "ts_small_parse_table_121 =
    [(STATE 48, [sym_type]),
     (ACTIONS 536, [anon_sym_number, anon_sym_text, anon_sym_boolean, anon_sym_list, anon_sym_table])]"

definition ts_small_parse_table_122 :: "(table_entry \<times> TSSymbol list) list" where
  "ts_small_parse_table_122 =
    [(ACTIONS 538, [anon_sym_DQUOTE]),
     (ACTIONS 540, [aux_sym_string_content_token1]),
     (ACTIONS 542, [sym_escape_sequence]),
     (STATE 124, [aux_sym_string_content_repeat1]),
     (STATE 133, [sym_string_content])]"

definition ts_small_parse_table_123 :: "(table_entry \<times> TSSymbol list) list" where
  "ts_small_parse_table_123 =
    [(ACTIONS 544, [anon_sym_DQUOTE]),
     (ACTIONS 546, [aux_sym_string_content_token1]),
     (ACTIONS 549, [sym_escape_sequence]),
     (STATE 123, [aux_sym_string_content_repeat1])]"

definition ts_small_parse_table_124 :: "(table_entry \<times> TSSymbol list) list" where
  "ts_small_parse_table_124 =
    [(ACTIONS 552, [anon_sym_DQUOTE]),
     (ACTIONS 554, [aux_sym_string_content_token1]),
     (ACTIONS 556, [sym_escape_sequence]),
     (STATE 123, [aux_sym_string_content_repeat1])]"

definition ts_small_parse_table_125 :: "(table_entry \<times> TSSymbol list) list" where
  "ts_small_parse_table_125 =
    [(ACTIONS 558, [sym_identifier]),
     (STATE 40, [sym_parameter]),
     (STATE 52, [sym_parameter_list])]"

definition ts_small_parse_table_126 :: "(table_entry \<times> TSSymbol list) list" where
  "ts_small_parse_table_126 =
    [(ACTIONS 558, [sym_identifier]),
     (STATE 47, [sym_parameter])]"

definition ts_small_parse_table_127 :: "(table_entry \<times> TSSymbol list) list" where
  "ts_small_parse_table_127 =
    [(ACTIONS 560, [sym_identifier])]"

definition ts_small_parse_table_128 :: "(table_entry \<times> TSSymbol list) list" where
  "ts_small_parse_table_128 =
    [(ACTIONS 562, [sym_identifier])]"

definition ts_small_parse_table_129 :: "(table_entry \<times> TSSymbol list) list" where
  "ts_small_parse_table_129 =
    [(ACTIONS 564, [ts_builtin_sym_end])]"

definition ts_small_parse_table_130 :: "(table_entry \<times> TSSymbol list) list" where
  "ts_small_parse_table_130 =
    [(ACTIONS 566, [sym_identifier])]"

definition ts_small_parse_table_131 :: "(table_entry \<times> TSSymbol list) list" where
  "ts_small_parse_table_131 =
    [(ACTIONS 568, [sym_identifier])]"

definition ts_small_parse_table_132 :: "(table_entry \<times> TSSymbol list) list" where
  "ts_small_parse_table_132 =
    [(ACTIONS 570, [anon_sym_as])]"

definition ts_small_parse_table_133 :: "(table_entry \<times> TSSymbol list) list" where
  "ts_small_parse_table_133 =
    [(ACTIONS 572, [anon_sym_DQUOTE])]"

definition ts_small_parse_table_134 :: "(table_entry \<times> TSSymbol list) list" where
  "ts_small_parse_table_134 =
    [(ACTIONS 574, [anon_sym_in])]"

definition ts_small_parse_table_135 :: "(table_entry \<times> TSSymbol list) list" where
  "ts_small_parse_table_135 =
    [(ACTIONS 576, [sym_identifier])]"

definition ts_small_parse_table_136 :: "(table_entry \<times> TSSymbol list) list" where
  "ts_small_parse_table_136 =
    [(ACTIONS 578, [sym_identifier])]"

definition ts_small_parse_table_137 :: "(table_entry \<times> TSSymbol list) list" where
  "ts_small_parse_table_137 =
    [(ACTIONS 580, [anon_sym_RBRACK])]"

definition ts_small_parse_table_138 :: "(table_entry \<times> TSSymbol list) list" where
  "ts_small_parse_table_138 =
    [(ACTIONS 582, [sym_identifier])]"

definition ts_small_parse_table_139 :: "(table_entry \<times> TSSymbol list) list" where
  "ts_small_parse_table_139 =
    [(ACTIONS 584, [sym_identifier])]"

definition ts_small_parse_table_140 :: "(table_entry \<times> TSSymbol list) list" where
  "ts_small_parse_table_140 =
    [(ACTIONS 586, [sym_identifier])]"

definition ts_small_parse_table_141 :: "(table_entry \<times> TSSymbol list) list" where
  "ts_small_parse_table_141 =
    [(ACTIONS 588, [sym_identifier])]"

definition ts_small_parse_table_142 :: "(table_entry \<times> TSSymbol list) list" where
  "ts_small_parse_table_142 =
    [(ACTIONS 590, [anon_sym_to])]"

definition ts_small_parse_table_143 :: "(table_entry \<times> TSSymbol list) list" where
  "ts_small_parse_table_143 =
    [(ACTIONS 592, [sym_identifier])]"

definition ts_small_parse_table_144 :: "(table_entry \<times> TSSymbol list) list" where
  "ts_small_parse_table_144 =
    [(ACTIONS 594, [anon_sym_endnote])]"

definition ts_small_parse_table_145 :: "(table_entry \<times> TSSymbol list) list" where
  "ts_small_parse_table_145 =
    [(ACTIONS 596, [sym_identifier])]"

definition ts_small_parse_table_146 :: "(table_entry \<times> TSSymbol list) list" where
  "ts_small_parse_table_146 =
    [(ACTIONS 598, [sym_identifier])]"

definition ts_small_parse_table_147 :: "(table_entry \<times> TSSymbol list) list" where
  "ts_small_parse_table_147 =
    [(ACTIONS 600, [anon_sym_as])]"

definition ts_small_parse_table_148 :: "(table_entry \<times> TSSymbol list) list" where
  "ts_small_parse_table_148 =
    [(ACTIONS 602, [sym_identifier])]"

definition ts_small_parse_table_149 :: "(table_entry \<times> TSSymbol list) list" where
  "ts_small_parse_table_149 =
    [(ACTIONS 604, [sym_identifier])]"

definition ts_small_parse_table_150 :: "(table_entry \<times> TSSymbol list) list" where
  "ts_small_parse_table_150 =
    [(ACTIONS 606, [anon_sym_as])]"

definition ts_small_parse_table :: "TSStateId \<Rightarrow> (table_entry \<times> TSSymbol list) list" where
  "ts_small_parse_table state =
    (if state < 77 then
      (if state < 39 then
        (if state < 20 then
          (if state < 11 then
            (if state < 6 then
              (if state < 4 then
                (if state < 3 then
                  ts_small_parse_table_2
                 else
                  ts_small_parse_table_3)
               else
                (if state < 5 then
                  ts_small_parse_table_4
                 else
                  ts_small_parse_table_5))
             else
              (if state < 8 then
                (if state < 7 then
                  ts_small_parse_table_6
                 else
                  ts_small_parse_table_7)
               else
                (if state < 9 then
                  ts_small_parse_table_8
                 else
                  (if state < 10 then
                    ts_small_parse_table_9
                   else
                    ts_small_parse_table_10))))
           else
            (if state < 15 then
              (if state < 13 then
                (if state < 12 then
                  ts_small_parse_table_11
                 else
                  ts_small_parse_table_12)
               else
                (if state < 14 then
                  ts_small_parse_table_13
                 else
                  ts_small_parse_table_14))
             else
              (if state < 17 then
                (if state < 16 then
                  ts_small_parse_table_15
                 else
                  ts_small_parse_table_16)
               else
                (if state < 18 then
                  ts_small_parse_table_17
                 else
                  (if state < 19 then
                    ts_small_parse_table_18
                   else
                    ts_small_parse_table_19)))))
         else
          (if state < 29 then
            (if state < 24 then
              (if state < 22 then
                (if state < 21 then
                  ts_small_parse_table_20
                 else
                  ts_small_parse_table_21)
               else
                (if state < 23 then
                  ts_small_parse_table_22
                 else
                  ts_small_parse_table_23))
             else
              (if state < 26 then
                (if state < 25 then
                  ts_small_parse_table_24
                 else
                  ts_small_parse_table_25)
               else
                (if state < 27 then
                  ts_small_parse_table_26
                 else
                  (if state < 28 then
                    ts_small_parse_table_27
                   else
                    ts_small_parse_table_28))))
           else
            (if state < 34 then
              (if state < 31 then
                (if state < 30 then
                  ts_small_parse_table_29
                 else
                  ts_small_parse_table_30)
               else
                (if state < 32 then
                  ts_small_parse_table_31
                 else
                  (if state < 33 then
                    ts_small_parse_table_32
                   else
                    ts_small_parse_table_33)))
             else
              (if state < 36 then
                (if state < 35 then
                  ts_small_parse_table_34
                 else
                  ts_small_parse_table_35)
               else
                (if state < 37 then
                  ts_small_parse_table_36
                 else
                  (if state < 38 then
                    ts_small_parse_table_37
                   else
                    ts_small_parse_table_38))))))
       else
        (if state < 58 then
          (if state < 48 then
            (if state < 43 then
              (if state < 41 then
                (if state < 40 then
                  ts_small_parse_table_39
                 else
                  ts_small_parse_table_40)
               else
                (if state < 42 then
                  ts_small_parse_table_41
                 else
                  ts_small_parse_table_42))
             else
              (if state < 45 then
                (if state < 44 then
                  ts_small_parse_table_43
                 else
                  ts_small_parse_table_44)
               else
                (if state < 46 then
                  ts_small_parse_table_45
                 else
                  (if state < 47 then
                    ts_small_parse_table_46
                   else
                    ts_small_parse_table_47))))
           else
            (if state < 53 then
              (if state < 50 then
                (if state < 49 then
                  ts_small_parse_table_48
                 else
                  ts_small_parse_table_49)
               else
                (if state < 51 then
                  ts_small_parse_table_50
                 else
                  (if state < 52 then
                    ts_small_parse_table_51
                   else
                    ts_small_parse_table_52)))
             else
              (if state < 55 then
                (if state < 54 then
                  ts_small_parse_table_53
                 else
                  ts_small_parse_table_54)
               else
                (if state < 56 then
                  ts_small_parse_table_55
                 else
                  (if state < 57 then
                    ts_small_parse_table_56
                   else
                    ts_small_parse_table_57)))))
         else
          (if state < 67 then
            (if state < 62 then
              (if state < 60 then
                (if state < 59 then
                  ts_small_parse_table_58
                 else
                  ts_small_parse_table_59)
               else
                (if state < 61 then
                  ts_small_parse_table_60
                 else
                  ts_small_parse_table_61))
             else
              (if state < 64 then
                (if state < 63 then
                  ts_small_parse_table_62
                 else
                  ts_small_parse_table_63)
               else
                (if state < 65 then
                  ts_small_parse_table_64
                 else
                  (if state < 66 then
                    ts_small_parse_table_65
                   else
                    ts_small_parse_table_66))))
           else
            (if state < 72 then
              (if state < 69 then
                (if state < 68 then
                  ts_small_parse_table_67
                 else
                  ts_small_parse_table_68)
               else
                (if state < 70 then
                  ts_small_parse_table_69
                 else
                  (if state < 71 then
                    ts_small_parse_table_70
                   else
                    ts_small_parse_table_71)))
             else
              (if state < 74 then
                (if state < 73 then
                  ts_small_parse_table_72
                 else
                  ts_small_parse_table_73)
               else
                (if state < 75 then
                  ts_small_parse_table_74
                 else
                  (if state < 76 then
                    ts_small_parse_table_75
                   else
                    ts_small_parse_table_76)))))))
     else
      (if state < 114 then
        (if state < 95 then
          (if state < 86 then
            (if state < 81 then
              (if state < 79 then
                (if state < 78 then
                  ts_small_parse_table_77
                 else
                  ts_small_parse_table_78)
               else
                (if state < 80 then
                  ts_small_parse_table_79
                 else
                  ts_small_parse_table_80))
             else
              (if state < 83 then
                (if state < 82 then
                  ts_small_parse_table_81
                 else
                  ts_small_parse_table_82)
               else
                (if state < 84 then
                  ts_small_parse_table_83
                 else
                  (if state < 85 then
                    ts_small_parse_table_84
                   else
                    ts_small_parse_table_85))))
           else
            (if state < 90 then
              (if state < 88 then
                (if state < 87 then
                  ts_small_parse_table_86
                 else
                  ts_small_parse_table_87)
               else
                (if state < 89 then
                  ts_small_parse_table_88
                 else
                  ts_small_parse_table_89))
             else
              (if state < 92 then
                (if state < 91 then
                  ts_small_parse_table_90
                 else
                  ts_small_parse_table_91)
               else
                (if state < 93 then
                  ts_small_parse_table_92
                 else
                  (if state < 94 then
                    ts_small_parse_table_93
                   else
                    ts_small_parse_table_94)))))
         else
          (if state < 104 then
            (if state < 99 then
              (if state < 97 then
                (if state < 96 then
                  ts_small_parse_table_95
                 else
                  ts_small_parse_table_96)
               else
                (if state < 98 then
                  ts_small_parse_table_97
                 else
                  ts_small_parse_table_98))
             else
              (if state < 101 then
                (if state < 100 then
                  ts_small_parse_table_99
                 else
                  ts_small_parse_table_100)
               else
                (if state < 102 then
                  ts_small_parse_table_101
                 else
                  (if state < 103 then
                    ts_small_parse_table_102
                   else
                    ts_small_parse_table_103))))
           else
            (if state < 109 then
              (if state < 106 then
                (if state < 105 then
                  ts_small_parse_table_104
                 else
                  ts_small_parse_table_105)
               else
                (if state < 107 then
                  ts_small_parse_table_106
                 else
                  (if state < 108 then
                    ts_small_parse_table_107
                   else
                    ts_small_parse_table_108)))
             else
              (if state < 111 then
                (if state < 110 then
                  ts_small_parse_table_109
                 else
                  ts_small_parse_table_110)
               else
                (if state < 112 then
                  ts_small_parse_table_111
                 else
                  (if state < 113 then
                    ts_small_parse_table_112
                   else
                    ts_small_parse_table_113))))))
       else
        (if state < 133 then
          (if state < 123 then
            (if state < 118 then
              (if state < 116 then
                (if state < 115 then
                  ts_small_parse_table_114
                 else
                  ts_small_parse_table_115)
               else
                (if state < 117 then
                  ts_small_parse_table_116
                 else
                  ts_small_parse_table_117))
             else
              (if state < 120 then
                (if state < 119 then
                  ts_small_parse_table_118
                 else
                  ts_small_parse_table_119)
               else
                (if state < 121 then
                  ts_small_parse_table_120
                 else
                  (if state < 122 then
                    ts_small_parse_table_121
                   else
                    ts_small_parse_table_122))))
           else
            (if state < 128 then
              (if state < 125 then
                (if state < 124 then
                  ts_small_parse_table_123
                 else
                  ts_small_parse_table_124)
               else
                (if state < 126 then
                  ts_small_parse_table_125
                 else
                  (if state < 127 then
                    ts_small_parse_table_126
                   else
                    ts_small_parse_table_127)))
             else
              (if state < 130 then
                (if state < 129 then
                  ts_small_parse_table_128
                 else
                  ts_small_parse_table_129)
               else
                (if state < 131 then
                  ts_small_parse_table_130
                 else
                  (if state < 132 then
                    ts_small_parse_table_131
                   else
                    ts_small_parse_table_132)))))
         else
          (if state < 142 then
            (if state < 137 then
              (if state < 135 then
                (if state < 134 then
                  ts_small_parse_table_133
                 else
                  ts_small_parse_table_134)
               else
                (if state < 136 then
                  ts_small_parse_table_135
                 else
                  ts_small_parse_table_136))
             else
              (if state < 139 then
                (if state < 138 then
                  ts_small_parse_table_137
                 else
                  ts_small_parse_table_138)
               else
                (if state < 140 then
                  ts_small_parse_table_139
                 else
                  (if state < 141 then
                    ts_small_parse_table_140
                   else
                    ts_small_parse_table_141))))
           else
            (if state < 147 then
              (if state < 144 then
                (if state < 143 then
                  ts_small_parse_table_142
                 else
                  ts_small_parse_table_143)
               else
                (if state < 145 then
                  ts_small_parse_table_144
                 else
                  (if state < 146 then
                    ts_small_parse_table_145
                   else
                    ts_small_parse_table_146)))
             else
              (if state < 149 then
                (if state < 148 then
                  ts_small_parse_table_147
                 else
                  ts_small_parse_table_148)
               else
                (if state < 150 then
                  ts_small_parse_table_149
                 else
                  (if state < 151 then
                    ts_small_parse_table_150
                   else
                    []))))))))"

subsection \<open>The parse actions\<close>

definition ts_parse_actions :: "nat \<Rightarrow> parse_action list" where
  "ts_parse_actions i =
    (if i < 313 then
      (if i < 150 then
        (if i < 71 then
          (if i < 35 then
            (if i < 17 then
              (if i < 7 then
                (if i < 3 then
                  (if i < 1 then
                    (if i = 0 then [] else [])
                   else
                    (if i = 1 then [RECOVER] else []))
                 else
                  (if i < 5 then
                    (if i = 3 then [REDUCE sym_source_file 0] else [])
                   else
                    (if i = 5 then [SHIFT 77] else [])))
               else
                (if i < 11 then
                  (if i < 9 then
                    (if i = 7 then [SHIFT 55] else [])
                   else
                    (if i = 9 then [SHIFT 58] else []))
                 else
                  (if i < 13 then
                    (if i = 11 then [SHIFT 113] else [])
                   else
                    (if i < 15 then
                      (if i = 13 then [SHIFT 143] else [])
                     else
                      (if i = 15 then [SHIFT 141] else [])))))
             else
              (if i < 25 then
                (if i < 21 then
                  (if i < 19 then
                    (if i = 17 then [SHIFT 140] else [])
                   else
                    (if i = 19 then [SHIFT 139] else []))
                 else
                  (if i < 23 then
                    (if i = 21 then [SHIFT 128] else [])
                   else
                    (if i = 23 then [SHIFT 136] else [])))
               else
                (if i < 29 then
                  (if i < 27 then
                    (if i = 25 then [SHIFT 105] else [])
                   else
                    (if i = 27 then [SHIFT 135] else []))
                 else
                  (if i < 31 then
                    (if i = 29 then [SHIFT 32] else [])
                   else
                    (if i < 33 then
                      (if i = 31 then [SHIFT 26] else [])
                     else
                      (if i = 33 then [SHIFT 107] else []))))))
           else
            (if i < 53 then
              (if i < 43 then
                (if i < 39 then
                  (if i < 37 then
                    (if i = 35 then [SHIFT 109] else [])
                   else
                    (if i = 37 then [SHIFT 127] else []))
                 else
                  (if i < 41 then
                    (if i = 39 then [SHIFT 112] else [])
                   else
                    (if i = 41 then [SHIFT 45] else [])))
               else
                (if i < 47 then
                  (if i < 45 then
                    (if i = 43 then [SHIFT 95] else [])
                   else
                    (if i = 45 then [SHIFT 98] else []))
                 else
                  (if i < 49 then
                    (if i = 47 then [REDUCE sym_argument_list 1] else [])
                   else
                    (if i < 51 then
                      (if i = 49 then [REDUCE sym_argument_list 1] else [])
                     else
                      (if i = 51 then [SHIFT 101] else [])))))
             else
              (if i < 61 then
                (if i < 57 then
                  (if i < 55 then
                    (if i = 53 then [SHIFT 115] else [])
                   else
                    (if i = 55 then [SHIFT 115] else []))
                 else
                  (if i < 59 then
                    (if i = 57 then [REDUCE sym_call_expression 2] else [])
                   else
                    (if i = 59 then [SHIFT 89] else [])))
               else
                (if i < 65 then
                  (if i < 63 then
                    (if i = 61 then [REDUCE sym_call_expression 2] else [])
                   else
                    (if i = 63 then [REDUCE sym_binary_expression 3] else []))
                 else
                  (if i < 67 then
                    (if i = 65 then [REDUCE sym_binary_expression 3] else [])
                   else
                    (if i < 69 then
                      (if i = 67 then [REDUCE sym_unary_expression 2] else [])
                     else
                      (if i = 69 then [REDUCE sym_unary_expression 2] else [])))))))
         else
          (if i < 108 then
            (if i < 90 then
              (if i < 80 then
                (if i < 75 then
                  (if i < 73 then
                    (if i = 71 then [SHIFT 111] else [])
                   else
                    (if i = 73 then [REDUCE aux_sym_argument_list_repeat1 2] else []))
                 else
                  (if i < 78 then
                    (if i = 75 then [REDUCE aux_sym_argument_list_repeat1 2, SHIFT_REPEAT 111] else [])
                   else
                    (if i = 78 then [REDUCE aux_sym_argument_list_repeat1 2] else [])))
               else
                (if i < 84 then
                  (if i < 82 then
                    (if i = 80 then [REDUCE sym_argument_list 2] else [])
                   else
                    (if i = 82 then [REDUCE sym_argument_list 2] else []))
                 else
                  (if i < 86 then
                    (if i = 84 then [REDUCE sym_boolean 1] else [])
                   else
                    (if i < 88 then
                      (if i = 86 then [REDUCE sym_boolean 1] else [])
                     else
                      (if i = 88 then [REDUCE sym_string 2] else [])))))
             else
              (if i < 98 then
                (if i < 94 then
                  (if i < 92 then
                    (if i = 90 then [REDUCE sym_string 2] else [])
                   else
                    (if i = 92 then [SHIFT 88] else []))
                 else
                  (if i < 96 then
                    (if i = 94 then [REDUCE sym_index_expression 4] else [])
                   else
                    (if i = 96 then [REDUCE sym_index_expression 4] else [])))
               else
                (if i < 102 then
                  (if i < 100 then
                    (if i = 98 then [REDUCE sym_list_literal 2] else [])
                   else
                    (if i = 100 then [REDUCE sym_list_literal 2] else []))
                 else
                  (if i < 104 then
                    (if i = 102 then [REDUCE sym_parenthesized_expression 3] else [])
                   else
                    (if i < 106 then
                      (if i = 104 then [REDUCE sym_parenthesized_expression 3] else [])
                     else
                      (if i = 106 then [REDUCE sym_with_clause 2] else []))))))
           else
            (if i < 126 then
              (if i < 116 then
                (if i < 112 then
                  (if i < 110 then
                    (if i = 108 then [REDUCE sym_with_clause 2] else [])
                   else
                    (if i = 110 then [REDUCE sym_list_literal 3] else []))
                 else
                  (if i < 114 then
                    (if i = 112 then [REDUCE sym_list_literal 3] else [])
                   else
                    (if i = 114 then [REDUCE sym_string 3] else [])))
               else
                (if i < 120 then
                  (if i < 118 then
                    (if i = 116 then [REDUCE sym_string 3] else [])
                   else
                    (if i = 118 then [REDUCE sym_call_expression 3] else []))
                 else
                  (if i < 122 then
                    (if i = 120 then [REDUCE sym_call_expression 3] else [])
                   else
                    (if i < 124 then
                      (if i = 122 then [REDUCE sym_if_statement 2] else [])
                     else
                      (if i = 124 then [SHIFT 93] else [])))))
             else
              (if i < 135 then
                (if i < 130 then
                  (if i < 128 then
                    (if i = 126 then [SHIFT 86] else [])
                   else
                    (if i = 128 then [REDUCE sym_if_statement 2] else []))
                 else
                  (if i < 132 then
                    (if i = 130 then [REDUCE aux_sym_source_file_repeat1 2] else [])
                   else
                    (if i = 132 then [REDUCE aux_sym_source_file_repeat1 2, SHIFT_REPEAT 77] else [])))
               else
                (if i < 141 then
                  (if i < 138 then
                    (if i = 135 then [REDUCE aux_sym_source_file_repeat1 2, SHIFT_REPEAT 55] else [])
                   else
                    (if i = 138 then [REDUCE aux_sym_source_file_repeat1 2, SHIFT_REPEAT 58] else []))
                 else
                  (if i < 144 then
                    (if i = 141 then [REDUCE aux_sym_source_file_repeat1 2, SHIFT_REPEAT 113] else [])
                   else
                    (if i < 147 then
                      (if i = 144 then [REDUCE aux_sym_source_file_repeat1 2, SHIFT_REPEAT 143] else [])
                     else
                      (if i = 147 then [REDUCE aux_sym_source_file_repeat1 2, SHIFT_REPEAT 141] else []))))))))
       else
        (if i < 237 then
          (if i < 201 then
            (if i < 177 then
              (if i < 162 then
                (if i < 156 then
                  (if i < 153 then
                    (if i = 150 then [REDUCE aux_sym_source_file_repeat1 2, SHIFT_REPEAT 140] else [])
                   else
                    (if i = 153 then [REDUCE aux_sym_source_file_repeat1 2, SHIFT_REPEAT 139] else []))
                 else
                  (if i < 159 then
                    (if i = 156 then [REDUCE aux_sym_source_file_repeat1 2, SHIFT_REPEAT 128] else [])
                   else
                    (if i = 159 then [REDUCE aux_sym_source_file_repeat1 2, SHIFT_REPEAT 136] else [])))
               else
                (if i < 168 then
                  (if i < 165 then
                    (if i = 162 then [REDUCE aux_sym_source_file_repeat1 2, SHIFT_REPEAT 105] else [])
                   else
                    (if i = 165 then [REDUCE aux_sym_source_file_repeat1 2, SHIFT_REPEAT 135] else []))
                 else
                  (if i < 171 then
                    (if i = 168 then [REDUCE aux_sym_source_file_repeat1 2, SHIFT_REPEAT 32] else [])
                   else
                    (if i < 174 then
                      (if i = 171 then [REDUCE aux_sym_source_file_repeat1 2, SHIFT_REPEAT 25] else [])
                     else
                      (if i = 174 then [REDUCE aux_sym_source_file_repeat1 2, SHIFT_REPEAT 107] else [])))))
             else
              (if i < 189 then
                (if i < 183 then
                  (if i < 180 then
                    (if i = 177 then [REDUCE aux_sym_source_file_repeat1 2, SHIFT_REPEAT 109] else [])
                   else
                    (if i = 180 then [REDUCE aux_sym_source_file_repeat1 2, SHIFT_REPEAT 127] else []))
                 else
                  (if i < 186 then
                    (if i = 183 then [REDUCE aux_sym_source_file_repeat1 2, SHIFT_REPEAT 112] else [])
                   else
                    (if i = 186 then [REDUCE aux_sym_source_file_repeat1 2, SHIFT_REPEAT 45] else [])))
               else
                (if i < 195 then
                  (if i < 192 then
                    (if i = 189 then [REDUCE aux_sym_source_file_repeat1 2, SHIFT_REPEAT 95] else [])
                   else
                    (if i = 192 then [REDUCE aux_sym_source_file_repeat1 2, SHIFT_REPEAT 98] else []))
                 else
                  (if i < 197 then
                    (if i = 195 then [REDUCE sym_source_file 1] else [])
                   else
                    (if i < 199 then
                      (if i = 197 then [SHIFT 25] else [])
                     else
                      (if i = 199 then [REDUCE sym_otherwise_if_clause 2] else []))))))
           else
            (if i < 219 then
              (if i < 209 then
                (if i < 205 then
                  (if i < 203 then
                    (if i = 201 then [REDUCE sym_otherwise_if_clause 2] else [])
                   else
                    (if i = 203 then [REDUCE sym_declaration 7] else []))
                 else
                  (if i < 207 then
                    (if i = 205 then [REDUCE sym_declaration 7] else [])
                   else
                    (if i = 207 then [REDUCE sym_assignment 4] else [])))
               else
                (if i < 213 then
                  (if i < 211 then
                    (if i = 209 then [REDUCE sym_assignment 4] else [])
                   else
                    (if i = 211 then [REDUCE sym_return_statement 2] else []))
                 else
                  (if i < 215 then
                    (if i = 213 then [REDUCE sym_return_statement 2] else [])
                   else
                    (if i < 217 then
                      (if i = 215 then [REDUCE sym_for_each_statement 4] else [])
                     else
                      (if i = 217 then [REDUCE sym_for_each_statement 4] else [])))))
             else
              (if i < 227 then
                (if i < 223 then
                  (if i < 221 then
                    (if i = 219 then [REDUCE sym_return_statement 1] else [])
                   else
                    (if i = 221 then [SHIFT 30] else []))
                 else
                  (if i < 225 then
                    (if i = 223 then [REDUCE sym_return_statement 1] else [])
                   else
                    (if i = 225 then [SHIFT 145] else [])))
               else
                (if i < 231 then
                  (if i < 229 then
                    (if i = 227 then [SHIFT 30] else [])
                   else
                    (if i = 229 then [SHIFT 122] else []))
                 else
                  (if i < 233 then
                    (if i = 231 then [SHIFT 10] else [])
                   else
                    (if i < 235 then
                      (if i = 233 then [SHIFT 70] else [])
                     else
                      (if i = 235 then [SHIFT 114] else [])))))))
         else
          (if i < 275 then
            (if i < 255 then
              (if i < 245 then
                (if i < 241 then
                  (if i < 239 then
                    (if i = 237 then [SHIFT 114] else [])
                   else
                    (if i = 239 then [SHIFT 99] else []))
                 else
                  (if i < 243 then
                    (if i = 241 then [REDUCE sym_declaration 6] else [])
                   else
                    (if i = 243 then [REDUCE sym_declaration 6] else [])))
               else
                (if i < 249 then
                  (if i < 247 then
                    (if i = 245 then [REDUCE sym_while_statement 2] else [])
                   else
                    (if i = 247 then [REDUCE sym_while_statement 2] else []))
                 else
                  (if i < 251 then
                    (if i = 249 then [REDUCE sym_display_statement 2] else [])
                   else
                    (if i < 253 then
                      (if i = 251 then [REDUCE sym_display_statement 2] else [])
                     else
                      (if i = 253 then [REDUCE sym_step_def 2] else [])))))
             else
              (if i < 263 then
                (if i < 259 then
                  (if i < 257 then
                    (if i = 255 then [SHIFT 148] else [])
                   else
                    (if i = 257 then [SHIFT 125] else []))
                 else
                  (if i < 261 then
                    (if i = 259 then [SHIFT 119] else [])
                   else
                    (if i = 261 then [REDUCE sym_step_def 2] else [])))
               else
                (if i < 267 then
                  (if i < 265 then
                    (if i = 263 then [REDUCE sym_riser_def 2] else [])
                   else
                    (if i = 265 then [REDUCE sym_riser_def 2] else []))
                 else
                  (if i < 269 then
                    (if i = 267 then [REDUCE aux_sym_step_clauses_repeat1 2] else [])
                   else
                    (if i < 272 then
                      (if i = 269 then [REDUCE aux_sym_step_clauses_repeat1 2, SHIFT_REPEAT 148] else [])
                     else
                      (if i = 272 then [REDUCE aux_sym_step_clauses_repeat1 2, SHIFT_REPEAT 125] else []))))))
           else
            (if i < 294 then
              (if i < 284 then
                (if i < 280 then
                  (if i < 278 then
                    (if i = 275 then [REDUCE aux_sym_step_clauses_repeat1 2, SHIFT_REPEAT 119] else [])
                   else
                    (if i = 278 then [REDUCE aux_sym_step_clauses_repeat1 2] else []))
                 else
                  (if i < 282 then
                    (if i = 280 then [REDUCE sym_step_clauses 1] else [])
                   else
                    (if i = 282 then [REDUCE sym_step_clauses 1] else [])))
               else
                (if i < 288 then
                  (if i < 286 then
                    (if i = 284 then [REDUCE sym_parameter_list 1] else [])
                   else
                    (if i = 286 then [SHIFT 126] else []))
                 else
                  (if i < 290 then
                    (if i = 288 then [REDUCE sym_parameter_list 1] else [])
                   else
                    (if i < 292 then
                      (if i = 290 then [REDUCE sym_if_statement 3] else [])
                     else
                      (if i = 292 then [REDUCE aux_sym_parameter_list_repeat1 2] else [])))))
             else
              (if i < 303 then
                (if i < 299 then
                  (if i < 297 then
                    (if i = 294 then [REDUCE aux_sym_parameter_list_repeat1 2, SHIFT_REPEAT 126] else [])
                   else
                    (if i = 297 then [REDUCE aux_sym_parameter_list_repeat1 2] else []))
                 else
                  (if i < 301 then
                    (if i = 299 then [REDUCE sym_parameter_list 2] else [])
                   else
                    (if i = 301 then [REDUCE sym_parameter_list 2] else [])))
               else
                (if i < 307 then
                  (if i < 305 then
                    (if i = 303 then [REDUCE sym_attempt_statement 1] else [])
                   else
                    (if i = 305 then [REDUCE sym_attempt_statement 1] else []))
                 else
                  (if i < 309 then
                    (if i = 307 then [SHIFT 61] else [])
                   else
                    (if i < 311 then
                      (if i = 309 then [SHIFT 64] else [])
                     else
                      (if i = 311 then [REDUCE sym_type 1] else [])))))))))
     else
      (if i < 458 then
        (if i < 386 then
          (if i < 350 then
            (if i < 332 then
              (if i < 321 then
                (if i < 317 then
                  (if i < 315 then
                    (if i = 313 then [REDUCE sym_type 1] else [])
                   else
                    (if i = 315 then [REDUCE sym_parameter 3] else []))
                 else
                  (if i < 319 then
                    (if i = 317 then [REDUCE sym_parameter 3] else [])
                   else
                    (if i = 319 then [REDUCE sym_call_statement 2] else [])))
               else
                (if i < 325 then
                  (if i < 323 then
                    (if i = 321 then [SHIFT 87] else [])
                   else
                    (if i = 323 then [SHIFT 130] else []))
                 else
                  (if i < 327 then
                    (if i = 325 then [REDUCE aux_sym_if_statement_repeat1 2] else [])
                   else
                    (if i < 330 then
                      (if i = 327 then [REDUCE aux_sym_if_statement_repeat1 2, SHIFT_REPEAT 93] else [])
                     else
                      (if i = 330 then [REDUCE aux_sym_if_statement_repeat1 2] else [])))))
             else
              (if i < 340 then
                (if i < 336 then
                  (if i < 334 then
                    (if i = 332 then [REDUCE sym_expects_clause 2] else [])
                   else
                    (if i = 334 then [REDUCE sym_expects_clause 2] else []))
                 else
                  (if i < 338 then
                    (if i = 336 then [REDUCE sym_returns_clause 2] else [])
                   else
                    (if i = 338 then [REDUCE sym_returns_clause 2] else [])))
               else
                (if i < 344 then
                  (if i < 342 then
                    (if i = 340 then [REDUCE sym_belongs_clause 2] else [])
                   else
                    (if i = 342 then [REDUCE sym_belongs_clause 2] else []))
                 else
                  (if i < 346 then
                    (if i = 344 then [REDUCE sym_section_marker 1] else [])
                   else
                    (if i < 348 then
                      (if i = 346 then [SHIFT 132] else [])
                     else
                      (if i = 348 then [SHIFT 131] else []))))))
           else
            (if i < 368 then
              (if i < 358 then
                (if i < 354 then
                  (if i < 352 then
                    (if i = 350 then [REDUCE sym_section_marker 1] else [])
                   else
                    (if i = 352 then [REDUCE sym_attempt_statement 2] else []))
                 else
                  (if i < 356 then
                    (if i = 354 then [REDUCE sym_call_statement 3] else [])
                   else
                    (if i = 356 then [REDUCE sym_comment 1] else [])))
               else
                (if i < 362 then
                  (if i < 360 then
                    (if i = 358 then [REDUCE sym_comment 1] else [])
                   else
                    (if i = 360 then [SHIFT 72] else []))
                 else
                  (if i < 364 then
                    (if i = 362 then [REDUCE sym_declaration 4] else [])
                   else
                    (if i < 366 then
                      (if i = 364 then [SHIFT 103] else [])
                     else
                      (if i = 366 then [REDUCE sym_if_unsuccessful_clause 1] else [])))))
             else
              (if i < 376 then
                (if i < 372 then
                  (if i < 370 then
                    (if i = 368 then [REDUCE sym_declaration 5] else [])
                   else
                    (if i = 370 then [SHIFT 108] else []))
                 else
                  (if i < 374 then
                    (if i = 372 then [REDUCE sym_then_continue_clause 1] else [])
                   else
                    (if i = 374 then [REDUCE sym_call_statement 4] else [])))
               else
                (if i < 380 then
                  (if i < 378 then
                    (if i = 376 then [REDUCE sym_if_statement 4] else [])
                   else
                    (if i = 378 then [REDUCE sym_structure_definition 1] else []))
                 else
                  (if i < 382 then
                    (if i = 380 then [REDUCE sym_step_def 3] else [])
                   else
                    (if i < 384 then
                      (if i = 382 then [REDUCE sym_riser_def 3] else [])
                     else
                      (if i = 384 then [SHIFT 24] else [])))))))
         else
          (if i < 422 then
            (if i < 404 then
              (if i < 394 then
                (if i < 390 then
                  (if i < 388 then
                    (if i = 386 then [SHIFT 146] else [])
                   else
                    (if i = 388 then [SHIFT 24] else []))
                 else
                  (if i < 392 then
                    (if i = 390 then [SHIFT 15] else [])
                   else
                    (if i = 392 then [REDUCE sym_block_comment 3] else [])))
               else
                (if i < 398 then
                  (if i < 396 then
                    (if i = 394 then [REDUCE sym_comment 2] else [])
                   else
                    (if i = 396 then [REDUCE sym_add_statement 4] else []))
                 else
                  (if i < 400 then
                    (if i = 398 then [REDUCE sym_storing_clause 2] else [])
                   else
                    (if i < 402 then
                      (if i = 400 then [REDUCE sym_remove_statement 4] else [])
                     else
                      (if i = 402 then [REDUCE sym_block_comment 2] else [])))))
             else
              (if i < 412 then
                (if i < 408 then
                  (if i < 406 then
                    (if i = 404 then [REDUCE sym_input_statement 2] else [])
                   else
                    (if i = 406 then [REDUCE sym_attempt_statement 3] else []))
                 else
                  (if i < 410 then
                    (if i = 408 then [REDUCE sym_repeat_statement 3] else [])
                   else
                    (if i = 410 then [REDUCE sym_floor_def 2] else [])))
               else
                (if i < 416 then
                  (if i < 414 then
                    (if i = 412 then [REDUCE sym_building_def 2] else [])
                   else
                    (if i = 414 then [REDUCE sym_otherwise_clause 1] else []))
                 else
                  (if i < 418 then
                    (if i = 416 then [SHIFT 6] else [])
                   else
                    (if i < 420 then
                      (if i = 418 then [SHIFT 6] else [])
                     else
                      (if i = 420 then [SHIFT 2] else []))))))
           else
            (if i < 440 then
              (if i < 430 then
                (if i < 426 then
                  (if i < 424 then
                    (if i = 422 then [SHIFT 2] else [])
                   else
                    (if i = 424 then [SHIFT 29] else []))
                 else
                  (if i < 428 then
                    (if i = 426 then [SHIFT 29] else [])
                   else
                    (if i = 428 then [SHIFT 16] else [])))
               else
                (if i < 434 then
                  (if i < 432 then
                    (if i = 430 then [SHIFT 21] else [])
                   else
                    (if i = 432 then [SHIFT 21] else []))
                 else
                  (if i < 436 then
                    (if i = 434 then [SHIFT 27] else [])
                   else
                    (if i < 438 then
                      (if i = 436 then [SHIFT 27] else [])
                     else
                      (if i = 438 then [SHIFT 31] else [])))))
             else
              (if i < 448 then
                (if i < 444 then
                  (if i < 442 then
                    (if i = 440 then [SHIFT 31] else [])
                   else
                    (if i = 442 then [SHIFT 106] else []))
                 else
                  (if i < 446 then
                    (if i = 444 then [SHIFT 106] else [])
                   else
                    (if i = 446 then [SHIFT 4] else [])))
               else
                (if i < 452 then
                  (if i < 450 then
                    (if i = 448 then [SHIFT 4] else [])
                   else
                    (if i = 450 then [SHIFT 5] else []))
                 else
                  (if i < 454 then
                    (if i = 452 then [SHIFT 5] else [])
                   else
                    (if i < 456 then
                      (if i = 454 then [SHIFT 110] else [])
                     else
                      (if i = 456 then [SHIFT 110] else []))))))))
       else
        (if i < 532 then
          (if i < 494 then
            (if i < 476 then
              (if i < 466 then
                (if i < 462 then
                  (if i < 460 then
                    (if i = 458 then [SHIFT 91] else [])
                   else
                    (if i = 460 then [SHIFT 91] else []))
                 else
                  (if i < 464 then
                    (if i = 462 then [SHIFT 13] else [])
                   else
                    (if i = 464 then [SHIFT 100] else [])))
               else
                (if i < 470 then
                  (if i < 468 then
                    (if i = 466 then [SHIFT 100] else [])
                   else
                    (if i = 468 then [SHIFT 22] else []))
                 else
                  (if i < 472 then
                    (if i = 470 then [SHIFT 22] else [])
                   else
                    (if i < 474 then
                      (if i = 472 then [SHIFT 33] else [])
                     else
                      (if i = 474 then [SHIFT 33] else [])))))
             else
              (if i < 484 then
                (if i < 480 then
                  (if i < 478 then
                    (if i = 476 then [SHIFT 83] else [])
                   else
                    (if i = 478 then [SHIFT 35] else []))
                 else
                  (if i < 482 then
                    (if i = 480 then [SHIFT 35] else [])
                   else
                    (if i = 482 then [SHIFT 138] else [])))
               else
                (if i < 488 then
                  (if i < 486 then
                    (if i = 484 then [SHIFT 23] else [])
                   else
                    (if i = 486 then [SHIFT 23] else []))
                 else
                  (if i < 490 then
                    (if i = 488 then [SHIFT 28] else [])
                   else
                    (if i < 492 then
                      (if i = 490 then [SHIFT 28] else [])
                     else
                      (if i = 492 then [SHIFT 104] else []))))))
           else
            (if i < 512 then
              (if i < 502 then
                (if i < 498 then
                  (if i < 496 then
                    (if i = 494 then [SHIFT 104] else [])
                   else
                    (if i = 496 then [SHIFT 149] else []))
                 else
                  (if i < 500 then
                    (if i = 498 then [SHIFT 9] else [])
                   else
                    (if i = 500 then [SHIFT 9] else [])))
               else
                (if i < 506 then
                  (if i < 504 then
                    (if i = 502 then [SHIFT 34] else [])
                   else
                    (if i = 504 then [SHIFT 34] else []))
                 else
                  (if i < 508 then
                    (if i = 506 then [SHIFT 79] else [])
                   else
                    (if i < 510 then
                      (if i = 508 then [SHIFT 117] else [])
                     else
                      (if i = 510 then [SHIFT 117] else [])))))
             else
              (if i < 520 then
                (if i < 516 then
                  (if i < 514 then
                    (if i = 512 then [REDUCE sym_unary_operator 1] else [])
                   else
                    (if i = 514 then [REDUCE sym_unary_operator 1] else []))
                 else
                  (if i < 518 then
                    (if i = 516 then [REDUCE sym_binary_operator 1] else [])
                   else
                    (if i = 518 then [REDUCE sym_binary_operator 1] else [])))
               else
                (if i < 525 then
                  (if i < 522 then
                    (if i = 520 then [REDUCE aux_sym_block_comment_content_repeat1 2] else [])
                   else
                    (if i = 522 then [REDUCE aux_sym_block_comment_content_repeat1 2, SHIFT_REPEAT 116] else []))
                 else
                  (if i < 528 then
                    (if i = 525 then [REDUCE aux_sym_block_comment_content_repeat1 2, SHIFT_REPEAT 116] else [])
                   else
                    (if i < 530 then
                      (if i = 528 then [REDUCE sym_block_comment_content 1] else [])
                     else
                      (if i = 530 then [SHIFT 116] else [])))))))
         else
          (if i < 570 then
            (if i < 552 then
              (if i < 540 then
                (if i < 536 then
                  (if i < 534 then
                    (if i = 532 then [SHIFT 116] else [])
                   else
                    (if i = 534 then [SHIFT 60] else []))
                 else
                  (if i < 538 then
                    (if i = 536 then [SHIFT 46] else [])
                   else
                    (if i = 538 then [SHIFT 11] else [])))
               else
                (if i < 544 then
                  (if i < 542 then
                    (if i = 540 then [SHIFT 124] else [])
                   else
                    (if i = 542 then [SHIFT 124] else []))
                 else
                  (if i < 546 then
                    (if i = 544 then [REDUCE aux_sym_string_content_repeat1 2] else [])
                   else
                    (if i < 549 then
                      (if i = 546 then [REDUCE aux_sym_string_content_repeat1 2, SHIFT_REPEAT 123] else [])
                     else
                      (if i = 549 then [REDUCE aux_sym_string_content_repeat1 2, SHIFT_REPEAT 123] else [])))))
             else
              (if i < 560 then
                (if i < 556 then
                  (if i < 554 then
                    (if i = 552 then [REDUCE sym_string_content 1] else [])
                   else
                    (if i = 554 then [SHIFT 123] else []))
                 else
                  (if i < 558 then
                    (if i = 556 then [SHIFT 123] else [])
                   else
                    (if i = 558 then [SHIFT 147] else [])))
               else
                (if i < 564 then
                  (if i < 562 then
                    (if i = 560 then [SHIFT 134] else [])
                   else
                    (if i = 562 then [SHIFT 142] else []))
                 else
                  (if i < 566 then
                    (if i = 564 then [ACCEPT_INPUT] else [])
                   else
                    (if i < 568 then
                      (if i = 566 then [SHIFT 76] else [])
                     else
                      (if i = 568 then [SHIFT 150] else []))))))
           else
            (if i < 588 then
              (if i < 578 then
                (if i < 574 then
                  (if i < 572 then
                    (if i = 570 then [SHIFT 118] else [])
                   else
                    (if i = 572 then [SHIFT 19] else []))
                 else
                  (if i < 576 then
                    (if i = 574 then [SHIFT 94] else [])
                   else
                    (if i = 576 then [SHIFT 81] else [])))
               else
                (if i < 582 then
                  (if i < 580 then
                    (if i = 578 then [SHIFT 50] else [])
                   else
                    (if i = 580 then [SHIFT 18] else []))
                 else
                  (if i < 584 then
                    (if i = 582 then [SHIFT 73] else [])
                   else
                    (if i < 586 then
                      (if i = 584 then [SHIFT 37] else [])
                     else
                      (if i = 586 then [SHIFT 36] else [])))))
             else
              (if i < 598 then
                (if i < 592 then
                  (if i < 590 then
                    (if i = 588 then [SHIFT 84] else [])
                   else
                    (if i = 590 then [SHIFT 90] else []))
                 else
                  (if i < 594 then
                    (if i = 592 then [SHIFT 85] else [])
                   else
                    (if i < 596 then
                      (if i = 594 then [SHIFT 71] else [])
                     else
                      (if i = 596 then [SHIFT 12] else []))))
               else
                (if i < 602 then
                  (if i < 600 then
                    (if i = 598 then [SHIFT 3] else [])
                   else
                    (if i = 600 then [SHIFT 121] else []))
                 else
                  (if i < 604 then
                    (if i = 602 then [SHIFT 54] else [])
                   else
                    (if i < 606 then
                      (if i = 604 then [SHIFT 78] else [])
                     else
                      (if i = 606 then [SHIFT 120] else []))))))))))"

section \<open>The table interpreter\<close>

text \<open>
  Modelled from the spec: the loop that interprets the tables (the function that the
  specification calls \<^verbatim>\<open>parse\<close>) is not part of the source tree, which holds the tables
  only.  The specification describes it as a single-pass parser over the token stream with
  one token of lookahead, and the tables as an LR automaton; the loop below is the
  shift-reduce interpreter of that automaton.  Three points follow from the format of the
  tables: the lexer is started in the state that \<^verbatim>\<open>ts_lex_modes\<close> gives for the current
  parse state; a token that the main lexer reads as \<^verbatim>\<open>identifier\<close> (the
  \<^verbatim>\<open>keyword_capture_token\<close>) is read again by \<^verbatim>\<open>ts_lex_keywords\<close>, and becomes the
  keyword if the keyword spans the same text and has an action in the current state;
  \<^verbatim>\<open>SHIFT_REPEAT\<close> actions are hints for re-use and are never executed.  Error recovery is
  not part of the tables: where the lexer finds no token, or the table holds no action, or
  holds \<^verbatim>\<open>RECOVER\<close>, the interpreter stops with an error.
\<close>

datatype tree = Leaf TSSymbol "lookahead list" | Node TSSymbol "tree list"

fun symbol_of :: "tree \<Rightarrow> TSSymbol" where
  "symbol_of (Leaf s text) = s"
| "symbol_of (Node s kids) = s"

fun children :: "tree \<Rightarrow> tree list" where
  "children (Leaf s text) = []"
| "children (Node s kids) = kids"

datatype parse_error = LexicalError TSStateId "lookahead list" | SyntaxError TSStateId TSSymbol

definition ts_parse_table :: "TSStateId \<Rightarrow> (TSSymbol \<times> table_entry) list" where
  "ts_parse_table state = (if state = 0 then ts_parse_table_0 else ts_parse_table_1)"

fun small_lookup :: "(table_entry \<times> TSSymbol list) list \<Rightarrow> TSSymbol \<Rightarrow> table_entry option" where
  "small_lookup [] symbol = None"
| "small_lookup ((v, syms) # groups) symbol =
    (if symbol \<in> set syms then Some v else small_lookup groups symbol)"

definition ts_language_lookup :: "TSStateId \<Rightarrow> TSSymbol \<Rightarrow> table_entry option" where
  "ts_language_lookup state symbol =
    (if state < LARGE_STATE_COUNT then map_of (ts_parse_table state) symbol
     else small_lookup (ts_small_parse_table state) symbol)"

definition actions_for :: "TSStateId \<Rightarrow> TSSymbol \<Rightarrow> parse_action list" where
  "actions_for state symbol =
    (case ts_language_lookup state symbol of
       Some (ACTIONS i) \<Rightarrow> ts_parse_actions i
     | _ \<Rightarrow> [])"

definition next_state :: "TSStateId \<Rightarrow> TSSymbol \<Rightarrow> TSStateId" where
  "next_state state symbol =
    (case ts_language_lookup state symbol of
       Some (STATE s) \<Rightarrow> s
     | _ \<Rightarrow> 0)"

fun is_shift_repeat :: "parse_action \<Rightarrow> bool" where
  "is_shift_repeat (SHIFT_REPEAT s) = True"
| "is_shift_repeat a = False"

definition first_action :: "parse_action list \<Rightarrow> parse_action option" where
  "first_action acts =
    (case filter (\<lambda>a. \<not> is_shift_repeat a) acts of
       [] \<Rightarrow> None
     | a # _ \<Rightarrow> Some a)"

definition action_taken :: "TSStateId \<Rightarrow> TSSymbol \<Rightarrow> parse_action option" where
  "action_taken state symbol = first_action (actions_for state symbol)"

text \<open>
  Reading the next token in a parse state.  \<open>Lexed s text rest\<close> is the token \<open>s\<close> with its
  text and the input behind it; \<open>LexFail\<close> means that no token of the state's lexer mode
  starts at the cursor.
\<close>

datatype lexed = LexFail | Lexed TSSymbol "lookahead list" "lookahead list"

definition keyword_of :: "TSStateId \<Rightarrow> lookahead list \<Rightarrow> TSSymbol option option" where
  "keyword_of parse_state text =
    (case run_lexer ts_lex_keywords 0 text 0 0 NoToken of
       None \<Rightarrow> None
     | Some NoToken \<Rightarrow> Some None
     | Some (Token k kstart kend) \<Rightarrow>
         Some (if kend = length text \<and> actions_for parse_state k \<noteq> [] then Some k else None))"

definition ts_parser_lex :: "TSStateId \<Rightarrow> lookahead list \<Rightarrow> lexed option" where
  "ts_parser_lex parse_state inp =
    (case run_lexer ts_lex (ts_lex_modes parse_state) inp 0 0 NoToken of
       None \<Rightarrow> None
     | Some NoToken \<Rightarrow> Some LexFail
     | Some (Token s start stop) \<Rightarrow>
         (let text = take (stop - start) (drop start inp); rest = drop stop inp in
          if s = sym_identifier then
            (case keyword_of parse_state text of
               None \<Rightarrow> None
             | Some None \<Rightarrow> Some (Lexed s text rest)
             | Some (Some k) \<Rightarrow> Some (Lexed k text rest))
          else Some (Lexed s text rest)))"

text \<open>
  A configuration is the stack (top first: the state entered and the tree pushed with it;
  the start state 1 lies below the stack), the lookahead token and the input behind it.
\<close>

type_synonym parse_stack = "(TSStateId \<times> tree) list"

type_synonym config = "parse_stack \<times> (TSSymbol \<times> lookahead list) \<times> lookahead list"

datatype step_result = Continue config | Done "parse_error + tree"

fun top_state :: "parse_stack \<Rightarrow> TSStateId" where
  "top_state [] = 1"
| "top_state ((s, t) # stack) = s"

fun parse_step :: "config \<Rightarrow> step_result option" where
  "parse_step (stack, (symbol, text), rest) =
    (case action_taken (top_state stack) symbol of
       None \<Rightarrow> Some (Done (Inl (SyntaxError (top_state stack) symbol)))
     | Some (SHIFT s) \<Rightarrow>
         (case ts_parser_lex s rest of
            None \<Rightarrow> None
          | Some LexFail \<Rightarrow> Some (Done (Inl (LexicalError s rest)))
          | Some (Lexed symbol' text' rest') \<Rightarrow>
              Some (Continue ((s, Leaf symbol text) # stack, (symbol', text'), rest')))
     | Some (REDUCE lhs n) \<Rightarrow>
         (let kids = rev (map snd (take n stack)); below = drop n stack in
          Some (Continue ((next_state (top_state below) lhs, Node lhs kids) # below,
                          (symbol, text), rest)))
     | Some ACCEPT_INPUT \<Rightarrow>
         (case stack of
            [] \<Rightarrow> Some (Done (Inl (SyntaxError (top_state stack) symbol)))
          | (s, t) # _ \<Rightarrow> Some (Done (Inr t)))
     | Some _ \<Rightarrow> Some (Done (Inl (SyntaxError (top_state stack) symbol))))"

partial_function (option) parse_loop :: "config \<Rightarrow> (parse_error + tree) option" where
  "parse_loop c =
    (case parse_step c of
       None \<Rightarrow> None
     | Some (Done r) \<Rightarrow> Some r
     | Some (Continue c') \<Rightarrow> parse_loop c')"

definition parse :: "lookahead list \<Rightarrow> (parse_error + tree) option" where
  "parse src =
    (case ts_parser_lex 1 src of
       None \<Rightarrow> None
     | Some LexFail \<Rightarrow> Some (Inl (LexicalError 1 src))
     | Some (Lexed symbol text rest) \<Rightarrow> parse_loop ([], (symbol, text), rest))"

text \<open>
  The tree as its users see it: a hidden node is replaced by its children, a hidden token
  disappears.
\<close>

fun visible_trees :: "tree \<Rightarrow> tree list" where
  "visible_trees (Leaf s text) = (if symbol_visible s then [Leaf s text] else [])"
| "visible_trees (Node s kids) =
    (if symbol_visible s then [Node s (concat (map visible_trees kids))]
     else concat (map visible_trees kids))"

definition codes :: "string \<Rightarrow> lookahead list" where
  "codes s = map of_char s"

definition parse_text :: "string \<Rightarrow> (parse_error + tree list) option" where
  "parse_text s = map_option (map_sum id visible_trees) (parse (codes s))"

section \<open>Notions used in the properties\<close>

declare run_lexer.simps [code]
declare parse_loop.simps [code]

text \<open>The parse states \<open>150 \<dots> 0\<close>, the states \<open>611 \<dots> 0\<close> of \<^verbatim>\<open>ts_lex\<close> and the
  states \<open>77 \<dots> 0\<close> of \<^verbatim>\<open>ts_lex_keywords\<close>, written out.\<close>

definition all_states :: "TSStateId list" where
  "all_states =
    [150, 149, 148, 147, 146, 145, 144, 143, 142, 141, 140, 139, 138, 137, 136, 135, 134,
     133, 132, 131, 130, 129, 128, 127, 126, 125, 124, 123, 122, 121, 120, 119, 118, 117,
     116, 115, 114, 113, 112, 111, 110, 109, 108, 107, 106, 105, 104, 103, 102, 101, 100,
     99, 98, 97, 96, 95, 94, 93, 92, 91, 90, 89, 88, 87, 86, 85, 84, 83, 82, 81, 80, 79, 78,
     77, 76, 75, 74, 73, 72, 71, 70, 69, 68, 67, 66, 65, 64, 63, 62, 61, 60, 59, 58, 57, 56,
     55, 54, 53, 52, 51, 50, 49, 48, 47, 46, 45, 44, 43, 42, 41, 40, 39, 38, 37, 36, 35, 34,
     33, 32, 31, 30, 29, 28, 27, 26, 25, 24, 23, 22, 21, 20, 19, 18, 17, 16, 15, 14, 13, 12,
     11, 10, 9, 8, 7, 6, 5, 4, 3, 2, 1, 0]"

definition lex_states :: "TSStateId list" where
  "lex_states =
    [611, 610, 609, 608, 607, 606, 605, 604, 603, 602, 601, 600, 599, 598, 597, 596, 595,
     594, 593, 592, 591, 590, 589, 588, 587, 586, 585, 584, 583, 582, 581, 580, 579, 578,
     577, 576, 575, 574, 573, 572, 571, 570, 569, 568, 567, 566, 565, 564, 563, 562, 561,
     560, 559, 558, 557, 556, 555, 554, 553, 552, 551, 550, 549, 548, 547, 546, 545, 544,
     543, 542, 541, 540, 539, 538, 537, 536, 535, 534, 533, 532, 531, 530, 529, 528, 527,
     526, 525, 524, 523, 522, 521, 520, 519, 518, 517, 516, 515, 514, 513, 512, 511, 510,
     509, 508, 507, 506, 505, 504, 503, 502, 501, 500, 499, 498, 497, 496, 495, 494, 493,
     492, 491, 490, 489, 488, 487, 486, 485, 484, 483, 482, 481, 480, 479, 478, 477, 476,
     475, 474, 473, 472, 471, 470, 469, 468, 467, 466, 465, 464, 463, 462, 461, 460, 459,
     458, 457, 456, 455, 454, 453, 452, 451, 450, 449, 448, 447, 446, 445, 444, 443, 442,
     441, 440, 439, 438, 437, 436, 435, 434, 433, 432, 431, 430, 429, 428, 427, 426, 425,
     424, 423, 422, 421, 420, 419, 418, 417, 416, 415, 414, 413, 412, 411, 410, 409, 408,
     407, 406, 405, 404, 403, 402, 401, 400, 399, 398, 397, 396, 395, 394, 393, 392, 391,
     390, 389, 388, 387, 386, 385, 384, 383, 382, 381, 380, 379, 378, 377, 376, 375, 374,
     373, 372, 371, 370, 369, 368, 367, 366, 365, 364, 363, 362, 361, 360, 359, 358, 357,
     356, 355, 354, 353, 352, 351, 350, 349, 348, 347, 346, 345, 344, 343, 342, 341, 340,
     339, 338, 337, 336, 335, 334, 333, 332, 331, 330, 329, 328, 327, 326, 325, 324, 323,
     322, 321, 320, 319, 318, 317, 316, 315, 314, 313, 312, 311, 310, 309, 308, 307, 306,
     305, 304, 303, 302, 301, 300, 299, 298, 297, 296, 295, 294, 293, 292, 291, 290, 289,
     288, 287, 286, 285, 284, 283, 282, 281, 280, 279, 278, 277, 276, 275, 274, 273, 272,
     271, 270, 269, 268, 267, 266, 265, 264, 263, 262, 261, 260, 259, 258, 257, 256, 255,
     254, 253, 252, 251, 250, 249, 248, 247, 246, 245, 244, 243, 242, 241, 240, 239, 238,
     237, 236, 235, 234, 233, 232, 231, 230, 229, 228, 227, 226, 225, 224, 223, 222, 221,
     220, 219, 218, 217, 216, 215, 214, 213, 212, 211, 210, 209, 208, 207, 206, 205, 204,
     203, 202, 201, 200, 199, 198, 197, 196, 195, 194, 193, 192, 191, 190, 189, 188, 187,
     186, 185, 184, 183, 182, 181, 180, 179, 178, 177, 176, 175, 174, 173, 172, 171, 170,
     169, 168, 167, 166, 165, 164, 163, 162, 161, 160, 159, 158, 157, 156, 155, 154, 153,
     152, 151, 150, 149, 148, 147, 146, 145, 144, 143, 142, 141, 140, 139, 138, 137, 136,
     135, 134, 133, 132, 131, 130, 129, 128, 127, 126, 125, 124, 123, 122, 121, 120, 119,
     118, 117, 116, 115, 114, 113, 112, 111, 110, 109, 108, 107, 106, 105, 104, 103, 102,
     101, 100, 99, 98, 97, 96, 95, 94, 93, 92, 91, 90, 89, 88, 87, 86, 85, 84, 83, 82, 81,
     80, 79, 78, 77, 76, 75, 74, 73, 72, 71, 70, 69, 68, 67, 66, 65, 64, 63, 62, 61, 60, 59,
     58, 57, 56, 55, 54, 53, 52, 51, 50, 49, 48, 47, 46, 45, 44, 43, 42, 41, 40, 39, 38, 37,
     36, 35, 34, 33, 32, 31, 30, 29, 28, 27, 26, 25, 24, 23, 22, 21, 20, 19, 18, 17, 16, 15,
     14, 13, 12, 11, 10, 9, 8, 7, 6, 5, 4, 3, 2, 1, 0]"

definition keyword_states :: "TSStateId list" where
  "keyword_states =
    [77, 76, 75, 74, 73, 72, 71, 70, 69, 68, 67, 66, 65, 64, 63, 62, 61, 60, 59, 58, 57, 56,
     55, 54, 53, 52, 51, 50, 49, 48, 47, 46, 45, 44, 43, 42, 41, 40, 39, 38, 37, 36, 35, 34,
     33, 32, 31, 30, 29, 28, 27, 26, 25, 24, 23, 22, 21, 20, 19, 18, 17, 16, 15, 14, 13, 12,
     11, 10, 9, 8, 7, 6, 5, 4, 3, 2, 1, 0]"

text \<open>\<open>counts_down xs n\<close>: the list is \<open>n - 1, n - 2, \<dots>, 0\<close>.\<close>

fun counts_down :: "nat list \<Rightarrow> nat \<Rightarrow> bool" where
  "counts_down [] n = (n = 0)"
| "counts_down (x # xs) n = (n = x + 1 \<and> counts_down xs x)"

definition backslash :: lookahead where
  "backslash = of_char CHR 0x5C"

text \<open>The characters that may follow a backslash in a string: \<^verbatim>\<open>" \ n r t\<close>.\<close>

definition escape_chars :: "lookahead list" where
  "escape_chars = map of_char [CHR 0x22, CHR 0x5C, CHR ''n'', CHR ''r'', CHR ''t'']"

fun move_target :: "lex_move \<Rightarrow> TSStateId" where
  "move_target (ADVANCE s) = s"
| "move_target (SKIP s) = s"

text \<open>Digits, blanks and the shape of a number: an optional minus sign, digits, and
  optionally a dot followed by digits.\<close>

definition is_digit :: "lookahead \<Rightarrow> bool" where
  "is_digit c = (of_char CHR ''0'' \<le> c \<and> c \<le> of_char CHR ''9'')"

definition is_blank :: "lookahead \<Rightarrow> bool" where
  "is_blank c = (c = of_char CHR 0x09 \<or> c = of_char CHR '' '')"

definition minus_sign :: lookahead where
  "minus_sign = of_char CHR ''-''"

definition dot :: lookahead where
  "dot = of_char CHR ''.''"

definition unsigned_shape :: "lookahead list \<Rightarrow> bool" where
  "unsigned_shape text =
    (takeWhile is_digit text \<noteq> [] \<and>
     (case dropWhile is_digit text of
        [] \<Rightarrow> True
      | c # fs \<Rightarrow> c = dot \<and> fs \<noteq> [] \<and> list_all is_digit fs))"

definition number_shape :: "lookahead list \<Rightarrow> bool" where
  "number_shape text =
    (case text of
       [] \<Rightarrow> False
     | c # cs \<Rightarrow> if c = minus_sign then unsigned_shape cs else unsigned_shape text)"

text \<open>The length of the longest unsigned number at the start of a text: the digits, and the
  dot and the digits behind it if there is at least one.\<close>

definition fraction_length :: "lookahead list \<Rightarrow> nat" where
  "fraction_length r =
    (case r of
       [] \<Rightarrow> 0
     | c # r' \<Rightarrow>
         if c = dot \<and> takeWhile is_digit r' \<noteq> [] then 1 + length (takeWhile is_digit r')
         else 0)"

definition number_length :: "lookahead list \<Rightarrow> nat" where
  "number_length inp =
    length (takeWhile is_digit inp) + fraction_length (dropWhile is_digit inp)"

text \<open>The states of \<^verbatim>\<open>ts_lex\<close> on the way to a number token.\<close>

definition number_lex_states :: "TSStateId list" where
  "number_lex_states = [19, 254, 255, 257, 439, 440]"

text \<open>
  \<open>walk\<close> follows the automaton over a given text, as \<open>run_lexer\<close> does while there is
  input; it is \<open>None\<close> if the automaton stops inside the text.
\<close>

fun walk ::
  "(TSStateId \<Rightarrow> lex_case) \<Rightarrow> TSStateId \<Rightarrow> lookahead list \<Rightarrow> nat \<Rightarrow> nat \<Rightarrow> lex_result
    \<Rightarrow> (TSStateId \<times> nat \<times> nat \<times> lex_result) option"
where
  "walk f st [] pos start res = Some (st, pos, start, res)"
| "walk f st (c # cs) pos start res =
    (case first_move (snd (f st)) False c of
       None \<Rightarrow> None
     | Some (ADVANCE s') \<Rightarrow>
         walk f s' cs (pos + 1) start
           (case fst (f st) of None \<Rightarrow> res | Some s \<Rightarrow> Token s start pos)
     | Some (SKIP s') \<Rightarrow>
         walk f s' cs (pos + 1) (pos + 1)
           (case fst (f st) of None \<Rightarrow> res | Some s \<Rightarrow> Token s start pos))"

text \<open>
  \<open>spells f st w st'\<close>: from \<open>st\<close> the automaton reaches \<open>st'\<close> over the word \<open>w\<close> through
  states that accept nothing and have one single move, on one single character.
\<close>

definition only_move :: "lex_case \<Rightarrow> (char \<times> TSStateId) option" where
  "only_move r =
    (case r of
       (None, [(AnyOf [Ch c], ADVANCE s)]) \<Rightarrow> Some (c, s)
     | _ \<Rightarrow> None)"

fun spells :: "(TSStateId \<Rightarrow> lex_case) \<Rightarrow> TSStateId \<Rightarrow> char list \<Rightarrow> TSStateId \<Rightarrow> bool" where
  "spells f st [] st' = (st = st')"
| "spells f st (c # cs) st' =
    (case only_move (f st) of
       None \<Rightarrow> False
     | Some (c', mid) \<Rightarrow> c' = c \<and> c \<noteq> CHR 0x00 \<and> spells f mid cs st')"

text \<open>The lexer modes of the parse states that expect a comparison operator, and of those that
  expect the start of a statement outside comments.\<close>

definition comparison_modes :: "TSStateId list" where
  "comparison_modes = [0, 21, 258, 259, 260, 261]"


section \<open>The grammar behind the tables\<close>

text \<open>
  The classes of symbols that can stand at one position of a production.
\<close>

definition statement_symbols :: "TSSymbol list" where
  "statement_symbols =
    [sym_exit_statement, sym__newline, sym__statement, sym_section_marker, sym_comment,
     sym_block_comment, sym_structure_definition, sym_declaration, sym_assignment,
     sym_call_statement, sym_display_statement, sym_input_statement,
     sym_return_statement, sym_if_statement, sym_repeat_statement,
     sym_for_each_statement, sym_while_statement, sym_attempt_statement,
     sym_add_statement, sym_remove_statement, aux_sym_source_file_repeat1]"

definition structure_symbols :: "TSSymbol list" where
  "structure_symbols =
    [sym_building_def, sym_floor_def, sym_step_def, sym_riser_def]"

definition clause_symbols :: "TSSymbol list" where
  "clause_symbols =
    [sym_belongs_clause, sym_expects_clause, sym_returns_clause,
     aux_sym_step_clauses_repeat1]"

definition type_keywords :: "TSSymbol list" where
  "type_keywords =
    [anon_sym_number, anon_sym_text, anon_sym_boolean, anon_sym_list, anon_sym_table]"

definition expression_symbols :: "TSSymbol list" where
  "expression_symbols =
    [sym_identifier, sym_number, sym_nothing, sym__expression, sym_string, sym_boolean,
     sym_list_literal, sym_binary_expression, sym_unary_expression, sym_call_expression,
     sym_index_expression, sym_parenthesized_expression]"

definition otherwise_if_symbols :: "TSSymbol list" where
  "otherwise_if_symbols =
    [sym_otherwise_if_clause, aux_sym_if_statement_repeat1]"

definition boolean_keywords :: "TSSymbol list" where
  "boolean_keywords =
    [anon_sym_true, anon_sym_false]"

definition unary_operator_tokens :: "TSSymbol list" where
  "unary_operator_tokens =
    [anon_sym_not, anon_sym_lengthof]"

definition binary_operator_tokens :: "TSSymbol list" where
  "binary_operator_tokens =
    [anon_sym_PLUS, anon_sym_DASH, anon_sym_STAR, anon_sym_SLASH, anon_sym_isequalto,
     anon_sym_equals, anon_sym_isnotequalto, anon_sym_islessthan,
     anon_sym_isgreaterthan, anon_sym_islessthanorequalto,
     anon_sym_isgreaterthanorequalto, anon_sym_and, anon_sym_or, anon_sym_addedto,
     anon_sym_contains, anon_sym_startswith, anon_sym_endswith, anon_sym_isin]"

definition string_content_symbols :: "TSSymbol list" where
  "string_content_symbols =
    [aux_sym_string_content_token1, sym_escape_sequence, aux_sym_string_content_repeat1]"

definition block_comment_symbols :: "TSSymbol list" where
  "block_comment_symbols =
    [aux_sym_block_comment_content_token1, aux_sym_block_comment_content_token2,
     aux_sym_block_comment_content_token3, aux_sym_block_comment_content_token4,
     aux_sym_block_comment_content_token5, aux_sym_block_comment_content_token6,
     aux_sym_block_comment_content_token7, aux_sym_block_comment_content_token8,
     aux_sym_block_comment_content_repeat1]"

text \<open>
  The productions, read off the tables: for every \<^verbatim>\<open>REDUCE(symbol, n)\<close> the classes of the
  \<open>n\<close> symbols that lie on the stack when it is taken.  That the tables allow no other
  reductions is proved below (\<open>state_checked\<close>).
\<close>

definition grammar :: "(TSSymbol \<times> TSSymbol list list) list" where
  "grammar =
    [(sym_source_file, []),
     (sym_source_file, [statement_symbols]),
     (sym_section_marker, [[anon_sym_do_COLON]]),
     (sym_section_marker, [[anon_sym_declare_COLON]]),
     (sym_comment, [[anon_sym_note_COLON]]),
     (sym_comment, [[anon_sym_note_COLON], [sym_comment_content]]),
     (sym_block_comment, [[anon_sym_noteblock_COLON], [anon_sym_endnote]]),
     (sym_block_comment,
        [[anon_sym_noteblock_COLON], [sym_block_comment_content], [anon_sym_endnote]]),
     (sym_block_comment_content, [block_comment_symbols]),
     (sym_structure_definition, [structure_symbols]),
     (sym_building_def, [[anon_sym_building_COLON], [sym_identifier]]),
     (sym_floor_def, [[anon_sym_floor_COLON], [sym_identifier]]),
     (sym_step_def, [[anon_sym_step_COLON], [sym_identifier]]),
     (sym_step_def, [[anon_sym_step_COLON], [sym_identifier], [sym_step_clauses]]),
     (sym_riser_def, [[anon_sym_riser_COLON], [sym_identifier]]),
     (sym_riser_def, [[anon_sym_riser_COLON], [sym_identifier], [sym_step_clauses]]),
     (sym_step_clauses, [clause_symbols]),
     (sym_belongs_clause, [[anon_sym_belongsto_COLON], [sym_identifier]]),
     (sym_expects_clause, [[anon_sym_expects_COLON], [sym_parameter_list]]),
     (sym_returns_clause, [[anon_sym_returns_COLON], [sym_type]]),
     (sym_parameter_list, [[sym_parameter]]),
     (sym_parameter_list, [[sym_parameter], [aux_sym_parameter_list_repeat1]]),
     (sym_parameter, [[sym_identifier], [anon_sym_as], [sym_type]]),
     (sym_type, [type_keywords]),
     (sym_declaration, [[anon_sym_declare_COLON], [sym_identifier], [anon_sym_as], [sym_type]]),
     (sym_declaration,
        [[anon_sym_declare_COLON], [anon_sym_fixed], [sym_identifier], [anon_sym_as], [sym_type]]),
     (sym_declaration,
        [[anon_sym_declare_COLON], [sym_identifier], [anon_sym_as], [sym_type], [anon_sym_EQ], expression_symbols]),
     (sym_declaration,
        [[anon_sym_declare_COLON], [anon_sym_fixed], [sym_identifier], [anon_sym_as], [sym_type], [anon_sym_EQ], expression_symbols]),
     (sym_assignment, [[anon_sym_set], [sym_identifier], [anon_sym_to], expression_symbols]),
     (sym_call_statement, [[anon_sym_call], [sym_identifier]]),
     (sym_call_statement, [[anon_sym_call], [sym_identifier], [sym_with_clause]]),
     (sym_call_statement, [[anon_sym_call], [sym_identifier], [sym_storing_clause]]),
     (sym_call_statement,
        [[anon_sym_call], [sym_identifier], [sym_with_clause], [sym_storing_clause]]),
     (sym_with_clause, [[anon_sym_with], [sym_argument_list]]),
     (sym_storing_clause, [[anon_sym_storingresultin], [sym_identifier]]),
     (sym_argument_list, [expression_symbols]),
     (sym_argument_list, [expression_symbols, [aux_sym_argument_list_repeat1]]),
     (sym_display_statement, [[anon_sym_display], expression_symbols]),
     (sym_input_statement, [[anon_sym_input], [sym_identifier]]),
     (sym_return_statement, [[anon_sym_return]]),
     (sym_return_statement, [[anon_sym_return], expression_symbols]),
     (sym_if_statement, [[anon_sym_if], expression_symbols]),
     (sym_if_statement, [[anon_sym_if], expression_symbols, otherwise_if_symbols]),
     (sym_if_statement, [[anon_sym_if], expression_symbols, [sym_otherwise_clause]]),
     (sym_if_statement,
        [[anon_sym_if], expression_symbols, otherwise_if_symbols, [sym_otherwise_clause]]),
     (sym_otherwise_if_clause, [[anon_sym_otherwiseif], expression_symbols]),
     (sym_otherwise_clause, [[anon_sym_otherwise]]),
     (sym_repeat_statement, [[anon_sym_repeat], expression_symbols, [anon_sym_times]]),
     (sym_for_each_statement,
        [[anon_sym_foreach], [sym_identifier], [anon_sym_in], expression_symbols]),
     (sym_while_statement, [[anon_sym_while], expression_symbols]),
     (sym_attempt_statement, [[anon_sym_attempt_COLON]]),
     (sym_attempt_statement, [[anon_sym_attempt_COLON], [sym_if_unsuccessful_clause]]),
     (sym_attempt_statement, [[anon_sym_attempt_COLON], [sym_then_continue_clause]]),
     (sym_attempt_statement,
        [[anon_sym_attempt_COLON], [sym_if_unsuccessful_clause], [sym_then_continue_clause]]),
     (sym_if_unsuccessful_clause, [[anon_sym_ifunsuccessful_COLON]]),
     (sym_then_continue_clause, [[anon_sym_thencontinue_COLON]]),
     (sym_add_statement, [[anon_sym_add], expression_symbols, [anon_sym_to], [sym_identifier]]),
     (sym_remove_statement,
        [[anon_sym_remove], expression_symbols, [anon_sym_from], [sym_identifier]]),
     (sym_string, [[anon_sym_DQUOTE], [anon_sym_DQUOTE]]),
     (sym_string, [[anon_sym_DQUOTE], [sym_string_content], [anon_sym_DQUOTE]]),
     (sym_string_content, [string_content_symbols]),
     (sym_boolean, [boolean_keywords]),
     (sym_list_literal, [[anon_sym_LBRACK], [anon_sym_RBRACK]]),
     (sym_list_literal, [[anon_sym_LBRACK], [sym_argument_list], [anon_sym_RBRACK]]),
     (sym_binary_expression, [expression_symbols, [sym_binary_operator], expression_symbols]),
     (sym_binary_operator, [binary_operator_tokens]),
     (sym_unary_expression, [[sym_unary_operator], expression_symbols]),
     (sym_unary_operator, [unary_operator_tokens]),
     (sym_call_expression, [[anon_sym_call], [sym_identifier]]),
     (sym_call_expression, [[anon_sym_call], [sym_identifier], [sym_with_clause]]),
     (sym_index_expression,
        [expression_symbols, [anon_sym_LBRACK], expression_symbols, [anon_sym_RBRACK]]),
     (sym_parenthesized_expression, [[anon_sym_LPAREN], expression_symbols, [anon_sym_RPAREN]]),
     (aux_sym_source_file_repeat1, [statement_symbols, statement_symbols]),
     (aux_sym_block_comment_content_repeat1, [block_comment_symbols, block_comment_symbols]),
     (aux_sym_step_clauses_repeat1, [clause_symbols, clause_symbols]),
     (aux_sym_parameter_list_repeat1, [[anon_sym_COMMA], [sym_parameter]]),
     (aux_sym_parameter_list_repeat1,
        [[aux_sym_parameter_list_repeat1], [aux_sym_parameter_list_repeat1]]),
     (aux_sym_argument_list_repeat1, [[anon_sym_COMMA], expression_symbols]),
     (aux_sym_argument_list_repeat1,
        [[aux_sym_argument_list_repeat1], [aux_sym_argument_list_repeat1]]),
     (aux_sym_if_statement_repeat1, [otherwise_if_symbols, otherwise_if_symbols]),
     (aux_sym_string_content_repeat1, [string_content_symbols, string_content_symbols])]"

text \<open>
  For every parse state, what is known of the top of the stack when the parser is in that
  state: the classes of the symbols of the topmost entries, the top first.
\<close>

definition state_shape :: "TSStateId \<Rightarrow> TSSymbol list list" where
  "state_shape state =
    (if state < 76 then
      (if state < 38 then
        (if state < 19 then
          (if state < 9 then
            (if state < 4 then
              (if state < 2 then
                (if state < 1 then
                  []
                 else
                  [])
               else
                (if state < 3 then
                  [expression_symbols]
                 else
                  [[sym_identifier], [anon_sym_call]]))
             else
              (if state < 6 then
                (if state < 5 then
                  [expression_symbols, [sym_binary_operator], expression_symbols]
                 else
                  [expression_symbols, [sym_unary_operator]])
               else
                (if state < 7 then
                  [expression_symbols]
                 else
                  (if state < 8 then
                    [[aux_sym_argument_list_repeat1], [aux_sym_argument_list_repeat1]]
                   else
                    [[aux_sym_argument_list_repeat1], expression_symbols]))))
           else
            (if state < 14 then
              (if state < 11 then
                (if state < 10 then
                  [expression_symbols, [anon_sym_COMMA]]
                 else
                  [boolean_keywords])
               else
                (if state < 12 then
                  [[anon_sym_DQUOTE], [anon_sym_DQUOTE]]
                 else
                  (if state < 13 then
                    [[sym_identifier], [anon_sym_call]]
                   else
                    [[anon_sym_RBRACK], expression_symbols, [anon_sym_LBRACK], expression_symbols])))
             else
              (if state < 16 then
                (if state < 15 then
                  [[aux_sym_argument_list_repeat1], expression_symbols]
                 else
                  [[anon_sym_RBRACK], [anon_sym_LBRACK]])
               else
                (if state < 17 then
                  [[anon_sym_RPAREN], expression_symbols, [anon_sym_LPAREN]]
                 else
                  (if state < 18 then
                    [[sym_argument_list], [anon_sym_with]]
                   else
                    [[anon_sym_RBRACK], [sym_argument_list], [anon_sym_LBRACK]])))))
         else
          (if state < 28 then
            (if state < 23 then
              (if state < 21 then
                (if state < 20 then
                  [[anon_sym_DQUOTE], [sym_string_content], [anon_sym_DQUOTE]]
                 else
                  [[sym_with_clause], [sym_identifier], [anon_sym_call]])
               else
                (if state < 22 then
                  [expression_symbols, [sym_binary_operator], expression_symbols]
                 else
                  [expression_symbols, [sym_unary_operator]]))
             else
              (if state < 25 then
                (if state < 24 then
                  [expression_symbols, [anon_sym_if]]
                 else
                  [expression_symbols])
               else
                (if state < 26 then
                  [statement_symbols, statement_symbols]
                 else
                  (if state < 27 then
                    [statement_symbols]
                   else
                    [expression_symbols, [anon_sym_otherwiseif]]))))
           else
            (if state < 33 then
              (if state < 30 then
                (if state < 29 then
                  [expression_symbols, [anon_sym_EQ], [sym_type], [anon_sym_as], [sym_identifier], [anon_sym_fixed], [anon_sym_declare_COLON]]
                 else
                  [expression_symbols, [anon_sym_to], [sym_identifier], [anon_sym_set]])
               else
                (if state < 31 then
                  [expression_symbols, [anon_sym_return]]
                 else
                  (if state < 32 then
                    [expression_symbols, [anon_sym_in], [sym_identifier], [anon_sym_foreach]]
                   else
                    [[anon_sym_return]])))
             else
              (if state < 35 then
                (if state < 34 then
                  [expression_symbols, [anon_sym_EQ], [sym_type], [anon_sym_as], [sym_identifier], [anon_sym_declare_COLON]]
                 else
                  [expression_symbols, [anon_sym_while]])
               else
                (if state < 36 then
                  [expression_symbols, [anon_sym_display]]
                 else
                  (if state < 37 then
                    [[sym_identifier], [anon_sym_step_COLON]]
                   else
                    [[sym_identifier], [anon_sym_riser_COLON]]))))))
       else
        (if state < 57 then
          (if state < 47 then
            (if state < 42 then
              (if state < 40 then
                (if state < 39 then
                  [clause_symbols, clause_symbols]
                 else
                  [clause_symbols])
               else
                (if state < 41 then
                  [[sym_parameter]]
                 else
                  [otherwise_if_symbols, expression_symbols, [anon_sym_if]]))
             else
              (if state < 44 then
                (if state < 43 then
                  [[aux_sym_parameter_list_repeat1], [aux_sym_parameter_list_repeat1]]
                 else
                  [[aux_sym_parameter_list_repeat1], [sym_parameter]])
               else
                (if state < 45 then
                  [[aux_sym_argument_list_repeat1], expression_symbols]
                 else
                  (if state < 46 then
                    [[anon_sym_attempt_COLON]]
                   else
                    [type_keywords]))))
           else
            (if state < 52 then
              (if state < 49 then
                (if state < 48 then
                  [[sym_parameter], [anon_sym_COMMA]]
                 else
                  [[sym_type], [anon_sym_as], [sym_identifier]])
               else
                (if state < 50 then
                  [[aux_sym_argument_list_repeat1], [aux_sym_argument_list_repeat1]]
                 else
                  (if state < 51 then
                    [[sym_identifier], [anon_sym_call]]
                   else
                    [otherwise_if_symbols, otherwise_if_symbols])))
             else
              (if state < 54 then
                (if state < 53 then
                  [[sym_parameter_list], [anon_sym_expects_COLON]]
                 else
                  [[sym_type], [anon_sym_returns_COLON]])
               else
                (if state < 55 then
                  [[sym_identifier], [anon_sym_belongsto_COLON]]
                 else
                  (if state < 56 then
                    [[anon_sym_declare_COLON]]
                   else
                    [[sym_if_unsuccessful_clause], [anon_sym_attempt_COLON]])))))
         else
          (if state < 66 then
            (if state < 61 then
              (if state < 59 then
                (if state < 58 then
                  [[sym_with_clause], [sym_identifier], [anon_sym_call]]
                 else
                  [[anon_sym_note_COLON]])
               else
                (if state < 60 then
                  [[sym_type], [anon_sym_as], [sym_identifier], [anon_sym_declare_COLON]]
                 else
                  [type_keywords]))
             else
              (if state < 63 then
                (if state < 62 then
                  [[anon_sym_ifunsuccessful_COLON]]
                 else
                  [[sym_argument_list], [anon_sym_with]])
               else
                (if state < 64 then
                  [[sym_type], [anon_sym_as], [sym_identifier], [anon_sym_fixed], [anon_sym_declare_COLON]]
                 else
                  (if state < 65 then
                    [[anon_sym_thencontinue_COLON]]
                   else
                    [[sym_storing_clause], [sym_with_clause], [sym_identifier], [anon_sym_call]]))))
           else
            (if state < 71 then
              (if state < 68 then
                (if state < 67 then
                  [[sym_otherwise_clause], otherwise_if_symbols, expression_symbols, [anon_sym_if]]
                 else
                  [structure_symbols])
               else
                (if state < 69 then
                  [[sym_step_clauses], [sym_identifier], [anon_sym_step_COLON]]
                 else
                  (if state < 70 then
                    [[sym_step_clauses], [sym_identifier], [anon_sym_riser_COLON]]
                   else
                    [[anon_sym_LBRACK]])))
             else
              (if state < 73 then
                (if state < 72 then
                  [[anon_sym_endnote], [sym_block_comment_content], [anon_sym_noteblock_COLON]]
                 else
                  [[sym_comment_content], [anon_sym_note_COLON]])
               else
                (if state < 74 then
                  [[sym_identifier], [anon_sym_to], expression_symbols, [anon_sym_add]]
                 else
                  (if state < 75 then
                    [[sym_storing_clause], [sym_identifier], [anon_sym_call]]
                   else
                    [[sym_otherwise_clause], expression_symbols, [anon_sym_if]])))))))
     else
      (if state < 114 then
        (if state < 95 then
          (if state < 85 then
            (if state < 80 then
              (if state < 78 then
                (if state < 77 then
                  [[sym_identifier], [anon_sym_storingresultin]]
                 else
                  [[anon_sym_do_COLON]])
               else
                (if state < 79 then
                  [[sym_identifier], [anon_sym_from], expression_symbols, [anon_sym_remove]]
                 else
                  [[anon_sym_endnote], [anon_sym_noteblock_COLON]]))
             else
              (if state < 82 then
                (if state < 81 then
                  [[sym_then_continue_clause], [anon_sym_attempt_COLON]]
                 else
                  [[sym_identifier], [anon_sym_input]])
               else
                (if state < 83 then
                  [[sym_then_continue_clause], [sym_if_unsuccessful_clause], [anon_sym_attempt_COLON]]
                 else
                  (if state < 84 then
                    [[anon_sym_times], expression_symbols, [anon_sym_repeat]]
                   else
                    [[sym_identifier], [anon_sym_floor_COLON]]))))
           else
            (if state < 90 then
              (if state < 87 then
                (if state < 86 then
                  [[sym_identifier], [anon_sym_building_COLON]]
                 else
                  [[anon_sym_otherwise]])
               else
                (if state < 88 then
                  [[anon_sym_with]]
                 else
                  (if state < 89 then
                    [[anon_sym_with]]
                   else
                    [[anon_sym_with]])))
             else
              (if state < 92 then
                (if state < 91 then
                  [[anon_sym_to], [sym_identifier], [anon_sym_set]]
                 else
                  [expression_symbols, [anon_sym_LPAREN]])
               else
                (if state < 93 then
                  [[sym_binary_operator], expression_symbols]
                 else
                  (if state < 94 then
                    [[anon_sym_otherwiseif]]
                   else
                    [[anon_sym_in], [sym_identifier], [anon_sym_foreach]])))))
         else
          (if state < 104 then
            (if state < 99 then
              (if state < 97 then
                (if state < 96 then
                  [[anon_sym_add]]
                 else
                  [[sym_binary_operator], expression_symbols])
               else
                (if state < 98 then
                  [[sym_unary_operator]]
                 else
                  [[anon_sym_remove]]))
             else
              (if state < 101 then
                (if state < 100 then
                  [[anon_sym_LPAREN]]
                 else
                  [expression_symbols, [anon_sym_LBRACK], expression_symbols])
               else
                (if state < 102 then
                  [[anon_sym_LBRACK], expression_symbols]
                 else
                  (if state < 103 then
                    [[sym_unary_operator]]
                   else
                    [[anon_sym_EQ], [sym_type], [anon_sym_as], [sym_identifier], [anon_sym_declare_COLON]]))))
           else
            (if state < 109 then
              (if state < 106 then
                (if state < 105 then
                  [expression_symbols, [anon_sym_repeat]]
                 else
                  [[anon_sym_display]])
               else
                (if state < 107 then
                  [expression_symbols, [anon_sym_add]]
                 else
                  (if state < 108 then
                    [[anon_sym_if]]
                   else
                    [[anon_sym_EQ], [sym_type], [anon_sym_as], [sym_identifier], [anon_sym_fixed], [anon_sym_declare_COLON]])))
             else
              (if state < 111 then
                (if state < 110 then
                  [[anon_sym_repeat]]
                 else
                  [expression_symbols, [anon_sym_remove]])
               else
                (if state < 112 then
                  [[anon_sym_COMMA]]
                 else
                  (if state < 113 then
                    [[anon_sym_while]]
                   else
                    [[anon_sym_noteblock_COLON]]))))))
       else
        (if state < 133 then
          (if state < 123 then
            (if state < 118 then
              (if state < 116 then
                (if state < 115 then
                  [unary_operator_tokens]
                 else
                  [binary_operator_tokens])
               else
                (if state < 117 then
                  [block_comment_symbols, block_comment_symbols]
                 else
                  [block_comment_symbols]))
             else
              (if state < 120 then
                (if state < 119 then
                  [[anon_sym_as], [sym_identifier], [anon_sym_declare_COLON]]
                 else
                  [[anon_sym_returns_COLON]])
               else
                (if state < 121 then
                  [[anon_sym_as], [sym_identifier], [anon_sym_fixed], [anon_sym_declare_COLON]]
                 else
                  (if state < 122 then
                    [[anon_sym_as], [sym_identifier]]
                   else
                    [[anon_sym_DQUOTE]]))))
           else
            (if state < 128 then
              (if state < 125 then
                (if state < 124 then
                  [string_content_symbols, string_content_symbols]
                 else
                  [string_content_symbols])
               else
                (if state < 126 then
                  [[anon_sym_expects_COLON]]
                 else
                  (if state < 127 then
                    [[anon_sym_COMMA]]
                   else
                    [[anon_sym_foreach]])))
             else
              (if state < 130 then
                (if state < 129 then
                  [[anon_sym_set]]
                 else
                  [[sym_source_file]])
               else
                (if state < 131 then
                  [[anon_sym_storingresultin]]
                 else
                  (if state < 132 then
                    [[anon_sym_fixed], [anon_sym_declare_COLON]]
                   else
                    [[sym_identifier], [anon_sym_declare_COLON]])))))
         else
          (if state < 142 then
            (if state < 137 then
              (if state < 135 then
                (if state < 134 then
                  [[sym_string_content], [anon_sym_DQUOTE]]
                 else
                  [[sym_identifier], [anon_sym_foreach]])
               else
                (if state < 136 then
                  [[anon_sym_input]]
                 else
                  [[anon_sym_call]]))
             else
              (if state < 139 then
                (if state < 138 then
                  [[sym_argument_list], [anon_sym_LBRACK]]
                 else
                  [[anon_sym_to], expression_symbols, [anon_sym_add]])
               else
                (if state < 140 then
                  [[anon_sym_riser_COLON]]
                 else
                  (if state < 141 then
                    [[anon_sym_step_COLON]]
                   else
                    [[anon_sym_floor_COLON]]))))
           else
            (if state < 147 then
              (if state < 144 then
                (if state < 143 then
                  [[sym_identifier], [anon_sym_set]]
                 else
                  [[anon_sym_building_COLON]])
               else
                (if state < 145 then
                  [[sym_block_comment_content], [anon_sym_noteblock_COLON]]
                 else
                  (if state < 146 then
                    [[anon_sym_call]]
                   else
                    [[anon_sym_call]])))
             else
              (if state < 149 then
                (if state < 148 then
                  [[sym_identifier]]
                 else
                  [[anon_sym_belongsto_COLON]])
               else
                (if state < 150 then
                  [[anon_sym_from], expression_symbols, [anon_sym_remove]]
                 else
                  (if state < 151 then
                    [[sym_identifier], [anon_sym_fixed], [anon_sym_declare_COLON]]
                   else
                    []))))))))"

text \<open>
  The checks that connect the tables with \<open>grammar\<close> and \<open>state_shape\<close>.  The row of a state
  lists its entries group by group; \<open>transitions\<close> are the symbols under which the state is
  left by a shift or by the state entered after a reduction, \<open>reductions\<close> the reductions
  that it can take.
\<close>

definition state_row :: "TSStateId \<Rightarrow> (table_entry \<times> TSSymbol list) list" where
  "state_row s =
    (if s < LARGE_STATE_COUNT then map (\<lambda>(x, e). (e, [x])) (ts_parse_table s)
     else ts_small_parse_table s)"

fun group_transitions :: "table_entry \<times> TSSymbol list \<Rightarrow> (TSSymbol \<times> TSStateId) list" where
  "group_transitions (STATE t, syms) = map (\<lambda>x. (x, t)) syms"
| "group_transitions (ACTIONS i, syms) =
    (case first_action (ts_parse_actions i) of
       Some (SHIFT t) \<Rightarrow> map (\<lambda>x. (x, t)) syms
     | _ \<Rightarrow> [])"

fun group_reductions :: "table_entry \<times> TSSymbol list \<Rightarrow> (TSSymbol \<times> nat) list" where
  "group_reductions (STATE t, syms) = []"
| "group_reductions (ACTIONS i, syms) =
    (case first_action (ts_parse_actions i) of
       Some (REDUCE lhs n) \<Rightarrow> [(lhs, n)]
     | _ \<Rightarrow> [])"

definition transitions :: "TSStateId \<Rightarrow> (TSSymbol \<times> TSStateId) list" where
  "transitions s = concat (map group_transitions (state_row s))"

definition reductions :: "TSStateId \<Rightarrow> (TSSymbol \<times> nat) list" where
  "reductions s = concat (map group_reductions (state_row s))"

text \<open>
  \<open>fits sh syms\<close>: the symbols \<open>syms\<close> of a stack (top first) begin as the shape \<open>sh\<close> says.
  \<open>covers sh' cand\<close>: whatever begins as \<open>cand\<close> says also begins as \<open>sh'\<close> says.
\<close>

fun fits :: "TSSymbol list list \<Rightarrow> TSSymbol list \<Rightarrow> bool" where
  "fits [] syms = True"
| "fits (S # sh) [] = False"
| "fits (S # sh) (x # syms) = (x \<in> set S \<and> fits sh syms)"

fun covers :: "TSSymbol list list \<Rightarrow> TSSymbol list list \<Rightarrow> bool" where
  "covers [] cand = True"
| "covers (S' # sh') [] = False"
| "covers (S' # sh') (S # cand) = ((S = S' \<or> set S \<subseteq> set S') \<and> covers sh' cand)"

definition state_checked :: "TSStateId \<Rightarrow> bool" where
  "state_checked s =
    (list_all (\<lambda>(x, t). covers (state_shape t) ([x] # state_shape s)) (transitions s) \<and>
     list_all (\<lambda>(lhs, n). n \<le> length (state_shape s) \<and>
                            (lhs, rev (take n (state_shape s))) \<in> set grammar)
       (reductions s))"

text \<open>
  A tree is a derivation of the grammar if the children of every node are, symbol by symbol,
  in the classes of one of the productions of the node's symbol.
\<close>

definition matches :: "TSSymbol list list \<Rightarrow> TSSymbol list \<Rightarrow> bool" where
  "matches rhs syms = list_all2 (\<lambda>S x. x \<in> set S) rhs syms"

definition production_ok :: "TSSymbol \<Rightarrow> TSSymbol list \<Rightarrow> bool" where
  "production_ok lhs syms = list_ex (\<lambda>(l, rhs). l = lhs \<and> matches rhs syms) grammar"

fun tree_ok :: "tree \<Rightarrow> bool" where
  "tree_ok (Leaf s txt) = True"
| "tree_ok (Node s kids) = (production_ok s (map symbol_of kids) \<and> (\<forall>k \<in> set kids. tree_ok k))"

fun stack_symbols :: "parse_stack \<Rightarrow> TSSymbol list" where
  "stack_symbols [] = []"
| "stack_symbols ((s, t) # stack) = symbol_of t # stack_symbols stack"

fun stack_ok :: "parse_stack \<Rightarrow> bool" where
  "stack_ok [] = True"
| "stack_ok ((s, t) # stack) =
    (fits (state_shape s) (stack_symbols ((s, t) # stack)) \<and> tree_ok t \<and> stack_ok stack)"


text \<open>
  The right-hand sides that the grammar gives a symbol, and the symbols whose right-hand
  sides can contain a given symbol.
\<close>

definition productions_of :: "TSSymbol \<Rightarrow> TSSymbol list list list" where
  "productions_of lhs = map snd (filter (\<lambda>(l, rhs). l = lhs) grammar)"


section \<open>A measure for the parse loop\<close>

text \<open>
  Every symbol has a weight such that a reduction makes the symbols on the stack lighter:
  the symbols that the tables reduce from a single child weigh less than their children.
\<close>

definition single_child_symbols :: "TSSymbol list" where
  "single_child_symbols =
    [sym_section_marker, sym_comment, sym_block_comment_content, sym_structure_definition,
     sym_step_clauses, sym_parameter_list, sym_type, sym_return_statement,
     sym_otherwise_clause, sym_attempt_statement, sym_if_unsuccessful_clause,
     sym_then_continue_clause, sym_string_content, sym_boolean, sym_binary_operator,
     sym_unary_operator]"

definition weight :: "TSSymbol \<Rightarrow> nat" where
  "weight x =
    (if x = sym_source_file \<or> x = sym_argument_list then 1
     else if x \<in> set single_child_symbols then 2
     else 3)"

definition class_weight :: "TSSymbol list \<Rightarrow> nat" where
  "class_weight S = fold (\<lambda>x m. min (weight x) m) S 3"

definition production_shrinks :: "TSSymbol \<times> TSSymbol list list \<Rightarrow> bool" where
  "production_shrinks p =
    (snd p = [] \<or> weight (fst p) < sum_list (map class_weight (snd p)))"

definition stack_weight :: "parse_stack \<Rightarrow> nat" where
  "stack_weight stack = sum_list (map weight (stack_symbols stack))"

text \<open>
  The measure of a configuration: the characters of the lookahead token and behind it;
  whether the lookahead token is empty without being the end of the input; whether the
  parser is in its start state; and the weight of the stack.  Every step of the loop makes
  it smaller in the lexicographic order.
\<close>

fun chars_left :: "config \<Rightarrow> nat" where
  "chars_left (stack, (symbol, tx), rest) = length tx + length rest"

fun empty_lookahead :: "config \<Rightarrow> nat" where
  "empty_lookahead (stack, (symbol, tx), rest) =
    (if tx = [] \<and> symbol \<noteq> ts_builtin_sym_end then 1 else 0)"

fun in_start_state :: "config \<Rightarrow> nat" where
  "in_start_state (stack, la, rest) = (if top_state stack = 1 then 1 else 0)"

fun weight_of_stack :: "config \<Rightarrow> nat" where
  "weight_of_stack (stack, la, rest) = stack_weight stack"

definition config_measures :: "(config \<Rightarrow> nat) list" where
  "config_measures = [chars_left, empty_lookahead, in_start_state, weight_of_stack]"

text \<open>
  The configurations that the loop meets: the stack fits the shapes, and an empty lookahead
  token is the end of the input or the content of a comment.
\<close>

fun config_ok :: "config \<Rightarrow> bool" where
  "config_ok (stack, (symbol, tx), rest) =
    (stack_ok stack \<and>
     (tx = [] \<longrightarrow> symbol = ts_builtin_sym_end \<or> symbol = sym_comment_content))"

text \<open>
  What makes a lexer return, and return a token that is not empty: a \<^verbatim>\<open>SKIP\<close> leads to a
  state that accepts nothing, and a move that can be made at the end of the input leads to a
  state that accepts nothing or the symbol \<open>e\<close> and that has no move at the end of the input.
\<close>

definition lexer_step_ok :: "(TSStateId \<Rightarrow> lex_case) \<Rightarrow> TSSymbol \<Rightarrow> TSStateId \<Rightarrow> bool" where
  "lexer_step_ok f e st =
    list_all (\<lambda>(c, mv).
        (case mv of SKIP t \<Rightarrow> fst (f t) = None | ADVANCE t \<Rightarrow> True) \<and>
        (if cond_holds c True 0
         then (fst (f (move_target mv)) = None \<or> fst (f (move_target mv)) = Some e) \<and>
              first_move (snd (f (move_target mv))) True 0 = None
         else True))
      (snd (f st))"

text \<open>
  A token that the lexer returns is not empty, unless it is the symbol \<open>e\<close> or the symbol
  \<open>z\<close> that the state in which the lexer starts accepts; and it ends inside the input.
\<close>

definition token_ok :: "TSSymbol \<Rightarrow> TSSymbol \<Rightarrow> nat \<Rightarrow> lex_result \<Rightarrow> bool" where
  "token_ok e z bound r =
    (case r of NoToken \<Rightarrow> True | Token x a b \<Rightarrow> (a < b \<or> x = e \<or> x = z) \<and> b \<le> bound)"

text \<open>The states in which \<^verbatim>\<open>ts_lex\<close> is started: the values of \<^verbatim>\<open>ts_lex_modes\<close>.\<close>

definition lexer_modes :: "TSStateId list" where
  "lexer_modes = [360, 266, 265, 264, 263, 262, 261, 260, 259, 258, 257, 252, 69, 21, 20, 19, 0]"

section \<open>Notions for the properties of the lexer\<close>

text \<open>
  The text that the lexer has consumed when it is in one of the states of a string literal
  (states 20, 253, 444, 441, 442 and 443 of \<^verbatim>\<open>ts_lex\<close>): nothing in the start state, the
  backslash in state 253, the backslash and one of \<^verbatim>\<open>" \ n r t\<close> in state 444, the quote in
  state 441, and text without backslash and quote in the states of string content.
\<close>

definition double_quote :: lookahead where
  "double_quote = of_char CHR 0x22"

definition string_lexer_text :: "TSStateId \<Rightarrow> lookahead list \<Rightarrow> bool" where
  "string_lexer_text st w =
    (if st = 20 then w = []
     else if st = 253 then w = [backslash]
     else if st = 444 then (\<exists>c \<in> set escape_chars. w = [backslash, c])
     else if st = 441 then w = [double_quote]
     else if st = 442 \<or> st = 443 then w \<noteq> [] \<and> backslash \<notin> set w \<and> double_quote \<notin> set w
     else False)"

text \<open>
  \<open>token_text_ok G f whole r\<close>: the token \<open>r\<close> starts at the cursor, ends inside \<open>whole\<close>, and
  its text is one that \<open>G\<close> allows in a state that accepts its symbol.
\<close>

definition token_text_ok ::
  "(TSStateId \<Rightarrow> lookahead list \<Rightarrow> bool) \<Rightarrow> (TSStateId \<Rightarrow> lex_case) \<Rightarrow> lookahead list \<Rightarrow>
   lex_result \<Rightarrow> bool" where
  "token_text_ok G f whole r =
    (case r of
       NoToken \<Rightarrow> True
     | Token x a b \<Rightarrow>
         a = 0 \<and> b \<le> length whole \<and> (\<exists>st. G st (take b whole) \<and> fst (f st) = Some x))"

text \<open>\<open>ends_before pos r\<close>: the token \<open>r\<close>, if there is one, ends before the position \<open>pos\<close>.\<close>

definition ends_before :: "nat \<Rightarrow> lex_result \<Rightarrow> bool" where
  "ends_before pos r = (case r of NoToken \<Rightarrow> True | Token x a b \<Rightarrow> b < pos)"

section \<open>Recovery\<close>

text \<open>
  The loop of the parser once more, returning the configuration in which it stops together
  with the result.
\<close>

partial_function (option) final_config :: "config \<Rightarrow> (config \<times> (parse_error + tree)) option" where
  "final_config c =
    (case parse_step c of
       None \<Rightarrow> None
     | Some (Done r) \<Rightarrow> Some (c, r)
     | Some (Continue c') \<Rightarrow> final_config c')"

text \<open>
  Modelled from the spec: a token starts a statement when the parser shifts it in its start
  state (the leading keyword determines the statement).
\<close>

definition statement_start :: "TSSymbol \<Rightarrow> bool" where
  "statement_start x = (case action_taken 1 x of Some (SHIFT s) \<Rightarrow> True | _ \<Rightarrow> False)"

text \<open>
  Modelled from the spec: panic-mode recovery skips tokens until a statement-starting
  keyword or a \<^verbatim>\<open>NEWLINE\<close> is found.  The tokens are read with the lexer of the error state 0,
  which knows every token; a character with which no token starts is skipped.  The result
  is the input at which parsing resumes: at the statement-starting keyword, or behind the
  \<^verbatim>\<open>NEWLINE\<close>; it is \<open>None\<close> when the input ends first.  With \<open>first\<close> the first token is
  skipped whatever it is.
\<close>

partial_function (option) skip_tokens :: "bool \<Rightarrow> lookahead list \<Rightarrow> lookahead list option option" where
  "skip_tokens first inp =
    (case ts_parser_lex 0 inp of
       None \<Rightarrow> None
     | Some LexFail \<Rightarrow> (case inp of [] \<Rightarrow> Some None | c # inp' \<Rightarrow> skip_tokens False inp')
     | Some (Lexed x tx rest) \<Rightarrow>
         if x = ts_builtin_sym_end then Some None
         else if x = sym__newline then Some (Some rest)
         else if \<not> first \<and> statement_start x then Some (Some inp)
         else skip_tokens False rest)"

text \<open>
  Modelled from the spec: the Program is partial when the input is invalid.  Of a stack
  that the parser leaves behind, the statements that are complete are kept: the trees from
  the bottom of the stack that are statements (or the hidden repetition of statements).
\<close>

definition completed :: "parse_stack \<Rightarrow> tree list" where
  "completed stack = takeWhile (\<lambda>t. symbol_of t \<in> set statement_symbols) (rev (map snd stack))"

text \<open>
  Modelled from the spec: one run of the parser, from the start state.  It ends with the
  tree of the input, or with a diagnostic, the statements completed before it and the input
  at which the parser stopped: at the lookahead token for a syntax error, and where no
  token could be read for a lexical error (the token shifted last is then on the stack).
\<close>

datatype segment = Accepted tree | Failed parse_error "tree list" "lookahead list"

fun segment_of :: "config \<times> (parse_error + tree) \<Rightarrow> segment" where
  "segment_of (c, Inr t) = Accepted t"
| "segment_of ((stack, (x, tx), rest), Inl (SyntaxError s y)) =
    Failed (SyntaxError s y) (completed stack) (tx @ rest)"
| "segment_of ((stack, (x, tx), rest), Inl (LexicalError s inp)) =
    Failed (LexicalError s inp) (completed ((s, Leaf x tx) # stack)) rest"

definition parse_segment :: "lookahead list \<Rightarrow> segment option" where
  "parse_segment src =
    (case ts_parser_lex 1 src of
       None \<Rightarrow> None
     | Some LexFail \<Rightarrow> Some (Failed (LexicalError 1 src) [] src)
     | Some (Lexed x tx rest) \<Rightarrow> map_option segment_of (final_config ([], (x, tx), rest)))"

text \<open>
  Modelled from the spec: \<^verbatim>\<open>parse(source) -> (Program, diagnostics)\<close>.  After an error the
  parser reports the diagnostic, resynchronizes and resumes with the next statement; the
  statements of all runs are the top level of the Program.  When the parser stopped at the
  very token with which the run began, that token is skipped first.  When the input ends
  while tokens are skipped, the diagnostic is the last one.
\<close>

partial_function (option) parse_lines ::
  "tree list \<Rightarrow> parse_error list \<Rightarrow> lookahead list \<Rightarrow> (tree list \<times> parse_error list) option" where
  "parse_lines items diags src =
    (case parse_segment src of
       None \<Rightarrow> None
     | Some (Accepted t) \<Rightarrow> Some (items @ children t, diags)
     | Some (Failed e finished inp) \<Rightarrow>
         (case skip_tokens (length src \<le> length inp) inp of
            None \<Rightarrow> None
          | Some None \<Rightarrow> Some (items @ finished, diags @ [e])
          | Some (Some src') \<Rightarrow> parse_lines (items @ finished) (diags @ [e]) src'))"

definition parse_program :: "lookahead list \<Rightarrow> (tree \<times> parse_error list) option" where
  "parse_program src =
    map_option (\<lambda>(items, diags). (Node sym_source_file items, diags)) (parse_lines [] [] src)"

text \<open>The Program of a text, as its users see it, and the diagnostics.\<close>

definition program_text :: "string \<Rightarrow> (tree list \<times> parse_error list) option" where
  "program_text s = map_option (\<lambda>(t, diags). (visible_trees t, diags)) (parse_program (codes s))"

text \<open>What holds of every statement at the top level of a Program.\<close>

definition item_ok :: "tree \<Rightarrow> bool" where
  "item_ok t = (tree_ok t \<and> symbol_of t \<in> set statement_symbols)"

declare final_config.simps [code]
declare skip_tokens.simps [code]
declare parse_lines.simps [code]

section \<open>Basic facts\<close>

subsection \<open>Running the lexer, one character at a time\<close>

lemma run_lexer_Nil:
  "run_lexer f st [] pos start res =
    (case first_move (snd (f st)) True 0 of
       None \<Rightarrow> Some (case fst (f st) of None \<Rightarrow> res | Some s \<Rightarrow> Token s start pos)
     | Some (ADVANCE s') \<Rightarrow>
         run_lexer f s' [] pos start
           (case fst (f st) of None \<Rightarrow> res | Some s \<Rightarrow> Token s start pos)
     | Some (SKIP s') \<Rightarrow>
         run_lexer f s' [] pos pos
           (case fst (f st) of None \<Rightarrow> res | Some s \<Rightarrow> Token s start pos))"
  by (subst run_lexer.simps) (simp add: Let_def split: option.split lex_move.split)

lemma run_lexer_Cons:
  "run_lexer f st (c # cs) pos start res =
    (case first_move (snd (f st)) False c of
       None \<Rightarrow> Some (case fst (f st) of None \<Rightarrow> res | Some s \<Rightarrow> Token s start pos)
     | Some (ADVANCE s') \<Rightarrow>
         run_lexer f s' cs (pos + 1) start
           (case fst (f st) of None \<Rightarrow> res | Some s \<Rightarrow> Token s start pos)
     | Some (SKIP s') \<Rightarrow>
         run_lexer f s' cs (pos + 1) (pos + 1)
           (case fst (f st) of None \<Rightarrow> res | Some s \<Rightarrow> Token s start pos))"
  by (subst run_lexer.simps) (simp add: Let_def split: option.split lex_move.split)

lemma run_lexer_final:
  "snd (f st) = [] \<Longrightarrow> run_lexer f st inp pos start res =
     Some (case fst (f st) of None \<Rightarrow> res | Some s \<Rightarrow> Token s start pos)"
  by (subst run_lexer.simps) (simp add: Let_def)

subsection \<open>Following the automaton over a known text\<close>

lemma run_walk:
  "walk f st w pos start res = Some (st', pos', start', res') \<Longrightarrow>
   run_lexer f st (w @ rest) pos start res = run_lexer f st' rest pos' start' res'"
proof (induction w arbitrary: st pos start res)
  case Nil
  then show ?case by simp
next
  case (Cons c cs)
  show ?case
  proof (cases "first_move (snd (f st)) False c")
    case None
    with Cons.prems show ?thesis by simp
  next
    case (Some mv)
    with Cons.prems Cons.IH show ?thesis
      by (cases mv) (simp_all add: run_lexer_Cons)
  qed
qed

lemma only_move_Some:
  "only_move r = Some (c, s) \<Longrightarrow> r = (None, [(AnyOf [Ch c], ADVANCE s)])"
  by (auto simp add: only_move_def split: prod.splits option.splits list.splits lex_cond.splits
        char_test.splits lex_move.splits)

lemma run_spells:
  "spells f st w st' \<Longrightarrow>
   run_lexer f st inp pos start res =
     (if take (length w) inp = map of_char w
      then run_lexer f st' (drop (length w) inp) (pos + length w) start res
      else Some res)"
proof (induction w arbitrary: st inp pos)
  case Nil
  then show ?case by simp
next
  case (Cons c cs)
  from Cons.prems obtain mid where om: "only_move (f st) = Some (c, mid)"
    and c: "c \<noteq> CHR 0x00" and sp: "spells f mid cs st'"
    by (auto split: option.splits)
  have row: "f st = (None, [(AnyOf [Ch c], ADVANCE mid)])" by (rule only_move_Some[OF om])
  have "of_char c \<noteq> (of_char CHR 0x00 :: nat)" using c by (simp only: of_char_eq_iff) simp
  then have c0: "of_char c \<noteq> (0::nat)" by simp
  show ?case
  proof (cases inp)
    case Nil
    with row c0 show ?thesis by (simp add: run_lexer_Nil)
  next
    case (Cons x xs)
    show ?thesis
    proof (cases "x = of_char c")
      case True
      with Cons row Cons.IH[OF sp, of xs "pos + 1"] show ?thesis
        by (simp add: run_lexer_Cons)
    next
      case False
      with Cons row show ?thesis by (simp add: run_lexer_Cons)
    qed
  qed
qed

subsection \<open>Tokens that a lexer cannot return\<close>

text \<open>
  If a set of lexer states is closed under the moves of the automaton and none of its states
  accepts the symbol \<open>k\<close>, then a run that starts in the set never returns \<open>k\<close>.
  (\<open>N\<close> is the complement of that set.)
\<close>

lemma first_move_in: "first_move moves eof la = Some mv \<Longrightarrow> mv \<in> snd ` set moves"
  by (induction moves) (auto split: if_splits)

lemma run_lexer_avoid_aux:
  assumes closed: "\<And>st mv. st \<notin> N \<Longrightarrow> mv \<in> snd ` set (snd (f st)) \<Longrightarrow> move_target mv \<notin> N"
      and acc: "\<And>st. st \<notin> N \<Longrightarrow> fst (f st) \<noteq> Some k"
      and run: "run_lexer f0 st0 inp0 pos0 start0 res0 = Some r0"
  shows "f0 = f \<longrightarrow> st0 \<notin> N \<longrightarrow> (\<forall>a b. res0 \<noteq> Token k a b) \<longrightarrow> (\<forall>a b. r0 \<noteq> Token k a b)"
proof (rule run_lexer.raw_induct[where P = "\<lambda>f' st inp pos start res r.
         f' = f \<longrightarrow> st \<notin> N \<longrightarrow> (\<forall>a b. res \<noteq> Token k a b) \<longrightarrow> (\<forall>a b. r \<noteq> Token k a b)", OF _ run])
  fix rl :: "(TSStateId \<Rightarrow> lex_case) \<Rightarrow> TSStateId \<Rightarrow> lookahead list \<Rightarrow> nat \<Rightarrow> nat \<Rightarrow> lex_result \<Rightarrow> lex_result option"
  fix f' st inp pos start res r
  assume IH: "\<And>f'' st inp pos start res r. rl f'' st inp pos start res = Some r \<Longrightarrow>
         f'' = f \<longrightarrow> st \<notin> N \<longrightarrow> (\<forall>a b. res \<noteq> Token k a b) \<longrightarrow> (\<forall>a b. r \<noteq> Token k a b)"
  assume body0: "(let eof = inp = []; la = case inp of [] \<Rightarrow> 0 | c # x \<Rightarrow> c;
          pos' = if eof then pos else pos + 1;
          result' = case fst (f' st) of None \<Rightarrow> res | Some s \<Rightarrow> Token s start pos
      in case first_move (snd (f' st)) eof la of None \<Rightarrow> Some result'
         | Some (ADVANCE s) \<Rightarrow> rl f' s (tl inp) pos' start result'
         | Some (SKIP s) \<Rightarrow> rl f' s (tl inp) pos' pos' result') = Some r"
  show "f' = f \<longrightarrow> st \<notin> N \<longrightarrow> (\<forall>a b. res \<noteq> Token k a b) \<longrightarrow> (\<forall>a b. r \<noteq> Token k a b)"
  proof (intro impI)
    assume f: "f' = f" and st: "st \<notin> N" and res: "\<forall>a b. res \<noteq> Token k a b"
    let ?res' = "case fst (f st) of None \<Rightarrow> res | Some s \<Rightarrow> Token s start pos"
    let ?pos' = "if inp = [] then pos else pos + 1"
    have res': "\<forall>a b. ?res' \<noteq> Token k a b"
      using res acc[OF st] by (auto split: option.splits)
    have body: "(case first_move (snd (f st)) (inp = []) (case inp of [] \<Rightarrow> 0 | c # x \<Rightarrow> c) of
                  None \<Rightarrow> Some ?res'
                | Some (ADVANCE s) \<Rightarrow> rl f s (tl inp) ?pos' start ?res'
                | Some (SKIP s) \<Rightarrow> rl f s (tl inp) ?pos' ?pos' ?res') = Some r"
      using body0 by (simp only: f Let_def)
    show "\<forall>a b. r \<noteq> Token k a b"
    proof (cases "first_move (snd (f st)) (inp = []) (case inp of [] \<Rightarrow> 0 | c # x \<Rightarrow> c)")
      case None
      with body have "r = ?res'" by simp
      with res' show ?thesis by simp
    next
      case (Some mv)
      have tgt: "move_target mv \<notin> N"
        by (rule closed[OF st first_move_in[OF Some]])
      show ?thesis
      proof (cases mv)
        case (ADVANCE s')
        with Some body have "rl f s' (tl inp) ?pos' start ?res' = Some r" by simp
        from IH[OF this] tgt ADVANCE res' show ?thesis by simp
      next
        case (SKIP s')
        with Some body have "rl f s' (tl inp) ?pos' ?pos' ?res' = Some r" by simp
        from IH[OF this] tgt SKIP res' show ?thesis by simp
      qed
    qed
  qed
qed

lemma run_lexer_avoid:
  assumes run: "run_lexer f st inp pos start res = Some r"
      and closed: "\<And>st mv. st \<notin> N \<Longrightarrow> mv \<in> snd ` set (snd (f st)) \<Longrightarrow> move_target mv \<notin> N"
      and acc: "\<And>st. st \<notin> N \<Longrightarrow> fst (f st) \<noteq> Some k"
      and st: "st \<notin> N" and res: "\<forall>a b. res \<noteq> Token k a b"
  shows "r \<noteq> Token k a b"
proof -
  have "f = f \<longrightarrow> st \<notin> N \<longrightarrow> (\<forall>a b. res \<noteq> Token k a b) \<longrightarrow> (\<forall>a b. r \<noteq> Token k a b)"
    using closed acc run by (rule run_lexer_avoid_aux[where N = N and f = f and k = k])
  with st res show ?thesis by blast
qed

lemma ts_lex_out_of_range: "612 \<le> st \<Longrightarrow> ts_lex st = (None, [])"
  by (simp add: ts_lex_def)

lemma ts_lex_keywords_out_of_range: "78 \<le> st \<Longrightarrow> ts_lex_keywords st = (None, [])"
  by (simp add: ts_lex_keywords_def)

subsection \<open>Quantifying over the states\<close>

lemma small_table_out_of_range: "STATE_COUNT \<le> s \<Longrightarrow> ts_small_parse_table s = []"
  by (simp add: ts_small_parse_table_def)

lemma actions_out_of_range: "STATE_COUNT \<le> s \<Longrightarrow> actions_for s x = []"
  using small_table_out_of_range[of s]
  by (simp add: actions_for_def ts_language_lookup_def)

lemma counts_down_set: "counts_down xs n \<Longrightarrow> set xs = {..<n}"
  by (induction xs arbitrary: n) (auto simp add: lessThan_Suc)

lemma all_states_set: "set all_states = {..<STATE_COUNT}"
proof -
  have "counts_down all_states 151" by code_simp
  then show ?thesis by (simp add: counts_down_set)
qed

lemma keyword_states_set: "set keyword_states = {..<78}"
proof -
  have "counts_down keyword_states 78" by code_simp
  then show ?thesis by (simp add: counts_down_set)
qed

lemma lex_states_set: "set lex_states = {..<612}"
proof -
  have "counts_down lex_states 612" by code_simp
  then show ?thesis by (simp add: counts_down_set)
qed

lemma state_cases:
  assumes "list_all P all_states" and "\<And>s. STATE_COUNT \<le> s \<Longrightarrow> P s"
  shows "P s"
proof (cases "s < STATE_COUNT")
  case True
  then have "s \<in> set all_states" by (simp add: all_states_set)
  with assms(1) show ?thesis by (simp add: list_all_iff)
next
  case False
  then show ?thesis using assms(2) by simp
qed

lemma lex_state_cases:
  assumes "list_all P lex_states" and "P' (None, [])" and "\<And>st. P st = P' (ts_lex st)"
  shows "P st"
proof (cases "st < 612")
  case True
  then have "st \<in> set lex_states" by (simp add: lex_states_set)
  with assms(1) show ?thesis by (simp add: list_all_iff)
next
  case False
  then show ?thesis using assms(2,3) by (simp add: ts_lex_out_of_range)
qed

lemma keyword_state_cases:
  assumes "list_all P keyword_states" and "P' (None, [])"
      and "\<And>st. P st = P' (ts_lex_keywords st)"
  shows "P st"
proof (cases "st < 78")
  case True
  then have "st \<in> set keyword_states" by (simp add: keyword_states_set)
  with assms(1) show ?thesis by (simp add: list_all_iff)
next
  case False
  then show ?thesis using assms(2,3) by (simp add: ts_lex_keywords_out_of_range)
qed

section \<open>Every tree of the parser is a derivation of the grammar\<close>

subsection \<open>The tables agree with the grammar\<close>

lemma state_shape_start: "state_shape 1 = []"
  by (simp add: state_shape_def)

lemma state_shape_error: "state_shape 0 = []"
  by (simp add: state_shape_def)

lemma checked_enum: "list_all state_checked all_states"
  by code_simp

lemma all_checked: "state_checked s"
proof (rule state_cases[where P = state_checked])
  show "list_all state_checked all_states" by (rule checked_enum)
next
  fix s assume "STATE_COUNT \<le> s"
  then have "state_row s = []"
    using small_table_out_of_range[of s] by (simp add: state_row_def)
  then show "state_checked s"
    by (simp add: state_checked_def transitions_def reductions_def)
qed

subsection \<open>Rows, transitions and reductions\<close>

lemma small_lookup_in:
  "small_lookup row x = Some e \<Longrightarrow> \<exists>syms. (e, syms) \<in> set row \<and> x \<in> set syms"
  by (induction row x rule: small_lookup.induct) (auto split: if_splits)

lemma lookup_in_row:
  assumes "ts_language_lookup s x = Some e"
  shows "\<exists>syms. (e, syms) \<in> set (state_row s) \<and> x \<in> set syms"
proof (cases "s < LARGE_STATE_COUNT")
  case True
  then have "map_of (ts_parse_table s) x = Some e"
    using assms by (simp add: ts_language_lookup_def)
  then have "(x, e) \<in> set (ts_parse_table s)" by (rule map_of_SomeD)
  then have "(e, [x]) \<in> set (state_row s)" using True by (force simp add: state_row_def)
  then show ?thesis by force
next
  case False
  then have "small_lookup (ts_small_parse_table s) x = Some e"
    using assms by (simp add: ts_language_lookup_def)
  then show ?thesis using False small_lookup_in by (simp add: state_row_def)
qed

lemma first_action_Nil: "first_action [] = None"
  by (simp add: first_action_def)

lemma action_taken_entry:
  assumes "action_taken s x = Some a"
  shows "\<exists>i. ts_language_lookup s x = Some (ACTIONS i) \<and> first_action (ts_parse_actions i) = Some a"
  using assms
  by (auto simp add: action_taken_def actions_for_def first_action_Nil
      split: option.splits table_entry.splits)

lemma shift_in_transitions:
  assumes "action_taken s x = Some (SHIFT t)"
  shows "(x, t) \<in> set (transitions s)"
proof -
  obtain i where l: "ts_language_lookup s x = Some (ACTIONS i)"
    and a: "first_action (ts_parse_actions i) = Some (SHIFT t)"
    using action_taken_entry[OF assms] by blast
  obtain syms where r: "(ACTIONS i, syms) \<in> set (state_row s)" and x: "x \<in> set syms"
    using lookup_in_row[OF l] by blast
  have "(x, t) \<in> set (group_transitions (ACTIONS i, syms))" using x by (simp add: a)
  moreover have "group_transitions (ACTIONS i, syms) \<in> set (map group_transitions (state_row s))"
    unfolding set_map using r by (rule imageI)
  ultimately show ?thesis unfolding transitions_def set_concat by blast
qed

lemma goto_in_transitions:
  assumes "ts_language_lookup s x = Some (STATE t)"
  shows "(x, t) \<in> set (transitions s)"
proof -
  obtain syms where r: "(STATE t, syms) \<in> set (state_row s)" and x: "x \<in> set syms"
    using lookup_in_row[OF assms] by blast
  have "(x, t) \<in> set (group_transitions (STATE t, syms))" using x by simp
  moreover have "group_transitions (STATE t, syms) \<in> set (map group_transitions (state_row s))"
    unfolding set_map using r by (rule imageI)
  ultimately show ?thesis unfolding transitions_def set_concat by blast
qed

lemma reduce_in_reductions:
  assumes "action_taken s x = Some (REDUCE lhs n)"
  shows "(lhs, n) \<in> set (reductions s)"
proof -
  obtain i where l: "ts_language_lookup s x = Some (ACTIONS i)"
    and a: "first_action (ts_parse_actions i) = Some (REDUCE lhs n)"
    using action_taken_entry[OF assms] by blast
  obtain syms where r: "(ACTIONS i, syms) \<in> set (state_row s)"
    using lookup_in_row[OF l] by blast
  have "(lhs, n) \<in> set (group_reductions (ACTIONS i, syms))" by (simp add: a)
  moreover have "group_reductions (ACTIONS i, syms) \<in> set (map group_reductions (state_row s))"
    unfolding set_map using r by (rule imageI)
  ultimately show ?thesis unfolding reductions_def set_concat by blast
qed

subsection \<open>Shapes\<close>

lemma fits_covers:
  "covers sh' cand \<Longrightarrow> fits cand syms \<Longrightarrow> fits sh' syms"
proof (induction sh' cand arbitrary: syms rule: covers.induct)
  case (1 cand)
  then show ?case by simp
next
  case (2 S' sh')
  then show ?case by simp
next
  case (3 S' sh' S cand)
  then show ?case by (cases syms) auto
qed

lemma fits_take:
  "fits sh syms \<Longrightarrow> n \<le> length sh \<Longrightarrow> matches (take n sh) (take n syms)"
proof (induction sh syms arbitrary: n rule: fits.induct)
  case (1 syms)
  then show ?case by (simp add: matches_def)
next
  case (2 S sh)
  then show ?case by simp
next
  case (3 S sh x syms)
  then show ?case by (cases n) (auto simp add: matches_def)
qed

lemma matches_rev: "matches rhs syms \<Longrightarrow> matches (rev rhs) (rev syms)"
  by (simp add: matches_def)

lemma fits_length: "fits sh syms \<Longrightarrow> length sh \<le> length syms"
  by (induction sh syms rule: fits.induct) auto

subsection \<open>Stacks\<close>

lemma stack_symbols_map: "stack_symbols stack = map (symbol_of \<circ> snd) stack"
  by (induction stack rule: stack_symbols.induct) auto

lemma stack_ok_drop: "stack_ok stack \<Longrightarrow> stack_ok (drop n stack)"
proof (induction stack arbitrary: n)
  case Nil
  then show ?case by simp
next
  case (Cons a stack)
  then show ?case by (cases n; cases a) auto
qed

lemma stack_ok_trees: "stack_ok stack \<Longrightarrow> (s, t) \<in> set stack \<Longrightarrow> tree_ok t"
  by (induction stack rule: stack_ok.induct) auto

lemma top_fits:
  assumes "stack_ok stack"
  shows "fits (state_shape (top_state stack)) (stack_symbols stack)"
proof (cases stack)
  case Nil
  then show ?thesis by (simp only: top_state.simps stack_symbols.simps state_shape_start fits.simps)
next
  case (Cons a stack')
  then show ?thesis using assms by (cases a) simp
qed

lemma production_okI:
  "(lhs, rhs) \<in> set grammar \<Longrightarrow> matches rhs syms \<Longrightarrow> production_ok lhs syms"
  unfolding production_ok_def list_ex_iff by force

lemma reduce_tree_ok:
  assumes ok: "stack_ok stack" and chk: "state_checked (top_state stack)"
    and red: "action_taken (top_state stack) x = Some (REDUCE lhs n)"
  shows "tree_ok (Node lhs (rev (map snd (take n stack))))"
proof -
  let ?sh = "state_shape (top_state stack)"
  have "(lhs, n) \<in> set (reductions (top_state stack))" by (rule reduce_in_reductions[OF red])
  then have n: "n \<le> length ?sh" and g: "(lhs, rev (take n ?sh)) \<in> set grammar"
    using chk unfolding state_checked_def list_all_iff by auto
  have "matches (take n ?sh) (take n (stack_symbols stack))"
    by (rule fits_take[OF top_fits[OF ok] n])
  then have "matches (rev (take n ?sh)) (rev (take n (stack_symbols stack)))"
    by (rule matches_rev)
  moreover have "rev (take n (stack_symbols stack)) =
      map symbol_of (rev (map snd (take n stack)))"
    by (simp add: stack_symbols_map rev_map take_map)
  ultimately have "production_ok lhs (map symbol_of (rev (map snd (take n stack))))"
    using production_okI[OF g] by simp
  moreover have "\<forall>k \<in> set (rev (map snd (take n stack))). tree_ok k"
    using stack_ok_trees[OF ok] by (auto dest!: in_set_takeD)
  ultimately show ?thesis by simp
qed

lemma push_fits:
  assumes ok: "stack_ok stack" and chk: "state_checked (top_state stack)"
    and tr: "(x, t) \<in> set (transitions (top_state stack))"
  shows "fits (state_shape t) (x # stack_symbols stack)"
proof -
  have "covers (state_shape t) ([x] # state_shape (top_state stack))"
    using chk tr unfolding state_checked_def list_all_iff by auto
  moreover have "fits ([x] # state_shape (top_state stack)) (x # stack_symbols stack)"
    using top_fits[OF ok] by simp
  ultimately show ?thesis by (rule fits_covers)
qed

lemma goto_fits:
  assumes ok: "stack_ok stack" and chk: "state_checked (top_state stack)"
  shows "fits (state_shape (next_state (top_state stack) lhs)) (lhs # stack_symbols stack)"
proof (cases "\<exists>t. ts_language_lookup (top_state stack) lhs = Some (STATE t)")
  case True
  then obtain t where l: "ts_language_lookup (top_state stack) lhs = Some (STATE t)" by blast
  then have "next_state (top_state stack) lhs = t" by (simp add: next_state_def)
  then show ?thesis using push_fits[OF ok chk goto_in_transitions[OF l]] by simp
next
  case False
  then have "next_state (top_state stack) lhs = 0"
    by (auto simp add: next_state_def split: option.splits table_entry.splits)
  then show ?thesis by (simp add: state_shape_error)
qed

lemma parse_step_ok:
  assumes ok: "stack_ok stack" and step: "parse_step (stack, (x, tx), rest) = Some r"
  shows "case r of Continue (stack', la', rest') \<Rightarrow> stack_ok stack'
         | Done (Inr t) \<Rightarrow> tree_ok t | Done (Inl e) \<Rightarrow> True"
proof (cases "action_taken (top_state stack) x")
  case None
  then show ?thesis using step by auto
next
  case (Some a)
  have chk: "state_checked (top_state stack)" by (rule all_checked)
  show ?thesis
  proof (cases a)
    case (SHIFT t)
    have "fits (state_shape t) (x # stack_symbols stack)"
      using push_fits[OF ok chk shift_in_transitions] Some SHIFT by simp
    then show ?thesis using step Some SHIFT ok
      by (auto split: option.splits lexed.splits)
  next
    case (SHIFT_REPEAT t)
    then show ?thesis using step Some by auto
  next
    case (REDUCE lhs n)
    have below: "stack_ok (drop n stack)" by (rule stack_ok_drop[OF ok])
    have chk': "state_checked (top_state (drop n stack))" by (rule all_checked)
    have t: "tree_ok (Node lhs (rev (map snd (take n stack))))"
      using reduce_tree_ok[OF ok chk] Some REDUCE by simp
    have "fits (state_shape (next_state (top_state (drop n stack)) lhs))
            (lhs # stack_symbols (drop n stack))"
      by (rule goto_fits[OF below chk'])
    then show ?thesis using step Some REDUCE below t by (auto simp add: Let_def)
  next
    case RECOVER
    then show ?thesis using step Some by auto
  next
    case ACCEPT_INPUT
    then show ?thesis using step Some ok by (cases stack) auto
  qed
qed



subsection \<open>What the grammar says about a node\<close>


lemma production_ok_in:
  "production_ok lhs syms \<Longrightarrow> \<exists>rhs \<in> set (productions_of lhs). matches rhs syms"
  unfolding production_ok_def productions_of_def list_ex_iff by force



lemma matches_single: "matches [[a]] syms \<Longrightarrow> syms = [a]"
  by (auto simp add: matches_def list_all2_Cons1)




lemma reductions_out_of_range: "STATE_COUNT \<le> s \<Longrightarrow> reductions s = []"
  using small_table_out_of_range[of s] by (simp add: reductions_def state_row_def)

section \<open>The parser returns on every input\<close>

subsection \<open>What the tables contribute\<close>

lemma ts_lex_step_ok_enum: "list_all (lexer_step_ok ts_lex ts_builtin_sym_end) lex_states"
  by code_simp

lemma ts_lex_step_ok: "lexer_step_ok ts_lex ts_builtin_sym_end st"
proof (cases "st < 612")
  case True
  then have "st \<in> set lex_states" by (simp add: lex_states_set)
  with ts_lex_step_ok_enum show ?thesis by (simp add: list_all_iff)
next
  case False
  then show ?thesis by (simp add: lexer_step_ok_def ts_lex_out_of_range)
qed

lemma ts_lex_keywords_step_ok_enum:
  "list_all (lexer_step_ok ts_lex_keywords ts_builtin_sym_end) keyword_states"
  by code_simp

lemma ts_lex_keywords_step_ok: "lexer_step_ok ts_lex_keywords ts_builtin_sym_end st"
proof (cases "st < 78")
  case True
  then have "st \<in> set keyword_states" by (simp add: keyword_states_set)
  with ts_lex_keywords_step_ok_enum show ?thesis by (simp add: list_all_iff)
next
  case False
  then show ?thesis by (simp add: lexer_step_ok_def ts_lex_keywords_out_of_range)
qed

lemma lexer_modes_enum: "list_all (\<lambda>s. ts_lex_modes s \<in> set lexer_modes) all_states"
  by code_simp

lemma lexer_modes: "ts_lex_modes s \<in> set lexer_modes"
proof (rule state_cases[where P = "\<lambda>s. ts_lex_modes s \<in> set lexer_modes"])
  show "list_all (\<lambda>s. ts_lex_modes s \<in> set lexer_modes) all_states"
    by (rule lexer_modes_enum)
next
  fix s assume "STATE_COUNT \<le> s"
  then have "ts_lex_modes s = 0" by (simp add: ts_lex_modes_def)
  then show "ts_lex_modes s \<in> set lexer_modes" by (simp add: lexer_modes_def)
qed

lemma mode_accepts_enum:
  "list_all (\<lambda>m. case fst (ts_lex m) of None \<Rightarrow> True | Some x \<Rightarrow> x = sym_comment_content)
     lexer_modes"
  by code_simp

lemma mode_accepts:
  "fst (ts_lex (ts_lex_modes s)) = None \<or> fst (ts_lex (ts_lex_modes s)) = Some sym_comment_content"
proof -
  have "case fst (ts_lex (ts_lex_modes s)) of None \<Rightarrow> True | Some x \<Rightarrow> x = sym_comment_content"
    using mode_accepts_enum lexer_modes[of s] unfolding list_all_iff by blast
  then show ?thesis by (cases "fst (ts_lex (ts_lex_modes s))") simp_all
qed

lemma identifier_not_empty:
  "sym_identifier \<noteq> ts_builtin_sym_end" "sym_identifier \<noteq> sym_comment_content"
  by simp_all

lemma action_taken_out_of_range: "STATE_COUNT \<le> s \<Longrightarrow> action_taken s x = None"
  by (simp add: action_taken_def actions_out_of_range first_action_def)

lemma no_shift_end_enum:
  "list_all (\<lambda>s. case action_taken s ts_builtin_sym_end of
                   Some (SHIFT t) \<Rightarrow> False | _ \<Rightarrow> True) all_states"
  by code_simp

lemma no_shift_end: "action_taken s ts_builtin_sym_end \<noteq> Some (SHIFT t)"
proof -
  have "case action_taken s ts_builtin_sym_end of Some (SHIFT t) \<Rightarrow> False | _ \<Rightarrow> True"
  proof (rule state_cases[where P = "\<lambda>s. case action_taken s ts_builtin_sym_end of
                   Some (SHIFT t) \<Rightarrow> False | _ \<Rightarrow> True"])
    show "list_all (\<lambda>s. case action_taken s ts_builtin_sym_end of
                   Some (SHIFT t) \<Rightarrow> False | _ \<Rightarrow> True) all_states"
      by (rule no_shift_end_enum)
  next
    fix s assume "STATE_COUNT \<le> s"
    then show "case action_taken s ts_builtin_sym_end of
                 Some (SHIFT t) \<Rightarrow> False | _ \<Rightarrow> True"
      by (simp only: action_taken_out_of_range) simp
  qed
  then show ?thesis by (auto split: option.splits parse_action.splits)
qed

lemma comment_shift_mode_enum:
  "list_all (\<lambda>s. case action_taken s sym_comment_content of
                   Some (SHIFT t) \<Rightarrow> fst (ts_lex (ts_lex_modes t)) = None
                 | _ \<Rightarrow> True) all_states"
  by code_simp

lemma comment_shift_mode:
  assumes "action_taken s sym_comment_content = Some (SHIFT t)"
  shows "fst (ts_lex (ts_lex_modes t)) = None"
proof -
  have "case action_taken s sym_comment_content of
          Some (SHIFT t) \<Rightarrow> fst (ts_lex (ts_lex_modes t)) = None | _ \<Rightarrow> True"
  proof (rule state_cases[where P = "\<lambda>s. case action_taken s sym_comment_content of
                   Some (SHIFT t) \<Rightarrow> fst (ts_lex (ts_lex_modes t)) = None
                 | _ \<Rightarrow> True"])
    show "list_all (\<lambda>s. case action_taken s sym_comment_content of
                   Some (SHIFT t) \<Rightarrow> fst (ts_lex (ts_lex_modes t)) = None
                 | _ \<Rightarrow> True) all_states"
      by (rule comment_shift_mode_enum)
  next
    fix s assume "STATE_COUNT \<le> s"
    then show "case action_taken s sym_comment_content of
                 Some (SHIFT t) \<Rightarrow> fst (ts_lex (ts_lex_modes t)) = None | _ \<Rightarrow> True"
      by (simp only: action_taken_out_of_range) simp
  qed
  with assms show ?thesis by simp
qed

lemma transitions_out_of_range: "STATE_COUNT \<le> s \<Longrightarrow> transitions s = []"
  using small_table_out_of_range[of s] by (simp add: transitions_def state_row_def)

lemma epsilon_only_start_enum:
  "list_all (\<lambda>s. list_all (\<lambda>(lhs, n). n = 0 \<longrightarrow> s = 1) (reductions s)) all_states"
  by code_simp

lemma epsilon_only_start:
  assumes "(lhs, 0) \<in> set (reductions s)"
  shows "s = 1"
proof -
  have "list_all (\<lambda>(lhs, n). n = 0 \<longrightarrow> s = 1) (reductions s)"
  proof (rule state_cases[where P = "\<lambda>s. list_all (\<lambda>(lhs, n). n = 0 \<longrightarrow> s = 1) (reductions s)"])
    show "list_all (\<lambda>s. list_all (\<lambda>(lhs, n). n = 0 \<longrightarrow> s = 1) (reductions s)) all_states"
      by (rule epsilon_only_start_enum)
  next
    fix s assume "STATE_COUNT \<le> s"
    then show "list_all (\<lambda>(lhs, n). n = 0 \<longrightarrow> s = 1) (reductions s)"
      by (simp only: reductions_out_of_range) simp
  qed
  with assms show ?thesis unfolding list_all_iff by blast
qed

lemma no_transition_to_start_enum:
  "list_all (\<lambda>s. list_all (\<lambda>(x, t). t \<noteq> 1) (transitions s)) all_states"
  by code_simp

lemma no_transition_to_start:
  assumes "(x, t) \<in> set (transitions s)"
  shows "t \<noteq> 1"
proof -
  have "list_all (\<lambda>(x, t). t \<noteq> 1) (transitions s)"
  proof (rule state_cases[where P = "\<lambda>s. list_all (\<lambda>(x, t). t \<noteq> 1) (transitions s)"])
    show "list_all (\<lambda>s. list_all (\<lambda>(x, t). t \<noteq> 1) (transitions s)) all_states"
      by (rule no_transition_to_start_enum)
  next
    fix s assume "STATE_COUNT \<le> s"
    then show "list_all (\<lambda>(x, t). t \<noteq> 1) (transitions s)"
      by (simp only: transitions_out_of_range) simp
  qed
  with assms show ?thesis unfolding list_all_iff by blast
qed

lemma productions_shrink: "list_all production_shrinks grammar"
  by code_simp

subsection \<open>The lexer returns\<close>

lemma first_move_holds:
  "first_move ms eof la = Some mv \<Longrightarrow> \<exists>c. (c, mv) \<in> set ms \<and> cond_holds c eof la"
  by (induction ms) (auto split: if_splits)

lemma step_ok_eof:
  assumes "lexer_step_ok f e st" and "first_move (snd (f st)) True 0 = Some mv"
  shows "(fst (f (move_target mv)) = None \<or> fst (f (move_target mv)) = Some e) \<and>
         first_move (snd (f (move_target mv))) True 0 = None"
proof -
  from first_move_holds[OF assms(2)] obtain c
    where "(c, mv) \<in> set (snd (f st))" and "cond_holds c True 0" by blast
  with assms(1) show ?thesis unfolding lexer_step_ok_def list_all_iff by fastforce
qed

lemma step_ok_skip:
  assumes "lexer_step_ok f e st" and "first_move (snd (f st)) eof la = Some (SKIP t)"
  shows "fst (f t) = None"
proof -
  from first_move_holds[OF assms(2)] obtain c
    where "(c, SKIP t) \<in> set (snd (f st))" by blast
  with assms(1) show ?thesis unfolding lexer_step_ok_def list_all_iff by fastforce
qed

lemma run_lexer_total:
  assumes ok: "\<And>st. lexer_step_ok f e st"
  shows "\<exists>r. run_lexer f st inp pos start res = Some r"
proof (induction inp arbitrary: st pos start res)
  case Nil
  show ?case
  proof (cases "first_move (snd (f st)) True 0")
    case None
    then show ?thesis by (simp add: run_lexer_Nil)
  next
    case (Some mv)
    from step_ok_eof[OF ok Some]
    have n: "first_move (snd (f (move_target mv))) True 0 = None" by simp
    show ?thesis using Some n by (cases mv) (simp_all add: run_lexer_Nil)
  qed
next
  case (Cons c cs)
  show ?case
  proof (cases "first_move (snd (f st)) False c")
    case None
    then show ?thesis by (simp add: run_lexer_Cons)
  next
    case (Some mv)
    then show ?thesis using Cons by (cases mv) (simp_all add: run_lexer_Cons)
  qed
qed

lemma token_ok_accept:
  assumes "token_ok e z pos res" and "start \<le> pos"
      and "start < pos \<or> fst (f st) = None \<or> fst (f st) = Some e \<or> fst (f st) = Some z"
  shows "token_ok e z pos (case fst (f st) of None \<Rightarrow> res | Some s \<Rightarrow> Token s start pos)"
  using assms by (auto simp add: token_ok_def split: option.splits)

lemma token_ok_mono: "token_ok e z b r \<Longrightarrow> b \<le> b' \<Longrightarrow> token_ok e z b' r"
  by (auto simp add: token_ok_def split: lex_result.splits)

lemma run_lexer_progress:
  assumes ok: "\<And>st. lexer_step_ok f e st"
  shows "run_lexer f st inp pos start res = Some r \<Longrightarrow> token_ok e z pos res \<Longrightarrow> start \<le> pos \<Longrightarrow>
         start < pos \<or> fst (f st) = None \<or> fst (f st) = Some e \<or> fst (f st) = Some z \<Longrightarrow>
         token_ok e z (pos + length inp) r"
proof (induction inp arbitrary: st pos start res)
  case Nil
  let ?res' = "case fst (f st) of None \<Rightarrow> res | Some s \<Rightarrow> Token s start pos"
  have res': "token_ok e z pos ?res'" using Nil(2) Nil(3) Nil(4) by (rule token_ok_accept[where f = f and st = st])
  show ?case
  proof (cases "first_move (snd (f st)) True 0")
    case None
    then have "r = ?res'" using Nil(1) by (simp add: run_lexer_Nil)
    then show ?thesis using res' by simp
  next
    case (Some mv)
    from step_ok_eof[OF ok Some]
    have n: "first_move (snd (f (move_target mv))) True 0 = None"
      and a: "fst (f (move_target mv)) = None \<or> fst (f (move_target mv)) = Some e" by simp_all
    show ?thesis
    proof (cases mv)
      case (ADVANCE t)
      have "r = (case fst (f t) of None \<Rightarrow> ?res' | Some s \<Rightarrow> Token s start pos)"
        using Nil(1) Some n ADVANCE by (simp add: run_lexer_Nil)
      moreover have "token_ok e z pos (case fst (f t) of None \<Rightarrow> ?res' | Some s \<Rightarrow> Token s start pos)"
        using a ADVANCE by (intro token_ok_accept[where f = f and st = t, OF res' Nil(3)]) auto
      ultimately show ?thesis by simp
    next
      case (SKIP t)
      have "r = (case fst (f t) of None \<Rightarrow> ?res' | Some s \<Rightarrow> Token s pos pos)"
        using Nil(1) Some n SKIP by (simp add: run_lexer_Nil)
      moreover have "token_ok e z pos (case fst (f t) of None \<Rightarrow> ?res' | Some s \<Rightarrow> Token s pos pos)"
        using a SKIP by (intro token_ok_accept[where f = f and st = t, OF res']) auto
      ultimately show ?thesis by simp
    qed
  qed
next
  case (Cons c cs)
  let ?res' = "case fst (f st) of None \<Rightarrow> res | Some s \<Rightarrow> Token s start pos"
  have res': "token_ok e z pos ?res'" using Cons(3) Cons(4) Cons(5) by (rule token_ok_accept[where f = f and st = st])
  have res'': "token_ok e z (pos + 1) ?res'" by (rule token_ok_mono[OF res']) simp
  show ?case
  proof (cases "first_move (snd (f st)) False c")
    case None
    then have "r = ?res'" using Cons(2) by (simp add: run_lexer_Cons)
    then show ?thesis using token_ok_mono[OF res', of "pos + length (c # cs)"] by simp
  next
    case (Some mv)
    show ?thesis
    proof (cases mv)
      case (ADVANCE t)
      then have "run_lexer f t cs (pos + 1) start ?res' = Some r"
        using Cons(2) Some by (simp add: run_lexer_Cons)
      from Cons(1)[OF this res''] Cons(4) show ?thesis by simp
    next
      case (SKIP t)
      then have run: "run_lexer f t cs (pos + 1) (pos + 1) ?res' = Some r"
        using Cons(2) Some by (simp add: run_lexer_Cons)
      have "fst (f t) = None" using step_ok_skip[OF ok] Some SKIP by blast
      with Cons(1)[OF run res''] show ?thesis by simp
    qed
  qed
qed

subsection \<open>Reading a token\<close>

lemma ts_parser_lex_total: "\<exists>l. ts_parser_lex s inp = Some l"
proof -
  obtain r where r: "run_lexer ts_lex (ts_lex_modes s) inp 0 0 NoToken = Some r"
    using run_lexer_total[of ts_lex ts_builtin_sym_end, OF ts_lex_step_ok] by blast
  have k: "\<exists>q. keyword_of s tx = Some q" for tx
  proof -
    obtain r' where "run_lexer ts_lex_keywords 0 tx 0 0 NoToken = Some r'"
      using run_lexer_total[of ts_lex_keywords ts_builtin_sym_end, OF ts_lex_keywords_step_ok]
      by blast
    then show ?thesis by (cases r') (simp_all add: keyword_of_def)
  qed
  show ?thesis
  proof (cases r)
    case NoToken
    then show ?thesis by (simp add: ts_parser_lex_def r)
  next
    case (Token y a b)
    obtain q where "keyword_of s (take (b - a) (drop a inp)) = Some q" using k by blast
    then show ?thesis by (cases q) (simp_all add: ts_parser_lex_def r Token Let_def)
  qed
qed

lemma ts_parser_lex_token:
  assumes "ts_parser_lex s inp = Some (Lexed x tx rest)"
  shows "\<exists>y a b. run_lexer ts_lex (ts_lex_modes s) inp 0 0 NoToken = Some (Token y a b) \<and>
           tx = take (b - a) (drop a inp) \<and> rest = drop b inp \<and> (y \<noteq> sym_identifier \<longrightarrow> x = y)"
  using assms
  by (auto simp add: ts_parser_lex_def Let_def split: option.splits lex_result.splits if_splits)

lemma ts_parser_lex_text:
  assumes "ts_parser_lex s inp = Some (Lexed x tx rest)"
  shows "length tx + length rest \<le> length inp"
    and "tx = [] \<Longrightarrow> x = ts_builtin_sym_end \<or>
           (x = sym_comment_content \<and> fst (ts_lex (ts_lex_modes s)) = Some sym_comment_content)"
proof -
  from ts_parser_lex_token[OF assms] obtain y a b
    where run: "run_lexer ts_lex (ts_lex_modes s) inp 0 0 NoToken = Some (Token y a b)"
      and tx: "tx = take (b - a) (drop a inp)" and rest: "rest = drop b inp"
      and x: "y \<noteq> sym_identifier \<longrightarrow> x = y" by blast
  define z where "z = (case fst (ts_lex (ts_lex_modes s)) of None \<Rightarrow> ts_builtin_sym_end | Some v \<Rightarrow> v)"
  have z: "z = ts_builtin_sym_end \<or>
           (z = sym_comment_content \<and> fst (ts_lex (ts_lex_modes s)) = Some sym_comment_content)"
    using mode_accepts[of s] by (auto simp add: z_def)
  have "token_ok ts_builtin_sym_end z (0 + length inp) (Token y a b)"
  proof (rule run_lexer_progress[of ts_lex ts_builtin_sym_end, OF ts_lex_step_ok run])
    show "token_ok ts_builtin_sym_end z 0 NoToken" by (simp add: token_ok_def)
    show "(0::nat) \<le> 0" by simp
    show "(0::nat) < 0 \<or> fst (ts_lex (ts_lex_modes s)) = None \<or>
          fst (ts_lex (ts_lex_modes s)) = Some ts_builtin_sym_end \<or>
          fst (ts_lex (ts_lex_modes s)) = Some z"
      by (auto simp add: z_def split: option.splits)
  qed
  then have ok: "a < b \<or> y = ts_builtin_sym_end \<or> y = z" and b: "b \<le> length inp"
    by (simp_all add: token_ok_def)
  show "length tx + length rest \<le> length inp" using b by (simp add: tx rest)
  show "x = ts_builtin_sym_end \<or>
        (x = sym_comment_content \<and> fst (ts_lex (ts_lex_modes s)) = Some sym_comment_content)"
    if "tx = []"
  proof -
    from that b have "\<not> a < b" by (auto simp add: tx)
    with ok have y: "y = ts_builtin_sym_end \<or> y = z" by simp
    with z have "y \<noteq> sym_identifier" using identifier_not_empty by auto
    with x y z show ?thesis by auto
  qed
qed

subsection \<open>The weight of the stack\<close>

lemma fold_min_le: "fold (\<lambda>x m. min (weight x) m) S m \<le> m"
proof (induction S arbitrary: m)
  case Nil
  then show ?case by simp
next
  case (Cons a S)
  have "fold (\<lambda>x m. min (weight x) m) S (min (weight a) m) \<le> min (weight a) m"
    by (rule Cons)
  then show ?case by simp
qed

lemma fold_min_mono:
  "m \<le> m' \<Longrightarrow> fold (\<lambda>x m. min (weight x) m) S m \<le> fold (\<lambda>x m. min (weight x) m) S m'"
  by (induction S arbitrary: m m') (auto simp add: min_le_iff_disj)

lemma class_weight_le: "x \<in> set S \<Longrightarrow> class_weight S \<le> weight x"
  unfolding class_weight_def
proof (induction S arbitrary: x)
  case Nil
  then show ?case by simp
next
  case (Cons y S)
  show ?case
  proof (cases "x = y")
    case True
    have "fold (\<lambda>x m. min (weight x) m) S (min (weight y) 3) \<le> min (weight y) 3"
      by (rule fold_min_le)
    then show ?thesis using True by simp
  next
    case False
    then have "x \<in> set S" using Cons(2) by simp
    from Cons(1)[OF this]
    have "fold (\<lambda>x m. min (weight x) m) S 3 \<le> weight x" .
    moreover have "fold (\<lambda>x m. min (weight x) m) S (min (weight y) 3) \<le>
                   fold (\<lambda>x m. min (weight x) m) S 3"
      by (rule fold_min_mono) simp
    ultimately show ?thesis by simp
  qed
qed

lemma matches_weight:
  "matches rhs syms \<Longrightarrow> sum_list (map class_weight rhs) \<le> sum_list (map weight syms)"
  unfolding matches_def
  by (induction rhs syms rule: list_all2_induct) (auto dest: class_weight_le intro: add_mono)

lemma stack_symbols_drop: "stack_symbols (drop n stack) = drop n (stack_symbols stack)"
  by (simp add: stack_symbols_map drop_map)

lemma reduce_weight:
  assumes ok: "stack_ok stack"
    and red: "action_taken (top_state stack) x = Some (REDUCE lhs n)" and n: "0 < n"
  shows "weight lhs + stack_weight (drop n stack) < stack_weight stack"
proof -
  let ?sh = "state_shape (top_state stack)"
  let ?syms = "stack_symbols stack"
  have "(lhs, n) \<in> set (reductions (top_state stack))" by (rule reduce_in_reductions[OF red])
  then have le: "n \<le> length ?sh" and g: "(lhs, rev (take n ?sh)) \<in> set grammar"
    using all_checked[of "top_state stack"] unfolding state_checked_def list_all_iff by auto
  have "production_shrinks (lhs, rev (take n ?sh))"
    using productions_shrink g unfolding list_all_iff by blast
  moreover have "take n ?sh \<noteq> []" using le n by auto
  ultimately have "weight lhs < sum_list (map class_weight (rev (take n ?sh)))"
    by (simp add: production_shrinks_def)
  also have "\<dots> = sum_list (map class_weight (take n ?sh))"
    by (simp add: rev_map[symmetric])
  also have "\<dots> \<le> sum_list (map weight (take n ?syms))"
    by (rule matches_weight[OF fits_take[OF top_fits[OF ok] le]])
  finally have "weight lhs + sum_list (map weight (drop n ?syms)) <
      sum_list (map weight (take n ?syms)) + sum_list (map weight (drop n ?syms))"
    by simp
  also have "\<dots> = sum_list (map weight (take n ?syms @ drop n ?syms))"
    by (simp only: map_append sum_list_append)
  finally show ?thesis by (simp add: stack_weight_def stack_symbols_drop)
qed

lemma next_state_not_start: "next_state s x \<noteq> 1"
proof (cases "\<exists>t. ts_language_lookup s x = Some (STATE t)")
  case True
  then obtain t where l: "ts_language_lookup s x = Some (STATE t)" by blast
  then have "next_state s x = t" by (simp add: next_state_def)
  then show ?thesis using no_transition_to_start[OF goto_in_transitions[OF l]] by simp
next
  case False
  then have "next_state s x = 0"
    by (auto simp add: next_state_def split: option.splits table_entry.splits)
  then show ?thesis by simp
qed

subsection \<open>Every step makes the configuration smaller\<close>

lemma parse_step_total: "\<exists>r. parse_step c = Some r"
proof -
  obtain stack x tx rest where c: "c = (stack, (x, tx), rest)" by (cases c) auto
  show ?thesis
  proof (cases "action_taken (top_state stack) x")
    case None
    then show ?thesis by (simp add: c)
  next
    case (Some a)
    show ?thesis
    proof (cases a)
      case (SHIFT t)
      obtain l where "ts_parser_lex t rest = Some l" using ts_parser_lex_total by blast
      then show ?thesis using Some SHIFT by (cases l) (simp_all add: c)
    next
      case (SHIFT_REPEAT t)
      then show ?thesis using Some by (simp add: c)
    next
      case (REDUCE lhs n)
      then show ?thesis using Some by (simp add: c Let_def)
    next
      case RECOVER
      then show ?thesis using Some by (simp add: c)
    next
      case ACCEPT_INPUT
      then show ?thesis using Some by (cases stack) (auto simp add: c)
    qed
  qed
qed

lemma step_measure:
  assumes ok: "config_ok c" and step: "parse_step c = Some (Continue c')"
  shows "config_ok c' \<and> (c', c) \<in> measures config_measures"
proof -
  obtain stack x tx rest where c: "c = (stack, (x, tx), rest)" by (cases c) auto
  have sok: "stack_ok stack" and la: "tx = [] \<longrightarrow> x = ts_builtin_sym_end \<or> x = sym_comment_content"
    using ok by (simp_all add: c)
  obtain stack' x' tx' rest' where c': "c' = (stack', (x', tx'), rest')" by (cases c') auto
  have sok': "stack_ok stack'" using parse_step_ok[OF sok step[unfolded c]] by (simp add: c')
  show ?thesis
  proof (cases "action_taken (top_state stack) x")
    case None
    then show ?thesis using step by (simp add: c)
  next
    case (Some a)
    show ?thesis
    proof (cases a)
      case (SHIFT t)
      have lx: "ts_parser_lex t rest = Some (Lexed x' tx' rest')"
        using step Some SHIFT by (auto simp add: c c' split: option.splits lexed.splits)
      note len = ts_parser_lex_text(1)[OF lx]
      note emp = ts_parser_lex_text(2)[OF lx]
      have ok': "config_ok c'" using sok' emp by (auto simp add: c')
      have "(c', c) \<in> measures config_measures"
      proof (cases "tx = []")
        case False
        then have "chars_left c' < chars_left c" using len by (cases tx) (simp_all add: c c')
        then show ?thesis by (simp add: config_measures_def)
      next
        case True
        have "x \<noteq> ts_builtin_sym_end" using no_shift_end Some SHIFT by blast
        with la True have "x = sym_comment_content" by simp
        then have "fst (ts_lex (ts_lex_modes t)) = None"
          using comment_shift_mode Some SHIFT by blast
        then have "tx' = [] \<longrightarrow> x' = ts_builtin_sym_end" using emp by auto
        then have "empty_lookahead c' = 0" by (simp add: c')
        moreover have "empty_lookahead c = 1"
          using True \<open>x \<noteq> ts_builtin_sym_end\<close> by (simp add: c)
        moreover have "chars_left c' \<le> chars_left c" using len by (simp add: c c')
        ultimately show ?thesis by (auto simp add: config_measures_def)
      qed
      with ok' show ?thesis by simp
    next
      case (SHIFT_REPEAT t)
      then show ?thesis using step Some by (simp add: c)
    next
      case (REDUCE lhs n)
      have st': "stack' = (next_state (top_state (drop n stack)) lhs,
                   Node lhs (rev (map snd (take n stack)))) # drop n stack"
        and same: "x' = x" "tx' = tx" "rest' = rest"
        using step Some REDUCE by (simp_all add: c c' Let_def)
      have ok': "config_ok c'" using sok' la by (simp add: c' same)
      have top': "top_state stack' \<noteq> 1" using next_state_not_start by (simp add: st')
      have "(c', c) \<in> measures config_measures"
      proof (cases "n = 0")
        case True
        have "(lhs, 0) \<in> set (reductions (top_state stack))"
          using reduce_in_reductions Some REDUCE True by blast
        then have "top_state stack = 1" by (rule epsilon_only_start)
        then show ?thesis using top' by (simp add: config_measures_def c c' same)
      next
        case False
        then have "weight lhs + stack_weight (drop n stack) < stack_weight stack"
          using reduce_weight[OF sok] Some REDUCE by simp
        then have "stack_weight stack' < stack_weight stack"
          by (simp add: st' stack_weight_def)
        then show ?thesis using top' by (simp add: config_measures_def c c' same)
      qed
      with ok' show ?thesis by simp
    next
      case RECOVER
      then show ?thesis using step Some by (simp add: c)
    next
      case ACCEPT_INPUT
      then show ?thesis using step Some by (cases stack) (auto simp add: c)
    qed
  qed
qed

lemma parse_loop_total:
  assumes "config_ok c"
  shows "\<exists>r. parse_loop c = Some r"
  using assms
proof (induction c rule: wf_induct_rule[OF wf_measures[of config_measures]])
  case (1 c)
  obtain sr where sr: "parse_step c = Some sr" using parse_step_total by blast
  show ?case
  proof (cases sr)
    case (Continue c')
    from step_measure[OF 1(2) sr[unfolded Continue]]
    have "config_ok c'" and "(c', c) \<in> measures config_measures" by simp_all
    from 1(1)[OF this(2) this(1)] obtain r where "parse_loop c' = Some r" by blast
    then have "parse_loop c = Some r" by (subst parse_loop.simps) (simp add: sr Continue)
    then show ?thesis by blast
  next
    case (Done r)
    then have "parse_loop c = Some r" by (subst parse_loop.simps) (simp add: sr)
    then show ?thesis by blast
  qed
qed

lemma parse_total: "\<exists>r. parse src = Some r"
proof -
  obtain l where l: "ts_parser_lex 1 src = Some l" using ts_parser_lex_total by blast
  show ?thesis
  proof (cases l)
    case LexFail
    show ?thesis unfolding parse_def l LexFail by simp
  next
    case (Lexed x tx rest)
    have "config_ok ([], (x, tx), rest)"
      using ts_parser_lex_text(2)[OF l[unfolded Lexed]] by auto
    from parse_loop_total[OF this] show ?thesis unfolding parse_def l Lexed by simp
  qed
qed

section \<open>Escape sequences in strings\<close>

lemma ts_lex_0: "ts_lex 0 = ts_lex_case_0" by (simp add: ts_lex_def)
lemma ts_lex_20: "ts_lex 20 = ts_lex_case_20" by (simp add: ts_lex_def)
lemma ts_lex_253: "ts_lex 253 = ts_lex_case_253" by (simp add: ts_lex_def)
lemma ts_lex_444: "ts_lex 444 = ts_lex_case_444" by (simp add: ts_lex_def)

lemma run_444:
  "run_lexer ts_lex 444 inp pos start res = Some (Token sym_escape_sequence start pos)"
  by (simp add: run_lexer_final ts_lex_444 ts_lex_case_444_def)

lemma run_253:
  "run_lexer ts_lex 253 inp pos start NoToken =
    Some (case inp of
            [] \<Rightarrow> NoToken
          | c # cs \<Rightarrow>
              if c \<in> set escape_chars then Token sym_escape_sequence start (pos + 1)
              else NoToken)"
  by (cases inp)
     (simp_all add: run_lexer_Nil run_lexer_Cons run_444 ts_lex_253 ts_lex_case_253_def
        escape_chars_def)

lemma run_backslash_20:
  "run_lexer ts_lex 20 (backslash # inp) 0 0 NoToken = run_lexer ts_lex 253 inp 1 0 NoToken"
  by (simp add: run_lexer_Cons ts_lex_20 ts_lex_case_20_def backslash_def)

lemma run_backslash_0:
  "run_lexer ts_lex 0 (backslash # inp) 0 0 NoToken = run_lexer ts_lex 253 inp 1 0 NoToken"
  by (simp add: run_lexer_Cons ts_lex_0 ts_lex_case_0_def backslash_def)

lemma escape_states_enum:
  "list_all (\<lambda>s. actions_for s sym_escape_sequence = [] \<or> ts_lex_modes s = 0 \<or>
                   ts_lex_modes s = 20) all_states"
  by code_simp

lemma escape_states:
  "actions_for s sym_escape_sequence \<noteq> [] \<Longrightarrow> ts_lex_modes s = 0 \<or> ts_lex_modes s = 20"
  using state_cases[of "\<lambda>s. actions_for s sym_escape_sequence = [] \<or> ts_lex_modes s = 0 \<or>
                              ts_lex_modes s = 20" s]
    escape_states_enum actions_out_of_range by blast

subsection \<open>The text of the tokens of a string\<close>

lemma token_text_ok_accept:
  assumes "token_text_ok G f pre res" and "G st pre"
  shows "token_text_ok G f pre (case fst (f st) of None \<Rightarrow> res | Some s \<Rightarrow> Token s 0 (length pre))"
  using assms by (auto simp add: token_text_ok_def split: option.splits)

lemma token_text_ok_append: "token_text_ok G f pre r \<Longrightarrow> token_text_ok G f (pre @ more) r"
  by (auto simp add: token_text_ok_def split: lex_result.splits)

lemma run_lexer_text:
  assumes adv: "\<And>st w c mv. G st w \<Longrightarrow> first_move (snd (f st)) False c = Some mv \<Longrightarrow>
                  \<exists>t. mv = ADVANCE t \<and> G t (w @ [c])"
      and eofm: "\<And>st w. G st w \<Longrightarrow> first_move (snd (f st)) True 0 = None"
  shows "run_lexer f st inp (length pre) 0 res = Some r \<Longrightarrow> G st pre \<Longrightarrow>
         token_text_ok G f pre res \<Longrightarrow> token_text_ok G f (pre @ inp) r"
proof (induction inp arbitrary: pre st res)
  case Nil
  let ?res' = "case fst (f st) of None \<Rightarrow> res | Some s \<Rightarrow> Token s 0 (length pre)"
  have "r = ?res'" using Nil(1) eofm[OF Nil(2)] by (simp add: run_lexer_Nil)
  then show ?case using token_text_ok_accept[OF Nil(3) Nil(2)] by simp
next
  case (Cons c cs)
  let ?res' = "case fst (f st) of None \<Rightarrow> res | Some s \<Rightarrow> Token s 0 (length pre)"
  have res': "token_text_ok G f pre ?res'" by (rule token_text_ok_accept[OF Cons(4) Cons(3)])
  show ?case
  proof (cases "first_move (snd (f st)) False c")
    case None
    then have "r = ?res'" using Cons(2) by (simp add: run_lexer_Cons)
    then show ?thesis using token_text_ok_append[OF res'] by simp
  next
    case (Some mv)
    from adv[OF Cons(3) Some] obtain t where mv: "mv = ADVANCE t" and G: "G t (pre @ [c])"
      by blast
    have run: "run_lexer f t cs (length (pre @ [c])) 0 ?res' = Some r"
      using Cons(2) Some mv by (simp add: run_lexer_Cons)
    have "token_text_ok G f ((pre @ [c]) @ cs) r"
      by (rule Cons(1)[OF run G token_text_ok_append[OF res']])
    then show ?thesis by simp
  qed
qed

lemma ts_lex_441: "ts_lex 441 = ts_lex_case_441" by (simp add: ts_lex_def)
lemma ts_lex_442: "ts_lex 442 = ts_lex_case_442" by (simp add: ts_lex_def)
lemma ts_lex_443: "ts_lex 443 = ts_lex_case_443" by (simp add: ts_lex_def)

lemma string_lexer_states:
  "string_lexer_text st w \<Longrightarrow> st = 20 \<or> st = 253 \<or> st = 444 \<or> st = 441 \<or> st = 442 \<or> st = 443"
  by (auto simp add: string_lexer_text_def split: if_splits)

lemma string_lexer_advance_case:
  assumes "string_lexer_text st w" and "first_move (snd (ts_lex st)) False c = Some mv"
  shows "case mv of ADVANCE t \<Rightarrow> string_lexer_text t (w @ [c]) | SKIP t \<Rightarrow> False"
  using string_lexer_states[OF assms(1)] assms
  by (auto simp add: string_lexer_text_def ts_lex_20 ts_lex_case_20_def ts_lex_253
      ts_lex_case_253_def ts_lex_444 ts_lex_case_444_def ts_lex_441 ts_lex_case_441_def
      ts_lex_442 ts_lex_case_442_def ts_lex_443 ts_lex_case_443_def
      backslash_def double_quote_def escape_chars_def split: if_splits)

lemma string_lexer_advance:
  assumes "string_lexer_text st w" and "first_move (snd (ts_lex st)) False c = Some mv"
  shows "\<exists>t. mv = ADVANCE t \<and> string_lexer_text t (w @ [c])"
  using string_lexer_advance_case[OF assms] by (cases mv) simp_all

lemma string_lexer_eof:
  assumes "string_lexer_text st w"
  shows "first_move (snd (ts_lex st)) True 0 = None"
  using string_lexer_states[OF assms]
  by (auto simp add: ts_lex_20 ts_lex_case_20_def ts_lex_253
      ts_lex_case_253_def ts_lex_444 ts_lex_case_444_def ts_lex_441 ts_lex_case_441_def
      ts_lex_442 ts_lex_case_442_def ts_lex_443 ts_lex_case_443_def)


lemma content_states_enum:
  "list_all (\<lambda>s. actions_for s aux_sym_string_content_token1 = [] \<or> ts_lex_modes s = 20)
     all_states"
  by code_simp

lemma content_states:
  "actions_for s aux_sym_string_content_token1 \<noteq> [] \<Longrightarrow> ts_lex_modes s = 20"
  using state_cases[of "\<lambda>s. actions_for s aux_sym_string_content_token1 = [] \<or>
                              ts_lex_modes s = 20" s]
    content_states_enum actions_out_of_range by blast

lemma string_lexer_accept:
  assumes "string_lexer_text st w" and "fst (ts_lex st) = Some y"
  shows "y \<noteq> sym_identifier \<and>
         (backslash \<in> set w \<longrightarrow> y = sym_escape_sequence \<and> (\<exists>c \<in> set escape_chars. w = [backslash, c]))"
  using string_lexer_states[OF assms(1)] assms
  by (auto simp add: string_lexer_text_def ts_lex_20 ts_lex_case_20_def ts_lex_253
      ts_lex_case_253_def ts_lex_444 ts_lex_case_444_def ts_lex_441 ts_lex_case_441_def
      ts_lex_442 ts_lex_case_442_def ts_lex_443 ts_lex_case_443_def
      backslash_def double_quote_def split: if_splits)

lemma string_token_text:
  assumes mode: "ts_lex_modes s = 20" and lx: "ts_parser_lex s inp = Some (Lexed x tx rest)"
  shows "inp = tx @ rest \<and>
         (backslash \<in> set tx \<longrightarrow>
            x = sym_escape_sequence \<and> (\<exists>c \<in> set escape_chars. tx = [backslash, c]))"
proof -
  from ts_parser_lex_token[OF lx] obtain y a b
    where run: "run_lexer ts_lex 20 inp 0 0 NoToken = Some (Token y a b)"
      and tx: "tx = take (b - a) (drop a inp)" and rest: "rest = drop b inp"
      and x: "y \<noteq> sym_identifier \<longrightarrow> x = y" unfolding mode by blast
  have "token_text_ok string_lexer_text ts_lex ([] @ inp) (Token y a b)"
  proof (rule run_lexer_text[where G = string_lexer_text and f = ts_lex and pre = "[]"
        and st = 20 and res = NoToken])
    show "run_lexer ts_lex 20 inp (length []) 0 NoToken = Some (Token y a b)"
      using run by simp
    show "string_lexer_text 20 []" by (simp add: string_lexer_text_def)
    show "token_text_ok string_lexer_text ts_lex [] NoToken" by (simp add: token_text_ok_def)
  qed (rule string_lexer_advance, assumption+, rule string_lexer_eof)
  then obtain st where a: "a = 0" and b: "b \<le> length inp"
    and G: "string_lexer_text st (take b inp)" and acc: "fst (ts_lex st) = Some y"
    by (auto simp add: token_text_ok_def)
  note acc' = string_lexer_accept[OF G acc]
  from acc' x have xy: "x = y" by simp
  have t: "tx = take b inp" using tx a by simp
  show ?thesis using acc' by (simp add: t rest xy)
qed

text \<open>
  C7: the escape set of strings.  In every parse state that expects an escape sequence, the
  lexer, placed on a backslash, returns the two-character token \<^verbatim>\<open>escape_sequence\<close> if the
  next character is one of \<^verbatim>\<open>" \ n r t\<close>, and no token at all (a lexical error) if it is any
  other character or the input ends.  The backslash is never read as string content: in
  every parse state inside a string literal (the states that expect string content) the
  token that the lexer returns begins at the cursor, and if its text contains a backslash
  it is an \<^verbatim>\<open>escape_sequence\<close> whose text is the backslash and one of the five characters;
  so string content ends before a backslash, where the first part applies.
\<close>

theorem string_escape_set:
  assumes "actions_for s sym_escape_sequence \<noteq> []"
  shows "ts_parser_lex s (backslash # c # rest) =
           Some (if c \<in> set escape_chars
                 then Lexed sym_escape_sequence [backslash, c] rest else LexFail)
         \<and> ts_parser_lex s [backslash] = Some LexFail
         \<and> (\<forall>inp x tx rest'.
               actions_for s aux_sym_string_content_token1 \<noteq> [] \<and>
               ts_parser_lex s inp = Some (Lexed x tx rest')
               \<longrightarrow> inp = tx @ rest' \<and>
                   (backslash \<in> set tx \<longrightarrow>
                      x = sym_escape_sequence \<and> (\<exists>c \<in> set escape_chars. tx = [backslash, c])))"
proof -
  have a: "ts_parser_lex s (backslash # c # rest) =
           Some (if c \<in> set escape_chars
                 then Lexed sym_escape_sequence [backslash, c] rest else LexFail)
         \<and> ts_parser_lex s [backslash] = Some LexFail"
    using escape_states[OF assms]
    by (auto simp add: ts_parser_lex_def run_backslash_0 run_backslash_20 run_253)
  have b: "inp = tx @ rest' \<and>
                   (backslash \<in> set tx \<longrightarrow>
                      x = sym_escape_sequence \<and> (\<exists>c \<in> set escape_chars. tx = [backslash, c]))"
    if "actions_for s aux_sym_string_content_token1 \<noteq> []"
      and "ts_parser_lex s inp = Some (Lexed x tx rest')" for inp x tx rest'
    by (rule string_token_text[OF content_states[OF that(1)] that(2)])
  from a b show ?thesis by blast
qed

theorem string_escape_set_witness:
  "(actions_for 122 sym_escape_sequence \<noteq> [] \<and>
    actions_for 122 aux_sym_string_content_token1 \<noteq> [] \<and>
    ts_parser_lex 122 (codes ''a'' @ backslash # codes ''q\"'') =
      Some (Lexed aux_sym_string_content_token1 (codes ''a'') (backslash # codes ''q\"'')))
   \<and> (ts_parser_lex 122 (backslash # of_char CHR ''n'' # codes ''\"'') =
         Some (Lexed sym_escape_sequence [backslash, of_char CHR ''n''] (codes ''\"''))
      \<and> ts_parser_lex 122 (backslash # of_char CHR ''q'' # codes ''\"'') = Some LexFail
      \<and> ts_parser_lex 122 [backslash] = Some LexFail
      \<and> codes ''a'' @ backslash # codes ''q\"'' = codes ''a'' @ backslash # codes ''q\"''
      \<and> backslash \<notin> set (codes ''a''))"
proof -
  have h: "actions_for 122 sym_escape_sequence \<noteq> [] \<and>
    actions_for 122 aux_sym_string_content_token1 \<noteq> [] \<and>
    ts_parser_lex 122 (codes ''a'' @ backslash # codes ''q\"'') =
      Some (Lexed aux_sym_string_content_token1 (codes ''a'') (backslash # codes ''q\"''))"
    by code_simp
  from h have e: "actions_for 122 sym_escape_sequence \<noteq> []"
    and k: "actions_for 122 aux_sym_string_content_token1 \<noteq> [] \<and>
      ts_parser_lex 122 (codes ''a'' @ backslash # codes ''q\"'') =
        Some (Lexed aux_sym_string_content_token1 (codes ''a'') (backslash # codes ''q\"''))"
    by simp_all
  note n = string_escape_set[OF e, of "of_char CHR ''n''" "codes ''\"''"]
  note q = string_escape_set[OF e, of "of_char CHR ''q''" "codes ''\"''"]
  note t = q[THEN conjunct2, THEN conjunct2, rule_format, OF k]
  have "ts_parser_lex 122 (backslash # of_char CHR ''n'' # codes ''\"'') =
         Some (Lexed sym_escape_sequence [backslash, of_char CHR ''n''] (codes ''\"''))
      \<and> ts_parser_lex 122 (backslash # of_char CHR ''q'' # codes ''\"'') = Some LexFail
      \<and> ts_parser_lex 122 [backslash] = Some LexFail
      \<and> codes ''a'' @ backslash # codes ''q\"'' = codes ''a'' @ backslash # codes ''q\"''
      \<and> backslash \<notin> set (codes ''a'')"
    using n q t by (simp add: escape_chars_def aux_sym_string_content_token1_def)
  with h show ?thesis by (rule conjI)
qed

section \<open>The recovering parser returns a Program on every input\<close>

lemma step_chars:
  assumes "config_ok c" and "parse_step c = Some (Continue c')"
  shows "config_ok c'" and "(c', c) \<in> measures config_measures" and "chars_left c' \<le> chars_left c"
proof -
  from step_measure[OF assms] show a: "config_ok c'" and b: "(c', c) \<in> measures config_measures"
    by simp_all
  from b show "chars_left c' \<le> chars_left c" by (auto simp add: config_measures_def)
qed

lemma final_config_spec:
  assumes "config_ok c"
  shows "\<exists>c' r. final_config c = Some (c', r) \<and> config_ok c' \<and> chars_left c' \<le> chars_left c \<and>
                parse_step c' = Some (Done r) \<and> parse_loop c = Some r"
  using assms
proof (induction c rule: wf_induct_rule[OF wf_measures[of config_measures]])
  case (1 c)
  obtain sr where sr: "parse_step c = Some sr" using parse_step_total by blast
  show ?case
  proof (cases sr)
    case (Continue c')
    note st = step_chars[OF 1(2) sr[unfolded Continue]]
    from 1(1)[OF st(2) st(1)] obtain c'' r
      where f: "final_config c' = Some (c'', r)" and ok: "config_ok c''"
        and le: "chars_left c'' \<le> chars_left c'" and d: "parse_step c'' = Some (Done r)"
        and l: "parse_loop c' = Some r" by blast
    have "final_config c = Some (c'', r)"
      by (subst final_config.simps) (simp add: sr Continue f)
    moreover have "parse_loop c = Some r"
      by (subst parse_loop.simps) (simp add: sr Continue l)
    ultimately show ?thesis using ok le st(3) d by auto
  next
    case (Done r)
    have "final_config c = Some (c, r)" by (subst final_config.simps) (simp add: sr Done)
    moreover have "parse_loop c = Some r" by (subst parse_loop.simps) (simp add: sr Done)
    ultimately show ?thesis using 1(2) sr Done by auto
  qed
qed


lemma state_shape_accept: "state_shape 129 = [[sym_source_file]]"
  by (simp add: state_shape_def)

lemma accept_enum:
  "list_all (\<lambda>s. list_all (\<lambda>(e, syms). case e of
        ACTIONS i \<Rightarrow> first_action (ts_parse_actions i) = Some ACCEPT_INPUT \<longrightarrow> s = 129
      | STATE t \<Rightarrow> True) (state_row s)) all_states"
  by code_simp

lemma accept_state:
  assumes "action_taken s x = Some ACCEPT_INPUT"
  shows "s = 129"
proof -
  obtain i where l: "ts_language_lookup s x = Some (ACTIONS i)"
    and a: "first_action (ts_parse_actions i) = Some ACCEPT_INPUT"
    using action_taken_entry[OF assms] by blast
  obtain syms where r: "(ACTIONS i, syms) \<in> set (state_row s)"
    using lookup_in_row[OF l] by blast
  have "s < STATE_COUNT"
  proof (rule ccontr)
    assume "\<not> s < STATE_COUNT"
    then have "action_taken s x = None" using action_taken_out_of_range[of s x] by simp
    with assms show False by simp
  qed
  then have "s \<in> set all_states" by (simp add: all_states_set)
  with accept_enum r a show ?thesis unfolding list_all_iff by fastforce
qed

lemma accepted_tree:
  assumes ok: "stack_ok stack" and step: "parse_step (stack, (x, tx), rest) = Some (Done (Inr t))"
  shows "tree_ok t \<and> symbol_of t = sym_source_file"
proof -
  from parse_step_ok[OF ok step] have t: "tree_ok t" by simp
  from step obtain s stack' where a: "action_taken (top_state stack) x = Some ACCEPT_INPUT"
    and st: "stack = (s, t) # stack'"
    by (auto split: option.splits parse_action.splits lexed.splits list.splits simp add: Let_def)
  from accept_state[OF a] st have "s = 129" by simp
  with ok st have "fits [[sym_source_file]] (symbol_of t # stack_symbols stack')"
    by (simp add: state_shape_accept)
  then show ?thesis using t by simp
qed

lemma completed_ok:
  assumes "\<forall>t \<in> set (map snd stack). tree_ok t"
  shows "list_all item_ok (completed stack)"
proof -
  have "\<forall>t \<in> set (completed stack). tree_ok t \<and> symbol_of t \<in> set statement_symbols"
  proof
    fix t assume t: "t \<in> set (completed stack)"
    then have "t \<in> set (rev (map snd stack))" unfolding completed_def by (rule set_takeWhileD[THEN conjunct1])
    moreover from t have "symbol_of t \<in> set statement_symbols"
      unfolding completed_def by (rule set_takeWhileD[THEN conjunct2])
    ultimately show "tree_ok t \<and> symbol_of t \<in> set statement_symbols" using assms by auto
  qed
  then show ?thesis by (simp add: list_all_iff item_ok_def)
qed

lemma stack_trees_ok: "stack_ok stack \<Longrightarrow> \<forall>t \<in> set (map snd stack). tree_ok t"
  using stack_ok_trees by fastforce

lemma source_file_children:
  assumes "tree_ok t" and "symbol_of t = sym_source_file"
  shows "list_all item_ok (children t)"
proof (cases t)
  case (Leaf s tx)
  then show ?thesis by simp
next
  case (Node s kids)
  with assms have p: "production_ok sym_source_file (map symbol_of kids)"
    and k: "\<forall>k \<in> set kids. tree_ok k" by simp_all
  from production_ok_in[OF p] obtain rhs
    where rhs: "rhs \<in> set (productions_of sym_source_file)" and m: "matches rhs (map symbol_of kids)"
    by blast
  have "productions_of sym_source_file = [[], [statement_symbols]]" by code_simp
  with rhs have "rhs = [] \<or> rhs = [statement_symbols]" by simp
  with m have "\<forall>k \<in> set kids. symbol_of k \<in> set statement_symbols"
    by (auto simp add: matches_def list_all2_Cons1)
  with k show ?thesis by (simp add: Node list_all_iff item_ok_def)
qed

lemma segment_of_spec:
  assumes ok: "config_ok c" and step: "parse_step c = Some (Done r)"
  shows "case segment_of (c, r) of
           Accepted t \<Rightarrow> r = Inr t \<and> tree_ok t \<and> symbol_of t = sym_source_file
         | Failed e finished inp \<Rightarrow> r = Inl e \<and> list_all item_ok finished \<and> length inp \<le> chars_left c"
proof -
  obtain stack x tx rest where c: "c = (stack, (x, tx), rest)" by (cases c) auto
  from ok c have sok: "stack_ok stack" by simp
  show ?thesis
  proof (cases r)
    case (Inr t)
    then show ?thesis using accepted_tree[OF sok step[unfolded c Inr]] by (simp add: c)
  next
    case (Inl e)
    show ?thesis
    proof (cases e)
      case (SyntaxError s y)
      then show ?thesis using completed_ok[OF stack_trees_ok[OF sok]] by (simp add: c Inl)
    next
      case (LexicalError s inp)
      have "\<forall>t \<in> set (map snd ((s, Leaf x tx) # stack)). tree_ok t"
        using stack_trees_ok[OF sok] by simp
      from completed_ok[OF this] show ?thesis by (simp add: c Inl LexicalError)
    qed
  qed
qed

lemma parse_segment_spec:
  "\<exists>g. parse_segment src = Some g \<and>
       (case g of
          Accepted t \<Rightarrow> parse src = Some (Inr t) \<and> tree_ok t \<and> symbol_of t = sym_source_file
        | Failed e finished inp \<Rightarrow>
            parse src = Some (Inl e) \<and> list_all item_ok finished \<and> length inp \<le> length src)"
proof -
  obtain l where l: "ts_parser_lex 1 src = Some l" using ts_parser_lex_total by blast
  show ?thesis
  proof (cases l)
    case LexFail
    show ?thesis unfolding parse_segment_def parse_def l LexFail by simp
  next
    case (Lexed x tx rest)
    have c: "config_ok ([], (x, tx), rest)"
      using ts_parser_lex_text(2)[OF l[unfolded Lexed]] by auto
    from final_config_spec[OF c] obtain c' r
      where f: "final_config ([], (x, tx), rest) = Some (c', r)" and ok: "config_ok c'"
        and le: "chars_left c' \<le> chars_left ([], (x, tx), rest)"
        and d: "parse_step c' = Some (Done r)"
        and p: "parse_loop ([], (x, tx), rest) = Some r" by blast
    have n: "length tx + length rest \<le> length src"
      by (rule ts_parser_lex_text(1)[OF l[unfolded Lexed]])
    have g: "parse_segment src = Some (segment_of (c', r))"
      unfolding parse_segment_def l Lexed by (simp add: f)
    have q: "parse src = Some r" unfolding parse_def l Lexed by (simp add: p)
    show ?thesis using segment_of_spec[OF ok d] le n
      by (cases "segment_of (c', r)") (simp_all add: g q)
  qed
qed

lemma error_token_not_empty:
  assumes "ts_parser_lex 0 inp = Some (Lexed x tx rest)" and "x \<noteq> ts_builtin_sym_end"
  shows "length rest < length inp"
proof -
  have "fst (ts_lex (ts_lex_modes 0)) = None"
    by (simp add: ts_lex_modes_def ts_lex_def ts_lex_case_0_def)
  with ts_parser_lex_text[OF assms(1)] assms(2) have "tx \<noteq> []" and "length tx + length rest \<le> length inp"
    by auto
  then show ?thesis by (cases tx) simp_all
qed

lemma skip_tokens_spec:
  "\<exists>r. skip_tokens first inp = Some r \<and>
       (\<forall>src'. r = Some src' \<longrightarrow> length src' \<le> length inp \<and> (first \<longrightarrow> length src' < length inp))"
proof (induction inp arbitrary: first rule: measure_induct_rule[where f = length])
  case (less inp)
  obtain l where l: "ts_parser_lex 0 inp = Some l" using ts_parser_lex_total by blast
  show ?case
  proof (cases l)
    case LexFail
    show ?thesis
    proof (cases inp)
      case Nil
      have "skip_tokens first inp = Some None"
        by (subst skip_tokens.simps) (simp add: l LexFail, simp add: Nil)
      then show ?thesis by simp
    next
      case (Cons c inp')
      then have "length inp' < length inp" by simp
      from less[OF this, of False] obtain r where r: "skip_tokens False inp' = Some r"
        and b: "\<forall>src'. r = Some src' \<longrightarrow> length src' \<le> length inp'" by auto
      have "skip_tokens first inp = Some r"
        by (subst skip_tokens.simps) (simp add: l LexFail, simp add: Cons r)
      then show ?thesis using b Cons by auto
    qed
  next
    case (Lexed x tx rest)
    show ?thesis
    proof (cases "x = ts_builtin_sym_end")
      case True
      show ?thesis by (subst skip_tokens.simps) (simp add: l Lexed True)
    next
      case False
      note n = error_token_not_empty[OF l[unfolded Lexed] False]
      from less[OF n, of False] obtain r where r: "skip_tokens False rest = Some r"
        and b: "\<forall>src'. r = Some src' \<longrightarrow> length src' \<le> length rest" by auto
      show ?thesis
      proof (cases "x = sym__newline")
        case True
        have "skip_tokens first inp = Some (Some rest)"
          by (subst skip_tokens.simps) (use True False in \<open>simp add: l Lexed\<close>)
        then show ?thesis using n by simp
      next
        case nl: False
        show ?thesis
        proof (cases "\<not> first \<and> statement_start x")
          case True
          have "skip_tokens first inp = Some (Some inp)"
            by (subst skip_tokens.simps) (use True False nl in \<open>simp add: l Lexed\<close>)
          then show ?thesis using True by simp
        next
          case st: False
          have "skip_tokens first inp = Some r"
            by (subst skip_tokens.simps) (use st False nl in \<open>auto simp add: l Lexed r\<close>)
          then show ?thesis using b n by auto
        qed
      qed
    qed
  qed
qed

lemma parse_lines_spec:
  "\<exists>items' more. parse_lines items diags src = Some (items', diags @ more) \<and>
      (list_all item_ok items \<longrightarrow> list_all item_ok items') \<and>
      (more = [] \<longleftrightarrow> (\<exists>t. parse src = Some (Inr t))) \<and>
      (\<forall>t. parse src = Some (Inr t) \<longrightarrow> items' = items @ children t)"
proof (induction src arbitrary: items diags rule: measure_induct_rule[where f = length])
  case (less src)
  obtain g where g: "parse_segment src = Some g"
    and sp: "case g of
          Accepted t \<Rightarrow> parse src = Some (Inr t) \<and> tree_ok t \<and> symbol_of t = sym_source_file
        | Failed e finished inp \<Rightarrow>
            parse src = Some (Inl e) \<and> list_all item_ok finished \<and> length inp \<le> length src"
    using parse_segment_spec by blast
  show ?case
  proof (cases g)
    case (Accepted t)
    with sp have p: "parse src = Some (Inr t)" and t: "tree_ok t" "symbol_of t = sym_source_file"
      by simp_all
    have "parse_lines items diags src = Some (items @ children t, diags @ [])"
      by (subst parse_lines.simps) (simp add: g Accepted)
    moreover have "list_all item_ok (children t)" by (rule source_file_children[OF t])
    ultimately show ?thesis using p by auto
  next
    case (Failed e finished inp)
    with sp have p: "parse src = Some (Inl e)" and f: "list_all item_ok finished"
      and n: "length inp \<le> length src" by simp_all
    obtain r where r: "skip_tokens (length src \<le> length inp) inp = Some r"
      and b: "\<forall>src'. r = Some src' \<longrightarrow> length src' \<le> length inp \<and>
                 (length src \<le> length inp \<longrightarrow> length src' < length inp)"
      using skip_tokens_spec by blast
    show ?thesis
    proof (cases r)
      case None
      have "parse_lines items diags src = Some (items @ finished, diags @ [e])"
        by (subst parse_lines.simps) (simp add: g Failed r None)
      then show ?thesis using p f by auto
    next
      case (Some src')
      with b n have "length src' < length src" by auto
      from less[OF this, of "items @ finished" "diags @ [e]"] obtain items' more
        where l: "parse_lines (items @ finished) (diags @ [e]) src' = Some (items', (diags @ [e]) @ more)"
          and i: "list_all item_ok (items @ finished) \<longrightarrow> list_all item_ok items'" by blast
      have "parse_lines items diags src = Some (items', diags @ (e # more))"
        by (subst parse_lines.simps) (simp add: g Failed r Some l)
      then show ?thesis using p f i by auto
    qed
  qed
qed

lemma parse_program_spec:
  "\<exists>items diags. parse_program src = Some (Node sym_source_file items, diags) \<and>
      list_all item_ok items \<and>
      (diags = [] \<longleftrightarrow> (\<exists>t. parse src = Some (Inr t))) \<and>
      (\<forall>t. parse src = Some (Inr t) \<longrightarrow> items = children t)"
  using parse_lines_spec[of "[]" "[]" src] by (auto simp add: parse_program_def)




section \<open>Numeric literals\<close>

lemma ts_lex_19: "ts_lex 19 = ts_lex_case_19" by (simp add: ts_lex_def)
lemma ts_lex_254: "ts_lex 254 = ts_lex_case_254" by (simp add: ts_lex_def)
lemma ts_lex_255: "ts_lex 255 = ts_lex_case_255" by (simp add: ts_lex_def)
lemma ts_lex_257: "ts_lex 257 = ts_lex_case_257" by (simp add: ts_lex_def)
lemma ts_lex_439: "ts_lex 439 = ts_lex_case_439" by (simp add: ts_lex_def)
lemma ts_lex_440: "ts_lex 440 = ts_lex_case_440" by (simp add: ts_lex_def)

lemma run_440:
  "run_lexer ts_lex 440 inp pos start res =
     Some (Token sym_number start (pos + length (takeWhile is_digit inp)))"
proof (induction inp arbitrary: pos res)
  case Nil
  show ?case by (simp add: run_lexer_Nil ts_lex_440 ts_lex_case_440_def)
next
  case (Cons c cs)
  show ?case
    by (simp add: run_lexer_Cons ts_lex_440 ts_lex_case_440_def Cons.IH is_digit_def)
qed

lemma run_255:
  "run_lexer ts_lex 255 inp pos start res =
     Some (if takeWhile is_digit inp = [] then res
           else Token sym_number start (pos + length (takeWhile is_digit inp)))"
  by (cases inp)
     (simp_all add: run_lexer_Nil run_lexer_Cons ts_lex_255 ts_lex_case_255_def run_440
        is_digit_def)

lemma run_439:
  "run_lexer ts_lex 439 inp pos start res =
     Some (Token sym_number start (pos + number_length inp))"
proof (induction inp arbitrary: pos res)
  case Nil
  show ?case
    by (simp add: run_lexer_Nil ts_lex_439 ts_lex_case_439_def number_length_def
          fraction_length_def)
next
  case (Cons c cs)
  show ?case
    by (simp add: run_lexer_Cons ts_lex_439 ts_lex_case_439_def Cons.IH run_255
         number_length_def fraction_length_def is_digit_def dot_def)
qed

lemma run_254:
  "run_lexer ts_lex 254 inp pos start NoToken =
     Some (case inp of
             [] \<Rightarrow> NoToken
           | c # cs \<Rightarrow>
               if is_digit c then Token sym_number start (pos + 1 + number_length cs)
               else NoToken)"
  by (cases inp)
     (simp_all add: run_lexer_Nil run_lexer_Cons ts_lex_254 ts_lex_case_254_def run_439
        is_digit_def)

lemma number_closed_enum:
  "list_all (\<lambda>st. st \<in> set number_lex_states \<or>
       (fst (ts_lex st) \<noteq> Some sym_number \<and>
        list_all (\<lambda>cm. move_target (snd cm) \<notin> set number_lex_states) (snd (ts_lex st))))
     lex_states"
  by code_simp

lemma number_closed:
  assumes "st \<notin> set number_lex_states"
  shows "fst (ts_lex st) \<noteq> Some sym_number \<and>
        list_all (\<lambda>cm. move_target (snd cm) \<notin> set number_lex_states) (snd (ts_lex st))"
proof (cases "st < 612")
  case True
  then have "st \<in> set lex_states" by (simp add: lex_states_set)
  with number_closed_enum assms show ?thesis unfolding list_all_iff by blast
next
  case False
  then show ?thesis by (simp add: ts_lex_out_of_range)
qed

lemma no_number_elsewhere:
  assumes "run_lexer ts_lex st inp pos start NoToken = Some r"
      and "st \<notin> set number_lex_states"
  shows "r \<noteq> Token sym_number a b"
proof (rule run_lexer_avoid[OF assms(1), where N = "set number_lex_states"])
  fix st' mv
  assume "st' \<notin> set number_lex_states" and "mv \<in> snd ` set (snd (ts_lex st'))"
  then show "move_target mv \<notin> set number_lex_states"
    using number_closed[of st'] by (auto simp add: list_all_iff)
next
  fix st'
  assume "st' \<notin> set number_lex_states"
  then show "fst (ts_lex st') \<noteq> Some sym_number" using number_closed[of st'] by simp
qed (use assms(2) in simp_all)

lemma keyword_not_number_enum:
  "list_all (\<lambda>st. fst (ts_lex_keywords st) \<noteq> Some sym_number) keyword_states"
  by code_simp

lemma keyword_not_number:
  assumes "run_lexer ts_lex_keywords st inp pos start NoToken = Some r"
  shows "r \<noteq> Token sym_number a b"
proof (rule run_lexer_avoid[OF assms, where N = "{}"])
  fix st'
  show "fst (ts_lex_keywords st') \<noteq> Some sym_number"
  proof (cases "st' < 78")
    case True
    then have "st' \<in> set keyword_states" by (simp add: keyword_states_set)
    with keyword_not_number_enum show ?thesis unfolding list_all_iff by blast
  next
    case False
    then show ?thesis by (simp add: ts_lex_keywords_out_of_range)
  qed
qed simp_all

subsection \<open>The shape of the text of a number\<close>

lemma list_all_takeWhile: "list_all P (takeWhile P xs)"
  by (induction xs) auto

lemma number_length_digit: "is_digit c \<Longrightarrow> number_length (c # cs) = 1 + number_length cs"
  by (simp add: number_length_def)

lemma take_number_length:
  "take (number_length inp) inp =
     takeWhile is_digit inp @ take (fraction_length (dropWhile is_digit inp)) (dropWhile is_digit inp)"
proof -
  have "take (number_length inp) (takeWhile is_digit inp @ dropWhile is_digit inp) =
        takeWhile is_digit inp @ take (fraction_length (dropWhile is_digit inp)) (dropWhile is_digit inp)"
    unfolding number_length_def by (simp only: take_append) simp
  then show ?thesis by simp
qed

lemma not_digit_dot: "\<not> is_digit dot"
  by (simp add: is_digit_def dot_def)

lemma not_digit_minus: "\<not> is_digit minus_sign"
  by (simp add: is_digit_def minus_sign_def)

lemma shape_digits:
  assumes "ds \<noteq> []" and "list_all is_digit ds"
  shows "unsigned_shape ds"
proof -
  have h1: "takeWhile is_digit ds = ds" using assms(2) by (simp add: list_all_iff)
  have h2: "dropWhile is_digit ds = []" using assms(2) by (simp add: list_all_iff)
  show ?thesis by (simp only: unsigned_shape_def h1 h2) (simp add: assms(1))
qed

lemma shape_fraction:
  assumes "ds \<noteq> []" and "list_all is_digit ds" and "fs \<noteq> []" and "list_all is_digit fs"
  shows "unsigned_shape (ds @ dot # fs)"
proof -
  have h1: "takeWhile is_digit (ds @ dot # fs) = ds"
    using assms(2) not_digit_dot by (simp add: takeWhile_append2 list_all_iff)
  have h2: "dropWhile is_digit (ds @ dot # fs) = dot # fs"
    using assms(2) not_digit_dot by (simp add: dropWhile_append2 list_all_iff)
  show ?thesis by (simp only: unsigned_shape_def h1 h2) (simp add: assms)
qed

lemma unsigned_shape_take:
  assumes "is_digit c"
  shows "unsigned_shape (take (number_length (c # cs)) (c # cs))"
proof -
  define ds where "ds = takeWhile is_digit (c # cs)"
  define r where "r = dropWhile is_digit (c # cs)"
  have ds: "ds \<noteq> []" using assms by (simp add: ds_def)
  have all: "list_all is_digit ds" unfolding ds_def by (rule list_all_takeWhile)
  have t: "take (number_length (c # cs)) (c # cs) = ds @ take (fraction_length r) r"
    unfolding ds_def r_def by (rule take_number_length)
  show ?thesis
  proof (cases "fraction_length r = 0")
    case True
    then show ?thesis using shape_digits[OF ds all] by (simp add: t)
  next
    case False
    then obtain r' where r: "r = dot # r'" and fs: "takeWhile is_digit r' \<noteq> []"
      by (auto simp add: fraction_length_def split: list.splits if_splits)
    have "take (fraction_length r) r = dot # takeWhile is_digit r'"
      using r fs takeWhile_eq_take[of is_digit r'] by (simp add: fraction_length_def)
    then show ?thesis
      using shape_fraction[OF ds all fs list_all_takeWhile] by (simp add: t)
  qed
qed


subsection \<open>The lexer on numbers\<close>

lemma number_states_enum:
  "list_all (\<lambda>s. actions_for s sym_number = [] \<or> ts_lex_modes s = 19 \<or> ts_lex_modes s = 257)
     all_states"
  by code_simp

lemma number_states:
  "actions_for s sym_number \<noteq> [] \<Longrightarrow> ts_lex_modes s = 19 \<or> ts_lex_modes s = 257"
  using state_cases[of "\<lambda>s. actions_for s sym_number = [] \<or> ts_lex_modes s = 19 \<or>
                              ts_lex_modes s = 257" s]
    number_states_enum actions_out_of_range by blast

lemma start_blank:
  assumes "m = 19 \<or> m = 257" and "is_blank c"
  shows "run_lexer ts_lex m (c # cs) pos start NoToken =
         run_lexer ts_lex m cs (pos + 1) (pos + 1) NoToken"
  using assms
  by (auto simp add: run_lexer_Cons ts_lex_19 ts_lex_case_19_def ts_lex_257 ts_lex_case_257_def
        is_blank_def)

lemma start_digit:
  assumes "m = 19 \<or> m = 257" and "is_digit c"
  shows "run_lexer ts_lex m (c # cs) pos start NoToken =
         Some (Token sym_number start (pos + 1 + number_length cs))"
  using assms
  by (auto simp add: run_lexer_Cons ts_lex_19 ts_lex_case_19_def ts_lex_257 ts_lex_case_257_def
        is_digit_def run_439)

lemma start_minus:
  assumes "m = 19 \<or> m = 257"
  shows "run_lexer ts_lex m (minus_sign # cs) pos start NoToken =
         run_lexer ts_lex 254 cs (pos + 1) start NoToken"
  using assms
  by (auto simp add: run_lexer_Cons ts_lex_19 ts_lex_case_19_def ts_lex_257 ts_lex_case_257_def
        minus_sign_def)

lemma start_other:
  assumes "m = 19 \<or> m = 257" and "\<not> is_blank c" and "\<not> is_digit c" and "c \<noteq> minus_sign"
      and "first_move (snd (ts_lex m)) False c = Some mv"
  shows "move_target mv \<notin> set number_lex_states"
  using assms
  by (auto simp add: ts_lex_19 ts_lex_case_19_def ts_lex_257 ts_lex_case_257_def
        is_blank_def is_digit_def minus_sign_def number_lex_states_def split: if_splits)

lemma start_eof:
  assumes "m = 19 \<or> m = 257" and "first_move (snd (ts_lex m)) True 0 = Some mv"
  shows "move_target mv \<notin> set number_lex_states"
  using assms
  by (auto simp add: ts_lex_19 ts_lex_case_19_def ts_lex_257 ts_lex_case_257_def
        number_lex_states_def split: if_splits)

lemma start_no_accept: "m = 19 \<or> m = 257 \<Longrightarrow> fst (ts_lex m) = None"
  by (auto simp add: ts_lex_19 ts_lex_case_19_def ts_lex_257 ts_lex_case_257_def)


lemma number_shape_digit:
  "is_digit c \<Longrightarrow> number_shape (take (number_length (c # cs)) (c # cs))"
  using unsigned_shape_take[of c cs] not_digit_minus
  by (auto simp add: number_shape_def number_length_digit)

lemma number_shape_minus:
  "is_digit c \<Longrightarrow> number_shape (minus_sign # take (number_length (c # cs)) (c # cs))"
  using unsigned_shape_take[of c cs] by (simp add: number_shape_def)

lemma number_run_shape:
  assumes m: "m = 19 \<or> m = 257"
  shows "run_lexer ts_lex m inp pos pos NoToken = Some (Token sym_number a b) \<Longrightarrow>
         pos \<le> a \<and> number_shape (take (b - a) (drop (a - pos) inp))"
proof (induction inp arbitrary: pos)
  case Nil
  show ?case
  proof (cases "first_move (snd (ts_lex m)) True 0")
    case None
    with Nil show ?thesis by (simp add: run_lexer_Nil start_no_accept[OF m])
  next
    case (Some mv)
    then have t: "move_target mv \<notin> set number_lex_states" by (rule start_eof[OF m])
    from Some Nil obtain p s where "run_lexer ts_lex (move_target mv) [] pos p NoToken =
        Some (Token sym_number a b)"
      by (cases mv) (auto simp add: run_lexer_Nil start_no_accept[OF m])
    from no_number_elsewhere[OF this t, of a b] show ?thesis by simp
  qed
next
  case (Cons c cs)
  consider (blank) "is_blank c" | (digit) "is_digit c" | (minus) "c = minus_sign"
    | (other) "\<not> is_blank c" "\<not> is_digit c" "c \<noteq> minus_sign"
    by blast
  then show ?case
  proof cases
    case blank
    with Cons.prems have "run_lexer ts_lex m cs (pos + 1) (pos + 1) NoToken =
        Some (Token sym_number a b)"
      by (simp add: start_blank[OF m])
    from Cons.IH[OF this] have le: "pos + 1 \<le> a"
      and sh: "number_shape (take (b - a) (drop (a - (pos + 1)) cs))" by simp_all
    from le have "a - pos = Suc (a - (pos + 1))" by simp
    then have "drop (a - pos) (c # cs) = drop (a - (pos + 1)) cs" by simp
    with le sh show ?thesis by simp
  next
    case digit
    with Cons.prems have "a = pos" and "b = pos + 1 + number_length cs"
      by (simp_all add: start_digit[OF m])
    then show ?thesis
      using number_shape_digit[OF digit, of cs] by (simp add: number_length_digit[OF digit])
  next
    case minus
    with Cons.prems have r: "run_lexer ts_lex 254 cs (pos + 1) pos NoToken =
        Some (Token sym_number a b)"
      by (simp add: start_minus[OF m])
    then obtain d cs' where cs: "cs = d # cs'" and d: "is_digit d"
      and ab: "a = pos" "b = pos + 1 + 1 + number_length cs'"
      by (auto simp add: run_254 split: list.splits if_splits)
    then show ?thesis
      using number_shape_minus[OF d, of cs'] minus by (simp add: number_length_digit[OF d])
  next
    case other
    show ?thesis
    proof (cases "first_move (snd (ts_lex m)) False c")
      case None
      with Cons.prems show ?thesis by (simp add: run_lexer_Cons start_no_accept[OF m])
    next
      case (Some mv)
      have t: "move_target mv \<notin> set number_lex_states"
        by (rule start_other[OF m other Some])
      from Some Cons.prems obtain p where "run_lexer ts_lex (move_target mv) cs (pos + 1) p NoToken =
          Some (Token sym_number a b)"
        by (cases mv) (auto simp add: run_lexer_Cons start_no_accept[OF m])
      from no_number_elsewhere[OF this t, of a b] show ?thesis by simp
    qed
  qed
qed

lemma keyword_of_not_number: "keyword_of s text \<noteq> Some (Some sym_number)"
proof
  assume a: "keyword_of s text = Some (Some sym_number)"
  then obtain r where r: "run_lexer ts_lex_keywords 0 text 0 0 NoToken = Some r"
    by (auto simp add: keyword_of_def split: option.splits)
  with a obtain x y where "r = Token sym_number x y"
    by (auto simp add: keyword_of_def split: lex_result.splits if_splits)
  with keyword_not_number[OF r] show False by blast
qed

text \<open>
  C8 (as amended): the shape of numeric literals.  In every parse state that expects a
  number: a token \<^verbatim>\<open>number\<close> is an optional minus sign, a non-empty sequence of digits and
  optionally a dot followed by at least one digit (so there is no exponent form); on a digit,
  or on a minus sign followed by a digit, the lexer returns the longest such text, which
  stops before a dot that is not followed by a digit.
\<close>

theorem number_token_shape:
  assumes "actions_for s sym_number \<noteq> []"
  shows "(\<forall>inp tx rest. ts_parser_lex s inp = Some (Lexed sym_number tx rest)
            \<longrightarrow> number_shape tx)
       \<and> (\<forall>d cs. is_digit d \<longrightarrow>
            ts_parser_lex s (d # cs) =
              Some (Lexed sym_number (take (number_length (d # cs)) (d # cs))
                                     (drop (number_length (d # cs)) (d # cs)))
          \<and> ts_parser_lex s (minus_sign # d # cs) =
              Some (Lexed sym_number (minus_sign # take (number_length (d # cs)) (d # cs))
                                     (drop (number_length (d # cs)) (d # cs))))"
proof -
  note m = number_states[OF assms]
  have p1: "number_shape tx" if a: "ts_parser_lex s inp = Some (Lexed sym_number tx rest)"
    for inp tx rest
  proof -
    from a obtain k x y
      where run: "run_lexer ts_lex (ts_lex_modes s) inp 0 0 NoToken = Some (Token k x y)"
      by (auto simp add: ts_parser_lex_def split: option.splits lex_result.splits)
    have k: "k = sym_number"
    proof (cases "k = sym_identifier")
      case True
      with a run keyword_of_not_number[of s "take (y - x) (drop x inp)"] show ?thesis
        by (auto simp add: ts_parser_lex_def Let_def split: option.splits)
    next
      case False
      with a run show ?thesis by (simp add: ts_parser_lex_def Let_def)
    qed
    with a run have "tx = take (y - x) (drop x inp)" by (simp add: ts_parser_lex_def Let_def)
    with number_run_shape[OF m, of inp 0 x y] run k show "number_shape tx" by simp
  qed
  have p2: "ts_parser_lex s (d # cs) =
              Some (Lexed sym_number (take (number_length (d # cs)) (d # cs))
                                     (drop (number_length (d # cs)) (d # cs)))"
    if d: "is_digit d" for d cs
    by (simp add: ts_parser_lex_def start_digit[OF m d] number_length_digit[OF d])
  have p3: "ts_parser_lex s (minus_sign # d # cs) =
              Some (Lexed sym_number (minus_sign # take (number_length (d # cs)) (d # cs))
                                     (drop (number_length (d # cs)) (d # cs)))"
    if d: "is_digit d" for d cs
    using d by (simp add: ts_parser_lex_def start_minus[OF m] run_254 number_length_digit[OF d])
  from p1 p2 p3 show ?thesis by blast
qed


theorem number_token_shape_witness:
  "actions_for 105 sym_number \<noteq> []
   \<and> ts_parser_lex 105 (codes ''5.'') = Some (Lexed sym_number (codes ''5'') (codes ''.''))
   \<and> number_shape (codes ''5'')
   \<and> ts_parser_lex 105 (codes ''-12.5e3'') =
       Some (Lexed sym_number (codes ''-12.5'') (codes ''e3''))"
proof -
  have h: "actions_for 105 sym_number \<noteq> []" by code_simp
  have d5: "is_digit (of_char CHR ''5'')" and d1: "is_digit (of_char CHR ''1'')"
    by (simp_all add: is_digit_def)
  from number_token_shape[OF h] d5
  have a: "ts_parser_lex 105 (codes ''5.'') = Some (Lexed sym_number (codes ''5'') (codes ''.''))"
    by (simp add: codes_def number_length_def fraction_length_def is_digit_def dot_def)
  from number_token_shape[OF h] a have b: "number_shape (codes ''5'')" by blast
  from number_token_shape[OF h] d1
  have c: "ts_parser_lex 105 (codes ''-12.5e3'') =
       Some (Lexed sym_number (codes ''-12.5'') (codes ''e3''))"
    by (simp add: codes_def number_length_def fraction_length_def is_digit_def dot_def
          minus_sign_def)
  from h a b c show ?thesis by blast
qed

text \<open>
  C8 as stated fails: where a number is expected, \<^verbatim>\<open>-5\<close> is one \<^verbatim>\<open>number\<close> token, and its text
  is not a sequence of digits with an optional fraction.
\<close>

theorem number_token_minus_counterexample:
  "ts_parser_lex 105 (codes ''-5'') = Some (Lexed sym_number (codes ''-5'') [])
   \<and> \<not> unsigned_shape (codes ''-5'')"
  by (simp add: unsigned_shape_def codes_def is_digit_def) code_simp

section \<open>Multi-word keywords\<close>

lemma comparison_states_enum:
  "list_all (\<lambda>s. actions_for s anon_sym_islessthan = [] \<or> ts_lex_modes s \<in> set comparison_modes)
     all_states"
  by code_simp

lemma comparison_states:
  "actions_for s anon_sym_islessthan \<noteq> [] \<Longrightarrow> ts_lex_modes s \<in> set comparison_modes"
  using state_cases[of "\<lambda>s. actions_for s anon_sym_islessthan = [] \<or>
                              ts_lex_modes s \<in> set comparison_modes" s]
    comparison_states_enum actions_out_of_range by blast

lemma walk_less_enum:
  "list_all (\<lambda>m. map_option (\<lambda>(st, pos, start, r). (st, pos, start))
                    (walk ts_lex m (codes ''is less than'') 0 0 NoToken) = Some (453, 12, 0))
     comparison_modes"
  by code_simp

lemma walk_greater_enum:
  "list_all (\<lambda>m. map_option (\<lambda>(st, pos, start, r). (st, pos, start))
                    (walk ts_lex m (codes ''is greater than'') 0 0 NoToken) = Some (454, 15, 0))
     comparison_modes"
  by code_simp

lemma spells_less: "spells ts_lex 168 ''or equal to'' 455"
  by code_simp

lemma spells_greater: "spells ts_lex 174 ''or equal to'' 456"
  by code_simp

lemma ts_lex_453: "ts_lex 453 = ts_lex_case_453" by (simp add: ts_lex_def)
lemma ts_lex_454: "ts_lex 454 = ts_lex_case_454" by (simp add: ts_lex_def)
lemma ts_lex_455: "ts_lex 455 = ts_lex_case_455" by (simp add: ts_lex_def)
lemma ts_lex_456: "ts_lex 456 = ts_lex_case_456" by (simp add: ts_lex_def)

lemma length_or_equal_to: "length ''or equal to'' = 11"
  by simp

lemma run_168:
  "run_lexer ts_lex 168 inp pos start res =
     (if take 11 inp = codes ''or equal to''
      then run_lexer ts_lex 455 (drop 11 inp) (pos + 11) start res else Some res)"
  using run_spells[OF spells_less, of inp pos start res] unfolding length_or_equal_to
  by (simp add: codes_def)

lemma run_174:
  "run_lexer ts_lex 174 inp pos start res =
     (if take 11 inp = codes ''or equal to''
      then run_lexer ts_lex 456 (drop 11 inp) (pos + 11) start res else Some res)"
  using run_spells[OF spells_greater, of inp pos start res] unfolding length_or_equal_to
  by (simp add: codes_def)

lemma run_453:
  "run_lexer ts_lex 453 rest 12 0 res =
     Some (if take 12 rest = codes '' or equal to'' then Token anon_sym_islessthanorequalto 0 24
           else Token anon_sym_islessthan 0 12)"
proof (cases rest)
  case Nil
  then show ?thesis by (simp add: run_lexer_Nil ts_lex_453 ts_lex_case_453_def codes_def)
next
  case (Cons c cs)
  then show ?thesis
    by (simp add: run_lexer_Cons ts_lex_453 ts_lex_case_453_def run_168
          run_lexer_final ts_lex_455 ts_lex_case_455_def codes_def)
qed

lemma run_454:
  "run_lexer ts_lex 454 rest 15 0 res =
     Some (if take 12 rest = codes '' or equal to'' then Token anon_sym_isgreaterthanorequalto 0 27
           else Token anon_sym_isgreaterthan 0 15)"
proof (cases rest)
  case Nil
  then show ?thesis by (simp add: run_lexer_Nil ts_lex_454 ts_lex_case_454_def codes_def)
next
  case (Cons c cs)
  then show ?thesis
    by (simp add: run_lexer_Cons ts_lex_454 ts_lex_case_454_def run_174
          run_lexer_final ts_lex_456 ts_lex_case_456_def codes_def)
qed


lemma walk_less:
  assumes "m \<in> set comparison_modes"
  obtains r where "walk ts_lex m (codes ''is less than'') 0 0 NoToken = Some (453, 12, 0, r)"
  using walk_less_enum assms unfolding list_all_iff by fastforce

lemma walk_greater:
  assumes "m \<in> set comparison_modes"
  obtains r where "walk ts_lex m (codes ''is greater than'') 0 0 NoToken = Some (454, 15, 0, r)"
  using walk_greater_enum assms unfolding list_all_iff by fastforce

lemma ts_lex_432: "ts_lex 432 = ts_lex_case_432" by (simp add: ts_lex_def)

lemma walk_add: "walk ts_lex (ts_lex_modes 1) (codes ''add'') 0 0 NoToken = Some (432, 3, 0, NoToken)"
  by code_simp

lemma add_at_statement_start:
  "ts_parser_lex 1 (codes ''add'' @ rest) = Some (Lexed anon_sym_add (codes ''add'') rest)"
proof -
  have r: "run_lexer ts_lex (ts_lex_modes 1) (codes ''add'' @ rest) 0 0 NoToken =
             Some (Token anon_sym_add 0 3)"
    by (simp only: run_walk[OF walk_add])
       (simp add: run_lexer_final ts_lex_432 ts_lex_case_432_def)
  show ?thesis unfolding ts_parser_lex_def r by (simp add: codes_def)
qed

subsection \<open>The longest match in general\<close>

lemma later_tokens:
  assumes ok: "\<And>st. lexer_step_ok f e st"
  shows "run_lexer f st inp pos start res = Some r \<Longrightarrow>
         r = res \<or> (\<exists>y a b. r = Token y a b \<and> pos \<le> b)"
proof (induction inp arbitrary: st pos start res)
  case Nil
  show ?case
  proof (cases "first_move (snd (f st)) True 0")
    case None
    then show ?thesis using Nil by (auto simp add: run_lexer_Nil split: option.splits)
  next
    case (Some mv)
    from step_ok_eof[OF ok Some]
    have n: "first_move (snd (f (move_target mv))) True 0 = None" by simp
    show ?thesis using Nil Some n
      by (cases mv) (auto simp add: run_lexer_Nil split: option.splits)
  qed
next
  case (Cons c cs)
  let ?res' = "case fst (f st) of None \<Rightarrow> res | Some s \<Rightarrow> Token s start pos"
  have res': "?res' = res \<or> (\<exists>y a. ?res' = Token y a pos)" by (auto split: option.splits)
  show ?case
  proof (cases "first_move (snd (f st)) False c")
    case None
    then have "r = ?res'" using Cons(2) by (simp add: run_lexer_Cons)
    then show ?thesis using res' by auto
  next
    case (Some mv)
    show ?thesis
    proof (cases mv)
      case (ADVANCE t)
      then have "run_lexer f t cs (pos + 1) start ?res' = Some r"
        using Cons(2) Some by (simp add: run_lexer_Cons)
      from Cons(1)[OF this] res' show ?thesis by auto
    next
      case (SKIP t)
      then have "run_lexer f t cs (pos + 1) (pos + 1) ?res' = Some r"
        using Cons(2) Some by (simp add: run_lexer_Cons)
      from Cons(1)[OF this] res' show ?thesis by auto
    qed
  qed
qed

lemma run_lexer_prefix:
  assumes ok: "\<And>st. lexer_step_ok f e st" and y: "y \<noteq> e"
  shows "run_lexer f st v pos start res = Some (Token y a (pos + length v)) \<Longrightarrow>
         ends_before pos res \<Longrightarrow>
         run_lexer f st (v @ rest) pos start res = Some r' \<Longrightarrow>
         \<exists>y' a' b'. r' = Token y' a' b' \<and> pos + length v \<le> b' \<and>
                    (b' = pos + length v \<longrightarrow> y' = y \<and> a' = a)"
proof (induction v arbitrary: st pos start res)
  case Nil
  let ?res' = "case fst (f st) of None \<Rightarrow> res | Some s \<Rightarrow> Token s start pos"
  have res: "res \<noteq> Token y a pos" using Nil(2) by (auto simp add: ends_before_def)
  have acc: "?res' = Token y a pos"
  proof (cases "first_move (snd (f st)) True 0")
    case None
    then show ?thesis using Nil(1) by (simp add: run_lexer_Nil)
  next
    case (Some mv)
    from step_ok_eof[OF ok Some]
    have n: "first_move (snd (f (move_target mv))) True 0 = None"
      and a: "fst (f (move_target mv)) = None \<or> fst (f (move_target mv)) = Some e" by simp_all
    show ?thesis using Nil(1) Some n a y
      by (cases mv) (auto simp add: run_lexer_Nil split: option.splits)
  qed
  show ?case
  proof (cases rest)
    case Nil
    then show ?thesis using \<open>run_lexer f st [] pos start res = Some (Token y a (pos + length []))\<close>
        \<open>run_lexer f st ([] @ rest) pos start res = Some r'\<close> by auto
  next
    case (Cons c cs)
    show ?thesis
    proof (cases "first_move (snd (f st)) False c")
      case None
      then have "r' = ?res'" using \<open>run_lexer f st ([] @ rest) pos start res = Some r'\<close> Cons
        by (simp add: run_lexer_Cons)
      then show ?thesis using acc by simp
    next
      case (Some mv)
      have "r' = ?res' \<or> (\<exists>y a b. r' = Token y a b \<and> pos + 1 \<le> b)"
      proof (cases mv)
        case (ADVANCE t)
        then have "run_lexer f t cs (pos + 1) start ?res' = Some r'"
          using \<open>run_lexer f st ([] @ rest) pos start res = Some r'\<close> Cons Some
          by (simp add: run_lexer_Cons)
        from later_tokens[OF ok this] show ?thesis .
      next
        case (SKIP t)
        then have "run_lexer f t cs (pos + 1) (pos + 1) ?res' = Some r'"
          using \<open>run_lexer f st ([] @ rest) pos start res = Some r'\<close> Cons Some
          by (simp add: run_lexer_Cons)
        from later_tokens[OF ok this] show ?thesis .
      qed
      then show ?thesis using acc by auto
    qed
  qed
next
  case (Cons c cs)
  let ?res' = "case fst (f st) of None \<Rightarrow> res | Some s \<Rightarrow> Token s start pos"
  have res': "ends_before (pos + 1) ?res'"
    using Cons(3) by (auto simp add: ends_before_def split: option.splits lex_result.splits)
  show ?case
  proof (cases "first_move (snd (f st)) False c")
    case None
    then have "?res' = Token y a (pos + length (c # cs))"
      using Cons(2) by (simp add: run_lexer_Cons)
    with res' have False by (simp add: ends_before_def)
    then show ?thesis ..
  next
    case (Some mv)
    show ?thesis
    proof (cases mv)
      case (ADVANCE t)
      have r1: "run_lexer f t cs (pos + 1) start ?res' = Some (Token y a (pos + 1 + length cs))"
        using Cons(2) Some ADVANCE by (simp add: run_lexer_Cons)
      have r2: "run_lexer f t (cs @ rest) (pos + 1) start ?res' = Some r'"
        using Cons(4) Some ADVANCE by (simp add: run_lexer_Cons)
      from Cons(1)[OF r1 res' r2] show ?thesis by simp
    next
      case (SKIP t)
      have r1: "run_lexer f t cs (pos + 1) (pos + 1) ?res' =
                  Some (Token y a (pos + 1 + length cs))"
        using Cons(2) Some SKIP by (simp add: run_lexer_Cons)
      have r2: "run_lexer f t (cs @ rest) (pos + 1) (pos + 1) ?res' = Some r'"
        using Cons(4) Some SKIP by (simp add: run_lexer_Cons)
      from Cons(1)[OF r1 res' r2] show ?thesis by simp
    qed
  qed
qed

lemma longest_match_general:
  assumes lx: "ts_parser_lex s v = Some (Lexed x tx [])" and x: "x \<noteq> ts_builtin_sym_end"
  shows "\<exists>x' tx' rest'. ts_parser_lex s (v @ rest) = Some (Lexed x' tx' rest') \<and>
           length rest' \<le> length rest \<and>
           (length rest' = length rest \<longrightarrow> x' = x \<and> tx' = tx \<and> rest' = rest)"
proof -
  from ts_parser_lex_token[OF lx] obtain y a b
    where run: "run_lexer ts_lex (ts_lex_modes s) v 0 0 NoToken = Some (Token y a b)"
      and tx: "tx = take (b - a) (drop a v)" and rest0: "[] = drop b v"
      and xy: "y \<noteq> sym_identifier \<longrightarrow> x = y" by blast
  have "token_ok ts_builtin_sym_end sym_comment_content (0 + length v) (Token y a b)"
    by (rule run_lexer_progress[of ts_lex ts_builtin_sym_end, OF ts_lex_step_ok run])
       (use mode_accepts[of s] in \<open>auto simp add: token_ok_def\<close>)
  then have "b \<le> length v" by (simp add: token_ok_def)
  with rest0 have b: "b = length v" by simp
  have y: "y \<noteq> ts_builtin_sym_end" using x xy by auto
  obtain r' where r': "run_lexer ts_lex (ts_lex_modes s) (v @ rest) 0 0 NoToken = Some r'"
    using run_lexer_total[of ts_lex ts_builtin_sym_end, OF ts_lex_step_ok] by blast
  have "\<exists>y' a' b'. r' = Token y' a' b' \<and> 0 + length v \<le> b' \<and>
                    (b' = 0 + length v \<longrightarrow> y' = y \<and> a' = a)"
    by (rule run_lexer_prefix[of ts_lex ts_builtin_sym_end, OF ts_lex_step_ok y _ _ r'])
       (use run b in \<open>simp_all add: ends_before_def\<close>)
  then obtain y' a' b' where t: "r' = Token y' a' b'" and le: "length v \<le> b'"
    and eq: "b' = length v \<longrightarrow> y' = y \<and> a' = a" by auto
  obtain l where l: "ts_parser_lex s (v @ rest) = Some l" using ts_parser_lex_total by blast
  have "l \<noteq> LexFail" using l r' t
    by (auto simp add: ts_parser_lex_def Let_def split: option.splits if_splits)
  then obtain x' tx' rest' where l': "l = Lexed x' tx' rest'" by (cases l) auto
  from ts_parser_lex_token[OF l[unfolded l']] r' t
  have tx': "tx' = take (b' - a') (drop a' (v @ rest))" and rest': "rest' = drop b' (v @ rest)"
    and xy': "y' \<noteq> sym_identifier \<longrightarrow> x' = y'" by auto
  have len: "length rest' \<le> length rest" using le by (simp add: rest')
  have same: "x' = x \<and> tx' = tx \<and> rest' = rest" if "length rest' = length rest"
  proof -
    have "b' \<le> length (v @ rest)"
    proof -
      have "token_ok ts_builtin_sym_end sym_comment_content (0 + length (v @ rest)) r'"
        by (rule run_lexer_progress[of ts_lex ts_builtin_sym_end, OF ts_lex_step_ok r'])
           (use mode_accepts[of s] in \<open>auto simp add: token_ok_def\<close>)
      then show ?thesis by (simp add: token_ok_def t)
    qed
    with that le have b': "b' = length v" by (simp add: rest')
    with eq have yy: "y' = y" and aa: "a' = a" by simp_all
    have t1: "tx' = tx" by (simp add: tx tx' b b' aa)
    have t2: "rest' = rest" by (simp add: rest' b')
    have "x' = x"
      using l[unfolded l'] lx r' run t yy aa b b' t1
      by (auto simp add: ts_parser_lex_def Let_def tx split: option.splits if_splits)
    with t1 t2 show ?thesis by simp
  qed
  from l l' len same show ?thesis by blast
qed


lemma comparison_keywords:
  assumes "actions_for s anon_sym_islessthan \<noteq> []"
  shows "ts_parser_lex s (codes ''is less than'' @ rest) =
           Some (if take 12 rest = codes '' or equal to''
                 then Lexed anon_sym_islessthanorequalto (codes ''is less than or equal to'')
                        (drop 12 rest)
                 else Lexed anon_sym_islessthan (codes ''is less than'') rest)
       \<and> ts_parser_lex s (codes ''is greater than'' @ rest) =
           Some (if take 12 rest = codes '' or equal to''
                 then Lexed anon_sym_isgreaterthanorequalto (codes ''is greater than or equal to'')
                        (drop 12 rest)
                 else Lexed anon_sym_isgreaterthan (codes ''is greater than'') rest)
       \<and> ts_parser_lex 1 (codes ''add'' @ rest) = Some (Lexed anon_sym_add (codes ''add'') rest)"
proof -
  have m: "ts_lex_modes s \<in> set comparison_modes" by (rule comparison_states[OF assms])
  from walk_less[OF m] obtain r1
    where w1: "walk ts_lex (ts_lex_modes s) (codes ''is less than'') 0 0 NoToken =
                 Some (453, 12, 0, r1)" .
  from walk_greater[OF m] obtain r2
    where w2: "walk ts_lex (ts_lex_modes s) (codes ''is greater than'') 0 0 NoToken =
                 Some (454, 15, 0, r2)" .
  have l1: "length (codes ''is less than'') = 12" and l2: "length (codes ''is greater than'') = 15"
    by (simp_all add: codes_def)
  have e: "take 12 rest = codes '' or equal to'' \<Longrightarrow>
           codes ''is less than'' @ take 12 rest = codes ''is less than or equal to'' \<and>
           codes ''is greater than'' @ take 12 rest = codes ''is greater than or equal to''"
    by (simp add: codes_def)
  have "ts_parser_lex s (codes ''is less than'' @ rest) =
           Some (if take 12 rest = codes '' or equal to''
                 then Lexed anon_sym_islessthanorequalto (codes ''is less than or equal to'')
                        (drop 12 rest)
                 else Lexed anon_sym_islessthan (codes ''is less than'') rest)
       \<and> ts_parser_lex s (codes ''is greater than'' @ rest) =
           Some (if take 12 rest = codes '' or equal to''
                 then Lexed anon_sym_isgreaterthanorequalto (codes ''is greater than or equal to'')
                        (drop 12 rest)
                 else Lexed anon_sym_isgreaterthan (codes ''is greater than'') rest)"
    using e
    by (simp add: ts_parser_lex_def run_walk[OF w1] run_walk[OF w2] run_453 run_454 l1 l2
          take_add Let_def)
  with add_at_statement_start[of rest] show ?thesis by blast
qed


text \<open>
  C9 (as amended): the longest match is taken among the tokens of the lexer mode of the
  current parse state.  If the lexer of a parse state reads a phrase \<open>v\<close> as one token, then
  on every input that begins with \<open>v\<close> it returns a token that consumes at least \<open>v\<close>, and if
  the token consumes exactly \<open>v\<close> it is the token of \<open>v\<close>: of a shorter and a longer phrase
  that both match, the longer one is returned, and the shorter one only if no longer one
  matches.  So in every parse state that expects a comparison operator, input that begins
  with \<^verbatim>\<open>is less than\<close> gives the single token \<^verbatim>\<open>is less than or equal to\<close> if it goes on
  with \<^verbatim>\<open> or equal to\<close>, and the token \<^verbatim>\<open>is less than\<close> otherwise; likewise for
  \<^verbatim>\<open>is greater than\<close>.  A longer phrase that the mode does not know is not preferred: at
  the start of a program, input that begins with \<^verbatim>\<open>add\<close> gives the token \<^verbatim>\<open>add\<close>, also when
  it goes on as \<^verbatim>\<open>added to\<close>.
\<close>

theorem longest_match_in_mode:
  "(\<forall>s v x tx rest.
      ts_parser_lex s v = Some (Lexed x tx []) \<and> x \<noteq> ts_builtin_sym_end
      \<longrightarrow> (\<exists>x' tx' rest'. ts_parser_lex s (v @ rest) = Some (Lexed x' tx' rest') \<and>
             length rest' \<le> length rest \<and>
             (length rest' = length rest \<longrightarrow> x' = x \<and> tx' = tx \<and> rest' = rest)))
   \<and> (\<forall>s rest. actions_for s anon_sym_islessthan \<noteq> []
      \<longrightarrow> ts_parser_lex s (codes ''is less than'' @ rest) =
           Some (if take 12 rest = codes '' or equal to''
                 then Lexed anon_sym_islessthanorequalto (codes ''is less than or equal to'')
                        (drop 12 rest)
                 else Lexed anon_sym_islessthan (codes ''is less than'') rest)
        \<and> ts_parser_lex s (codes ''is greater than'' @ rest) =
           Some (if take 12 rest = codes '' or equal to''
                 then Lexed anon_sym_isgreaterthanorequalto (codes ''is greater than or equal to'')
                        (drop 12 rest)
                 else Lexed anon_sym_isgreaterthan (codes ''is greater than'') rest))
   \<and> (\<forall>rest. ts_parser_lex 1 (codes ''add'' @ rest) =
               Some (Lexed anon_sym_add (codes ''add'') rest))"
proof -
  have a: "\<exists>x' tx' rest'. ts_parser_lex s (v @ rest) = Some (Lexed x' tx' rest') \<and>
             length rest' \<le> length rest \<and>
             (length rest' = length rest \<longrightarrow> x' = x \<and> tx' = tx \<and> rest' = rest)"
    if "ts_parser_lex s v = Some (Lexed x tx []) \<and> x \<noteq> ts_builtin_sym_end" for s v x tx rest
    using longest_match_general[of s v x tx rest] that by blast
  have b: "ts_parser_lex s (codes ''is less than'' @ rest) =
           Some (if take 12 rest = codes '' or equal to''
                 then Lexed anon_sym_islessthanorequalto (codes ''is less than or equal to'')
                        (drop 12 rest)
                 else Lexed anon_sym_islessthan (codes ''is less than'') rest)
        \<and> ts_parser_lex s (codes ''is greater than'' @ rest) =
           Some (if take 12 rest = codes '' or equal to''
                 then Lexed anon_sym_isgreaterthanorequalto (codes ''is greater than or equal to'')
                        (drop 12 rest)
                 else Lexed anon_sym_isgreaterthan (codes ''is greater than'') rest)"
    if "actions_for s anon_sym_islessthan \<noteq> []" for s rest
    using comparison_keywords[OF that, of rest] by blast
  from a b add_at_statement_start show ?thesis by blast
qed

theorem longest_match_in_mode_witness:
  "((ts_parser_lex 91 (codes ''is less than or equal to'') =
       Some (Lexed anon_sym_islessthanorequalto (codes ''is less than or equal to'') []) \<and>
     anon_sym_islessthanorequalto \<noteq> ts_builtin_sym_end) \<and>
    actions_for 91 anon_sym_islessthan \<noteq> [])
   \<and> ((\<exists>x' tx' rest'.
          ts_parser_lex 91 (codes ''is less than or equal to'' @ codes '' 2'') =
            Some (Lexed x' tx' rest') \<and> length rest' \<le> length (codes '' 2'') \<and>
          (length rest' = length (codes '' 2'') \<longrightarrow>
             x' = anon_sym_islessthanorequalto \<and> tx' = codes ''is less than or equal to'' \<and>
             rest' = codes '' 2''))
      \<and> ts_parser_lex 91 (codes ''is less than'' @ codes '' or 2'') =
          Some (Lexed anon_sym_islessthan (codes ''is less than'') (codes '' or 2'')))"
proof -
  have h1: "ts_parser_lex 91 (codes ''is less than or equal to'') =
       Some (Lexed anon_sym_islessthanorequalto (codes ''is less than or equal to'') []) \<and>
     anon_sym_islessthanorequalto \<noteq> ts_builtin_sym_end"
    by code_simp
  have h2: "actions_for 91 anon_sym_islessthan \<noteq> []" by code_simp
  note r1 = longest_match_in_mode[THEN conjunct1, rule_format, OF h1, of "codes '' 2''"]
  note r2 = longest_match_in_mode[THEN conjunct2, THEN conjunct1, rule_format, OF h2,
      of "codes '' or 2''", THEN conjunct1]
  have t: "take 12 (codes '' or 2'') \<noteq> codes '' or equal to''" by (simp add: codes_def)
  have r2': "ts_parser_lex 91 (codes ''is less than'' @ codes '' or 2'') =
          Some (Lexed anon_sym_islessthan (codes ''is less than'') (codes '' or 2''))"
    using r2 t by (simp only: if_False)
  show ?thesis by (rule conjI[OF conjI[OF h1 h2] conjI[OF r1 r2']])
qed

text \<open>
  C9 as stated fails: the input \<^verbatim>\<open>added to 5\<close> matches the keyword \<^verbatim>\<open>add\<close> and the longer
  keyword \<^verbatim>\<open>added to\<close>.  Where an operator is expected (state 91) the lexer returns
  \<^verbatim>\<open>added to\<close>; at the start of a program (state 1) it returns the shorter \<^verbatim>\<open>add\<close>.
\<close>

theorem longest_match_counterexample:
  "ts_parser_lex 1 (codes ''added to 5'') =
     Some (Lexed anon_sym_add (codes ''add'') (codes ''ed to 5''))
   \<and> ts_parser_lex 91 (codes ''added to 5'') =
     Some (Lexed anon_sym_addedto (codes ''added to'') (codes '' 5''))"
  by code_simp


section \<open>The section marker\<close>








section \<open>Properties of the trees\<close>

subsection \<open>Structure definitions\<close>













subsection \<open>Binary operators\<close>

lemma reduce_binary_enum:
  "list_all (\<lambda>s. (sym_binary_expression, 3) \<in> set (reductions s) \<longrightarrow>
       list_all (\<lambda>x. action_taken s x = Some (REDUCE sym_binary_expression 3))
         binary_operator_tokens)
     all_states"
  by code_simp

lemma reduce_binary:
  assumes "(sym_binary_expression, 3) \<in> set (reductions s)"
      and "x \<in> set binary_operator_tokens"
  shows "action_taken s x = Some (REDUCE sym_binary_expression 3)"
proof -
  have "(sym_binary_expression, 3) \<in> set (reductions s) \<longrightarrow>
       list_all (\<lambda>x. action_taken s x = Some (REDUCE sym_binary_expression 3))
         binary_operator_tokens"
  proof (rule state_cases[where P = "\<lambda>s. (sym_binary_expression, 3) \<in> set (reductions s) \<longrightarrow>
       list_all (\<lambda>x. action_taken s x = Some (REDUCE sym_binary_expression 3))
         binary_operator_tokens"])
    show "list_all (\<lambda>s. (sym_binary_expression, 3) \<in> set (reductions s) \<longrightarrow>
       list_all (\<lambda>x. action_taken s x = Some (REDUCE sym_binary_expression 3))
         binary_operator_tokens) all_states"
      by (rule reduce_binary_enum)
  next
    fix s assume "STATE_COUNT \<le> s"
    then show "(sym_binary_expression, 3) \<in> set (reductions s) \<longrightarrow>
       list_all (\<lambda>x. action_taken s x = Some (REDUCE sym_binary_expression 3))
         binary_operator_tokens"
      by (simp only: reductions_out_of_range) simp
  qed
  with assms show ?thesis by (simp add: list_all_iff)
qed

text \<open>
  C2, as the claim states it, fails: the text \<^verbatim>\<open>2 + 3 * 4\<close>, as the operand of a \<^verbatim>\<open>display\<close>
  statement, parses as the product of the sum \<^verbatim>\<open>2 + 3\<close> and \<^verbatim>\<open>4\<close>, and not as the sum of
  \<^verbatim>\<open>2\<close> and the product \<^verbatim>\<open>3 * 4\<close>.
\<close>

theorem precedence_counterexample:
  "parse_text ''display 2 + 3 * 4'' =
    Some (Inr [
      Node sym_source_file
       [Node sym_display_statement
         [Leaf anon_sym_display (codes ''display''),
          Node sym_binary_expression
           [Node sym_binary_expression
             [Leaf sym_number (codes ''2''),
              Node sym_binary_operator
               [Leaf anon_sym_PLUS (codes ''+'')],
              Leaf sym_number (codes ''3'')],
            Node sym_binary_operator
             [Leaf anon_sym_STAR (codes ''*'')],
            Leaf sym_number (codes ''4'')]]]])
   \<and> parse_text ''display 2 + 3 * 4'' \<noteq>
    Some (Inr [
      Node sym_source_file
       [Node sym_display_statement
         [Leaf anon_sym_display (codes ''display''),
          Node sym_binary_expression
           [Leaf sym_number (codes ''2''),
            Node sym_binary_operator
             [Leaf anon_sym_PLUS (codes ''+'')],
            Node sym_binary_expression
             [Leaf sym_number (codes ''3''),
              Node sym_binary_operator
               [Leaf anon_sym_STAR (codes ''*'')],
              Leaf sym_number (codes ''4'')]]]]])"
  by code_simp

text \<open>
  C2, amended: the binary operators form one tier and group from the left.  The text
  \<^verbatim>\<open>2 + 3 * 4\<close> parses as the binary expression with operator \<^verbatim>\<open>*\<close> whose left operand is the
  binary expression \<^verbatim>\<open>2 + 3\<close> and whose right operand is \<^verbatim>\<open>4\<close>; and in every parse state in
  which an expression, a binary operator and an expression can be reduced to a binary
  expression, the parser reduces them when the next token is any of the binary operators:
  it never shifts a second operator first.
\<close>

theorem binary_operators_one_tier:
  "parse_text ''display 2 + 3 * 4'' =
    Some (Inr [
      Node sym_source_file
       [Node sym_display_statement
         [Leaf anon_sym_display (codes ''display''),
          Node sym_binary_expression
           [Node sym_binary_expression
             [Leaf sym_number (codes ''2''),
              Node sym_binary_operator
               [Leaf anon_sym_PLUS (codes ''+'')],
              Leaf sym_number (codes ''3'')],
            Node sym_binary_operator
             [Leaf anon_sym_STAR (codes ''*'')],
            Leaf sym_number (codes ''4'')]]]])
   \<and> (\<forall>s x. (sym_binary_expression, 3) \<in> set (reductions s) \<and> x \<in> set binary_operator_tokens
         \<longrightarrow> action_taken s x = Some (REDUCE sym_binary_expression 3))"
proof -
  have "parse_text ''display 2 + 3 * 4'' =
    Some (Inr [
      Node sym_source_file
       [Node sym_display_statement
         [Leaf anon_sym_display (codes ''display''),
          Node sym_binary_expression
           [Node sym_binary_expression
             [Leaf sym_number (codes ''2''),
              Node sym_binary_operator
               [Leaf anon_sym_PLUS (codes ''+'')],
              Leaf sym_number (codes ''3'')],
            Node sym_binary_operator
             [Leaf anon_sym_STAR (codes ''*'')],
            Leaf sym_number (codes ''4'')]]]])"
    by code_simp
  then show ?thesis using reduce_binary by blast
qed

theorem binary_operators_one_tier_witness:
  "((sym_binary_expression, 3) \<in> set (reductions 4) \<and> anon_sym_STAR \<in> set binary_operator_tokens)
   \<and> action_taken 4 anon_sym_STAR = Some (REDUCE sym_binary_expression 3)"
proof -
  have h: "(sym_binary_expression, 3) \<in> set (reductions 4)
      \<and> anon_sym_STAR \<in> set binary_operator_tokens"
    by code_simp
  note r = binary_operators_one_tier[THEN conjunct2, rule_format, OF h]
  show ?thesis by (rule conjI[OF h r])
qed

subsection \<open>Assignments\<close>






subsection \<open>Unary operators\<close>

lemma reduce_unary_enum:
  "list_all (\<lambda>s. (sym_unary_expression, 2) \<in> set (reductions s) \<longrightarrow>
       list_all (\<lambda>x. action_taken s x = Some (REDUCE sym_unary_expression 2))
         binary_operator_tokens)
     all_states"
  by code_simp

lemma reduce_unary:
  assumes "(sym_unary_expression, 2) \<in> set (reductions s)"
      and "x \<in> set binary_operator_tokens"
  shows "action_taken s x = Some (REDUCE sym_unary_expression 2)"
proof -
  have "(sym_unary_expression, 2) \<in> set (reductions s) \<longrightarrow>
       list_all (\<lambda>x. action_taken s x = Some (REDUCE sym_unary_expression 2))
         binary_operator_tokens"
  proof (rule state_cases[where P = "\<lambda>s. (sym_unary_expression, 2) \<in> set (reductions s) \<longrightarrow>
       list_all (\<lambda>x. action_taken s x = Some (REDUCE sym_unary_expression 2))
         binary_operator_tokens"])
    show "list_all (\<lambda>s. (sym_unary_expression, 2) \<in> set (reductions s) \<longrightarrow>
       list_all (\<lambda>x. action_taken s x = Some (REDUCE sym_unary_expression 2))
         binary_operator_tokens) all_states"
      by (rule reduce_unary_enum)
  next
    fix s assume "STATE_COUNT \<le> s"
    then show "(sym_unary_expression, 2) \<in> set (reductions s) \<longrightarrow>
       list_all (\<lambda>x. action_taken s x = Some (REDUCE sym_unary_expression 2))
         binary_operator_tokens"
      by (simp only: reductions_out_of_range) simp
  qed
  with assms show ?thesis by (simp add: list_all_iff)
qed

text \<open>
  C4: unary operators bind tighter than binary operators.  The text
  \<^verbatim>\<open>not a is equal to b\<close>, as the operand of a \<^verbatim>\<open>display\<close> statement, parses as the binary
  expression whose operator is \<^verbatim>\<open>is equal to\<close>, whose left operand is the unary expression
  \<^verbatim>\<open>not a\<close> and whose right operand is \<^verbatim>\<open>b\<close>.  This holds for every binary operator: in
  every parse state in which a unary operator and its operand can be reduced to a unary
  expression, the parser reduces them when the next token is any of the binary operators.
\<close>

theorem unary_binds_tighter_than_binary:
  "parse_text ''display not a is equal to b'' =
    Some (Inr [
      Node sym_source_file
       [Node sym_display_statement
         [Leaf anon_sym_display (codes ''display''),
          Node sym_binary_expression
           [Node sym_unary_expression
             [Node sym_unary_operator
               [Leaf anon_sym_not (codes ''not'')],
              Leaf sym_identifier (codes ''a'')],
            Node sym_binary_operator
             [Leaf anon_sym_isequalto (codes ''is equal to'')],
            Leaf sym_identifier (codes ''b'')]]]])
   \<and> (\<forall>s x. (sym_unary_expression, 2) \<in> set (reductions s) \<and> x \<in> set binary_operator_tokens
         \<longrightarrow> action_taken s x = Some (REDUCE sym_unary_expression 2))"
proof -
  have "parse_text ''display not a is equal to b'' =
    Some (Inr [
      Node sym_source_file
       [Node sym_display_statement
         [Leaf anon_sym_display (codes ''display''),
          Node sym_binary_expression
           [Node sym_unary_expression
             [Node sym_unary_operator
               [Leaf anon_sym_not (codes ''not'')],
              Leaf sym_identifier (codes ''a'')],
            Node sym_binary_operator
             [Leaf anon_sym_isequalto (codes ''is equal to'')],
            Leaf sym_identifier (codes ''b'')]]]])"
    by code_simp
  then show ?thesis using reduce_unary by blast
qed

theorem unary_binds_tighter_than_binary_witness:
  "((sym_unary_expression, 2) \<in> set (reductions 5) \<and> anon_sym_isequalto \<in> set binary_operator_tokens)
   \<and> action_taken 5 anon_sym_isequalto = Some (REDUCE sym_unary_expression 2)"
proof -
  have h: "(sym_unary_expression, 2) \<in> set (reductions 5)
      \<and> anon_sym_isequalto \<in> set binary_operator_tokens"
    by code_simp
  note r = unary_binds_tighter_than_binary[THEN conjunct2, rule_format, OF h]
  show ?thesis by (rule conjI[OF h r])
qed

subsection \<open>Clauses\<close>












subsection \<open>Every input has a Program\<close>

text \<open>
  C6: the parse is total and recovers.  On every input the table-driven parse returns (a tree
  or an error), and the recovering parse returns a Program, a \<^verbatim>\<open>source_file\<close> node, with
  its diagnostics; there are no diagnostics exactly when the table-driven parse accepts the
  input, and the Program then has the statements of the accepted tree.  So malformed input
  always has a diagnostic and no input is without a result.  An instance: in
  \<^verbatim>\<open>display 5\<close>, newline, \<^verbatim>\<open>display\<close> the input ends inside the second statement; the
  Program holds the first statement and there is one diagnostic.
\<close>

theorem parse_recovers:
  "(\<forall>src. (\<exists>r. parse src = Some r) \<and>
      (\<exists>prog diags. parse_program src = Some (prog, diags) \<and> symbol_of prog = sym_source_file \<and>
         (diags = [] \<longleftrightarrow> (\<exists>t. parse src = Some (Inr t))) \<and>
         (\<forall>t. parse src = Some (Inr t) \<longrightarrow> children prog = children t)))
   \<and> program_text ''display 5\<newline>display'' =
       Some ([Node sym_source_file
               [Node sym_display_statement
                 [Leaf anon_sym_display (codes ''display''), Leaf sym_number (codes ''5'')]]],
             [LexicalError 105 []])"
proof -
  have a: "\<exists>prog diags. parse_program src = Some (prog, diags) \<and> symbol_of prog = sym_source_file \<and>
         (diags = [] \<longleftrightarrow> (\<exists>t. parse src = Some (Inr t))) \<and>
         (\<forall>t. parse src = Some (Inr t) \<longrightarrow> children prog = children t)" for src
  proof -
    obtain items diags where p: "parse_program src = Some (Node sym_source_file items, diags)"
      and d: "diags = [] \<longleftrightarrow> (\<exists>t. parse src = Some (Inr t))"
      and c: "\<forall>t. parse src = Some (Inr t) \<longrightarrow> items = children t"
      using parse_program_spec[of src] by blast
    show ?thesis using p d c by auto
  qed
  have b: "program_text ''display 5\<newline>display'' =
       Some ([Node sym_source_file
               [Node sym_display_statement
                 [Leaf anon_sym_display (codes ''display''), Leaf sym_number (codes ''5'')]]],
             [LexicalError 105 []])"
    by code_simp
  show ?thesis using parse_total a b by blast
qed

theorem parse_recovers_witness:
  "parse (codes ''display 5'') =
     Some (Inr (Node sym_source_file
       [Node sym_display_statement
         [Leaf anon_sym_display (codes ''display''), Leaf sym_number (codes ''5'')]]))
   \<and> (\<exists>prog diags. parse_program (codes ''display 5'') = Some (prog, diags) \<and> diags = [] \<and>
        children prog =
          [Node sym_display_statement
            [Leaf anon_sym_display (codes ''display''), Leaf sym_number (codes ''5'')]])"
proof -
  have h: "parse (codes ''display 5'') =
     Some (Inr (Node sym_source_file
       [Node sym_display_statement
         [Leaf anon_sym_display (codes ''display''), Leaf sym_number (codes ''5'')]]))"
    by code_simp
  from parse_recovers[THEN conjunct1, rule_format, of "codes ''display 5''", THEN conjunct2]
  obtain prog diags where q: "parse_program (codes ''display 5'') = Some (prog, diags)"
    and d: "diags = [] \<longleftrightarrow> (\<exists>t. parse (codes ''display 5'') = Some (Inr t))"
    and c: "\<forall>t. parse (codes ''display 5'') = Some (Inr t) \<longrightarrow> children prog = children t"
    by blast
  from d h have d': "diags = []" by blast
  note c' = c[rule_format, OF h]
  have e: "\<exists>prog diags. parse_program (codes ''display 5'') = Some (prog, diags) \<and> diags = [] \<and>
        children prog =
          [Node sym_display_statement
            [Leaf anon_sym_display (codes ''display''), Leaf sym_number (codes ''5'')]]"
    using q d' c' by simp
  show ?thesis by (rule conjI[OF h e])
qed

end
